(* ===== verification/Prelude.thy ===== *)
theory Prelude
  imports Complex_Main "HOL-Library.Multiset" "HOL-Library.Word"
begin

section \<open>Prelude: Go values, errors, formatting and list helpers\<close>

text \<open>
  What every component shares: the error values of the Go code with their rendered
  messages, the decimal formatting of \<open>fmt.Sprintf("%d")\<close>, 64-bit wrap-around, and
  the list lemmas behind Go's \<open>for ... break\<close> loops over slices.
  A fallible Go function is a function into \<open>go_error + 'a\<close>; one that also mutates
  its receiver returns the new receiver beside the result, on the error branches too.
\<close>

named_theorems go_msg \<open>definitions of error messages\<close>
named_theorems go_defs \<open>definitions unfolded to evaluate the model\<close>

subsection \<open>Errors\<close>

text \<open>
  \<open>Errorf m\<close> is an error made by \<open>fmt.Errorf\<close> or \<open>errors.New\<close> with rendered
  message \<open>m\<close>, \<open>Wrapf p e\<close> one made with a trailing \<open>%w\<close>; the sentinel and typed
  errors the code tests with \<open>errors.Is\<close> and \<open>errors.As\<close> have constructors of their
  own. \<open>ErrJson\<close> is an error of \<open>encoding/json\<close>, whose own text is not modelled;
  \<open>ErrExternal\<close> is an error returned by code outside the repository (Dgraph, the file
  system). \<open>GoPanic\<close> is a run-time panic (a slice bound, a closed channel).
\<close>

datatype go_error =
    Errorf string
  | Wrapf string go_error
  | ErrMutationsLocked
  | ErrNotLeader
  | LeaderRedirectError string string string
  | ErrJson
  | ErrExternal string
  | GoPanic string

text \<open>\<open>%q\<close> on a string of printable characters.\<close>

definition quote :: "string \<Rightarrow> string" where
  "quote s = CHR 0x22 # s @ [CHR 0x22]"

definition is_panic :: "go_error \<Rightarrow> bool" where
  "is_panic e = (case e of GoPanic _ \<Rightarrow> True | _ \<Rightarrow> False)"

text \<open>\<open>errors.Is\<close> for an error that is a sentinel, through \<open>%w\<close>.\<close>

fun errors_is :: "go_error \<Rightarrow> go_error \<Rightarrow> bool" where
  "errors_is (Wrapf p e) target = (Wrapf p e = target \<or> errors_is e target)"
| "errors_is e target = (e = target)"

definition Canceled :: go_error where "Canceled = ErrExternal ''context canceled''"
definition DeadlineExceeded :: go_error where "DeadlineExceeded = ErrExternal ''context deadline exceeded''"

text \<open>The result type of a fallible Go function.\<close>

type_synonym 'a result = "go_error + 'a"

definition isOk :: "'a result \<Rightarrow> bool" where
  "isOk r = (case r of Inl _ \<Rightarrow> False | Inr _ \<Rightarrow> True)"

lemma isOk_simps [simp]: "isOk (Inr x)" "\<not> isOk (Inl e)"
  by (simp_all add: isOk_def)

lemma isOk_iff: "isOk r \<longleftrightarrow> (\<exists>x. r = Inr x)"
  by (cases r) simp_all

subsection \<open>Decimal formatting\<close>

definition digit :: "nat \<Rightarrow> char" where
  "digit n = char_of (48 + n)"

text \<open>\<open>%d\<close> on a non-negative integer, most significant digit first.\<close>

fun nat_dec :: "nat \<Rightarrow> string" where
  "nat_dec n = (if n < 10 then [digit n] else nat_dec (n div 10) @ [digit (n mod 10)])"

declare nat_dec.simps [simp del]

definition int_dec :: "int \<Rightarrow> string" where
  "int_dec i = (if i < 0 then CHR ''-'' # nat_dec (nat (- i)) else nat_dec (nat i))"

definition dec_val :: "string \<Rightarrow> nat" where
  "dec_val s = foldl (\<lambda>a c. 10 * a + (of_char c - 48)) 0 s"

definition is_digit :: "char \<Rightarrow> bool" where
  "is_digit c = (48 \<le> (of_char c :: nat) \<and> (of_char c :: nat) \<le> 57)"

lemma of_char_digit: "n < 10 \<Longrightarrow> of_char (digit n) = 48 + n"
  by (simp add: digit_def)

lemma is_digit_digit: "n < 10 \<Longrightarrow> is_digit (digit n)"
  by (simp add: is_digit_def of_char_digit)

lemma nat_dec_digits: "c \<in> set (nat_dec n) \<Longrightarrow> is_digit c"
proof (induction n rule: nat_dec.induct)
  case (1 n)
  then show ?case
    by (cases "n < 10") (auto simp: nat_dec.simps [of n] is_digit_digit)
qed

lemma dec_val_nat_dec [simp]: "dec_val (nat_dec n) = n"
proof (induction n rule: nat_dec.induct)
  case (1 n)
  show ?case
  proof (cases "n < 10")
    case True
    then show ?thesis by (simp add: nat_dec.simps [of n] dec_val_def of_char_digit)
  next
    case False
    with 1 have "dec_val (nat_dec (n div 10)) = n div 10" by simp
    with False show ?thesis
      by (simp add: nat_dec.simps [of n] dec_val_def of_char_digit)
  qed
qed

lemma nat_dec_inject [simp]: "nat_dec m = nat_dec n \<longleftrightarrow> m = n"
  by (metis dec_val_nat_dec)

lemma nat_dec_not_Nil [simp]: "nat_dec n \<noteq> []"
  by (simp add: nat_dec.simps [of n])

lemma not_digit_sep: "\<not> is_digit CHR '':''" "\<not> is_digit CHR ''-''"
  by (simp_all add: is_digit_def)

text \<open>Splitting at a separator that the right part does not contain.\<close>

lemma append_sep_inject:
  assumes "xs @ c # ys = xs' @ c # ys'" and "c \<notin> set ys" and "c \<notin> set ys'"
  shows "xs = xs' \<and> ys = ys'"
proof -
  have split: "\<And>us vs us' vs'. us @ c # vs = us' @ c # vs' \<Longrightarrow> c \<notin> set us \<Longrightarrow> c \<notin> set us'
      \<Longrightarrow> us = us' \<and> vs = vs'"
  proof -
    fix us vs us' vs'
    assume "us @ c # vs = us' @ c # vs'" "c \<notin> set us" "c \<notin> set us'"
    then show "us = us' \<and> vs = vs'"
    proof (induction us arbitrary: us')
      case Nil
      then show ?case by (cases us') auto
    next
      case (Cons u us)
      then show ?case by (cases us') auto
    qed
  qed
  have "rev ys @ c # rev xs = rev ys' @ c # rev xs'"
    using arg_cong [OF assms(1), of rev] by simp
  then have "rev ys = rev ys' \<and> rev xs = rev xs'"
    using assms by (intro split) simp_all
  then show ?thesis by simp
qed

subsection \<open>64-bit integers\<close>

text \<open>Go's \<open>int\<close> is 64-bit two's complement on the platforms the server targets.\<close>

definition wrap64 :: "int \<Rightarrow> int" where
  "wrap64 i = (i + 2 ^ 63) mod 2 ^ 64 - 2 ^ 63"

lemma wrap64_id: "- (2 ^ 63) \<le> i \<Longrightarrow> i < 2 ^ 63 \<Longrightarrow> wrap64 i = i"
  by (simp add: wrap64_def)

subsection \<open>Loops with break over slices\<close>

text \<open>
  \<open>for i := range xs { if P(xs[i]) { ...; break } }\<close>: the index of the first element
  that satisfies \<open>P\<close>.
\<close>

fun first_index :: "('a \<Rightarrow> bool) \<Rightarrow> 'a list \<Rightarrow> nat option" where
  "first_index P [] = None"
| "first_index P (x # xs) = (if P x then Some 0 else map_option Suc (first_index P xs))"

lemma first_index_None_iff: "first_index P xs = None \<longleftrightarrow> (\<forall>x \<in> set xs. \<not> P x)"
  by (induction xs) auto

lemma first_index_SomeD:
  "first_index P xs = Some i \<Longrightarrow> i < length xs \<and> P (xs ! i) \<and> (\<forall>j < i. \<not> P (xs ! j))"
proof (induction xs arbitrary: i)
  case Nil
  then show ?case by simp
next
  case (Cons x xs)
  show ?case
  proof (cases "P x")
    case True
    with Cons.prems show ?thesis by simp
  next
    case False
    with Cons.prems obtain k where "first_index P xs = Some k" "i = Suc k" by auto
    with Cons.IH [of k] False show ?thesis by (auto simp: less_Suc_eq_0_disj)
  qed
qed

lemma first_index_bound: "first_index P xs = Some i \<Longrightarrow> i < length xs"
  by (simp add: first_index_SomeD)

lemma first_index_holds: "first_index P xs = Some i \<Longrightarrow> P (xs ! i)"
  by (simp add: first_index_SomeD)

lemma first_index_Some_ex: "x \<in> set xs \<Longrightarrow> P x \<Longrightarrow> \<exists>i. first_index P xs = Some i"
  using first_index_None_iff [of P xs] by (cases "first_index P xs") auto

text \<open>\<open>xs = append(xs[:i], xs[i+1:]...)\<close>\<close>

definition delete_at :: "nat \<Rightarrow> 'a list \<Rightarrow> 'a list" where
  "delete_at i xs = take i xs @ drop (Suc i) xs"

lemma mset_delete_at: "i < length xs \<Longrightarrow> add_mset (xs ! i) (mset (delete_at i xs)) = mset xs"
proof -
  assume "i < length xs"
  then have "mset xs = mset (take i xs @ xs ! i # drop (Suc i) xs)"
    by (simp add: id_take_nth_drop [symmetric])
  then show ?thesis by (simp add: delete_at_def)
qed

lemma length_delete_at: "i < length xs \<Longrightarrow> length (delete_at i xs) = length xs - 1"
  by (simp add: delete_at_def)

lemma set_delete_at: "set (delete_at i xs) \<subseteq> set xs"
  by (auto simp: delete_at_def dest: in_set_takeD in_set_dropD)

text \<open>A sum over a slice after one of its elements is replaced.\<close>

lemma sum_list_list_update:
  fixes f :: "'a \<Rightarrow> 'b::comm_monoid_add"
  assumes "i < length xs"
  shows "sum_list (map f (xs[i := y])) + f (xs ! i) = sum_list (map f xs) + f y"
  using assms
proof (induction xs arbitrary: i)
  case Nil
  then show ?case by simp
next
  case (Cons x xs)
  then show ?case by (cases i) (auto simp: ac_simps)
qed

lemma map_list_update_same: "f y = f (xs ! i) \<Longrightarrow> map f (xs[i := y]) = map f xs"
  by (simp add: map_update) (metis list_update_id map_update)

end
