(* ===== verification/Tiles.thy ===== *)
theory Tiles
  imports Prelude
begin

section \<open>Tiles, hands, board ends and the deck\<close>

text \<open>
  Models \<open>pkg/models/game.go\<close> (\<open>DominoTile\<close>, \<open>PlayerHand\<close>) and the tile, hand,
  board-end and deck helpers of \<open>pkg/models/game_methods.go\<close>. Field names are the
  source's, with a prefix where two Go structs share one (\<open>tile_UID\<close>, \<open>hand_UID\<close>).
  Pip values are \<open>int\<close>: they are only compared and summed, at most 28 tiles at a
  time, far from the 64-bit bounds for the values 0 to 6 of a real tile.
\<close>

subsection \<open>DominoTile\<close>

record domino_tile =
  tile_UID :: string
  tile_ID :: string
  ValueLeft :: int
  ValueRight :: int

definition NewTile :: "int \<Rightarrow> int \<Rightarrow> domino_tile" where
  "NewTile left right =
     \<lparr>tile_UID = [], tile_ID = int_dec left @ CHR ''-'' # int_dec right,
      ValueLeft = left, ValueRight = right\<rparr>"

definition IsDouble :: "domino_tile \<Rightarrow> bool" where
  "IsDouble t = (ValueLeft t = ValueRight t)"

text \<open>\<open>DominoTile.String\<close>, used in the error messages of a rejected move.\<close>

definition tile_String :: "domino_tile \<Rightarrow> string" where
  "tile_String t = CHR ''['' # int_dec (ValueLeft t) @ CHR ''|'' # int_dec (ValueRight t) @ '']''"

definition MatchesValue :: "domino_tile \<Rightarrow> int \<Rightarrow> bool" where
  "MatchesValue t v = (ValueLeft t = v \<or> ValueRight t = v)"

text \<open>The \<open>switch\<close> of the source tries the left end first.\<close>

definition OtherValue :: "domino_tile \<Rightarrow> int \<Rightarrow> int \<times> bool" where
  "OtherValue t v =
     (if v = ValueLeft t then (ValueRight t, True)
      else if v = ValueRight t then (ValueLeft t, True)
      else (v, False))"

text \<open>The in-place swap \<open>tile.ValueLeft, tile.ValueRight = tile.ValueRight, tile.ValueLeft\<close>.\<close>

definition flip_tile :: "domino_tile \<Rightarrow> domino_tile" where
  "flip_tile t = t\<lparr>ValueLeft := ValueRight t, ValueRight := ValueLeft t\<rparr>"

lemma flip_tile_simps [simp]:
  "ValueLeft (flip_tile t) = ValueRight t" "ValueRight (flip_tile t) = ValueLeft t"
  "tile_ID (flip_tile t) = tile_ID t" "tile_UID (flip_tile t) = tile_UID t"
  "flip_tile (flip_tile t) = t"
  by (simp_all add: flip_tile_def)

lemma OtherValue_MatchesValue: "snd (OtherValue t v) = MatchesValue t v"
  by (auto simp: OtherValue_def MatchesValue_def)

lemma OtherValue_involutive:
  "MatchesValue t v \<Longrightarrow> OtherValue t (fst (OtherValue t v)) = (v, True)"
  by (auto simp: OtherValue_def MatchesValue_def)

lemma OtherValue_sum:
  "MatchesValue t v \<Longrightarrow> v + fst (OtherValue t v) = ValueLeft t + ValueRight t"
  by (auto simp: OtherValue_def MatchesValue_def)

lemma NewTile_simps [simp]:
  "ValueLeft (NewTile i j) = i" "ValueRight (NewTile i j) = j"
  by (simp_all add: NewTile_def)

text \<open>The generated ID determines a tile with non-negative ends.\<close>

lemma NewTile_ID_inject:
  assumes "0 \<le> i" "0 \<le> j" "0 \<le> i'" "0 \<le> j'"
    and "tile_ID (NewTile i j) = tile_ID (NewTile i' j')"
  shows "i = i' \<and> j = j'"
proof -
  have "nat_dec (nat i) @ CHR ''-'' # nat_dec (nat j) = nat_dec (nat i') @ CHR ''-'' # nat_dec (nat j')"
    using assms by (simp add: NewTile_def int_dec_def)
  then have "nat_dec (nat i) = nat_dec (nat i') \<and> nat_dec (nat j) = nat_dec (nat j')"
    by (rule append_sep_inject) (use nat_dec_digits not_digit_sep in blast)+
  with assms show ?thesis by (simp add: eq_nat_nat_iff)
qed

subsection \<open>PlayerHand\<close>

record player_hand =
  hand_UID :: string
  hand_PlayerID :: string
  Tiles :: "domino_tile list"
  RedactedTileCount :: int
  HasPassed :: bool
  IsReady :: bool
  IsAbandoned :: bool

text \<open>\<open>PlayerHand{PlayerID: p, Tiles: ts}\<close>, the other fields at their zero values.\<close>

definition NewPlayerHand :: "string \<Rightarrow> player_hand" where
  "NewPlayerHand p =
     \<lparr>hand_UID = [], hand_PlayerID = p, Tiles = [], RedactedTileCount = 0,
      HasPassed = False, IsReady = False, IsAbandoned = False\<rparr>"

definition TileCount :: "player_hand \<Rightarrow> nat" where
  "TileCount h = length (Tiles h)"

fun has_tile_loop :: "domino_tile list \<Rightarrow> string \<Rightarrow> bool" where
  "has_tile_loop [] tileID = False"
| "has_tile_loop (t # ts) tileID = (if tile_ID t = tileID then True else has_tile_loop ts tileID)"

definition HasTile :: "player_hand \<Rightarrow> string \<Rightarrow> bool" where
  "HasTile h tileID = has_tile_loop (Tiles h) tileID"

lemma HasTile_iff: "HasTile h tid \<longleftrightarrow> tid \<in> tile_ID ` set (Tiles h)"
proof -
  have "has_tile_loop ts tid \<longleftrightarrow> tid \<in> tile_ID ` set ts" for ts
    by (induction ts) auto
  then show ?thesis by (simp add: HasTile_def)
qed

lemma NewPlayerHand_simps [simp]:
  "hand_PlayerID (NewPlayerHand p) = p" "Tiles (NewPlayerHand p) = []"
  "IsAbandoned (NewPlayerHand p) = False" "HasPassed (NewPlayerHand p) = False"
  by (simp_all add: NewPlayerHand_def)

subsection \<open>BoardEnds\<close>

record board_ends =
  OpenLeft :: int
  OpenRight :: int

definition IsOpen :: "board_ends \<Rightarrow> bool" where
  "IsOpen e = (OpenLeft e \<ge> 0 \<and> OpenRight e \<ge> 0)"

definition MatchesPlay :: "board_ends \<Rightarrow> int \<Rightarrow> bool" where
  "MatchesPlay e v = (OpenLeft e = v \<or> OpenRight e = v)"

subsection \<open>The double-six deck\<close>

text \<open>The two nested counting loops, outer \<open>i\<close> from 0 to 6, inner \<open>j\<close> from \<open>i\<close> to 6.\<close>

definition StandardDoubleSixDeck :: "domino_tile list" where
  "StandardDoubleSixDeck = concat (map (\<lambda>i. map (\<lambda>j. NewTile i j) [i..6]) [0..6])"

lemma deck_eval:
  "StandardDoubleSixDeck =
     map (\<lambda>(i, j). NewTile i j)
       [(0,0),(0,1),(0,2),(0,3),(0,4),(0,5),(0,6),(1,1),(1,2),(1,3),(1,4),(1,5),(1,6),
        (2,2),(2,3),(2,4),(2,5),(2,6),(3,3),(3,4),(3,5),(3,6),(4,4),(4,5),(4,6),
        (5,5),(5,6),(6,6)]"
  by (simp add: StandardDoubleSixDeck_def upto.simps)

lemma deck_length [simp]: "length StandardDoubleSixDeck = 28"
  by (simp add: deck_eval)

lemma set_deck: "set StandardDoubleSixDeck = {NewTile i j | i j. 0 \<le> i \<and> i \<le> j \<and> j \<le> 6}"
  by (auto simp: StandardDoubleSixDeck_def) (blast, force)

lemma deck_values:
  "t \<in> set StandardDoubleSixDeck \<Longrightarrow> 0 \<le> ValueLeft t \<and> 0 \<le> ValueRight t"
  by (auto simp: set_deck)

lemma NewTile_inj_deck:
  "inj_on tile_ID (set StandardDoubleSixDeck)"
  by (auto simp: inj_on_def set_deck dest!: NewTile_ID_inject [rotated 4])

lemma NewTile_eq_iff [simp]: "NewTile i j = NewTile i' j' \<longleftrightarrow> i = i' \<and> j = j'"
  by (metis NewTile_simps)

lemma deck_distinct: "distinct StandardDoubleSixDeck"
  by (simp add: deck_eval)

text \<open>The 28 tile IDs of a double-six set are pairwise different.\<close>

lemma deck_ids_distinct: "distinct (map tile_ID StandardDoubleSixDeck)"
  by (simp add: distinct_map deck_distinct NewTile_inj_deck)

end
