(* ===== verification/Json.thy ===== *)
theory Json
  imports Prelude
begin

section \<open>JSON documents and struct decoding\<close>

text \<open>
  The part of \<open>encoding/json\<close> the program relies on. A JSON text is modelled by the
  value it denotes, \<open>json\<close>; \<open>JBad\<close> stands for a text that is not valid JSON. The
  contents of a string that a \<open>[]byte\<close> field reads are base64, so a string holding the
  base64 form of another text is \<open>JB64\<close> of that text, wherever such a field is meant;
  every other string is a \<open>JStr\<close>. Numbers are integers or (finite) floats, which are
  rationals.

  Decoding follows \<open>json.Unmarshal\<close>: \<open>null\<close> leaves the target as it is, a member is
  assigned to the field whose name it equals up to case (ASCII only here), unknown
  members are skipped, a later duplicate overwrites an earlier one, and a value of the
  wrong kind makes the call fail. Failure is \<open>None\<close>; the text of the library's error
  is not modelled, nor what a failed call has already written to its target, which every
  caller here drops. Strings are valid UTF-8: the encoder replaces other bytes.
\<close>

datatype json =
    JNull
  | JBool bool
  | JInt int
  | JFloat rat
  | JStr string
  | JArr "json list"
  | JObj "(string \<times> json) list"
  | JB64 json
  | JBad

text \<open>
  A Go string or byte slice that holds a JSON text: \<open>None\<close> is the empty one.
\<close>

type_synonym jtext = "json option"

subsection \<open>Scalar targets\<close>

definition lower_char :: "char \<Rightarrow> char" where
  "lower_char c =
     (let n = (of_char c :: nat) in if 65 \<le> n \<and> n \<le> 90 then char_of (n + 32) else c)"

definition key_is :: "string \<Rightarrow> string \<Rightarrow> bool" where
  "key_is name k = (k = name \<or> map lower_char k = map lower_char name)"

lemma key_is_refl [simp]: "key_is k k"
  by (simp add: key_is_def)

definition un_string :: "json \<Rightarrow> string \<Rightarrow> string option" where
  "un_string j old = (case j of JNull \<Rightarrow> Some old | JStr s \<Rightarrow> Some s | _ \<Rightarrow> None)"

definition un_bool :: "json \<Rightarrow> bool \<Rightarrow> bool option" where
  "un_bool j old = (case j of JNull \<Rightarrow> Some old | JBool b \<Rightarrow> Some b | _ \<Rightarrow> None)"

definition in_int64 :: "int \<Rightarrow> bool" where
  "in_int64 i = (- (2 ^ 63) \<le> i \<and> i < 2 ^ 63)"

definition un_int :: "json \<Rightarrow> int \<Rightarrow> int option" where
  "un_int j old =
     (case j of JNull \<Rightarrow> Some old | JInt i \<Rightarrow> (if in_int64 i then Some i else None) | _ \<Rightarrow> None)"

text \<open>A \<open>uint64\<close> target.\<close>

definition un_uint :: "json \<Rightarrow> nat \<Rightarrow> nat option" where
  "un_uint j old =
     (case j of JNull \<Rightarrow> Some old | JInt i \<Rightarrow> (if 0 \<le> i \<and> i < 2 ^ 64 then Some (nat i) else None) | _ \<Rightarrow> None)"

definition un_float :: "json \<Rightarrow> rat \<Rightarrow> rat option" where
  "un_float j old =
     (case j of JNull \<Rightarrow> Some old | JInt i \<Rightarrow> Some (of_int i) | JFloat r \<Rightarrow> Some r | _ \<Rightarrow> None)"

text \<open>A \<open>[]byte\<close> field: base64 of a text, or the empty string.\<close>

definition un_bytes :: "json \<Rightarrow> jtext \<Rightarrow> jtext option" where
  "un_bytes j old =
     (case j of JNull \<Rightarrow> Some None | JB64 d \<Rightarrow> Some (Some d)
      | JStr s \<Rightarrow> (if s = [] then Some None else None) | _ \<Rightarrow> None)"

lemmas un_scalar_defs = un_string_def un_bool_def un_int_def un_float_def un_bytes_def

subsection \<open>Slices and structs\<close>

text \<open>
  A slice target: \<open>json.Unmarshal\<close> decodes element \<open>i\<close> into the element that is there,
  so a member missing in the text keeps its old value, and behind the old length into a
  new zero element (the capacity behind the length is taken to be unused, as it is for
  the nil slices the program decodes into).
\<close>

fun un_elems :: "(json \<Rightarrow> 'a \<Rightarrow> 'a option) \<Rightarrow> 'a \<Rightarrow> json list \<Rightarrow> 'a list \<Rightarrow> 'a list option" where
  "un_elems f zero [] old = Some []"
| "un_elems f zero (j # js) old =
     (case f j (case old of [] \<Rightarrow> zero | x # _ \<Rightarrow> x) of None \<Rightarrow> None
      | Some x \<Rightarrow> (case un_elems f zero js (tl old) of None \<Rightarrow> None | Some xs \<Rightarrow> Some (x # xs)))"

definition un_list :: "(json \<Rightarrow> 'a \<Rightarrow> 'a option) \<Rightarrow> 'a \<Rightarrow> json \<Rightarrow> 'a list \<Rightarrow> 'a list option" where
  "un_list f zero j old =
     (case j of JNull \<Rightarrow> Some [] | JArr js \<Rightarrow> un_elems f zero js old | _ \<Rightarrow> None)"

text \<open>
  A struct target: the members are assigned in order; \<open>asg k j x\<close> assigns member \<open>k\<close>
  with value \<open>j\<close>, or returns \<open>Some x\<close> for a member no field takes.
\<close>

fun un_members :: "(string \<Rightarrow> json \<Rightarrow> 'a \<Rightarrow> 'a option) \<Rightarrow> (string \<times> json) list \<Rightarrow> 'a \<Rightarrow> 'a option" where
  "un_members asg [] x = Some x"
| "un_members asg ((k, j) # ms) x =
     (case asg k j x of None \<Rightarrow> None | Some x' \<Rightarrow> un_members asg ms x')"

definition un_struct :: "(string \<Rightarrow> json \<Rightarrow> 'a \<Rightarrow> 'a option) \<Rightarrow> json \<Rightarrow> 'a \<Rightarrow> 'a option" where
  "un_struct asg j zero =
     (case j of JNull \<Rightarrow> Some zero | JObj ms \<Rightarrow> un_members asg ms zero | _ \<Rightarrow> None)"

lemma un_elems_map:
  "(\<And>x. x \<in> set xs \<Longrightarrow> f (g x) zero = Some x) \<Longrightarrow> un_elems f zero (map g xs) [] = Some xs"
  by (induction xs) auto

lemma un_elems_length: "un_elems f zero js old = Some xs \<Longrightarrow> length xs = length js"
  by (induction js arbitrary: xs old) (auto split: option.splits)

lemma un_members_append:
  "un_members asg (ms @ ns) x =
     (case un_members asg ms x of None \<Rightarrow> None | Some x' \<Rightarrow> un_members asg ns x')"
  by (induction ms arbitrary: x) (auto split: option.splits)

text \<open>\<open>omitempty\<close>: a member that is left out when its value is the zero value.\<close>

definition omitempty :: "bool \<Rightarrow> string \<Rightarrow> json \<Rightarrow> (string \<times> json) list" where
  "omitempty is_zero k j = (if is_zero then [] else [(k, j)])"

end
