(* ===== verification/Session.thy ===== *)
theory Session
  imports Tiles Json
begin

section \<open>GameSession and its operations\<close>

text \<open>
  Models \<open>GameSession\<close> of \<open>pkg/models/game.go\<close> and the methods of
  \<open>pkg/models/game_methods.go\<close> up to the turn pipeline: construction, deck, shuffles,
  reset, board ends, play-state flush and hydration, \<open>CanPlay\<close>, \<open>PlayTile\<close>,
  \<open>DealHands\<close>, \<open>DrawFromBoneyard\<close>, \<open>PassTurn\<close> and \<open>RotateTurn\<close>. A method
  that returns an error and mutates its receiver returns both, in that order.
\<close>

subsection \<open>State\<close>

text \<open>
  The session status is a Go string; the constants of \<open>pkg/models/models.go\<close> have
  constructors and \<open>StatusOther\<close> holds any other string (the zero value is
  \<open>StatusOther []\<close>).
\<close>

datatype session_status =
    SessionStatusWaiting | SessionStatusActive | SessionStatusCompleted | StatusOther string

record game_session =
  sess_UID :: string
  SessionID :: string
  Status :: session_status
  Players :: "string list"
  Hands :: "player_hand list"
  Boneyard :: "domino_tile list"
  BoneyardCount :: int
  GameBoard :: "domino_tile list"
  LeftOpenValue :: int
  RightOpenValue :: int
  CurrentTurn :: string
  MutationsLocked :: bool
  BoneyardRaw :: jtext
  GameBoardRaw :: jtext

definition NewGameSession :: "string \<Rightarrow> string list \<Rightarrow> game_session" where
  "NewGameSession sid uids =
     \<lparr>sess_UID = [], SessionID = sid, Status = SessionStatusWaiting, Players = uids,
      Hands = map NewPlayerHand uids, Boneyard = [], BoneyardCount = 0, GameBoard = [],
      LeftOpenValue = -1, RightOpenValue = -1, CurrentTurn = [], MutationsLocked = False,
      BoneyardRaw = None, GameBoardRaw = None\<rparr>"

definition GenerateStandardDeck :: "game_session \<Rightarrow> game_session" where
  "GenerateStandardDeck s = s\<lparr>Boneyard := StandardDoubleSixDeck\<rparr>"

text \<open>\<open>for i := range s.Hands { s.Hands[i].Tiles = nil; s.Hands[i].HasPassed = false }\<close>
  and the board fields. \<open>Status\<close>, \<open>CurrentTurn\<close> and \<open>IsAbandoned\<close> are kept.\<close>

definition ResetForSetup :: "game_session \<Rightarrow> game_session" where
  "ResetForSetup s =
     s\<lparr>Hands := map (\<lambda>h. h\<lparr>Tiles := [], HasPassed := False\<rparr>) (Hands s),
       GameBoard := [], Boneyard := [], BoneyardRaw := None, GameBoardRaw := None,
       LeftOpenValue := -1, RightOpenValue := -1, MutationsLocked := False\<rparr>"

definition BoardEnds :: "game_session \<Rightarrow> board_ends" where
  "BoardEnds s = \<lparr>OpenLeft = LeftOpenValue s, OpenRight = RightOpenValue s\<rparr>"

definition SetBoardEnds :: "int \<Rightarrow> int \<Rightarrow> game_session \<Rightarrow> game_session" where
  "SetBoardEnds l r s = s\<lparr>LeftOpenValue := l, RightOpenValue := r\<rparr>"

subsection \<open>Shuffling\<close>

text \<open>
  Both shuffles are the same loop, \<open>for i := n-1; i > 0; i--\<close>, which swaps position
  \<open>i\<close> with a random \<open>j\<close> in \<open>[0, i]\<close>. They differ in where \<open>j\<close> comes from, which
  is a parameter: the loop is written once over the current list and the index.
\<close>

definition swap_at :: "nat \<Rightarrow> nat \<Rightarrow> 'a list \<Rightarrow> 'a list" where
  "swap_at i j xs = xs[i := xs ! j, j := xs ! i]"

text \<open>
  \<open>ShuffleBoneyard\<close>: \<open>rand.Int(rand.Reader, i+1)\<close> of \<open>crypto/rand\<close> is the argument
  \<open>rnd\<close>, indexed by the position; \<open>None\<close> is an error of the entropy source, which
  stops the loop with the swaps done so far kept.
\<close>

fun crypto_shuffle_loop ::
  "(nat \<Rightarrow> nat option) \<Rightarrow> nat \<Rightarrow> domino_tile list \<Rightarrow> unit result \<times> domino_tile list" where
  "crypto_shuffle_loop rnd 0 xs = (Inr (), xs)"
| "crypto_shuffle_loop rnd (Suc i) xs =
     (case rnd (Suc i) of
        None \<Rightarrow> (Inl (ErrExternal ''crypto/rand''), xs)
      | Some j \<Rightarrow> crypto_shuffle_loop rnd i (swap_at (Suc i) j xs))"

definition ShuffleBoneyard :: "(nat \<Rightarrow> nat option) \<Rightarrow> game_session \<Rightarrow> unit result \<times> game_session" where
  "ShuffleBoneyard rnd s =
     (let (r, ys) = crypto_shuffle_loop rnd (length (Boneyard s) - 1) (Boneyard s)
      in (r, s\<lparr>Boneyard := ys\<rparr>))"

text \<open>
  \<open>ShuffleBoneyardDeterministic\<close>: the generator \<open>rand.New(rand.NewSource(seed))\<close> of
  \<open>math/rand\<close> is the argument \<open>intn\<close>; \<open>intn seed k m\<close> is the result of its \<open>k\<close>-th
  call \<open>rng.Intn(m)\<close>.
\<close>

type_synonym rng = "int \<Rightarrow> nat \<Rightarrow> nat \<Rightarrow> nat"

fun det_shuffle_loop :: "(nat \<Rightarrow> nat \<Rightarrow> nat) \<Rightarrow> nat \<Rightarrow> nat \<Rightarrow> 'a list \<Rightarrow> 'a list" where
  "det_shuffle_loop next k 0 xs = xs"
| "det_shuffle_loop next k (Suc i) xs =
     det_shuffle_loop next (Suc k) i (swap_at (Suc i) (next k (Suc (Suc i))) xs)"

definition ShuffleBoneyardDeterministic :: "rng \<Rightarrow> int \<Rightarrow> game_session \<Rightarrow> game_session" where
  "ShuffleBoneyardDeterministic intn seed s =
     s\<lparr>Boneyard := det_shuffle_loop (intn seed) 0 (length (Boneyard s) - 1) (Boneyard s)\<rparr>"

text \<open>
  \<open>DeterministicSeed\<close>: the 64-bit FNV-1a hash of the session ID (\<open>hash/fnv\<close>),
  reinterpreted as a signed integer.
\<close>

definition fnv_offset :: "64 word" where "fnv_offset = 14695981039346656037"
definition fnv_prime :: "64 word" where "fnv_prime = 1099511628211"

fun fnv1a :: "64 word \<Rightarrow> string \<Rightarrow> 64 word" where
  "fnv1a h [] = h"
| "fnv1a h (c # cs) = fnv1a ((xor h (word_of_nat (of_char c))) * fnv_prime) cs"

definition DeterministicSeed :: "string \<Rightarrow> int" where
  "DeterministicSeed sid = sint (fnv1a fnv_offset sid)"

subsection \<open>Persistence blobs\<close>

text \<open>
  \<open>json.Marshal\<close> of a tile and of a tile slice, and \<open>json.Unmarshal\<close> into them. The
  struct tags are those of \<open>DominoTile\<close>.
\<close>

definition tile_json :: "domino_tile \<Rightarrow> json" where
  "tile_json t =
     JObj (omitempty (tile_UID t = []) ''uid'' (JStr (tile_UID t))
           @ omitempty (tile_ID t = []) ''tile_id'' (JStr (tile_ID t))
           @ [(''value_left'', JInt (ValueLeft t)), (''value_right'', JInt (ValueRight t))])"

definition zero_tile :: domino_tile where
  "zero_tile = \<lparr>tile_UID = [], tile_ID = [], ValueLeft = 0, ValueRight = 0\<rparr>"

definition tile_field :: "string \<Rightarrow> json \<Rightarrow> domino_tile \<Rightarrow> domino_tile option" where
  "tile_field k j t =
     (if key_is ''uid'' k then map_option (\<lambda>v. t\<lparr>tile_UID := v\<rparr>) (un_string j (tile_UID t))
      else if key_is ''tile_id'' k then map_option (\<lambda>v. t\<lparr>tile_ID := v\<rparr>) (un_string j (tile_ID t))
      else if key_is ''value_left'' k then map_option (\<lambda>v. t\<lparr>ValueLeft := v\<rparr>) (un_int j (ValueLeft t))
      else if key_is ''value_right'' k then map_option (\<lambda>v. t\<lparr>ValueRight := v\<rparr>) (un_int j (ValueRight t))
      else Some t)"

definition un_tile :: "json \<Rightarrow> domino_tile \<Rightarrow> domino_tile option" where
  "un_tile j old = un_struct tile_field j old"

definition FlushPlayState :: "game_session \<Rightarrow> game_session" where
  "FlushPlayState s =
     s\<lparr>BoneyardRaw := Some (JArr (map tile_json (Boneyard s))),
       GameBoardRaw := Some (JArr (map tile_json (GameBoard s)))\<rparr>"

text \<open>An error in the second blob leaves the boneyard already replaced.\<close>

definition HydratePlayState :: "game_session \<Rightarrow> unit result \<times> game_session" where
  "HydratePlayState s =
     (case (case BoneyardRaw s of None \<Rightarrow> Some (Boneyard s) | Some j \<Rightarrow> un_list un_tile zero_tile j (Boneyard s)) of
        None \<Rightarrow> (Inl (Wrapf ''unmarshal boneyard_raw: '' ErrJson), s)
      | Some bs \<Rightarrow>
          let s1 = s\<lparr>Boneyard := bs\<rparr> in
          (case (case GameBoardRaw s of None \<Rightarrow> Some (GameBoard s) | Some j \<Rightarrow> un_list un_tile zero_tile j (GameBoard s)) of
             None \<Rightarrow> (Inl (Wrapf ''unmarshal game_board_raw: '' ErrJson), s1)
           | Some gs \<Rightarrow> (Inr (), s1\<lparr>GameBoard := gs\<rparr>)))"

subsection \<open>Moves\<close>

text \<open>Error messages, kept folded so that evaluation does not expand the literals.\<close>

definition err_play_turn :: "string \<Rightarrow> go_error" where [go_msg]:
  "err_play_turn p = Errorf (''it is not player '' @ p @ CHR 0x27 # ''s turn'')"
definition err_illegal :: "domino_tile \<Rightarrow> go_error" where [go_msg]:
  "err_illegal t = Errorf (''illegal move: tile '' @ tile_String t @ '' cannot be played there'')"
definition err_no_hand :: "string \<Rightarrow> go_error" where [go_msg]:
  "err_no_hand p = Errorf (''player hand not found for ID: '' @ p)"
definition err_not_in_hand :: "domino_tile \<Rightarrow> go_error" where [go_msg]:
  "err_not_in_hand t =
     Errorf (''tile '' @ tile_String t @ '' is not in player'' @ CHR 0x27 # ''s hand'')"
definition err_deal :: "int \<Rightarrow> nat \<Rightarrow> go_error" where [go_msg]:
  "err_deal n k = Errorf (''not enough tiles in the boneyard to deal '' @ int_dec n @ '' tiles to ''
     @ nat_dec k @ '' players'')"
definition err_draw_turn :: "string \<Rightarrow> go_error" where [go_msg]:
  "err_draw_turn p = Errorf (''it is not player '' @ p @ CHR 0x27 # ''s turn to draw'')"
definition err_boneyard_empty :: go_error where [go_msg]:
  "err_boneyard_empty = Errorf ''the boneyard is empty; cannot draw''"
definition err_pass_turn :: "string \<Rightarrow> go_error" where [go_msg]:
  "err_pass_turn p = Errorf (''it is not player '' @ p @ CHR 0x27 # ''s turn to pass'')"

definition CanPlay :: "game_session \<Rightarrow> domino_tile \<Rightarrow> bool \<Rightarrow> bool" where
  "CanPlay s t playAtLeft =
     (if LeftOpenValue s = -1 \<and> RightOpenValue s = -1 then True
      else if playAtLeft then ValueLeft t = LeftOpenValue s \<or> ValueRight t = LeftOpenValue s
      else ValueLeft t = RightOpenValue s \<or> ValueRight t = RightOpenValue s)"

text \<open>The board part of \<open>PlayTile\<close>: placement and orientation.\<close>

definition place_tile :: "domino_tile \<Rightarrow> bool \<Rightarrow> game_session \<Rightarrow> game_session" where
  "place_tile t playAtLeft s =
     (if LeftOpenValue s = -1 \<and> RightOpenValue s = -1 then
        SetBoardEnds (ValueLeft t) (ValueRight t) (s\<lparr>GameBoard := GameBoard s @ [t]\<rparr>)
      else if playAtLeft then
        (let t' = (if ValueRight t \<noteq> LeftOpenValue s then flip_tile t else t)
         in s\<lparr>GameBoard := t' # GameBoard s, LeftOpenValue := ValueLeft t'\<rparr>)
      else
        (let t' = (if ValueLeft t \<noteq> RightOpenValue s then flip_tile t else t)
         in s\<lparr>GameBoard := GameBoard s @ [t'], RightOpenValue := ValueRight t'\<rparr>))"

text \<open>The loop that finds a player's hand, and the one that finds a tile in it.\<close>

abbreviation hand_index :: "string \<Rightarrow> player_hand list \<Rightarrow> nat option" where
  "hand_index p hs \<equiv> first_index (\<lambda>h. hand_PlayerID h = p) hs"

abbreviation tile_index :: "string \<Rightarrow> domino_tile list \<Rightarrow> nat option" where
  "tile_index tid ts \<equiv> first_index (\<lambda>t. tile_ID t = tid) ts"

definition PlayTile ::
  "string \<Rightarrow> domino_tile \<Rightarrow> bool \<Rightarrow> game_session \<Rightarrow> bool result \<times> game_session" where
  "PlayTile playerID t playAtLeft s =
     (if CurrentTurn s \<noteq> playerID then (Inl (err_play_turn playerID), s)
      else if \<not> CanPlay s t playAtLeft then (Inl (err_illegal t), s)
      else case hand_index playerID (Hands s) of
        None \<Rightarrow> (Inl (err_no_hand playerID), s)
      | Some i \<Rightarrow>
          (let h = Hands s ! i in
           case tile_index (tile_ID t) (Tiles h) of
             None \<Rightarrow> (Inl (err_not_in_hand t), s)
           | Some k \<Rightarrow>
               let h' = h\<lparr>Tiles := delete_at k (Tiles h), HasPassed := False\<rparr>
               in (Inr True, place_tile t playAtLeft (s\<lparr>Hands := (Hands s)[i := h']\<rparr>))))"

text \<open>
  \<open>DealHands\<close>. The guard multiplies 64-bit integers; the loop slices the boneyard
  once per hand, and a slice bound out of range panics. A bound is checked against the
  capacity, which is the length here: the deck fills the array it was made with, and
  slicing from the front keeps the two equal.
\<close>

fun deal_loop :: "int \<Rightarrow> player_hand list \<Rightarrow> domino_tile list \<Rightarrow>
    unit result \<times> player_hand list \<times> domino_tile list" where
  "deal_loop n [] b = (Inr (), [], b)"
| "deal_loop n (h # hs) b =
     (if n < 0 \<or> int (length b) < n then (Inl (GoPanic ''slice bounds out of range''), h # hs, b)
      else
        (let h' = h\<lparr>Tiles := take (nat n) b\<rparr>;
             (r, hs', b') = deal_loop n hs (drop (nat n) b)
         in (r, h' # hs', b')))"

definition DealHands :: "int \<Rightarrow> game_session \<Rightarrow> unit result \<times> game_session" where
  "DealHands n s =
     (if int (length (Boneyard s)) < wrap64 (int (length (Players s)) * n)
      then (Inl (err_deal n (length (Players s))), s)
      else
        (let (r, hs, b) = deal_loop n (Hands s) (Boneyard s)
         in (r, s\<lparr>Hands := hs, Boneyard := b\<rparr>)))"

text \<open>The tile leaves the boneyard before the hand is looked up.\<close>

definition DrawFromBoneyard :: "string \<Rightarrow> game_session \<Rightarrow> domino_tile result \<times> game_session" where
  "DrawFromBoneyard playerID s =
     (if CurrentTurn s \<noteq> playerID then (Inl (err_draw_turn playerID), s)
      else case Boneyard s of
        [] \<Rightarrow> (Inl err_boneyard_empty, s)
      | drawn # rest \<Rightarrow>
          let s1 = s\<lparr>Boneyard := rest\<rparr> in
          case hand_index playerID (Hands s1) of
            None \<Rightarrow> (Inl (err_no_hand playerID), s1)
          | Some i \<Rightarrow>
              let h = Hands s1 ! i
              in (Inr drawn,
                  s1\<lparr>Hands := (Hands s1)[i := h\<lparr>Tiles := Tiles h @ [drawn], HasPassed := False\<rparr>]\<rparr>))"

definition RotateTurn :: "game_session \<Rightarrow> game_session" where
  "RotateTurn s =
     (if Players s = [] then s
      else case first_index (\<lambda>p. p = CurrentTurn s) (Players s) of
        None \<Rightarrow> s\<lparr>CurrentTurn := Players s ! 0\<rparr>
      | Some i \<Rightarrow> s\<lparr>CurrentTurn := Players s ! ((i + 1) mod length (Players s))\<rparr>)"

definition PassTurn :: "string \<Rightarrow> game_session \<Rightarrow> unit result \<times> game_session" where
  "PassTurn playerID s =
     (if CurrentTurn s \<noteq> playerID then (Inl (err_pass_turn playerID), s)
      else case hand_index playerID (Hands s) of
        None \<Rightarrow> (Inl (err_no_hand playerID), s)
      | Some i \<Rightarrow>
          (Inr (), RotateTurn (s\<lparr>Hands := (Hands s)[i := (Hands s ! i)\<lparr>HasPassed := True\<rparr>]\<rparr>)))"

end
