(* ===== verification/Evaluation.thy ===== *)
theory Evaluation
  imports Session
begin

section \<open>Match evaluation\<close>

text \<open>
  Models \<open>pkg/models/evaluation.go\<close>: when a match is over, why, and who won. The
  \<open>Scores\<close> map is a partial function from player IDs to pip totals.
\<close>

type_synonym scores = "string \<rightharpoonup> int"

text \<open>The \<open>MatchEnd...\<close> constants of \<open>turn.go\<close>.\<close>

datatype end_reason = MatchEndEmptyHand | MatchEndBlocked | MatchEndForfeit

record match_outcome =
  MatchID :: string
  WinnerID :: string
  Scores :: scores
  Reason :: end_reason

subsection \<open>Scores\<close>

definition hand_total :: "player_hand \<Rightarrow> int" where
  "hand_total h = foldl (\<lambda>total t. total + (ValueLeft t + ValueRight t)) 0 (Tiles h)"

text \<open>One assignment per hand, in order: a repeated player ID keeps the last total.\<close>

definition computeHandScores :: "game_session \<Rightarrow> scores" where
  "computeHandScores s =
     foldl (\<lambda>m h. m(hand_PlayerID h \<mapsto> hand_total h)) Map.empty (Hands s)"

subsection \<open>Who is still in\<close>

fun active_loop :: "player_hand list \<Rightarrow> string list" where
  "active_loop [] = []"
| "active_loop (h # hs) =
     (if \<not> IsAbandoned h then hand_PlayerID h # active_loop hs else active_loop hs)"

definition activeNonAbandonedPlayers :: "game_session \<Rightarrow> string list" where
  "activeNonAbandonedPlayers s = active_loop (Hands s)"

text \<open>The two counters of \<open>allActivePlayersPassed\<close>.\<close>

fun passed_loop :: "player_hand list \<Rightarrow> nat \<times> nat \<Rightarrow> nat \<times> nat" where
  "passed_loop [] (act, pas) = (act, pas)"
| "passed_loop (h # hs) (act, pas) =
     (if IsAbandoned h then passed_loop hs (act, pas)
      else passed_loop hs (act + 1, if HasPassed h then pas + 1 else pas))"

definition allActivePlayersPassed :: "game_session \<Rightarrow> bool" where
  "allActivePlayersPassed s =
     (let (act, pas) = passed_loop (Hands s) (0, 0) in act > 0 \<and> pas = act)"

text \<open>
  The scan for the lowest total: \<open>winner == ""\<close> marks that no hand was taken yet, and
  \<open>scores[p]\<close> reads 0 for a missing key.
\<close>

definition score_of :: "scores \<Rightarrow> string \<Rightarrow> int" where
  "score_of m p = (case m p of None \<Rightarrow> 0 | Some v \<Rightarrow> v)"

fun lowest_loop :: "scores \<Rightarrow> player_hand list \<Rightarrow> string \<times> int \<Rightarrow> string" where
  "lowest_loop m [] (winner, lowest) = winner"
| "lowest_loop m (h # hs) (winner, lowest) =
     (if IsAbandoned h then lowest_loop m hs (winner, lowest)
      else
        (let pips = score_of m (hand_PlayerID h) in
         if winner = [] \<or> pips < lowest then lowest_loop m hs (hand_PlayerID h, pips)
         else lowest_loop m hs (winner, lowest)))"

definition lowestPipPlayer :: "game_session \<Rightarrow> string" where
  "lowestPipPlayer s = lowest_loop (computeHandScores s) (Hands s) ([], -1)"

subsection \<open>EvaluateMatch\<close>

text \<open>The first loop: the first hand, not abandoned, that holds no tile.\<close>

fun empty_hand_loop :: "player_hand list \<Rightarrow> string option" where
  "empty_hand_loop [] = None"
| "empty_hand_loop (h # hs) =
     (if IsAbandoned h then empty_hand_loop hs
      else if Tiles h = [] then Some (hand_PlayerID h)
      else empty_hand_loop hs)"

definition outcome_of :: "game_session \<Rightarrow> string \<Rightarrow> end_reason \<Rightarrow> match_outcome" where
  "outcome_of s winner r =
     \<lparr>MatchID = SessionID s, WinnerID = winner, Scores = computeHandScores s, Reason = r\<rparr>"

text \<open>\<open>None\<close> is the source's \<open>(nil, false)\<close>.\<close>

definition EvaluateMatch :: "game_session \<Rightarrow> match_outcome option" where
  "EvaluateMatch s =
     (case empty_hand_loop (Hands s) of
        Some w \<Rightarrow> Some (outcome_of s w MatchEndEmptyHand)
      | None \<Rightarrow>
          let active = activeNonAbandonedPlayers s in
          if length active = 1 then Some (outcome_of s (active ! 0) MatchEndForfeit)
          else if length (Boneyard s) = 0 \<and> allActivePlayersPassed s
          then Some (outcome_of s (lowestPipPlayer s) MatchEndBlocked)
          else None)"

subsection \<open>What the loops compute\<close>

abbreviation active_hands :: "game_session \<Rightarrow> player_hand list" where
  "active_hands s \<equiv> filter (\<lambda>h. \<not> IsAbandoned h) (Hands s)"

lemma hand_total_sum: "hand_total h = (\<Sum>t \<leftarrow> Tiles h. ValueLeft t + ValueRight t)"
proof -
  have "foldl (\<lambda>total t. total + (ValueLeft t + ValueRight t)) a ts
      = a + (\<Sum>t \<leftarrow> ts. ValueLeft t + ValueRight t)"
    for a :: int and ts :: "domino_tile list"
    by (induction ts arbitrary: a) auto
  then show ?thesis by (simp add: hand_total_def)
qed

lemma active_loop_filter: "active_loop hs = map hand_PlayerID (filter (\<lambda>h. \<not> IsAbandoned h) hs)"
  by (induction hs) auto

lemma active_players_filter:
  "activeNonAbandonedPlayers s = map hand_PlayerID (active_hands s)"
  by (simp add: activeNonAbandonedPlayers_def active_loop_filter)

lemma passed_loop_counts:
  "passed_loop hs (a, p) =
     (a + length (filter (\<lambda>h. \<not> IsAbandoned h) hs),
      p + length (filter (\<lambda>h. \<not> IsAbandoned h \<and> HasPassed h) hs))"
  by (induction hs arbitrary: a p) auto

lemma filter_conj_all:
  "length (filter (\<lambda>x. P x \<and> Q x) xs) = length (filter P xs) \<longleftrightarrow> (\<forall>x \<in> set xs. P x \<longrightarrow> Q x)"
proof (induction xs)
  case Nil
  then show ?case by simp
next
  case (Cons x xs)
  have "length (filter (\<lambda>x. P x \<and> Q x) xs) \<le> length (filter P xs)"
    by (induction xs) auto
  with Cons show ?case by auto
qed

lemma all_passed_iff:
  "allActivePlayersPassed s \<longleftrightarrow> active_hands s \<noteq> [] \<and> (\<forall>h \<in> set (active_hands s). HasPassed h)"
  by (auto simp: allActivePlayersPassed_def passed_loop_counts filter_conj_all)

lemma empty_hand_loop_Some:
  "empty_hand_loop hs = Some w \<Longrightarrow> \<exists>h \<in> set hs. hand_PlayerID h = w \<and> \<not> IsAbandoned h \<and> Tiles h = []"
  by (induction hs) (auto split: if_splits)

lemma empty_hand_loop_None:
  "empty_hand_loop hs = None \<longleftrightarrow> (\<forall>h \<in> set hs. \<not> IsAbandoned h \<longrightarrow> Tiles h \<noteq> [])"
  by (induction hs) auto

lemma scores_foldl_other:
  "p \<notin> hand_PlayerID ` set hs \<Longrightarrow>
     foldl (\<lambda>m h. m(hand_PlayerID h \<mapsto> hand_total h)) m hs p = m p"
  by (induction hs arbitrary: m) auto

lemma scores_foldl:
  "distinct (map hand_PlayerID hs) \<Longrightarrow> h \<in> set hs \<Longrightarrow>
     foldl (\<lambda>m h. m(hand_PlayerID h \<mapsto> hand_total h)) m hs (hand_PlayerID h) = Some (hand_total h)"
proof (induction hs arbitrary: m)
  case Nil
  then show ?case by simp
next
  case (Cons g hs)
  show ?case
  proof (cases "h = g")
    case True
    with Cons.prems scores_foldl_other [of "hand_PlayerID g" hs "m(hand_PlayerID g \<mapsto> hand_total g)"]
    show ?thesis by (simp del: fun_upd_apply) simp
  next
    case False
    with Cons show ?thesis by simp
  qed
qed

lemma computeHandScores_hand:
  "distinct (map hand_PlayerID (Hands s)) \<Longrightarrow> h \<in> set (Hands s) \<Longrightarrow>
     computeHandScores s (hand_PlayerID h) = Some (hand_total h)"
  by (simp add: computeHandScores_def scores_foldl)

text \<open>The scan returns the first hand with the least total among those not abandoned.\<close>

lemma lowest_loop_min:
  assumes "lowest_loop m hs (w, l) = w'" and "w \<noteq> []" and "l = score_of m w"
    and "\<forall>h \<in> set hs. \<not> IsAbandoned h \<longrightarrow> hand_PlayerID h \<noteq> []"
  shows "w' \<noteq> [] \<and> score_of m w' \<le> l
     \<and> (w' = w \<or> (\<exists>h \<in> set hs. \<not> IsAbandoned h \<and> hand_PlayerID h = w'))
     \<and> (\<forall>h \<in> set hs. \<not> IsAbandoned h \<longrightarrow> score_of m w' \<le> score_of m (hand_PlayerID h))"
  using assms
proof (induction hs arbitrary: w l)
  case Nil
  then show ?case by simp
next
  case (Cons h hs)
  show ?case
  proof (cases "IsAbandoned h")
    case True
    with Cons show ?thesis by auto
  next
    case False
    show ?thesis
    proof (cases "score_of m (hand_PlayerID h) < l")
      case True
      with Cons.IH [of "hand_PlayerID h" "score_of m (hand_PlayerID h)"] Cons.prems False
      show ?thesis by (auto simp: Let_def)
    next
      case less: False
      with Cons.IH [of w l] Cons.prems False show ?thesis by (auto simp: Let_def)
    qed
  qed
qed

lemma lowestPip_min:
  assumes ids: "\<forall>h \<in> set (Hands s). hand_PlayerID h \<noteq> []" and act: "active_hands s \<noteq> []"
    and w: "w = lowestPipPlayer s" and m: "m = computeHandScores s"
  shows "(\<exists>h \<in> set (active_hands s). hand_PlayerID h = w)
     \<and> (\<forall>h \<in> set (active_hands s). score_of m w \<le> score_of m (hand_PlayerID h))"
proof -
  have gen: "(\<exists>h \<in> set (filter (\<lambda>h. \<not> IsAbandoned h) hs). hand_PlayerID h = lowest_loop m hs ([], -1))
     \<and> (\<forall>h \<in> set (filter (\<lambda>h. \<not> IsAbandoned h) hs).
          score_of m (lowest_loop m hs ([], -1)) \<le> score_of m (hand_PlayerID h))"
    if "filter (\<lambda>h. \<not> IsAbandoned h) hs \<noteq> []" "\<forall>h \<in> set hs. hand_PlayerID h \<noteq> []" for hs
    using that
  proof (induction hs)
    case Nil
    then show ?case by simp
  next
    case (Cons h hs)
    show ?case
    proof (cases "IsAbandoned h")
      case True
      with Cons show ?thesis by auto
    next
      case False
      have "hand_PlayerID h \<noteq> []" using Cons.prems by simp
      with lowest_loop_min [OF refl, of "hand_PlayerID h" "score_of m (hand_PlayerID h)" m hs]
        False Cons.prems
      show ?thesis by (auto simp: Let_def)
    qed
  qed
  from gen [OF act ids] w m show ?thesis by (simp add: lowestPipPlayer_def)
qed

end
