(* ===== verification/Turn.thy ===== *)
theory Turn
  imports Evaluation
begin

section \<open>The turn pipeline\<close>

text \<open>
  Models \<open>pkg/models/turn.go\<close> and \<open>ProcessGameTurn\<close> of
  \<open>pkg/models/game_methods.go\<close>. The invariants of a session and the laws that every
  turn operation keeps are in the theory \<open>Session_Laws\<close>.
\<close>

text \<open>\<open>TurnKind\<close> is a string type; a value other than the three constants is \<open>TurnKindOther\<close>.\<close>

datatype turn_kind = TurnKindPlayTile | TurnKindDraw | TurnKindPass | TurnKindOther string

record turn_action =
  Kind :: turn_kind
  act_PlayerID :: string
  act_Tile :: domino_tile
  act_PlayAtLeft :: bool

record turn_result =
  Applied :: bool
  DrawnTile :: "domino_tile option"
  MatchEnded :: bool
  Outcome :: "match_outcome option"
  NeedsPersist :: bool

definition lockForCompletion :: "game_session \<Rightarrow> game_session" where
  "lockForCompletion s = s\<lparr>MutationsLocked := True, Status := SessionStatusCompleted\<rparr>"

definition err_kind :: "string \<Rightarrow> go_error" where [go_msg]:
  "err_kind k = Errorf (''unsupported turn action kind '' @ quote k)"

text \<open>The \<open>switch action.Kind\<close>: whether the action applied, and the tile drawn.\<close>

definition dispatch_action ::
  "turn_action \<Rightarrow> game_session \<Rightarrow> (bool \<times> domino_tile option) result \<times> game_session" where
  "dispatch_action a s =
     (case Kind a of
        TurnKindPlayTile \<Rightarrow>
          (case PlayTile (act_PlayerID a) (act_Tile a) (act_PlayAtLeft a) s of
             (Inl e, s1) \<Rightarrow> (Inl e, s1)
           | (Inr success, s1) \<Rightarrow> (Inr (success, None), s1))
      | TurnKindDraw \<Rightarrow>
          (case DrawFromBoneyard (act_PlayerID a) s of
             (Inl e, s1) \<Rightarrow> (Inl e, s1)
           | (Inr drawn, s1) \<Rightarrow> (Inr (True, Some drawn), s1))
      | TurnKindPass \<Rightarrow>
          (case PassTurn (act_PlayerID a) s of
             (Inl e, s1) \<Rightarrow> (Inl e, s1)
           | (Inr u, s1) \<Rightarrow> (Inr (True, None), s1))
      | TurnKindOther k \<Rightarrow> (Inl (err_kind k), s))"

text \<open>A waiting session becomes active with its first applied action.\<close>

definition activate :: "game_session \<Rightarrow> game_session" where
  "activate s = (if Status s = SessionStatusWaiting then s\<lparr>Status := SessionStatusActive\<rparr> else s)"

definition ProcessGameTurn ::
  "turn_action \<Rightarrow> game_session \<Rightarrow> turn_result result \<times> game_session" where
  "ProcessGameTurn a s =
     (if MutationsLocked s \<or> Status s = SessionStatusCompleted then (Inl ErrMutationsLocked, s)
      else case dispatch_action a s of
        (Inl e, s1) \<Rightarrow> (Inl e, s1)
      | (Inr (applied, drawn), s1) \<Rightarrow>
          if \<not> applied then
            (Inr \<lparr>Applied = False, DrawnTile = None, MatchEnded = False, Outcome = None,
                  NeedsPersist = False\<rparr>, s1)
          else
            (let s2 = activate s1 in
             case EvaluateMatch s2 of
               Some oc \<Rightarrow>
                 (Inr \<lparr>Applied = True, DrawnTile = drawn, MatchEnded = True, Outcome = Some oc,
                       NeedsPersist = True\<rparr>, lockForCompletion s2)
             | None \<Rightarrow>
                 (Inr \<lparr>Applied = True, DrawnTile = drawn, MatchEnded = False, Outcome = None,
                       NeedsPersist = True\<rparr>,
                  if Kind a = TurnKindPlayTile then RotateTurn s2 else s2)))"

end
