(* ===== verification/Game_Engine.thy ===== *)
theory Game_Engine
  imports Turn
begin

section \<open>The event side of a turn\<close>

text \<open>
  Models the publishing half of \<open>pkg/game/loop.go\<close>: \<open>GameEngine.Tick\<close> and
  \<open>GameEngine.EndMatch\<close>. The broker is an argument: \<open>publish e w\<close> hands the event to
  the environment state \<open>w\<close> and may return an error, which stops the call. The consumer
  pools of the same file are in theory \<open>Workers\<close>.
\<close>

subsection \<open>Events\<close>

datatype game_payload =
    MatchEndedPayload string match_outcome "string list" "game_session option"
  | MatchmakingUpdatePayload string session_status "string list" string
  | PlayerNotificationPayload string string string string

datatype topic = TopicMatchEnded | TopicMatchmakingUpdate | TopicPlayerNotification

record game_event =
  Topic :: topic
  Payload :: game_payload

type_synonym 'w publisher = "game_event \<Rightarrow> 'w \<Rightarrow> go_error option \<times> 'w"

subsection \<open>EndMatch and Tick\<close>

definition publish_event :: "'w publisher \<Rightarrow> topic \<Rightarrow> game_payload \<Rightarrow> 'w \<Rightarrow> go_error option \<times> 'w" where
  "publish_event publish t p w = publish \<lparr>Topic = t, Payload = p\<rparr> w"

definition EndMatch ::
  "'w publisher \<Rightarrow> string \<Rightarrow> match_outcome option \<Rightarrow> game_session option \<Rightarrow> 'w \<Rightarrow> go_error option \<times> 'w" where
  "EndMatch publish sid oc so w =
     (case oc of
        None \<Rightarrow> (Some (Errorf (''cannot end match '' @ quote sid @ '' without an outcome'')), w)
      | Some out \<Rightarrow>
          let players = (case so of None \<Rightarrow> [] | Some s \<Rightarrow> Players s) in
          case publish_event publish TopicMatchEnded (MatchEndedPayload sid out players so) w of
            (Some e, w1) \<Rightarrow> (Some e, w1)
          | (None, w1) \<Rightarrow>
              if WinnerID out \<noteq> [] then
                publish_event publish TopicPlayerNotification
                  (PlayerNotificationPayload sid (WinnerID out) ''match_won''
                     (''player '' @ WinnerID out @ '' won match '' @ sid)) w1
              else (None, w1))"

text \<open>
  \<open>Tick\<close> on a non-nil session: the roster update, the notification of the player on
  turn, and \<open>EndMatch\<close> when the turn ended the match.
\<close>

definition Tick ::
  "'w publisher \<Rightarrow> game_session \<Rightarrow> turn_result option \<Rightarrow> 'w \<Rightarrow> go_error option \<times> 'w" where
  "Tick publish s res w =
     (case publish_event publish TopicMatchmakingUpdate
             (MatchmakingUpdatePayload (SessionID s) (Status s) (Players s) (CurrentTurn s)) w of
        (Some e, w1) \<Rightarrow> (Some e, w1)
      | (None, w1) \<Rightarrow>
          (case (if CurrentTurn s \<noteq> [] then
                   publish_event publish TopicPlayerNotification
                     (PlayerNotificationPayload (SessionID s) (CurrentTurn s) ''turn_changed''
                        (''it is now '' @ CurrentTurn s @ CHR 0x27 # ''s turn'')) w1
                 else (None, w1)) of
             (Some e, w2) \<Rightarrow> (Some e, w2)
           | (None, w2) \<Rightarrow>
               (case res of
                  Some r \<Rightarrow> (if MatchEnded r then EndMatch publish (SessionID s) (Outcome r) (Some s) w2
                             else (None, w2))
                | None \<Rightarrow> (None, w2))))"

text \<open>
  With a broker that accepts everything and logs it, the events of a call are a list.
\<close>

definition log_publisher :: "game_event list publisher" where
  "log_publisher e w = (None, w @ [e])"

lemma Tick_log_ended:
  assumes "Outcome r = Some oc" "MatchEnded r"
  shows "filter (\<lambda>e. Topic e = TopicMatchEnded) (snd (Tick log_publisher s (Some r) [])) =
    [\<lparr>Topic = TopicMatchEnded, Payload = MatchEndedPayload (SessionID s) oc (Players s) (Some s)\<rparr>]"
  using assms
  by (simp add: Tick_def EndMatch_def publish_event_def log_publisher_def Let_def)

lemma Tick_log_running:
  "\<not> (\<exists>r. res = Some r \<and> MatchEnded r) \<Longrightarrow>
     filter (\<lambda>e. Topic e = TopicMatchEnded) (snd (Tick log_publisher s res [])) = []"
  by (cases res) (simp_all add: Tick_def EndMatch_def publish_event_def log_publisher_def)

end
