(* ===== verification/Session_Laws.thy ===== *)
theory Session_Laws
  imports Turn
begin

section \<open>Laws of the session operations\<close>

text \<open>
  The invariants of a session, the measures of its tiles, and the contract
  \<open>turn_operation\<close> that each of \<open>PlayTile\<close>, \<open>DrawFromBoneyard\<close> and
  \<open>PassTurn\<close> fulfils: it keeps the session well formed, it neither makes nor loses a
  tile, only the player on turn can run it, and a rejected call changes nothing.
  The dispatcher of the turn pipeline inherits the contract.
\<close>

named_theorems session_simps \<open>frame equations of the session operations\<close>

subsection \<open>Well-formed sessions\<close>

text \<open>One hand per player, in seat order, and no player seated twice.\<close>

definition session_wf :: "game_session \<Rightarrow> bool" where
  "session_wf s = (distinct (Players s) \<and> map hand_PlayerID (Hands s) = Players s)"

lemma session_wf_hand:
  assumes "session_wf s" "p \<in> set (Players s)"
  shows "\<exists>i. hand_index p (Hands s) = Some i"
proof -
  from assms obtain h where "h \<in> set (Hands s)" "hand_PlayerID h = p"
    by (auto simp: session_wf_def) (metis imageE set_map)
  then show ?thesis by (intro first_index_Some_ex) auto
qed

lemma session_wf_update:
  assumes "session_wf s" "i < length (Hands s)" "hand_PlayerID h = hand_PlayerID (Hands s ! i)"
  shows "session_wf (s\<lparr>Hands := (Hands s)[i := h]\<rparr>)"
  using assms by (simp add: session_wf_def map_list_update_same)

lemma NewGameSession_wf: "distinct uids \<Longrightarrow> session_wf (NewGameSession sid uids)"
  by (simp add: session_wf_def NewGameSession_def o_def)

subsection \<open>The tiles of a session\<close>

text \<open>
  \<open>tiles_by f s\<close> is the multiset of the \<open>f\<close>-values of all tiles in the boneyard, the
  hands and on the board. \<open>tile_ids\<close> counts IDs, \<open>tile_keys\<close> IDs with the pips of
  the two ends, whichever way round the tile lies.
\<close>

definition tiles_by :: "(domino_tile \<Rightarrow> 'k) \<Rightarrow> game_session \<Rightarrow> 'k multiset" where
  "tiles_by f s =
     mset (map f (Boneyard s)) + (\<Sum>h \<leftarrow> Hands s. mset (map f (Tiles h))) + mset (map f (GameBoard s))"

abbreviation tile_ids :: "game_session \<Rightarrow> string multiset" where
  "tile_ids \<equiv> tiles_by tile_ID"

definition tile_key :: "domino_tile \<Rightarrow> string \<times> int multiset" where
  "tile_key t = (tile_ID t, {#ValueLeft t, ValueRight t#})"

abbreviation tile_keys :: "game_session \<Rightarrow> (string \<times> int multiset) multiset" where
  "tile_keys \<equiv> tiles_by tile_key"

lemma tile_key_flip [simp]: "tile_key (flip_tile t) = tile_key t"
  by (simp add: tile_key_def add_mset_commute)

text \<open>Replacing one hand changes the measure by that hand's tiles.\<close>

lemma tiles_by_hand_update:
  assumes "i < length (Hands s)"
  shows "tiles_by f (s\<lparr>Hands := (Hands s)[i := h]\<rparr>) + mset (map f (Tiles (Hands s ! i)))
       = tiles_by f s + mset (map f (Tiles h))"
  using sum_list_list_update [OF assms, of "\<lambda>h. mset (map f (Tiles h))" h]
  by (simp add: tiles_by_def ac_simps)

subsection \<open>Frames\<close>

lemma place_tile_frame [session_simps]:
  "Hands (place_tile t l s) = Hands s" "Players (place_tile t l s) = Players s"
  "SessionID (place_tile t l s) = SessionID s" "Status (place_tile t l s) = Status s"
  "MutationsLocked (place_tile t l s) = MutationsLocked s"
  "CurrentTurn (place_tile t l s) = CurrentTurn s" "Boneyard (place_tile t l s) = Boneyard s"
  by (simp_all add: place_tile_def SetBoardEnds_def Let_def)

lemma RotateTurn_frame [session_simps]:
  "Hands (RotateTurn s) = Hands s" "Players (RotateTurn s) = Players s"
  "SessionID (RotateTurn s) = SessionID s" "Status (RotateTurn s) = Status s"
  "MutationsLocked (RotateTurn s) = MutationsLocked s" "Boneyard (RotateTurn s) = Boneyard s"
  "GameBoard (RotateTurn s) = GameBoard s" "LeftOpenValue (RotateTurn s) = LeftOpenValue s"
  "RightOpenValue (RotateTurn s) = RightOpenValue s"
  by (simp_all add: RotateTurn_def split: option.split)

lemma activate_frame [session_simps]:
  "Hands (activate s) = Hands s" "Players (activate s) = Players s"
  "SessionID (activate s) = SessionID s" "MutationsLocked (activate s) = MutationsLocked s"
  "CurrentTurn (activate s) = CurrentTurn s" "Boneyard (activate s) = Boneyard s"
  "GameBoard (activate s) = GameBoard s" "LeftOpenValue (activate s) = LeftOpenValue s"
  "RightOpenValue (activate s) = RightOpenValue s"
  by (simp_all add: activate_def)

lemma lock_frame [session_simps]:
  "Hands (lockForCompletion s) = Hands s" "Players (lockForCompletion s) = Players s"
  "SessionID (lockForCompletion s) = SessionID s" "Boneyard (lockForCompletion s) = Boneyard s"
  "CurrentTurn (lockForCompletion s) = CurrentTurn s" "GameBoard (lockForCompletion s) = GameBoard s"
  "LeftOpenValue (lockForCompletion s) = LeftOpenValue s"
  "RightOpenValue (lockForCompletion s) = RightOpenValue s"
  "MutationsLocked (lockForCompletion s) = True"
  "Status (lockForCompletion s) = SessionStatusCompleted"
  by (simp_all add: lockForCompletion_def)

lemma tiles_by_cong:
  "Boneyard s = Boneyard s' \<Longrightarrow> Hands s = Hands s' \<Longrightarrow> GameBoard s = GameBoard s' \<Longrightarrow>
     tiles_by f s = tiles_by f s'"
  by (simp add: tiles_by_def)

lemma session_wf_cong:
  "Players s = Players s' \<Longrightarrow> Hands s = Hands s' \<Longrightarrow> session_wf s = session_wf s'"
  by (simp add: session_wf_def)

lemma tiles_by_place:
  assumes "\<And>t. f (flip_tile t) = f t"
  shows "tiles_by f (place_tile t l s) = add_mset (f t) (tiles_by f s)"
  by (simp add: tiles_by_def place_tile_def SetBoardEnds_def Let_def assms)

lemma RotateTurn_current:
  "session_wf s \<Longrightarrow> Players s \<noteq> [] \<Longrightarrow> CurrentTurn (RotateTurn s) \<in> set (Players s)"
  by (auto simp: RotateTurn_def split: option.split)

text \<open>The turn goes to the next seat, the last seat's to the first.\<close>

lemma RotateTurn_next:
  assumes "distinct (Players s)" "i < length (Players s)" "CurrentTurn s = Players s ! i"
  shows "CurrentTurn (RotateTurn s) = Players s ! (Suc i mod length (Players s))"
proof -
  have "first_index (\<lambda>p. p = CurrentTurn s) (Players s) = Some i"
  proof -
    obtain j where j: "first_index (\<lambda>p. p = CurrentTurn s) (Players s) = Some j"
      using first_index_Some_ex [of "CurrentTurn s" "Players s"] assms by fastforce
    with first_index_SomeD [OF j] assms nth_eq_iff_index_eq [of "Players s" j i]
    have "j = i" by simp
    with j show ?thesis by simp
  qed
  with assms show ?thesis by (auto simp: RotateTurn_def)
qed

subsection \<open>The contract of a turn operation\<close>

locale turn_operation =
  fixes run :: "game_session \<Rightarrow> 'r result \<times> game_session"
    and actor :: string
  assumes keeps_wf: "session_wf s \<Longrightarrow> session_wf (snd (run s))"
    and keeps_frame:
      "Players (snd (run s)) = Players s" "SessionID (snd (run s)) = SessionID s"
      "Status (snd (run s)) = Status s" "MutationsLocked (snd (run s)) = MutationsLocked s"
    and keeps_ids:
      "session_wf s \<Longrightarrow> actor \<in> set (Players s) \<Longrightarrow> tile_ids (snd (run s)) = tile_ids s"
    and only_on_turn: "fst (run s) = Inr r \<Longrightarrow> CurrentTurn s = actor"
    and rejected_unchanged:
      "session_wf s \<Longrightarrow> actor \<in> set (Players s) \<Longrightarrow> fst (run s) = Inl e \<Longrightarrow> snd (run s) = s"
    and turn_stays_seated:
      "session_wf s \<Longrightarrow> CurrentTurn s \<in> set (Players s) \<Longrightarrow> CurrentTurn (snd (run s)) \<in> set (Players s)"
begin

lemma off_turn_rejected:
  assumes "CurrentTurn s \<noteq> actor"
  shows "\<exists>e. fst (run s) = Inl e"
  using assms only_on_turn by (cases "fst (run s)") auto

lemma off_turn_unchanged:
  "session_wf s \<Longrightarrow> actor \<in> set (Players s) \<Longrightarrow> CurrentTurn s \<noteq> actor \<Longrightarrow> snd (run s) = s"
  using off_turn_rejected rejected_unchanged by blast

lemma actor_on_turn_seated:
  assumes "session_wf s" "actor \<in> set (Players s)" "CurrentTurn s \<in> set (Players s)"
  shows "session_wf (snd (run s)) \<and> CurrentTurn (snd (run s)) \<in> set (Players (snd (run s)))
    \<and> tile_ids (snd (run s)) = tile_ids s"
  using assms keeps_wf keeps_frame(1) turn_stays_seated keeps_ids by simp

end

subsection \<open>PlayTile, DrawFromBoneyard and PassTurn fulfil the contract\<close>

lemma PlayTile_error: "fst (PlayTile p t l s) = Inl e \<Longrightarrow> snd (PlayTile p t l s) = s"
  by (auto simp: PlayTile_def Let_def split: if_splits option.splits)

lemma PlayTile_ok:
  assumes "fst (PlayTile p t l s) = Inr b"
  obtains i k where "b" "CurrentTurn s = p" "CanPlay s t l" "hand_index p (Hands s) = Some i"
    "tile_index (tile_ID t) (Tiles (Hands s ! i)) = Some k"
    "snd (PlayTile p t l s) = place_tile t l
       (s\<lparr>Hands := (Hands s)[i := (Hands s ! i)\<lparr>Tiles := delete_at k (Tiles (Hands s ! i)),
                                               HasPassed := False\<rparr>]\<rparr>)"
  using assms by (auto simp: PlayTile_def Let_def split: if_splits option.splits)

lemma DrawFromBoneyard_ok:
  assumes "fst (DrawFromBoneyard p s) = Inr d"
  obtains i rest where "CurrentTurn s = p" "Boneyard s = d # rest" "hand_index p (Hands s) = Some i"
    "snd (DrawFromBoneyard p s) =
       s\<lparr>Boneyard := rest,
         Hands := (Hands s)[i := (Hands s ! i)\<lparr>Tiles := Tiles (Hands s ! i) @ [d], HasPassed := False\<rparr>]\<rparr>"
  using assms by (auto simp: DrawFromBoneyard_def Let_def split: if_splits option.splits list.splits)

lemma DrawFromBoneyard_error:
  assumes "fst (DrawFromBoneyard p s) = Inl e" "session_wf s" "p \<in> set (Players s)"
  shows "snd (DrawFromBoneyard p s) = s"
  using assms(1) session_wf_hand [OF assms(2,3)]
  by (auto simp: DrawFromBoneyard_def Let_def split: if_splits option.splits list.splits)

lemma PassTurn_error: "fst (PassTurn p s) = Inl e \<Longrightarrow> snd (PassTurn p s) = s"
  by (auto simp: PassTurn_def split: if_splits option.splits)

lemma PassTurn_ok:
  assumes "fst (PassTurn p s) = Inr u"
  obtains i where "CurrentTurn s = p" "hand_index p (Hands s) = Some i"
    "snd (PassTurn p s) =
       RotateTurn (s\<lparr>Hands := (Hands s)[i := (Hands s ! i)\<lparr>HasPassed := True\<rparr>]\<rparr>)"
  using assms by (auto simp: PassTurn_def split: if_splits option.splits)

text \<open>
  A played tile leaves the hand and reaches the board: any measure that does not look at
  the orientation is kept when the tile played has the measure of the one removed.
\<close>

lemma PlayTile_tiles_by:
  assumes ok: "fst (PlayTile p t l s) = Inr b" and flip: "\<And>t. f (flip_tile t) = f t"
    and same: "\<And>i k. hand_index p (Hands s) = Some i \<Longrightarrow>
      tile_index (tile_ID t) (Tiles (Hands s ! i)) = Some k \<Longrightarrow> f (Tiles (Hands s ! i) ! k) = f t"
  shows "tiles_by f (snd (PlayTile p t l s)) = tiles_by f s"
proof -
  from ok obtain i k where i: "hand_index p (Hands s) = Some i"
    and k: "tile_index (tile_ID t) (Tiles (Hands s ! i)) = Some k"
    and res: "snd (PlayTile p t l s) = place_tile t l
       (s\<lparr>Hands := (Hands s)[i := (Hands s ! i)\<lparr>Tiles := delete_at k (Tiles (Hands s ! i)),
                                               HasPassed := False\<rparr>]\<rparr>)"
    by (rule PlayTile_ok)
  let ?ts = "Tiles (Hands s ! i)"
  let ?h = "(Hands s ! i)\<lparr>Tiles := delete_at k ?ts, HasPassed := False\<rparr>"
  have "add_mset (f t) (mset (map f (delete_at k ?ts))) = mset (map f ?ts)"
    using arg_cong [OF mset_delete_at [OF first_index_bound [OF k]], of "image_mset f"] same [OF i k]
    by simp
  with tiles_by_hand_update [OF first_index_bound [OF i], of f ?h]
  have "add_mset (f t) (tiles_by f (s\<lparr>Hands := (Hands s)[i := ?h]\<rparr>)) = tiles_by f s"
    by (metis (no_types, lifting) add_right_imp_eq player_hand.select_convs(3)
        player_hand.surjective player_hand.update_convs(3,5) union_mset_add_mset_left
        union_mset_add_mset_right)
  then show ?thesis unfolding res by (simp add: tiles_by_place flip)
qed

lemma DrawFromBoneyard_tiles_by:
  assumes "fst (DrawFromBoneyard p s) = Inr d"
  shows "tiles_by f (snd (DrawFromBoneyard p s)) = tiles_by f s"
proof -
  from assms obtain i rest where b: "Boneyard s = d # rest" and i: "hand_index p (Hands s) = Some i"
    and res: "snd (DrawFromBoneyard p s) =
       s\<lparr>Boneyard := rest,
         Hands := (Hands s)[i := (Hands s ! i)\<lparr>Tiles := Tiles (Hands s ! i) @ [d], HasPassed := False\<rparr>]\<rparr>"
    by (rule DrawFromBoneyard_ok)
  let ?h = "(Hands s ! i)\<lparr>Tiles := Tiles (Hands s ! i) @ [d], HasPassed := False\<rparr>"
  have "tiles_by f (s\<lparr>Hands := (Hands s)[i := ?h]\<rparr>) = add_mset (f d) (tiles_by f s)"
    using tiles_by_hand_update [OF first_index_bound [OF i], of f ?h] by simp
  moreover have "tiles_by f (s\<lparr>Hands := (Hands s)[i := ?h]\<rparr>)
      = add_mset (f d) (tiles_by f (snd (DrawFromBoneyard p s)))"
    unfolding res by (simp add: tiles_by_def b)
  ultimately show ?thesis by simp
qed

interpretation play: turn_operation "PlayTile p t l" p for p t l
proof
  fix s r e
  show "session_wf s \<Longrightarrow> session_wf (snd (PlayTile p t l s))"
  proof (cases "fst (PlayTile p t l s)")
    case (Inr b)
    assume wf: "session_wf s"
    from Inr obtain i k where i: "hand_index p (Hands s) = Some i"
      and res: "snd (PlayTile p t l s) = place_tile t l
         (s\<lparr>Hands := (Hands s)[i := (Hands s ! i)\<lparr>Tiles := delete_at k (Tiles (Hands s ! i)),
                                                 HasPassed := False\<rparr>]\<rparr>)"
      by (rule PlayTile_ok)
    from session_wf_update [OF wf first_index_bound [OF i]] show ?thesis
      unfolding res by (subst session_wf_cong [OF place_tile_frame(2,1)]) simp
  qed (simp add: PlayTile_error)
  show "Players (snd (PlayTile p t l s)) = Players s" "SessionID (snd (PlayTile p t l s)) = SessionID s"
    "Status (snd (PlayTile p t l s)) = Status s" "MutationsLocked (snd (PlayTile p t l s)) = MutationsLocked s"
    by (simp_all add: PlayTile_def Let_def session_simps split: option.split)
  show "tile_ids (snd (PlayTile p t l s)) = tile_ids s"
  proof (cases "fst (PlayTile p t l s)")
    case (Inr b)
    then show ?thesis by (rule PlayTile_tiles_by) (auto dest: first_index_holds)
  qed (simp add: PlayTile_error)
  show "fst (PlayTile p t l s) = Inr r \<Longrightarrow> CurrentTurn s = p"
    by (auto elim: PlayTile_ok)
  show "fst (PlayTile p t l s) = Inl e \<Longrightarrow> snd (PlayTile p t l s) = s"
    by (rule PlayTile_error)
  show "CurrentTurn s \<in> set (Players s) \<Longrightarrow> CurrentTurn (snd (PlayTile p t l s)) \<in> set (Players s)"
    by (auto simp: PlayTile_def Let_def session_simps split: option.split)
qed

interpretation draw: turn_operation "DrawFromBoneyard p" p for p
proof
  fix s r e
  show "session_wf s \<Longrightarrow> session_wf (snd (DrawFromBoneyard p s))"
    by (auto simp: DrawFromBoneyard_def Let_def session_wf_def map_list_update_same
      dest: first_index_bound split: option.split list.split)
  show "Players (snd (DrawFromBoneyard p s)) = Players s"
    "SessionID (snd (DrawFromBoneyard p s)) = SessionID s" "Status (snd (DrawFromBoneyard p s)) = Status s"
    "MutationsLocked (snd (DrawFromBoneyard p s)) = MutationsLocked s"
    by (simp_all add: DrawFromBoneyard_def Let_def split: option.split list.split)
  show "session_wf s \<Longrightarrow> p \<in> set (Players s) \<Longrightarrow> tile_ids (snd (DrawFromBoneyard p s)) = tile_ids s"
    by (cases "fst (DrawFromBoneyard p s)")
      (simp_all add: DrawFromBoneyard_error DrawFromBoneyard_tiles_by)
  show "fst (DrawFromBoneyard p s) = Inr r \<Longrightarrow> CurrentTurn s = p"
    by (auto elim: DrawFromBoneyard_ok)
  show "session_wf s \<Longrightarrow> p \<in> set (Players s) \<Longrightarrow> fst (DrawFromBoneyard p s) = Inl e \<Longrightarrow>
      snd (DrawFromBoneyard p s) = s"
    by (rule DrawFromBoneyard_error)
  show "CurrentTurn s \<in> set (Players s) \<Longrightarrow> CurrentTurn (snd (DrawFromBoneyard p s)) \<in> set (Players s)"
    by (auto simp add: DrawFromBoneyard_def Let_def split: option.split list.split)
qed

lemma PassTurn_hands:
  "map (\<lambda>h. (hand_PlayerID h, Tiles h)) (Hands (snd (PassTurn p s)))
     = map (\<lambda>h. (hand_PlayerID h, Tiles h)) (Hands s)"
  by (auto simp: PassTurn_def session_simps map_list_update_same split: option.split)

lemma PassTurn_frame [session_simps]:
  "Players (snd (PassTurn p s)) = Players s" "SessionID (snd (PassTurn p s)) = SessionID s"
  "Status (snd (PassTurn p s)) = Status s" "MutationsLocked (snd (PassTurn p s)) = MutationsLocked s"
  "Boneyard (snd (PassTurn p s)) = Boneyard s" "GameBoard (snd (PassTurn p s)) = GameBoard s"
  "LeftOpenValue (snd (PassTurn p s)) = LeftOpenValue s"
  "RightOpenValue (snd (PassTurn p s)) = RightOpenValue s"
  by (simp_all add: PassTurn_def session_simps split: option.split)

lemma PassTurn_tiles_by: "tiles_by f (snd (PassTurn p s)) = tiles_by f s"
  using arg_cong [OF PassTurn_hands [of p s], of "map (\<lambda>(p, ts). mset (map f ts))"]
  by (simp add: tiles_by_def session_simps o_def)

interpretation pass: turn_operation "PassTurn p" p for p
proof
  fix s r e
  show "session_wf s \<Longrightarrow> session_wf (snd (PassTurn p s))"
    using arg_cong [OF PassTurn_hands [of p s], of "map fst"]
    by (simp add: session_wf_def session_simps o_def)
  show "Players (snd (PassTurn p s)) = Players s" "SessionID (snd (PassTurn p s)) = SessionID s"
    "Status (snd (PassTurn p s)) = Status s" "MutationsLocked (snd (PassTurn p s)) = MutationsLocked s"
    by (simp_all add: session_simps)
  show "tile_ids (snd (PassTurn p s)) = tile_ids s" by (rule PassTurn_tiles_by)
  show "fst (PassTurn p s) = Inr r \<Longrightarrow> CurrentTurn s = p"
    by (auto elim: PassTurn_ok)
  show "fst (PassTurn p s) = Inl e \<Longrightarrow> snd (PassTurn p s) = s" by (rule PassTurn_error)
  show "session_wf s \<Longrightarrow> CurrentTurn s \<in> set (Players s) \<Longrightarrow> CurrentTurn (snd (PassTurn p s)) \<in> set (Players s)"
    by (auto simp: PassTurn_def RotateTurn_def split: option.split)
qed

text \<open>A rejected call, in the form the dispatcher's case analysis produces.\<close>

lemma PlayTile_Inl: "PlayTile p t l s = (Inl e, s') \<Longrightarrow> s' = s"
  using PlayTile_error [of p t l s e] by simp

lemma PassTurn_Inl: "PassTurn p s = (Inl e, s') \<Longrightarrow> s' = s"
  using PassTurn_error [of p s e] by simp

lemma DrawFromBoneyard_Inl:
  "DrawFromBoneyard p s = (Inl e, s') \<Longrightarrow> session_wf s \<Longrightarrow> p \<in> set (Players s) \<Longrightarrow> s' = s"
  using DrawFromBoneyard_error [of p s e] by simp

lemma snd_dispatch:
  "snd (dispatch_action a s) =
     (case Kind a of
        TurnKindPlayTile \<Rightarrow> snd (PlayTile (act_PlayerID a) (act_Tile a) (act_PlayAtLeft a) s)
      | TurnKindDraw \<Rightarrow> snd (DrawFromBoneyard (act_PlayerID a) s)
      | TurnKindPass \<Rightarrow> snd (PassTurn (act_PlayerID a) s)
      | TurnKindOther k \<Rightarrow> s)"
  by (auto simp: dispatch_action_def split: turn_kind.split prod.split sum.split)

interpretation dispatch: turn_operation "dispatch_action a" "act_PlayerID a" for a
proof
  fix s r e
  show "session_wf s \<Longrightarrow> session_wf (snd (dispatch_action a s))"
    by (simp add: snd_dispatch play.keeps_wf draw.keeps_wf pass.keeps_wf split: turn_kind.split)
  show "Players (snd (dispatch_action a s)) = Players s" "SessionID (snd (dispatch_action a s)) = SessionID s"
    "Status (snd (dispatch_action a s)) = Status s"
    "MutationsLocked (snd (dispatch_action a s)) = MutationsLocked s"
    by (simp_all add: snd_dispatch play.keeps_frame draw.keeps_frame pass.keeps_frame split: turn_kind.split)
  show "session_wf s \<Longrightarrow> act_PlayerID a \<in> set (Players s) \<Longrightarrow> tile_ids (snd (dispatch_action a s)) = tile_ids s"
    by (simp add: snd_dispatch play.keeps_ids draw.keeps_ids pass.keeps_ids split: turn_kind.split)
  show "fst (dispatch_action a s) = Inr r \<Longrightarrow> CurrentTurn s = act_PlayerID a"
    by (auto simp: dispatch_action_def split: turn_kind.splits prod.splits sum.splits
      dest!: arg_cong [where f = fst] play.only_on_turn draw.only_on_turn pass.only_on_turn)
  show "session_wf s \<Longrightarrow> act_PlayerID a \<in> set (Players s) \<Longrightarrow> fst (dispatch_action a s) = Inl e \<Longrightarrow>
      snd (dispatch_action a s) = s"
    by (auto simp: dispatch_action_def split: turn_kind.splits prod.splits sum.splits
      dest: PlayTile_Inl PassTurn_Inl DrawFromBoneyard_Inl)
  show "session_wf s \<Longrightarrow> CurrentTurn s \<in> set (Players s) \<Longrightarrow>
      CurrentTurn (snd (dispatch_action a s)) \<in> set (Players s)"
    by (simp add: snd_dispatch play.turn_stays_seated draw.turn_stays_seated pass.turn_stays_seated
      split: turn_kind.split)
qed

subsection \<open>The board is a chain\<close>

fun chain :: "domino_tile list \<Rightarrow> bool" where
  "chain [] = True"
| "chain [t] = True"
| "chain (t # u # ts) = (ValueRight t = ValueLeft u \<and> chain (u # ts))"

definition legal_tile :: "domino_tile \<Rightarrow> bool" where
  "legal_tile t = (0 \<le> ValueLeft t \<and> 0 \<le> ValueRight t)"

text \<open>
  An empty board has both ends at -1; otherwise neighbouring tiles agree where they meet
  and the cached ends are the two outer values.
\<close>

definition board_ok :: "game_session \<Rightarrow> bool" where
  "board_ok s =
     ((\<forall>t \<in> set (GameBoard s). legal_tile t) \<and> chain (GameBoard s) \<and>
      (if GameBoard s = [] then LeftOpenValue s = -1 \<and> RightOpenValue s = -1
       else LeftOpenValue s = ValueLeft (hd (GameBoard s)) \<and>
            RightOpenValue s = ValueRight (last (GameBoard s))))"

lemma chain_Cons: "chain (t # ts) \<longleftrightarrow> (ts = [] \<or> ValueRight t = ValueLeft (hd ts)) \<and> chain ts"
  by (cases ts) auto

lemma chain_snoc: "chain (ts @ [t]) \<longleftrightarrow> (ts = [] \<or> ValueRight (last ts) = ValueLeft t) \<and> chain ts"
  by (induction ts) (auto simp: chain_Cons)

lemma legal_flip [simp]: "legal_tile (flip_tile t) = legal_tile t"
  by (auto simp: legal_tile_def)

lemma board_ok_nonempty_ends:
  "board_ok s \<Longrightarrow> GameBoard s \<noteq> [] \<Longrightarrow> 0 \<le> LeftOpenValue s \<and> 0 \<le> RightOpenValue s"
  by (auto simp: board_ok_def legal_tile_def split: if_splits)

lemma place_tile_board_ok:
  assumes ok: "board_ok s" and can: "CanPlay s t l" and legal: "legal_tile t"
  shows "board_ok (place_tile t l s)"
proof (cases "GameBoard s = []")
  case True
  with ok legal show ?thesis by (simp add: board_ok_def place_tile_def SetBoardEnds_def)
next
  case False
  with board_ok_nonempty_ends [OF ok] have ends: "\<not> (LeftOpenValue s = -1 \<and> RightOpenValue s = -1)"
    by auto
  show ?thesis
  proof (cases l)
    case True
    with ok can legal ends False show ?thesis
      by (auto simp: board_ok_def place_tile_def CanPlay_def chain_Cons Let_def)
  next
    case l: False
    with ok can legal ends False show ?thesis
      by (auto simp: board_ok_def place_tile_def CanPlay_def chain_snoc Let_def)
  qed
qed

lemma board_ok_cong:
  "GameBoard s = GameBoard s' \<Longrightarrow> LeftOpenValue s = LeftOpenValue s' \<Longrightarrow>
     RightOpenValue s = RightOpenValue s' \<Longrightarrow> board_ok s = board_ok s'"
  by (simp add: board_ok_def)

lemma PlayTile_board_ok:
  assumes "board_ok s" "legal_tile t"
  shows "board_ok (snd (PlayTile p t l s))"
proof (cases "fst (PlayTile p t l s)")
  case (Inl e)
  with assms show ?thesis by (simp add: PlayTile_error)
next
  case (Inr b)
  then show ?thesis
  proof (rule PlayTile_ok)
    fix i k
    assume can: "CanPlay s t l" and res: "snd (PlayTile p t l s) = place_tile t l
         (s\<lparr>Hands := (Hands s)[i := (Hands s ! i)\<lparr>Tiles := delete_at k (Tiles (Hands s ! i)),
                                                 HasPassed := False\<rparr>]\<rparr>)"
    show ?thesis unfolding res
      by (rule place_tile_board_ok) (use assms can in \<open>simp_all add: board_ok_def CanPlay_def\<close>)
  qed
qed

lemma DrawFromBoneyard_frame [session_simps]:
  "GameBoard (snd (DrawFromBoneyard p s)) = GameBoard s"
  "LeftOpenValue (snd (DrawFromBoneyard p s)) = LeftOpenValue s"
  "RightOpenValue (snd (DrawFromBoneyard p s)) = RightOpenValue s"
  "CurrentTurn (snd (DrawFromBoneyard p s)) = CurrentTurn s"
  by (simp_all add: DrawFromBoneyard_def Let_def split: option.split list.split)

lemma dispatch_board_ok:
  assumes "board_ok s" "Kind a = TurnKindPlayTile \<Longrightarrow> legal_tile (act_Tile a)"
  shows "board_ok (snd (dispatch_action a s))"
proof -
  have "board_ok (snd (DrawFromBoneyard p s)) = board_ok s"
    "board_ok (snd (PassTurn p s)) = board_ok s" for p
    by (rule board_ok_cong; simp add: session_simps)+
  with assms PlayTile_board_ok [OF assms(1), of "act_Tile a" "act_PlayerID a" "act_PlayAtLeft a"]
  show ?thesis by (simp add: snd_dispatch split: turn_kind.split)
qed

subsection \<open>ProcessGameTurn\<close>

text \<open>What a run of the pipeline can do: reject, or apply and then end or continue.\<close>

lemma dispatch_applied: "dispatch_action a s = (Inr (b, d), s1) \<Longrightarrow> b"
  by (auto simp: dispatch_action_def PlayTile_def Let_def
      split: turn_kind.splits prod.splits sum.splits option.splits if_splits)

lemma ProcessGameTurn_locked:
  "MutationsLocked s \<or> Status s = SessionStatusCompleted \<Longrightarrow>
     ProcessGameTurn a s = (Inl ErrMutationsLocked, s)"
  by (simp add: ProcessGameTurn_def)

lemma ProcessGameTurn_Inl:
  assumes "ProcessGameTurn a s = (Inl e, s')"
  shows "(s' = s \<and> e = ErrMutationsLocked) \<or> dispatch_action a s = (Inl e, s')"
  using assms by (auto simp: ProcessGameTurn_def Let_def split: if_splits prod.splits sum.splits option.splits)

lemma ProcessGameTurn_Inr:
  assumes "ProcessGameTurn a s = (Inr r, s')"
  obtains d s1 where "dispatch_action a s = (Inr (True, d), s1)" "Applied r" "NeedsPersist r"
    "DrawnTile r = d" "MatchEnded r = (Outcome r \<noteq> None)" "Outcome r = EvaluateMatch (activate s1)"
    "\<not> MutationsLocked s" "Status s \<noteq> SessionStatusCompleted"
    "s' = (if Outcome r \<noteq> None then lockForCompletion (activate s1)
           else if Kind a = TurnKindPlayTile then RotateTurn (activate s1) else activate s1)"
  using assms by (auto simp: ProcessGameTurn_def Let_def dest: dispatch_applied
      split: if_splits prod.splits sum.splits option.splits)

text \<open>
  The pipeline changes no tile beyond what the dispatched operation does, nor the seats.
\<close>

abbreviation turn_base :: "turn_action \<Rightarrow> game_session \<Rightarrow> game_session" where
  "turn_base a s \<equiv>
     (if MutationsLocked s \<or> Status s = SessionStatusCompleted then s else snd (dispatch_action a s))"

lemma ProcessGameTurn_core:
  "Hands (snd (ProcessGameTurn a s)) = Hands (turn_base a s)"
  "Boneyard (snd (ProcessGameTurn a s)) = Boneyard (turn_base a s)"
  "GameBoard (snd (ProcessGameTurn a s)) = GameBoard (turn_base a s)"
  "LeftOpenValue (snd (ProcessGameTurn a s)) = LeftOpenValue (turn_base a s)"
  "RightOpenValue (snd (ProcessGameTurn a s)) = RightOpenValue (turn_base a s)"
  by (simp_all add: ProcessGameTurn_def Let_def session_simps split: prod.split sum.split option.split)

lemma ProcessGameTurn_frame:
  "Players (snd (ProcessGameTurn a s)) = Players s"
  "SessionID (snd (ProcessGameTurn a s)) = SessionID s"
  using dispatch.keeps_frame(1,2) [of a s]
  by (auto simp: ProcessGameTurn_def Let_def session_simps split: prod.split sum.split option.split)

lemma ProcessGameTurn_tiles_by:
  "tiles_by f (snd (ProcessGameTurn a s)) = tiles_by f (turn_base a s)"
  by (rule tiles_by_cong) (rule ProcessGameTurn_core)+

lemma ProcessGameTurn_wf: "session_wf s \<Longrightarrow> session_wf (snd (ProcessGameTurn a s))"
  using dispatch.keeps_wf [of s a] dispatch.keeps_frame(1) [of a s]
  by (auto simp: session_wf_def ProcessGameTurn_core ProcessGameTurn_frame)

lemma ProcessGameTurn_board_ok:
  assumes "board_ok s" "Kind a = TurnKindPlayTile \<Longrightarrow> legal_tile (act_Tile a)"
  shows "board_ok (snd (ProcessGameTurn a s))"
proof -
  have "board_ok (snd (ProcessGameTurn a s)) = board_ok (turn_base a s)"
    by (rule board_ok_cong) (rule ProcessGameTurn_core)+
  with dispatch_board_ok [OF assms] assms(1) show ?thesis by simp
qed

lemma ProcessGameTurn_seated:
  assumes "session_wf s" "CurrentTurn s \<in> set (Players s)"
  shows "CurrentTurn (snd (ProcessGameTurn a s)) \<in> set (Players s)"
proof (cases "ProcessGameTurn a s")
  case (Pair r s')
  show ?thesis
  proof (cases r)
    case (Inl e)
    with ProcessGameTurn_Inl [of a s e s'] Pair assms dispatch.turn_stays_seated [of s a]
    show ?thesis by auto
  next
    case (Inr t)
    with Pair have run: "ProcessGameTurn a s = (Inr t, s')" by simp
    then obtain d s1 where d: "dispatch_action a s = (Inr (True, d), s1)"
      and s': "s' = (if Outcome t \<noteq> None then lockForCompletion (activate s1)
           else if Kind a = TurnKindPlayTile then RotateTurn (activate s1) else activate s1)"
      by (rule ProcessGameTurn_Inr)
    from d dispatch.turn_stays_seated [OF assms, of a] dispatch.keeps_wf [OF assms(1), of a]
      dispatch.keeps_frame(1) [of a s]
    have s1: "CurrentTurn s1 \<in> set (Players s)" "session_wf s1" "Players s1 = Players s" by simp_all
    then have "CurrentTurn (RotateTurn (activate s1)) \<in> set (Players s)"
      using RotateTurn_current [of "activate s1"]
      by (cases "Players s = []") (auto simp: session_wf_def session_simps)
    with s1 s' Pair show ?thesis by (auto simp: session_simps)
  qed
qed

end
