(* ===== verification/Manager.thy ===== *)
theory Manager
  imports Game_Engine Session_Laws
begin

section \<open>The game manager\<close>

text \<open>
  Models \<open>pkg/engine\<close>: \<open>game_manager.go\<close> (registry, recovery, lookup), \<open>lifecycle.go\<close>
  (turn pipeline with persistence and events), \<open>moves.go\<close>, \<open>abandonment.go\<close> and
  \<open>replicated.go\<close> (operations applied from the replicated log). The repository and the
  broker are interfaces in the source; here they are the record \<open>manager_env\<close> of
  functions over an environment state \<open>'w\<close>, any of which may fail.

  Each operation is the sequence of lock-protected sections of the source run without
  interruption; the wait group that lets concurrent hydrations share one read has no
  effect then and is left out. An entry's session is a pointer, so a mutation before an
  error return stays in the registry: the operations return the new manager on every
  branch.
\<close>

subsection \<open>Career records\<close>

text \<open>Ratings are finite floats, held as rationals; the operations here only copy and compare them.\<close>

record stats_update =
  su_SessionID :: string
  su_MatchID :: string
  su_PlayerID :: string
  su_ELO :: rat
  su_PeakELO :: rat
  su_MatchesPlayed :: int
  su_Wins :: int
  su_Losses :: int
  su_ELODelta :: rat
  su_Won :: bool

record player_career =
  pc_PlayerID :: string
  pc_ELO :: rat
  pc_PeakELO :: rat
  pc_MatchesPlayed :: int
  pc_Wins :: int
  pc_Losses :: int

subsection \<open>State and environment\<close>

record 'w manager_env =
  SaveSession :: "game_session \<Rightarrow> 'w \<Rightarrow> go_error option \<times> game_session \<times> 'w"
  RepoGetSession :: "string \<Rightarrow> 'w \<Rightarrow> game_session result \<times> 'w"
  ListActiveSessionIDs :: "'w \<Rightarrow> string list result \<times> 'w"
  UpdatePlayerCareers :: "player_career list \<Rightarrow> 'w \<Rightarrow> go_error option \<times> 'w"
  Publish :: "'w publisher"

record 'w manager =
  mgr_sessions :: "string \<rightharpoonup> game_session"
  recoveredIDs :: "string set"
  ledgerProfiles :: "string \<rightharpoonup> stats_update"
  gameEngineSet :: bool
  world :: 'w

definition NewGameManager :: "'w \<Rightarrow> 'w manager" where
  "NewGameManager w =
     \<lparr>mgr_sessions = Map.empty, recoveredIDs = {}, ledgerProfiles = Map.empty,
      gameEngineSet = False, world = w\<rparr>"

definition SetGameEngine :: "'w manager \<Rightarrow> 'w manager" where
  "SetGameEngine m = m\<lparr>gameEngineSet := True\<rparr>"

subsection \<open>Registry\<close>

text \<open>\<open>BootstrapActiveSessions\<close>: remember the active IDs that are not loaded.\<close>

definition BootstrapActiveSessions :: "'w manager_env \<Rightarrow> 'w manager \<Rightarrow> unit result \<times> 'w manager" where
  "BootstrapActiveSessions env m =
     (case ListActiveSessionIDs env (world m) of
        (Inl e, w) \<Rightarrow> (Inl (Wrapf ''list active session IDs: '' e), m\<lparr>world := w\<rparr>)
      | (Inr ids, w) \<Rightarrow>
          (Inr (), m\<lparr>world := w,
             recoveredIDs := foldl (\<lambda>r i. if mgr_sessions m i = None then insert i r else r)
                               (recoveredIDs m) ids\<rparr>))"

definition CreateSession ::
  "string \<Rightarrow> string list \<Rightarrow> 'w manager \<Rightarrow> game_session result \<times> 'w manager" where
  "CreateSession sid uids m =
     (if sid = [] then (Inl (Errorf ''cannot create a session with an empty session ID''), m)
      else if mgr_sessions m sid \<noteq> None then
        (Inl (Errorf (''session '' @ quote sid @ '' already exists'')), m)
      else
        let s = NewGameSession sid uids in
        (Inr s, m\<lparr>mgr_sessions := (mgr_sessions m)(sid \<mapsto> s), recoveredIDs := recoveredIDs m - {sid}\<rparr>))"

text \<open>\<open>AddSession\<close> and \<open>addSessionLocked\<close> have the same body.\<close>

definition AddSession :: "game_session option \<Rightarrow> 'w manager \<Rightarrow> unit result \<times> 'w manager" where
  "AddSession so m =
     (case so of
        None \<Rightarrow> (Inl (Errorf ''cannot add an invalid or empty session''), m)
      | Some s \<Rightarrow>
          if SessionID s = [] then (Inl (Errorf ''cannot add an invalid or empty session''), m)
          else (Inr (), m\<lparr>mgr_sessions := (mgr_sessions m)(SessionID s \<mapsto> s),
                          recoveredIDs := recoveredIDs m - {SessionID s}\<rparr>))"

definition EvictSession :: "string \<Rightarrow> 'w manager \<Rightarrow> 'w manager" where
  "EvictSession sid m = m\<lparr>mgr_sessions := (mgr_sessions m)(sid := None)\<rparr>"

definition hydrateRecoveredSession ::
  "'w manager_env \<Rightarrow> string \<Rightarrow> 'w manager \<Rightarrow> game_session result \<times> 'w manager" where
  "hydrateRecoveredSession env sid m =
     (case mgr_sessions m sid of
        Some s \<Rightarrow> (Inr s, m)
      | None \<Rightarrow>
          if sid \<notin> recoveredIDs m then
            (Inl (Errorf (''session '' @ quote sid @ '' is not eligible for recovery'')), m)
          else
            (case RepoGetSession env sid (world m) of
               (Inl e, w) \<Rightarrow> (Inl e, m\<lparr>world := w\<rparr>)
             | (Inr s, w) \<Rightarrow>
                 (case AddSession (Some s) (m\<lparr>world := w\<rparr>) of
                    (Inl e, m1) \<Rightarrow> (Inl e, m1)
                  | (Inr _, m1) \<Rightarrow> (Inr s, m1))))"

text \<open>\<open>GetSession\<close>: \<open>None\<close> is the source's \<open>(nil, false)\<close>.\<close>

definition GetSession ::
  "'w manager_env \<Rightarrow> string \<Rightarrow> 'w manager \<Rightarrow> game_session option \<times> 'w manager" where
  "GetSession env sid m =
     (case mgr_sessions m sid of
        Some s \<Rightarrow> (Some s, m)
      | None \<Rightarrow>
          if sid \<notin> recoveredIDs m then (None, m)
          else (case hydrateRecoveredSession env sid m of
                  (Inl e, m1) \<Rightarrow> (None, m1)
                | (Inr s, m1) \<Rightarrow> (Some s, m1)))"

definition err_not_found :: "string \<Rightarrow> go_error" where [go_msg]:
  "err_not_found sid = Errorf (''session '' @ quote sid @ '' not found'')"

text \<open>
  \<open>lookupSession\<close> returns the entry registered under the requested ID. A hydrated
  session is registered under its own \<open>SessionID\<close>, so the second lookup can miss.
\<close>

definition lookupSession ::
  "'w manager_env \<Rightarrow> string \<Rightarrow> 'w manager \<Rightarrow> game_session result \<times> 'w manager" where
  "lookupSession env sid m =
     (case mgr_sessions m sid of
        Some s \<Rightarrow> (Inr s, m)
      | None \<Rightarrow>
          if sid \<in> recoveredIDs m then
            (case hydrateRecoveredSession env sid m of
               (Inl e, m1) \<Rightarrow> (Inl e, m1)
             | (Inr _, m1) \<Rightarrow>
                 (case mgr_sessions m1 sid of
                    Some s \<Rightarrow> (Inr s, m1)
                  | None \<Rightarrow> (Inl (err_not_found sid), m1)))
          else (Inl (err_not_found sid), m))"

text \<open>Writing through the entry's session pointer.\<close>

definition set_session :: "string \<Rightarrow> game_session \<Rightarrow> 'w manager \<Rightarrow> 'w manager" where
  "set_session sid s m = m\<lparr>mgr_sessions := (mgr_sessions m)(sid \<mapsto> s)\<rparr>"

definition persistState ::
  "'w manager_env \<Rightarrow> string \<Rightarrow> game_session \<Rightarrow> 'w manager \<Rightarrow> go_error option \<times> game_session \<times> 'w manager" where
  "persistState env sid s m =
     (case SaveSession env s (world m) of
        (eo, s1, w) \<Rightarrow> (eo, s1, set_session sid s1 (m\<lparr>world := w\<rparr>)))"

text \<open>\<open>withSessionWrite\<close>: run \<open>fn\<close> on the session, then persist.\<close>

definition withSessionWrite ::
  "'w manager_env \<Rightarrow> string \<Rightarrow> (game_session \<Rightarrow> unit result \<times> game_session) \<Rightarrow> 'w manager
     \<Rightarrow> unit result \<times> 'w manager" where
  "withSessionWrite env sid fn m =
     (case lookupSession env sid m of
        (Inl e, m1) \<Rightarrow> (Inl e, m1)
      | (Inr s, m1) \<Rightarrow>
          (case fn s of
             (Inl e, s1) \<Rightarrow> (Inl e, set_session sid s1 m1)
           | (Inr _, s1) \<Rightarrow>
               (case persistState env sid s1 (set_session sid s1 m1) of
                  (Some e, _, m2) \<Rightarrow> (Inl e, m2)
                | (None, _, m2) \<Rightarrow> (Inr (), m2))))"

subsection \<open>The turn pipeline\<close>

definition shouldPersistSession :: "game_session \<Rightarrow> turn_result option \<Rightarrow> bool" where
  "shouldPersistSession s ro =
     (case ro of
        None \<Rightarrow> False
      | Some r \<Rightarrow>
          if \<not> NeedsPersist r then False
          else if Status s = SessionStatusCompleted then True
          else if Status s = SessionStatusActive then True
          else Status s = SessionStatusWaiting)"

definition finalizeMatchLocked ::
  "'w manager_env \<Rightarrow> string \<Rightarrow> game_session \<Rightarrow> match_outcome option \<Rightarrow> 'w manager
     \<Rightarrow> go_error option \<times> game_session \<times> 'w manager" where
  "finalizeMatchLocked env sid s oc m =
     (case oc of
        None \<Rightarrow> (Some (Errorf (''cannot finalize session '' @ quote sid @ '' without a match outcome'')), s, m)
      | Some _ \<Rightarrow>
          let s1 = (if \<not> MutationsLocked s
                    then s\<lparr>MutationsLocked := True, Status := SessionStatusCompleted\<rparr> else s) in
          (case persistState env sid s1 (set_session sid s1 m) of
             (Some e, s2, m2) \<Rightarrow> (Some (Wrapf (''persist completed session '' @ quote sid @ '': '') e), s2, m2)
           | (None, s2, m2) \<Rightarrow> (None, s2, m2)))"

text \<open>Publishing errors are only logged.\<close>

definition publishTurnEvents ::
  "'w manager_env \<Rightarrow> game_session \<Rightarrow> turn_result option \<Rightarrow> 'w manager \<Rightarrow> 'w manager" where
  "publishTurnEvents env s ro m =
     (if \<not> gameEngineSet m then m
      else m\<lparr>world := snd (Tick (Publish env) s ro (world m))\<rparr>)"

definition processGameTurn ::
  "'w manager_env \<Rightarrow> string \<Rightarrow> turn_action \<Rightarrow> 'w manager \<Rightarrow> turn_result result \<times> 'w manager" where
  "processGameTurn env sid action m =
     (case lookupSession env sid m of
        (Inl e, m1) \<Rightarrow> (Inl e, m1)
      | (Inr s, m1) \<Rightarrow>
          (case ProcessGameTurn action s of
             (Inl e, s1) \<Rightarrow> (Inl e, set_session sid s1 m1)
           | (Inr r, s1) \<Rightarrow>
               let m2 = set_session sid s1 m1 in
               (case (if shouldPersistSession s1 (Some r) then persistState env sid s1 m2
                      else (None, s1, m2)) of
                  (Some e, _, m3) \<Rightarrow> (Inl e, m3)
                | (None, s3, m3) \<Rightarrow>
                    (case (if MatchEnded r then finalizeMatchLocked env sid s3 (Outcome r) m3
                           else (None, s3, m3)) of
                       (Some e, _, m4) \<Rightarrow> (Inl e, m4)
                     | (None, s4, m4) \<Rightarrow> (Inr r, publishTurnEvents env s4 (Some r) m4)))))"

definition evaluateAndMaybeFinalize ::
  "'w manager_env \<Rightarrow> string \<Rightarrow> 'w manager \<Rightarrow> unit result \<times> 'w manager" where
  "evaluateAndMaybeFinalize env sid m =
     (case lookupSession env sid m of
        (Inl e, m1) \<Rightarrow> (Inl e, m1)
      | (Inr s, m1) \<Rightarrow>
          if MutationsLocked s then (Inr (), m1)
          else case EvaluateMatch s of
            None \<Rightarrow> (Inr (), m1)
          | Some oc \<Rightarrow>
              (case finalizeMatchLocked env sid s (Some oc) m1 of
                 (Some e, _, m2) \<Rightarrow> (Inl e, m2)
               | (None, s2, m2) \<Rightarrow>
                   (Inr (), publishTurnEvents env s2
                      (Some \<lparr>Applied = False, DrawnTile = None, MatchEnded = True,
                             Outcome = Some oc, NeedsPersist = False\<rparr>) m2)))"

subsection \<open>Moves\<close>

definition ApplyPlayTile ::
  "'w manager_env \<Rightarrow> string \<Rightarrow> string \<Rightarrow> domino_tile \<Rightarrow> bool \<Rightarrow> 'w manager \<Rightarrow> bool result \<times> 'w manager" where
  "ApplyPlayTile env sid pid t playAtLeft m =
     (case processGameTurn env sid \<lparr>Kind = TurnKindPlayTile, act_PlayerID = pid, act_Tile = t,
                                    act_PlayAtLeft = playAtLeft\<rparr> m of
        (Inl e, m1) \<Rightarrow> (Inl e, m1)
      | (Inr r, m1) \<Rightarrow> (Inr (Applied r), m1))"

definition ApplyDrawFromBoneyard ::
  "'w manager_env \<Rightarrow> string \<Rightarrow> string \<Rightarrow> 'w manager \<Rightarrow> domino_tile option result \<times> 'w manager" where
  "ApplyDrawFromBoneyard env sid pid m =
     (case processGameTurn env sid \<lparr>Kind = TurnKindDraw, act_PlayerID = pid, act_Tile = zero_tile,
                                    act_PlayAtLeft = False\<rparr> m of
        (Inl e, m1) \<Rightarrow> (Inl e, m1)
      | (Inr r, m1) \<Rightarrow> (Inr (DrawnTile r), m1))"

definition ApplyPassTurn ::
  "'w manager_env \<Rightarrow> string \<Rightarrow> string \<Rightarrow> 'w manager \<Rightarrow> unit result \<times> 'w manager" where
  "ApplyPassTurn env sid pid m =
     (case processGameTurn env sid \<lparr>Kind = TurnKindPass, act_PlayerID = pid, act_Tile = zero_tile,
                                    act_PlayAtLeft = False\<rparr> m of
        (Inl e, m1) \<Rightarrow> (Inl e, m1)
      | (Inr _, m1) \<Rightarrow> (Inr (), m1))"

subsection \<open>Abandonment\<close>

text \<open>The closure of \<open>HandlePlayerAbandoned\<close>: mark the hand, and give up the turn.\<close>

definition abandon_player :: "string \<Rightarrow> string \<Rightarrow> game_session \<Rightarrow> unit result \<times> game_session" where
  "abandon_player sid pid s =
     (case hand_index pid (Hands s) of
        None \<Rightarrow> (Inl (Errorf (''player '' @ quote pid @ '' not found in session '' @ quote sid)), s)
      | Some i \<Rightarrow>
          let s1 = s\<lparr>Hands := (Hands s)[i := (Hands s ! i)\<lparr>IsAbandoned := True\<rparr>]\<rparr> in
          if CurrentTurn s1 = pid then
            (case PassTurn pid s1 of
               (Inl _, s2) \<Rightarrow> (Inr (), RotateTurn s2)
             | (Inr _, s2) \<Rightarrow> (Inr (), s2))
          else (Inr (), s1))"

definition HandlePlayerAbandoned ::
  "'w manager_env \<Rightarrow> string \<Rightarrow> string \<Rightarrow> 'w manager \<Rightarrow> unit result \<times> 'w manager" where
  "HandlePlayerAbandoned env sid pid m =
     (case withSessionWrite env sid (abandon_player sid pid) m of
        (Inl e, m1) \<Rightarrow> (Inl e, m1)
      | (Inr _, m1) \<Rightarrow> evaluateAndMaybeFinalize env sid m1)"

subsection \<open>Operations applied from the replicated log\<close>

record match_setup =
  PlayerUIDs :: "string list"
  SetupGame :: bool
  TilesPerHand :: int

text \<open>
  \<open>setup_session\<close> is the part of \<open>ApplyReplicatedStartMatch\<close> between the lock and
  the save: it fills an empty roster and, for a setup, deals a fresh game. A deal that
  fails returns after the reset, the new deck and the shuffle.
\<close>

definition fill_roster :: "match_setup \<Rightarrow> game_session \<Rightarrow> game_session" where
  "fill_roster su s =
     (let s1 = (if Players s = [] then s\<lparr>Players := PlayerUIDs su\<rparr> else s) in
      if Hands s1 = [] then s1\<lparr>Hands := map NewPlayerHand (PlayerUIDs su)\<rparr> else s1)"

definition shuffled_deck :: "rng \<Rightarrow> string \<Rightarrow> game_session \<Rightarrow> game_session" where
  "shuffled_deck intn sid s =
     ShuffleBoneyardDeterministic intn (DeterministicSeed sid) (GenerateStandardDeck (ResetForSetup s))"

definition setup_session ::
  "rng \<Rightarrow> string \<Rightarrow> match_setup \<Rightarrow> game_session \<Rightarrow> unit result \<times> game_session" where
  "setup_session intn sid su s =
     (let n = (if TilesPerHand su \<le> 0 then 7 else TilesPerHand su);
          s1 = fill_roster su s in
      if SetupGame su then
        (case DealHands n (shuffled_deck intn sid s1) of
           (Inl e, s2) \<Rightarrow>
             (Inl (if is_panic e then e else Wrapf (''deal hands for session '' @ quote sid @ '': '') e), s2)
         | (Inr _, s2) \<Rightarrow>
             let s3 = s2\<lparr>Status := SessionStatusActive\<rparr> in
             (Inr (), if CurrentTurn s3 = [] \<and> Players s3 \<noteq> []
                      then s3\<lparr>CurrentTurn := hd (Players s3)\<rparr> else s3))
      else (Inr (), if Status s1 = StatusOther [] then s1\<lparr>Status := SessionStatusWaiting\<rparr> else s1))"

definition ApplyReplicatedStartMatch ::
  "'w manager_env \<Rightarrow> rng \<Rightarrow> string \<Rightarrow> match_setup \<Rightarrow> 'w manager \<Rightarrow> game_session result \<times> 'w manager" where
  "ApplyReplicatedStartMatch env intn sid su m =
     (if sid = [] then (Inl (Errorf ''session id is required''), m)
      else if PlayerUIDs su = [] then
        (Inl (Errorf (''at least one player is required for session '' @ quote sid)), m)
      else
        case (case lookupSession env sid m of
                (Inr s, m1) \<Rightarrow> (Inr s, m1)
              | (Inl _, m1) \<Rightarrow>
                  (case CreateSession sid (PlayerUIDs su) m1 of
                     (Inl e, m2) \<Rightarrow> (Inl e, m2)
                   | (Inr _, m2) \<Rightarrow> lookupSession env sid m2)) of
          (Inl e, m3) \<Rightarrow> (Inl e, m3)
        | (Inr s, m3) \<Rightarrow>
            (case setup_session intn sid su s of
               (Inl e, s1) \<Rightarrow> (Inl e, set_session sid s1 m3)
             | (Inr _, s1) \<Rightarrow>
                 (case persistState env sid s1 (set_session sid s1 m3) of
                    (Some e, _, m4) \<Rightarrow> (Inl e, m4)
                  | (None, s2, m4) \<Rightarrow> (Inr s2, m4))))"

definition ApplyReplicatedTurn ::
  "'w manager_env \<Rightarrow> string \<Rightarrow> turn_action \<Rightarrow> 'w manager \<Rightarrow> turn_result result \<times> 'w manager" where
  "ApplyReplicatedTurn env sid action m = processGameTurn env sid action m"

definition ApplyReplicatedLedgerBalance ::
  "'w manager_env \<Rightarrow> stats_update \<Rightarrow> 'w manager \<Rightarrow> stats_update result \<times> 'w manager" where
  "ApplyReplicatedLedgerBalance env u m =
     (if su_PlayerID u = [] then (Inl (Errorf ''player_id is required''), m)
      else
        let c = \<lparr>pc_PlayerID = su_PlayerID u, pc_ELO = su_ELO u,
                 pc_PeakELO = (if su_PeakELO u \<le> 0 then su_ELO u else su_PeakELO u),
                 pc_MatchesPlayed = su_MatchesPlayed u, pc_Wins = su_Wins u, pc_Losses = su_Losses u\<rparr> in
        case UpdatePlayerCareers env [c] (world m) of
          (Some e, w) \<Rightarrow>
            (Inl (Wrapf (''update player career for '' @ quote (su_PlayerID u) @ '': '') e), m\<lparr>world := w\<rparr>)
        | (None, w) \<Rightarrow>
            (Inr u, m\<lparr>world := w, ledgerProfiles := (ledgerProfiles m)(su_PlayerID u \<mapsto> u)\<rparr>))"

subsection \<open>Snapshots\<close>

text \<open>
  The copy \<open>SnapshotSessions\<close> makes of each session is one level deep; as a value it
  is the registry at the time of the call. A \<open>nil\<close> session in a snapshot is
  \<open>None\<close>.
\<close>

definition SnapshotSessions :: "'w manager \<Rightarrow> (string \<rightharpoonup> game_session)" where
  "SnapshotSessions m = mgr_sessions m"

definition RestoreSessions :: "(string \<rightharpoonup> game_session option) \<Rightarrow> 'w manager \<Rightarrow> 'w manager" where
  "RestoreSessions ss m =
     m\<lparr>mgr_sessions := (\<lambda>i. if i = [] then None else (case ss i of None \<Rightarrow> None | Some so \<Rightarrow> so)),
       recoveredIDs := {}\<rparr>"

definition LedgerProfiles :: "'w manager \<Rightarrow> (string \<rightharpoonup> stats_update)" where
  "LedgerProfiles m = ledgerProfiles m"

definition RestoreLedgerProfiles :: "(string \<rightharpoonup> stats_update) \<Rightarrow> 'w manager \<Rightarrow> 'w manager" where
  "RestoreLedgerProfiles ps m = m\<lparr>ledgerProfiles := ps\<rparr>"

end
