(* ===== verification/Repository.thy ===== *)
theory Repository
  imports Manager
begin

section \<open>The session repository\<close>

text \<open>
  Models \<open>SaveSession\<close>, \<open>GetSession\<close> and \<open>ListActiveSessionIDs\<close> of \<open>pkg/repository/game_respository.go\<close>
  (sic), and states as the locale \<open>session_store\<close> what the game manager relies on: a
  save changes nothing of a session but its database UID and its raw blobs, whether it
  succeeds or not. The Dgraph client is an argument.
\<close>

subsection \<open>Dgraph-backed operations\<close>

text \<open>
  \<open>mutate s w\<close> is the transaction: it gets the session as marshalled and returns the
  assigned UIDs (\<open>assigned.Uids\<close> in the order Go's \<open>range\<close> visits the map).
\<close>

type_synonym 'w dgraph_mutate = "game_session \<Rightarrow> 'w \<Rightarrow> (string \<times> string) list result \<times> 'w"

definition SaveSession_dgraph ::
  "'w dgraph_mutate \<Rightarrow> game_session option \<Rightarrow> 'w \<Rightarrow> go_error option \<times> game_session option \<times> 'w" where
  "SaveSession_dgraph mutate so w =
     (case so of
        None \<Rightarrow> (Some (Errorf ''cannot save a nil game session''), None, w)
      | Some s \<Rightarrow>
          let s1 = FlushPlayState s in
          (case mutate s1 w of
             (Inl e, w1) \<Rightarrow> (Some (Wrapf ''failed to execute Dgraph mutation: '' e), Some s1, w1)
           | (Inr uids, w1) \<Rightarrow>
               (None,
                Some (if sess_UID s1 = [] then
                        (case map_of uids ''blank-0'' of
                           Some u \<Rightarrow> s1\<lparr>sess_UID := u\<rparr>
                         | None \<Rightarrow> (case uids of [] \<Rightarrow> s1 | (_, u) # _ \<Rightarrow> s1\<lparr>sess_UID := u\<rparr>))
                      else s1),
                w1)))"

text \<open>
  \<open>query sid w\<close> returns the \<open>session\<close> array of the response, already decoded into
  sessions, with the error of the query or of its JSON.
\<close>

datatype query_error = QueryFailed go_error | ParseFailed go_error

definition GetSession_dgraph ::
  "(string \<Rightarrow> 'w \<Rightarrow> (query_error + game_session list) \<times> 'w) \<Rightarrow> string \<Rightarrow> 'w \<Rightarrow> game_session result \<times> 'w" where
  "GetSession_dgraph query sid w =
     (if sid = [] then (Inl (Errorf ''session ID cannot be empty''), w)
      else case query sid w of
        (Inl (QueryFailed e), w1) \<Rightarrow>
          (Inl (Wrapf (''failed to query Dgraph for session '' @ quote sid @ '': '') e), w1)
      | (Inl (ParseFailed e), w1) \<Rightarrow>
          (Inl (Wrapf (''failed to parse Dgraph response for session '' @ quote sid @ '': '') e), w1)
      | (Inr [], w1) \<Rightarrow> (Inl (Errorf (''game session not found: session_id='' @ quote sid)), w1)
      | (Inr (s # _), w1) \<Rightarrow>
          (case HydratePlayState s of
             (Inl e, _) \<Rightarrow>
               (Inl (Wrapf (''failed to hydrate play state for session '' @ quote sid @ '': '') e), w1)
           | (Inr _, s1) \<Rightarrow> (Inr s1, w1)))"

text \<open>\<open>query w\<close> returns the session IDs of the rows, an absent one as the empty string.\<close>

definition ListActiveSessionIDs_dgraph ::
  "('w \<Rightarrow> (query_error + string list) \<times> 'w) \<Rightarrow> 'w \<Rightarrow> string list result \<times> 'w" where
  "ListActiveSessionIDs_dgraph query w =
     (case query w of
        (Inl (QueryFailed e), w1) \<Rightarrow> (Inl (Wrapf ''failed to query active session IDs: '' e), w1)
      | (Inl (ParseFailed e), w1) \<Rightarrow> (Inl (Wrapf ''failed to parse active session ID response: '' e), w1)
      | (Inr ids, w1) \<Rightarrow> (Inr (filter (\<lambda>sid. sid \<noteq> []) ids), w1))"

subsection \<open>The contract\<close>

text \<open>The game part of a session: everything but the persistence fields.\<close>

definition core :: "game_session \<Rightarrow> game_session" where
  "core s = s\<lparr>sess_UID := [], BoneyardRaw := None, GameBoardRaw := None\<rparr>"

lemma core_fields [simp]:
  "SessionID (core s) = SessionID s" "Status (core s) = Status s" "Players (core s) = Players s"
  "Hands (core s) = Hands s" "Boneyard (core s) = Boneyard s" "GameBoard (core s) = GameBoard s"
  "LeftOpenValue (core s) = LeftOpenValue s" "RightOpenValue (core s) = RightOpenValue s"
  "CurrentTurn (core s) = CurrentTurn s" "MutationsLocked (core s) = MutationsLocked s"
  "BoneyardCount (core s) = BoneyardCount s"
  by (simp_all add: core_def)

lemma core_eq_iff:
  "core s = core t \<longleftrightarrow>
     SessionID s = SessionID t \<and> Status s = Status t \<and> Players s = Players t \<and> Hands s = Hands t
     \<and> Boneyard s = Boneyard t \<and> BoneyardCount s = BoneyardCount t \<and> GameBoard s = GameBoard t
     \<and> LeftOpenValue s = LeftOpenValue t \<and> RightOpenValue s = RightOpenValue t
     \<and> CurrentTurn s = CurrentTurn t \<and> MutationsLocked s = MutationsLocked t"
  by (cases s; cases t) (auto simp: core_def)

locale session_store =
  fixes save :: "game_session \<Rightarrow> 'w \<Rightarrow> go_error option \<times> game_session \<times> 'w"
  assumes save_core: "save s w = (eo, s', w') \<Longrightarrow> core s' = core s"
begin

lemma save_core_snd: "core (fst (snd (save s w))) = core s"
  using save_core [of s w] by (cases "save s w") auto

lemma save_keeps_play:
  assumes "save s w = (eo, s', w')"
  shows "Hands s' = Hands s" "Boneyard s' = Boneyard s" "GameBoard s' = GameBoard s"
    "CurrentTurn s' = CurrentTurn s" "MutationsLocked s' = MutationsLocked s" "Status s' = Status s"
  using save_core [OF assms] by (simp_all add: core_eq_iff)

end

text \<open>The operation as the manager calls it, on a session that is not nil.\<close>

definition dgraph_save ::
  "'w dgraph_mutate \<Rightarrow> game_session \<Rightarrow> 'w \<Rightarrow> go_error option \<times> game_session \<times> 'w" where
  "dgraph_save mutate s w =
     (case SaveSession_dgraph mutate (Some s) w of
        (eo, Some s1, w1) \<Rightarrow> (eo, s1, w1)
      | (eo, None, w1) \<Rightarrow> (eo, s, w1))"

interpretation dgraph: session_store "dgraph_save mutate" for mutate
  by unfold_locales
     (auto simp: dgraph_save_def SaveSession_dgraph_def FlushPlayState_def core_def Let_def
           split: prod.splits sum.splits option.splits list.splits if_splits)

end
