(* ===== verification/Deal.thy ===== *)
theory Deal
  imports Session_Laws
begin

section \<open>Shuffling, dealing and the play-state blobs\<close>

text \<open>
  What a deal does: both shuffles permute the boneyard whatever the random source returns
  within its documented range, every permutation is the result of some choices, and
  \<open>DealHands\<close> cuts the boneyard into hands of the requested size and a rest. Also the
  round trip of the persistence blobs.
\<close>

subsection \<open>Swaps and shuffles\<close>

lemma length_swap_at [simp]: "length (swap_at i j xs) = length xs"
  by (simp add: swap_at_def)

lemma mset_swap_at: "i < length xs \<Longrightarrow> j < length xs \<Longrightarrow> mset (swap_at i j xs) = mset xs"
  unfolding swap_at_def by (rule mset_swap)

lemma nth_swap_at:
  "i < length xs \<Longrightarrow> j < length xs \<Longrightarrow>
     swap_at i j xs ! k = (if k = j then xs ! i else if k = i then xs ! j else xs ! k)"
  by (auto simp: swap_at_def nth_list_update)

text \<open>\<open>rng.Intn(m)\<close> returns a value in \<open>[0, m)\<close> for a positive \<open>m\<close>.\<close>

definition intn_in_range :: "(nat \<Rightarrow> nat \<Rightarrow> nat) \<Rightarrow> bool" where
  "intn_in_range next = (\<forall>k m. 0 < m \<longrightarrow> next k m < m)"

lemma det_shuffle_loop_mset:
  "intn_in_range next \<Longrightarrow> i \<le> length xs - 1 \<Longrightarrow> mset (det_shuffle_loop next k i xs) = mset xs"
proof (induction i arbitrary: k xs)
  case 0
  then show ?case by simp
next
  case (Suc i)
  from Suc.prems(2) have len: "Suc (Suc i) \<le> length xs" by simp
  moreover have "next k (Suc (Suc i)) < Suc (Suc i)"
    using Suc.prems(1) unfolding intn_in_range_def by blast
  ultimately have "next k (Suc (Suc i)) < length xs" "Suc i < length xs" by linarith+
  with Suc.IH [of "swap_at (Suc i) (next k (Suc (Suc i))) xs" "Suc k"] Suc.prems show ?case
    by (simp add: mset_swap_at)
qed

lemma crypto_shuffle_loop_mset:
  "\<forall>i j. rnd i = Some j \<longrightarrow> j \<le> i \<Longrightarrow> i \<le> length xs - 1 \<Longrightarrow>
     mset (snd (crypto_shuffle_loop rnd i xs)) = mset xs"
proof (induction i arbitrary: xs)
  case 0
  then show ?case by simp
next
  case (Suc i)
  show ?case
  proof (cases "rnd (Suc i)")
    case None
    then show ?thesis by simp
  next
    case (Some j)
    with Suc.prems(1) have "j \<le> Suc i" by blast
    moreover have "Suc i < length xs" using Suc.prems(2) by simp
    ultimately have "j < length xs" "Suc i < length xs" by simp_all
    with Some Suc.IH [of "swap_at (Suc i) j xs"] Suc.prems show ?thesis
      by (simp add: mset_swap_at)
  qed
qed

text \<open>
  The deterministic shuffle can produce every order: the choices are built from the last
  position down, each picking where the wanted tile lies now.
\<close>

lemma take_Suc_mset:
  "i < length xs \<Longrightarrow> mset (take (Suc i) xs) = add_mset (xs ! i) (mset (take i xs))"
  by (simp add: take_Suc_conv_app_nth)

lemma swap_prefix_mset:
  assumes "j \<le> i" "i < length xs"
  shows "add_mset (xs ! j) (mset (take i (swap_at i j xs))) = mset (take (Suc i) xs)"
proof -
  have "take (Suc i) (swap_at i j xs) = swap_at i j (take (Suc i) xs)"
    using assms by (simp add: swap_at_def take_update_swap less_Suc_eq_le)
  moreover have "mset (swap_at i j (take (Suc i) xs)) = mset (take (Suc i) xs)"
    using assms by (intro mset_swap_at) auto
  ultimately show ?thesis
    using assms take_Suc_mset [of i "swap_at i j xs"] by (simp add: nth_swap_at split: if_splits)
qed

lemma det_shuffle_complete:
  assumes "i < length xs" "length ys = length xs" "mset (take (Suc i) xs) = mset (take (Suc i) ys)"
    "drop (Suc i) xs = drop (Suc i) ys"
  shows "\<exists>next. intn_in_range next \<and> det_shuffle_loop next k i xs = ys"
  using assms
proof (induction i arbitrary: xs k)
  case 0
  from 0(1) obtain x xs' where xs: "xs = x # xs'" by (cases xs) auto
  from 0(2) xs obtain y ys' where ys: "ys = y # ys'" by (cases ys) auto
  from 0(3,4) xs ys have "xs = ys" by simp
  then show ?case by (intro exI [of _ "\<lambda>_ _. 0"]) (simp add: intn_in_range_def)
next
  case (Suc i)
  have "ys ! Suc i \<in># mset (take (Suc (Suc i)) xs)"
    using Suc.prems by (simp add: take_Suc_mset)
  then obtain j where j: "j \<le> Suc i" "xs ! j = ys ! Suc i"
    using Suc.prems(1) by (auto simp: in_set_conv_nth less_Suc_eq_le)
  let ?zs = "swap_at (Suc i) j xs"
  have "mset (take (Suc i) ?zs) = mset (take (Suc i) ys)"
    using swap_prefix_mset [OF j(1) Suc.prems(1)] Suc.prems j(2) take_Suc_mset [of "Suc i" ys] by simp
  moreover have "drop (Suc i) ?zs = drop (Suc i) ys"
  proof -
    have "drop (Suc (Suc i)) ?zs = drop (Suc (Suc i)) ys"
      using Suc.prems(4) j by (simp add: swap_at_def)
    moreover have "?zs ! Suc i = ys ! Suc i" using j Suc.prems(1) by (simp add: nth_swap_at)
    ultimately show ?thesis
      using Suc.prems(1,2) by (metis Cons_nth_drop_Suc length_swap_at)
  qed
  ultimately obtain nx where nx: "intn_in_range nx" "det_shuffle_loop nx (Suc k) i ?zs = ys"
    using Suc.IH [of ?zs "Suc k"] Suc.prems by auto
  define nx' where "nx' = (\<lambda>l m. if l = k then min j (m - 1) else nx l m)"
  have later: "det_shuffle_loop nx' l i zs = det_shuffle_loop nx l i zs"
    if "k < l" for l i and zs :: "'a list"
    using that by (induction i arbitrary: l zs) (simp_all add: nx'_def)
  have "nx' k (Suc (Suc i)) = j" using j(1) by (simp add: nx'_def)
  with nx have "det_shuffle_loop nx' k (Suc i) xs = ys" by (simp add: later)
  moreover have "intn_in_range nx'" using nx(1) by (auto simp: nx'_def intn_in_range_def)
  ultimately show ?case by blast
qed

subsection \<open>Dealing\<close>

lemma deal_loop_ok:
  "length hs * n \<le> length b \<Longrightarrow>
     deal_loop (int n) hs b =
       (Inr (), map (\<lambda>i. (hs ! i)\<lparr>Tiles := take n (drop (i * n) b)\<rparr>) [0..<length hs],
        drop (length hs * n) b)"
proof (induction hs arbitrary: b)
  case Nil
  then show ?case by simp
next
  case (Cons h hs)
  have "length hs * n \<le> length (drop n b)" "n \<le> length b" using Cons.prems by simp_all
  with Cons.IH [of "drop n b"] show ?case
    by (simp add: Let_def map_upt_Suc add.commute del: upt_Suc)
qed

lemma sum_mset_chunks:
  "k * n \<le> length b \<Longrightarrow>
     (\<Sum>i \<leftarrow> [0..<k]. mset (map f (take n (drop (i * n) b)))) + mset (map f (drop (k * n) b)) = mset (map f b)"
proof (induction k)
  case 0
  then show ?case by simp
next
  case (Suc k)
  have "mset (map f (take n (drop (k * n) b))) + mset (map f (drop (Suc k * n) b))
      = mset (map f (drop (k * n) b))"
    by (metis add.commute append_take_drop_id drop_drop map_append mset_append mult_Suc)
  moreover have "(\<Sum>i \<leftarrow> [0..<k]. mset (map f (take n (drop (i * n) b)))) + mset (map f (drop (k * n) b))
      = mset (map f b)"
    using Suc by simp
  ultimately show ?case by (simp add: add.assoc del: mult_Suc)
qed

text \<open>
  Under the guard's own condition, with no overflow, a deal never fails: each hand gets
  its slice of the boneyard, the rest stays, and no tile changes place otherwise.
\<close>

lemma DealHands_ok:
  assumes wf: "session_wf s" and enough: "length (Players s) * n \<le> length (Boneyard s)"
    and small: "length (Players s) * n < 2 ^ 63"
    and empty: "\<forall>h \<in> set (Hands s). Tiles h = []"
  shows "fst (DealHands (int n) s) = Inr ()"
    "Hands (snd (DealHands (int n) s)) =
       map (\<lambda>i. (Hands s ! i)\<lparr>Tiles := take n (drop (i * n) (Boneyard s))\<rparr>) [0..<length (Hands s)]"
    "Boneyard (snd (DealHands (int n) s)) = drop (length (Hands s) * n) (Boneyard s)"
    "tiles_by f (snd (DealHands (int n) s)) = tiles_by f s"
    "Players (snd (DealHands (int n) s)) = Players s"
proof -
  have len: "length (Hands s) = length (Players s)"
    using wf by (metis length_map session_wf_def)
  have "wrap64 (int (length (Players s)) * int n) = int (length (Players s) * n)"
    using small by (subst wrap64_id) (simp_all flip: of_nat_mult)
  then have guard: "\<not> int (length (Boneyard s)) < wrap64 (int (length (Players s)) * int n)"
    using enough by (simp flip: of_nat_mult)
  note run = deal_loop_ok [of "Hands s" n "Boneyard s"]
  have deal: "DealHands (int n) s = (Inr (), s\<lparr>Hands := map (\<lambda>i. (Hands s ! i)\<lparr>Tiles := take n (drop (i * n) (Boneyard s))\<rparr>)
      [0..<length (Hands s)], Boneyard := drop (length (Hands s) * n) (Boneyard s)\<rparr>)"
    using guard run enough len by (simp add: DealHands_def)
  then show "fst (DealHands (int n) s) = Inr ()"
    "Hands (snd (DealHands (int n) s)) =
       map (\<lambda>i. (Hands s ! i)\<lparr>Tiles := take n (drop (i * n) (Boneyard s))\<rparr>) [0..<length (Hands s)]"
    "Boneyard (snd (DealHands (int n) s)) = drop (length (Hands s) * n) (Boneyard s)"
    "Players (snd (DealHands (int n) s)) = Players s"
    by simp_all
  have "(\<Sum>h \<leftarrow> Hands s. mset (map f (Tiles h))) = {#}"
  proof -
    have "map (\<lambda>h. mset (map f (Tiles h))) (Hands s) = map (\<lambda>_. {#}) (Hands s)"
      using empty by simp
    then show ?thesis by (simp only: sum_list_0)
  qed
  then show "tiles_by f (snd (DealHands (int n) s)) = tiles_by f s"
    using sum_mset_chunks [of "length (Hands s)" n "Boneyard s" f] enough len
    by (simp add: deal tiles_by_def o_def ac_simps)
qed

subsection \<open>Persistence blobs\<close>

text \<open>A tile survives a JSON round trip when its values are 64-bit integers.\<close>

definition tile_int64 :: "domino_tile \<Rightarrow> bool" where
  "tile_int64 t = (in_int64 (ValueLeft t) \<and> in_int64 (ValueRight t))"

lemma tile_keys_distinct:
  "\<not> key_is ''uid'' ''tile_id''" "\<not> key_is ''uid'' ''value_left''" "\<not> key_is ''uid'' ''value_right''"
  "\<not> key_is ''tile_id'' ''value_left''" "\<not> key_is ''tile_id'' ''value_right''"
  "\<not> key_is ''value_left'' ''value_right''"
  by (simp_all add: key_is_def)

lemma un_tile_tile_json: "tile_int64 t \<Longrightarrow> un_tile (tile_json t) zero_tile = Some t"
  by (simp add: un_tile_def tile_json_def un_struct_def omitempty_def tile_field_def
      tile_keys_distinct un_string_def un_int_def zero_tile_def tile_int64_def)

lemma un_list_tiles:
  "\<forall>t \<in> set ts. tile_int64 t \<Longrightarrow> un_list un_tile zero_tile (JArr (map tile_json ts)) [] = Some ts"
  by (simp add: un_list_def un_elems_map un_tile_tile_json)

lemma deck_int64: "t \<in> set StandardDoubleSixDeck \<Longrightarrow> tile_int64 t"
  by (auto simp: set_deck tile_int64_def in_int64_def)

end
