(* ===== verification/Session_Props.thy ===== *)
theory Session_Props
  imports Deal
begin

section \<open>Properties of a game session\<close>

text \<open>
  The theorems about \<open>pkg/models\<close>: what a turn accepts and changes, what whole runs of
  turns preserve, who wins, and the persistence blobs. Each theorem with a hypothesis is
  followed by its application to a concrete session.
\<close>

subsection \<open>A concrete session\<close>

definition demo_tile :: "int \<Rightarrow> int \<Rightarrow> domino_tile" where
  "demo_tile i j = \<lparr>tile_UID = [], tile_ID = [digit (nat i), digit (nat j)], ValueLeft = i, ValueRight = j\<rparr>"

definition demo_session :: game_session where
  "demo_session = (NewGameSession ''s'' [''a'', ''b''])\<lparr>
     Status := SessionStatusActive, CurrentTurn := ''a'',
     Hands := [(NewPlayerHand ''a'')\<lparr>Tiles := [demo_tile 1 2, demo_tile 3 3]\<rparr>,
               (NewPlayerHand ''b'')\<lparr>Tiles := [demo_tile 0 2]\<rparr>],
     Boneyard := [demo_tile 5 6],
     GameBoard := [demo_tile 2 4], LeftOpenValue := 2, RightOpenValue := 4\<rparr>"

lemmas demo_defs = demo_session_def demo_tile_def NewGameSession_def NewPlayerHand_def

definition demo_play :: turn_action where
  "demo_play = \<lparr>Kind = TurnKindPlayTile, act_PlayerID = ''a'', act_Tile = demo_tile 1 2, act_PlayAtLeft = True\<rparr>"

definition demo_pass :: turn_action where
  "demo_pass = \<lparr>Kind = TurnKindPass, act_PlayerID = ''b'', act_Tile = zero_tile, act_PlayAtLeft = False\<rparr>"

lemma demo_wf: "session_wf demo_session" "CurrentTurn demo_session \<in> set (Players demo_session)"
  by (simp_all add: session_wf_def demo_defs)

lemma demo_board: "board_ok demo_session"
  by (simp add: board_ok_def legal_tile_def demo_defs)

text \<open>The result of an accepted action, and the definitions that evaluate a turn.\<close>

fun turn_of :: "'a result \<Rightarrow> 'a" where
  "turn_of (Inr r) = r"
| "turn_of (Inl e) = undefined"


lemmas demo_eval_defs = demo_defs demo_play_def demo_pass_def ProcessGameTurn_def dispatch_action_def
  PlayTile_def PassTurn_def DrawFromBoneyard_def CanPlay_def place_tile_def flip_tile_def SetBoardEnds_def
  delete_at_def activate_def EvaluateMatch_def activeNonAbandonedPlayers_def allActivePlayersPassed_def
  lockForCompletion_def RotateTurn_def tiles_by_def tile_key_def digit_def

subsection \<open>What a turn accepts\<close>

text \<open>
  C1: The turn pipeline accepts an action exactly when the match is open, the actor is
  on turn and has a hand, and the action itself is possible: a tile must fit the chosen
  end and its ID be in the hand, a draw needs a non-empty boneyard, a pass needs nothing
  more, and no other kind is accepted. In every other case it returns an error.
\<close>

theorem turn_accepted_iff:
  "isOk (fst (ProcessGameTurn a s)) \<longleftrightarrow>
     \<not> MutationsLocked s \<and> Status s \<noteq> SessionStatusCompleted \<and> CurrentTurn s = act_PlayerID a \<and>
     (\<exists>i. hand_index (act_PlayerID a) (Hands s) = Some i \<and>
        (case Kind a of
           TurnKindPlayTile \<Rightarrow> CanPlay s (act_Tile a) (act_PlayAtLeft a) \<and> HasTile (Hands s ! i) (tile_ID (act_Tile a))
         | TurnKindDraw \<Rightarrow> Boneyard s \<noteq> []
         | TurnKindPass \<Rightarrow> True
         | TurnKindOther k \<Rightarrow> False))"
proof -
  have tile: "HasTile h i \<longleftrightarrow> (\<exists>k. tile_index i (Tiles h) = Some k)" for h i
    using first_index_None_iff [of "\<lambda>t. tile_ID t = i" "Tiles h"] by (auto simp: HasTile_iff)
  have "isOk (fst (ProcessGameTurn a s)) \<longleftrightarrow>
      \<not> MutationsLocked s \<and> Status s \<noteq> SessionStatusCompleted \<and> isOk (fst (dispatch_action a s))"
    by (cases "dispatch_action a s")
      (auto simp: ProcessGameTurn_def Let_def split: sum.split option.split)
  moreover have "isOk (fst (PlayTile p t l s)) \<longleftrightarrow> CurrentTurn s = p \<and>
      (\<exists>i. hand_index p (Hands s) = Some i \<and> CanPlay s t l \<and> HasTile (Hands s ! i) (tile_ID t))" for p t l
    by (auto simp: PlayTile_def Let_def tile split: option.split)
  moreover have "isOk (fst (DrawFromBoneyard p s)) \<longleftrightarrow> CurrentTurn s = p \<and>
      (\<exists>i. hand_index p (Hands s) = Some i \<and> Boneyard s \<noteq> [])" for p
    by (auto simp: DrawFromBoneyard_def Let_def split: list.split option.split)
  moreover have "isOk (fst (PassTurn p s)) \<longleftrightarrow> CurrentTurn s = p \<and>
      (\<exists>i. hand_index p (Hands s) = Some i)" for p
    by (auto simp: PassTurn_def split: option.split)
  moreover have "isOk (fst (dispatch_action a s)) \<longleftrightarrow>
      (case Kind a of TurnKindPlayTile \<Rightarrow> isOk (fst (PlayTile (act_PlayerID a) (act_Tile a) (act_PlayAtLeft a) s))
       | TurnKindDraw \<Rightarrow> isOk (fst (DrawFromBoneyard (act_PlayerID a) s))
       | TurnKindPass \<Rightarrow> isOk (fst (PassTurn (act_PlayerID a) s)) | TurnKindOther k \<Rightarrow> False)"
    by (auto simp: dispatch_action_def isOk_iff split: turn_kind.split prod.split sum.split)
  ultimately show ?thesis by (auto split: turn_kind.split)
qed

text \<open>
  C33: A rejected action of a seated player leaves a well-formed session exactly as it
  was, whatever the reason of the rejection.
\<close>

theorem rejected_turn_changes_nothing:
  assumes "session_wf s" "act_PlayerID a \<in> set (Players s)" "fst (ProcessGameTurn a s) = Inl e"
  shows "snd (ProcessGameTurn a s) = s"
proof -
  from assms(3) have "ProcessGameTurn a s = (Inl e, snd (ProcessGameTurn a s))"
    by (metis prod.collapse)
  from ProcessGameTurn_Inl [OF this] dispatch.rejected_unchanged [OF assms(1,2)] show ?thesis
    by (metis fst_conv snd_conv)
qed

lemma rejected_turn_changes_nothing_witness:
  "snd (ProcessGameTurn demo_pass demo_session) = demo_session"
  by (rule rejected_turn_changes_nothing [where e = "err_pass_turn ''b''"])
    (simp_all add: demo_wf, simp_all add: demo_pass_def demo_defs ProcessGameTurn_def dispatch_action_def
      PassTurn_def)

subsection \<open>Runs of turns\<close>

fun run_turns :: "turn_action list \<Rightarrow> game_session \<Rightarrow> game_session" where
  "run_turns [] s = s"
| "run_turns (a # as) s = run_turns as (snd (ProcessGameTurn a s))"

lemma run_turns_frame: "Players (run_turns as s) = Players s"
  by (induction as arbitrary: s) (simp_all add: ProcessGameTurn_frame)

lemma ProcessGameTurn_ids:
  "session_wf s \<Longrightarrow> act_PlayerID a \<in> set (Players s) \<Longrightarrow> tile_ids (snd (ProcessGameTurn a s)) = tile_ids s"
  by (simp add: ProcessGameTurn_tiles_by dispatch.keeps_ids)

text \<open>
  C2: Whatever seated players try, in any order and with any tiles, a run of turns keeps
  one hand per seat in seat order, keeps a seated player on turn, and neither makes nor
  loses a tile: the multiset of tile IDs over boneyard, hands and board is the same at
  the end.
\<close>

theorem runs_conserve_tiles:
  assumes "session_wf s" "CurrentTurn s \<in> set (Players s)" "\<forall>a \<in> set as. act_PlayerID a \<in> set (Players s)"
  shows "session_wf (run_turns as s) \<and> CurrentTurn (run_turns as s) \<in> set (Players s)
    \<and> tile_ids (run_turns as s) = tile_ids s"
  using assms
proof (induction as arbitrary: s)
  case Nil
  then show ?case by simp
next
  case (Cons a as)
  let ?s' = "snd (ProcessGameTurn a s)"
  have "session_wf ?s'" "CurrentTurn ?s' \<in> set (Players ?s')" "tile_ids ?s' = tile_ids s" "Players ?s' = Players s"
    using Cons.prems
    by (simp_all add: ProcessGameTurn_wf ProcessGameTurn_seated ProcessGameTurn_ids ProcessGameTurn_frame)
  with Cons.IH [of ?s'] Cons.prems show ?case by simp
qed

lemma runs_conserve_tiles_witness:
  "tile_ids (run_turns [demo_play, demo_pass] demo_session) = tile_ids demo_session"
  by (rule runs_conserve_tiles [THEN conjunct2, THEN conjunct2])
    (simp_all add: demo_wf, simp_all add: demo_play_def demo_pass_def demo_defs)

text \<open>
  C31: The board is always a domino chain: after any run of turns with tiles of
  non-negative value, neighbouring tiles agree where they touch, and the cached open
  ends are the outer values of the chain (both -1 exactly when the board is empty).
\<close>

theorem runs_keep_chain:
  assumes "board_ok s" "\<forall>a \<in> set as. legal_tile (act_Tile a)"
  shows "board_ok (run_turns as s)"
  using assms
  by (induction as arbitrary: s) (simp_all add: ProcessGameTurn_board_ok)

lemma runs_keep_chain_witness: "board_ok (run_turns [demo_play, demo_pass] demo_session)"
  by (rule runs_keep_chain)
    (simp_all add: demo_board demo_play_def demo_pass_def legal_tile_def demo_tile_def zero_tile_def)

text \<open>
  When the tile of an accepted play is the tile of that ID in the actor's hand (same
  ID, same two values, either way round), the turn conserves the tiles themselves, pips
  included, and not only their IDs.
\<close>

theorem genuine_play_conserves_pips:
  assumes "fst (ProcessGameTurn a s) = Inr r" "Kind a = TurnKindPlayTile"
    and "\<And>h t. h \<in> set (Hands s) \<Longrightarrow> hand_PlayerID h = act_PlayerID a \<Longrightarrow> t \<in> set (Tiles h) \<Longrightarrow>
      tile_ID t = tile_ID (act_Tile a) \<Longrightarrow> tile_key t = tile_key (act_Tile a)"
  shows "tile_keys (snd (ProcessGameTurn a s)) = tile_keys s"
proof -
  from assms(1) obtain s' where "ProcessGameTurn a s = (Inr r, s')" by (metis prod.collapse)
  then obtain d s1 where d: "dispatch_action a s = (Inr (True, d), s1)"
    and open_: "\<not> MutationsLocked s" "Status s \<noteq> SessionStatusCompleted"
    by (rule ProcessGameTurn_Inr)
  from d assms(2) obtain b where ok: "fst (PlayTile (act_PlayerID a) (act_Tile a) (act_PlayAtLeft a) s) = Inr b"
    by (auto simp: dispatch_action_def split: prod.splits sum.splits)
  have "tile_keys (snd (PlayTile (act_PlayerID a) (act_Tile a) (act_PlayAtLeft a) s)) = tile_keys s"
    by (rule PlayTile_tiles_by [OF ok])
      (auto intro!: assms(3) dest: first_index_SomeD)
  then show ?thesis using assms(2) open_ by (simp add: ProcessGameTurn_tiles_by snd_dispatch)
qed

lemma genuine_play_conserves_pips_witness:
  "tile_keys (snd (ProcessGameTurn demo_play demo_session)) = tile_keys demo_session"
proof (rule genuine_play_conserves_pips)
  have "isOk (fst (ProcessGameTurn demo_play demo_session))"
    by (simp add: demo_eval_defs)
  then show "fst (ProcessGameTurn demo_play demo_session) = Inr (turn_of (fst (ProcessGameTurn demo_play demo_session)))"
    by (auto simp: isOk_iff)
qed (auto simp: demo_play_def demo_defs tile_key_def digit_def)

text \<open>
  The move check trusts the values the client sends: a tile that carries the ID of a
  tile in the hand but other values is accepted and put on the board with those values,
  so the pips in play change although no tile ID does.
\<close>

theorem forged_tile_is_placed:
  "\<exists>s a. session_wf s \<and> CurrentTurn s = act_PlayerID a \<and> act_PlayerID a \<in> set (Players s)
     \<and> isOk (fst (ProcessGameTurn a s))
     \<and> act_Tile a \<notin> set (concat (map Tiles (Hands s))) \<and> flip_tile (act_Tile a) \<notin> set (concat (map Tiles (Hands s)))
     \<and> tile_keys (snd (ProcessGameTurn a s)) \<noteq> tile_keys s"
proof -
  let ?a = "demo_play\<lparr>act_Tile := (demo_tile 3 3)\<lparr>ValueRight := 2\<rparr>\<rparr>"
  have "isOk (fst (ProcessGameTurn ?a demo_session))
     \<and> tile_keys (snd (ProcessGameTurn ?a demo_session)) \<noteq> tile_keys demo_session"
    by (simp add: demo_eval_defs)
  moreover have "act_Tile ?a \<notin> set (concat (map Tiles (Hands demo_session)))
      \<and> flip_tile (act_Tile ?a) \<notin> set (concat (map Tiles (Hands demo_session)))"
    by (simp add: demo_defs flip_tile_def digit_def)
  ultimately show ?thesis
    using demo_wf by (intro exI [of _ demo_session] exI [of _ ?a]) (simp add: demo_play_def demo_defs)
qed

subsection \<open>Whose turn it is\<close>

text \<open>
  The order of play: an accepted action that does not end the match passes the turn
  to the next seat after a play or a pass, and keeps it after a draw.
\<close>

theorem turn_order:
  assumes "distinct (Players s)" "i < length (Players s)" "CurrentTurn s = Players s ! i"
    and "ProcessGameTurn a s = (Inr r, s')" "\<not> MatchEnded r"
  shows "CurrentTurn s' = (if Kind a = TurnKindDraw then Players s ! i
     else Players s ! ((i + 1) mod length (Players s)))"
proof -
  from assms(4) obtain d s1 where d: "dispatch_action a s = (Inr (True, d), s1)"
    and m: "MatchEnded r = (Outcome r \<noteq> None)"
    and s': "s' = (if Outcome r \<noteq> None then lockForCompletion (activate s1)
           else if Kind a = TurnKindPlayTile then RotateTurn (activate s1) else activate s1)"
    by (rule ProcessGameTurn_Inr)
  from d have s1: "s1 = snd (dispatch_action a s)" by simp
  have next_seat: "CurrentTurn (RotateTurn t) = Players s ! ((i + 1) mod length (Players s))"
    if "Players t = Players s" "CurrentTurn t = Players s ! i" for t
    using RotateTurn_next [of t i] that assms(1,2) by simp
  show ?thesis
  proof (cases "Kind a")
    case TurnKindPlayTile
    have "CurrentTurn (snd (PlayTile p t l s)) = CurrentTurn s" for p t l
      by (simp add: PlayTile_def Let_def session_simps split: option.split)
    with TurnKindPlayTile m assms s' s1 show ?thesis
      by (simp add: snd_dispatch next_seat play.keeps_frame session_simps)
  next
    case TurnKindDraw
    with m assms s' s1 show ?thesis by (simp add: snd_dispatch session_simps)
  next
    case TurnKindPass
    with d have "fst (PassTurn (act_PlayerID a) s) = Inr ()"
      by (auto simp: dispatch_action_def split: prod.splits sum.splits)
    then obtain k where "snd (PassTurn (act_PlayerID a) s) =
       RotateTurn (s\<lparr>Hands := (Hands s)[k := (Hands s ! k)\<lparr>HasPassed := True\<rparr>]\<rparr>)"
      by (rule PassTurn_ok)
    with TurnKindPass m assms s' s1 show ?thesis
      by (simp add: snd_dispatch session_simps next_seat)
  next
    case (TurnKindOther k)
    with d show ?thesis by (simp add: dispatch_action_def)
  qed
qed

lemma turn_order_witness:
  "CurrentTurn (snd (ProcessGameTurn demo_play demo_session)) = ''b''"
  using turn_order [of demo_session 0 demo_play "turn_of (fst (ProcessGameTurn demo_play demo_session))"
      "snd (ProcessGameTurn demo_play demo_session)"]
  by (simp add: demo_eval_defs)

subsection \<open>Who wins\<close>

text \<open>
  A match is over exactly when some player still in it has no tile left, or one
  player is left in it, or the boneyard is empty and everyone still in it has passed.
\<close>

theorem match_over_iff:
  "EvaluateMatch s \<noteq> None \<longleftrightarrow>
     (\<exists>h \<in> set (active_hands s). Tiles h = []) \<or> length (active_hands s) = 1 \<or>
     (Boneyard s = [] \<and> active_hands s \<noteq> [] \<and> (\<forall>h \<in> set (active_hands s). HasPassed h))"
proof (cases "empty_hand_loop (Hands s)")
  case None
  from empty_hand_loop_None [THEN iffD1, OF this]
  have "\<forall>h \<in> set (active_hands s). Tiles h \<noteq> []" by auto
  with None show ?thesis
    by (auto simp: EvaluateMatch_def Let_def active_players_filter all_passed_iff)
next
  case (Some w)
  from empty_hand_loop_Some [OF this]
  have "\<exists>h \<in> set (active_hands s). Tiles h = []" by auto
  with Some show ?thesis by (simp add: EvaluateMatch_def)
qed

text \<open>
  C30: The winner: in a match with named players, an outcome names a player still in it,
  carries every hand's pip total as its score, and its reason tells the truth. A win by
  empty hand belongs to a player without tiles, a forfeit to the only one left, and a
  blocked match to a player whose total no other player undercuts.
\<close>

theorem winner_is_right:
  assumes "session_wf s" "[] \<notin> set (Players s)" "EvaluateMatch s = Some oc"
  shows "MatchID oc = SessionID s \<and>
    (\<forall>h \<in> set (Hands s). Scores oc (hand_PlayerID h) = Some (\<Sum>t \<leftarrow> Tiles h. ValueLeft t + ValueRight t)) \<and>
    (\<exists>h \<in> set (active_hands s). hand_PlayerID h = WinnerID oc \<and>
      (case Reason oc of
         MatchEndEmptyHand \<Rightarrow> Tiles h = []
       | MatchEndForfeit \<Rightarrow> active_hands s = [h]
       | MatchEndBlocked \<Rightarrow> Boneyard s = [] \<and> (\<forall>h' \<in> set (active_hands s). HasPassed h' \<and>
           (\<Sum>t \<leftarrow> Tiles h. ValueLeft t + ValueRight t) \<le> (\<Sum>t \<leftarrow> Tiles h'. ValueLeft t + ValueRight t))))"
proof -
  from assms(1) have dist: "distinct (map hand_PlayerID (Hands s))" by (simp add: session_wf_def)
  have "hand_PlayerID h \<in> set (Players s)" if "h \<in> set (Hands s)" for h
    using assms(1) that by (metis imageI session_wf_def set_map)
  with assms(2) have named: "\<forall>h \<in> set (Hands s). hand_PlayerID h \<noteq> []" by metis
  have scores: "computeHandScores s (hand_PlayerID h) = Some (\<Sum>t \<leftarrow> Tiles h. ValueLeft t + ValueRight t)"
    if "h \<in> set (Hands s)" for h
    using computeHandScores_hand [OF dist that] by (simp add: hand_total_sum)
  from assms(3) consider
      (empty) w where "empty_hand_loop (Hands s) = Some w" "oc = outcome_of s w MatchEndEmptyHand"
    | (forfeit) "length (active_hands s) = 1" "oc = outcome_of s (hand_PlayerID (active_hands s ! 0)) MatchEndForfeit"
    | (blocked) "Boneyard s = []" "allActivePlayersPassed s" "oc = outcome_of s (lowestPipPlayer s) MatchEndBlocked"
    by (auto simp: EvaluateMatch_def Let_def active_players_filter split: option.splits if_splits)
  then show ?thesis
  proof cases
    case empty
    with empty_hand_loop_Some [OF empty(1)] scores show ?thesis by (auto simp: outcome_of_def)
  next
    case forfeit
    then obtain h where h: "active_hands s = [h]" by (auto simp: length_Suc_conv)
    with forfeit scores show ?thesis by (auto simp: outcome_of_def)
  next
    case blocked
    then have act: "active_hands s \<noteq> []" "\<forall>h \<in> set (active_hands s). HasPassed h"
      by (auto simp: all_passed_iff)
    from lowestPip_min [OF named act(1) refl refl] obtain h where h: "h \<in> set (active_hands s)"
      "hand_PlayerID h = lowestPipPlayer s"
      and least: "\<forall>h' \<in> set (active_hands s). score_of (computeHandScores s) (hand_PlayerID h)
        \<le> score_of (computeHandScores s) (hand_PlayerID h')"
      by auto
    have pips: "score_of (computeHandScores s) (hand_PlayerID g) = (\<Sum>t \<leftarrow> Tiles g. ValueLeft t + ValueRight t)"
      if "g \<in> set (active_hands s)" for g
      using scores [of g] that by (simp add: score_of_def)
    have "(\<Sum>t \<leftarrow> Tiles h. ValueLeft t + ValueRight t) \<le> (\<Sum>t \<leftarrow> Tiles h'. ValueLeft t + ValueRight t)"
      if "h' \<in> set (active_hands s)" for h'
      using bspec [OF least that] unfolding pips [OF h(1)] pips [OF that] .
    with h blocked act scores show ?thesis by (simp add: outcome_of_def) blast
  qed
qed

definition demo_blocked :: game_session where
  "demo_blocked = demo_session\<lparr>Boneyard := [], Hands := map (\<lambda>h. h\<lparr>HasPassed := True\<rparr>) (Hands demo_session)\<rparr>"

lemma match_over_iff_witness: "EvaluateMatch demo_blocked \<noteq> None"
  by (rule match_over_iff [THEN iffD2]) (simp add: demo_blocked_def demo_eval_defs)

lemma winner_is_right_witness:
  "map_option WinnerID (EvaluateMatch demo_blocked) = Some ''b'' \<and>
   (\<exists>h \<in> set (active_hands demo_blocked). hand_PlayerID h = ''b'')"
proof -
  have ev: "EvaluateMatch demo_blocked = Some (outcome_of demo_blocked ''b'' MatchEndBlocked)"
    by (simp add: demo_blocked_def demo_eval_defs lowestPipPlayer_def computeHandScores_def hand_total_def
      score_of_def outcome_of_def)
  have "session_wf demo_blocked" "[] \<notin> set (Players demo_blocked)"
    by (simp_all add: demo_blocked_def session_wf_def demo_defs)
  from winner_is_right [OF this ev] ev show ?thesis by (auto simp: outcome_of_def)
qed

subsection \<open>Shuffling and persistence\<close>

text \<open>
  The seeded shuffle is fair in reach: with a generator that answers in range it only
  reorders the boneyard, and every order of the boneyard is the result of some such
  generator.
\<close>

theorem shuffle_reaches_every_order:
  "{Boneyard (ShuffleBoneyardDeterministic intn seed s) | intn. intn_in_range (intn seed)}
     = {b. mset b = mset (Boneyard s)}"
proof (intro set_eqI iffI)
  fix b assume "b \<in> {Boneyard (ShuffleBoneyardDeterministic intn seed s) | intn. intn_in_range (intn seed)}"
  then show "b \<in> {b. mset b = mset (Boneyard s)}"
    by (auto simp: ShuffleBoneyardDeterministic_def det_shuffle_loop_mset)
next
  fix b assume "b \<in> {b. mset b = mset (Boneyard s)}"
  then have m: "mset (Boneyard s) = mset b" by simp
  have "\<exists>next. intn_in_range next \<and> det_shuffle_loop next 0 (length (Boneyard s) - 1) (Boneyard s) = b"
  proof (cases "Boneyard s = []")
    case True
    with m show ?thesis by (intro exI [of _ "\<lambda>_ _. 0"]) (simp add: intn_in_range_def)
  next
    case False
    moreover have "length b = length (Boneyard s)" using m by (metis mset_eq_length)
    ultimately show ?thesis using m by (intro det_shuffle_complete) simp_all
  qed
  then obtain nx where "intn_in_range nx" "det_shuffle_loop nx 0 (length (Boneyard s) - 1) (Boneyard s) = b"
    by blast
  then show "b \<in> {Boneyard (ShuffleBoneyardDeterministic intn seed s) | intn. intn_in_range (intn seed)}"
    by (auto simp: ShuffleBoneyardDeterministic_def intro!: exI [of _ "\<lambda>_. nx"])
qed

text \<open>
  Persistence round trip: flushing a session's play state into the two raw blobs and
  hydrating a session that has the blobs and neither boneyard nor board, as it comes back
  from the database, restores both exactly, for tiles whose values are 64-bit integers.
\<close>

theorem play_state_round_trip:
  assumes "\<forall>t \<in> set (Boneyard s) \<union> set (GameBoard s). tile_int64 t"
  shows "HydratePlayState ((FlushPlayState s)\<lparr>Boneyard := [], GameBoard := []\<rparr>) = (Inr (), FlushPlayState s)"
  using assms un_list_tiles [of "Boneyard s"] un_list_tiles [of "GameBoard s"]
  by (simp add: HydratePlayState_def FlushPlayState_def Let_def)

lemma play_state_round_trip_witness:
  "HydratePlayState ((FlushPlayState demo_session)\<lparr>Boneyard := [], GameBoard := []\<rparr>)
     = (Inr (), FlushPlayState demo_session)"
  by (rule play_state_round_trip) (simp add: demo_defs tile_int64_def in_int64_def)

end
