(* ===== verification/Manager_Laws.thy ===== *)
theory Manager_Laws
  imports Repository Session_Props
begin

section \<open>Laws of the game manager\<close>

text \<open>
  What \<open>pkg/engine\<close> guarantees over any repository that keeps the contract
  \<open>session_store\<close>: the game part of the registry is a function of the operations
  applied and not of what the repository answered, so replicas agree; and every session
  in the registry stays sound under every operation of the manager.
\<close>

subsection \<open>Game operations do not look at the persistence fields\<close>

lemma core_map: "map_prod f core (r, s) = (f r, core s)" by simp

lemma place_tile_core: "place_tile t l (core s) = core (place_tile t l s)"
  by (simp add: place_tile_def SetBoardEnds_def Let_def core_def)

lemma hands_core: "(core s)\<lparr>Hands := hs\<rparr> = core (s\<lparr>Hands := hs\<rparr>)"
  by (simp add: core_def)

lemma PlayTile_core: "PlayTile p t l (core s) = map_prod id core (PlayTile p t l s)"
proof -
  have "CanPlay (core s) t l = CanPlay s t l" by (simp add: CanPlay_def)
  then show ?thesis
    by (simp add: PlayTile_def place_tile_core hands_core Let_def split: option.split)
qed

lemma DrawFromBoneyard_core: "DrawFromBoneyard p (core s) = map_prod id core (DrawFromBoneyard p s)"
  by (simp add: DrawFromBoneyard_def Let_def core_def split: option.split list.split)

lemma RotateTurn_core: "RotateTurn (core s) = core (RotateTurn s)"
  by (simp add: RotateTurn_def core_def split: option.split)

lemma PassTurn_core: "PassTurn p (core s) = map_prod id core (PassTurn p s)"
  by (simp add: PassTurn_def RotateTurn_def core_def split: option.split)

lemma EvaluateMatch_core: "EvaluateMatch (core s) = EvaluateMatch s"
proof -
  have "computeHandScores (core s) = computeHandScores s" by (simp add: computeHandScores_def)
  moreover from this have "outcome_of (core s) w r = outcome_of s w r" for w r
    by (simp add: outcome_of_def)
  moreover have "activeNonAbandonedPlayers (core s) = activeNonAbandonedPlayers s"
    "allActivePlayersPassed (core s) = allActivePlayersPassed s"
    by (simp_all add: activeNonAbandonedPlayers_def allActivePlayersPassed_def)
  ultimately show ?thesis by (simp add: EvaluateMatch_def lowestPipPlayer_def Let_def split: option.split)
qed

lemma activate_core: "activate (core s) = core (activate s)"
  by (simp add: activate_def core_def)

lemma lock_core: "lockForCompletion (core s) = core (lockForCompletion s)"
  by (simp add: lockForCompletion_def core_def)

lemmas move_core = PlayTile_core DrawFromBoneyard_core RotateTurn_core PassTurn_core EvaluateMatch_core
  activate_core lock_core

lemma dispatch_core: "dispatch_action a (core s) = map_prod id core (dispatch_action a s)"
  by (auto simp: dispatch_action_def move_core split: turn_kind.split prod.split sum.split)

lemma ProcessGameTurn_core_map: "ProcessGameTurn a (core s) = map_prod id core (ProcessGameTurn a s)"
  by (auto simp: ProcessGameTurn_def dispatch_core move_core Let_def split: prod.split sum.split option.split)

lemma DealHands_core: "DealHands n (core s) = map_prod id core (DealHands n s)"
  by (simp add: DealHands_def core_def split: prod.split)

text \<open>The two ends of \<open>setup_session\<close>, after the deal and without one.\<close>

definition finish_deal :: "string \<Rightarrow> unit result \<times> game_session \<Rightarrow> unit result \<times> game_session" where
  "finish_deal sid x =
     (case x of
        (Inl e, s2) \<Rightarrow>
          (Inl (if is_panic e then e else Wrapf (''deal hands for session '' @ quote sid @ '': '') e), s2)
      | (Inr _, s2) \<Rightarrow>
          let s3 = s2\<lparr>Status := SessionStatusActive\<rparr> in
          (Inr (), if CurrentTurn s3 = [] \<and> Players s3 \<noteq> [] then s3\<lparr>CurrentTurn := hd (Players s3)\<rparr> else s3))"

definition finish_idle :: "game_session \<Rightarrow> unit result \<times> game_session" where
  "finish_idle s = (Inr (), if Status s = StatusOther [] then s\<lparr>Status := SessionStatusWaiting\<rparr> else s)"

lemma setup_session_core: "map_prod id core (setup_session intn sid su (core s)) = map_prod id core (setup_session intn sid su s)"
proof -
  have fill: "fill_roster su (core s) = core (fill_roster su s)"
    by (simp add: fill_roster_def core_def Let_def)
  have deck: "shuffled_deck intn sid (core s) = shuffled_deck intn sid (s\<lparr>sess_UID := []\<rparr>)" for s
    by (simp add: shuffled_deck_def ResetForSetup_def GenerateStandardDeck_def
        ShuffleBoneyardDeterministic_def core_def)
  have deckc: "core (shuffled_deck intn sid (core s)) = core (shuffled_deck intn sid s)" for s
    by (simp add: shuffled_deck_def ResetForSetup_def GenerateStandardDeck_def
        ShuffleBoneyardDeterministic_def core_def)
  have deal: "map_prod id core (DealHands n (shuffled_deck intn sid (core s)))
      = map_prod id core (DealHands n (shuffled_deck intn sid s))" for n s
    by (simp add: deckc flip: DealHands_core)
  let ?n = "if TilesPerHand su \<le> 0 then 7 else TilesPerHand su"
  let ?D = "\<lambda>s. DealHands ?n (shuffled_deck intn sid (fill_roster su s))"
  have d: "map_prod id core (?D (core s)) = map_prod id core (?D s)"
    using deal [of ?n "fill_roster su s"] by (simp only: fill)
  have parts: "setup_session intn sid su s = (if SetupGame su then finish_deal sid (?D s)
      else finish_idle (fill_roster su s))" for s
    by (simp add: setup_session_def finish_deal_def finish_idle_def Let_def split: prod.split sum.split)
  have "map_prod id core (finish_deal sid x) = map_prod id core (finish_deal sid y)"
    if "map_prod id core x = map_prod id core y" for x y
    using that by (cases x; cases y) (auto simp: finish_deal_def core_eq_iff Let_def split: sum.split)
  with d have "map_prod id core (finish_deal sid (?D (core s))) = map_prod id core (finish_deal sid (?D s))"
    by blast
  moreover have "map_prod id core (finish_idle (fill_roster su (core s))) = map_prod id core (finish_idle (fill_roster su s))"
    by (simp add: fill finish_idle_def core_eq_iff)
  ultimately show ?thesis by (simp only: parts if_split) simp
qed

lemma core_core [simp]: "core (core s) = core s"
  by (simp add: core_def)

text \<open>In the form used below: sessions with the same game part behave alike.\<close>

lemma ProcessGameTurn_cong:
  assumes "core s = core t"
  shows "fst (ProcessGameTurn a s) = fst (ProcessGameTurn a t)"
    "core (snd (ProcessGameTurn a s)) = core (snd (ProcessGameTurn a t))"
proof -
  have "map_prod id core (ProcessGameTurn a s) = map_prod id core (ProcessGameTurn a t)"
    using assms by (metis ProcessGameTurn_core_map)
  then show "fst (ProcessGameTurn a s) = fst (ProcessGameTurn a t)"
    "core (snd (ProcessGameTurn a s)) = core (snd (ProcessGameTurn a t))"
    by (metis fst_map_prod id_apply, metis snd_map_prod)
qed

lemma setup_session_cong:
  assumes "core s = core t"
  shows "fst (setup_session intn sid su s) = fst (setup_session intn sid su t)"
    "core (snd (setup_session intn sid su s)) = core (snd (setup_session intn sid su t))"
proof -
  have "map_prod id core (setup_session intn sid su s) = map_prod id core (setup_session intn sid su t)"
    using assms by (metis setup_session_core)
  then show "fst (setup_session intn sid su s) = fst (setup_session intn sid su t)"
    "core (snd (setup_session intn sid su s)) = core (snd (setup_session intn sid su t))"
    by (metis fst_map_prod id_apply, metis snd_map_prod)
qed

subsection \<open>The registry as a map of games\<close>

text \<open>
  The abstract state of a manager is its map from IDs to the game parts of the sessions.
  The replicated operations are functions of it: \<open>spec_turn\<close> and \<open>spec_start\<close>.
\<close>

definition games :: "'w manager \<Rightarrow> (string \<rightharpoonup> game_session)" where
  "games m = (\<lambda>i. map_option core (mgr_sessions m i))"

definition spec_turn :: "string \<Rightarrow> turn_action \<Rightarrow> (string \<rightharpoonup> game_session) \<Rightarrow> (string \<rightharpoonup> game_session)" where
  "spec_turn sid a g =
     (case g sid of None \<Rightarrow> g | Some s \<Rightarrow> g(sid \<mapsto> core (snd (ProcessGameTurn a s))))"

definition spec_start ::
  "rng \<Rightarrow> string \<Rightarrow> match_setup \<Rightarrow> (string \<rightharpoonup> game_session) \<Rightarrow> (string \<rightharpoonup> game_session)" where
  "spec_start intn sid su g =
     (if sid = [] \<or> PlayerUIDs su = [] then g
      else
        let s = (case g sid of None \<Rightarrow> NewGameSession sid (PlayerUIDs su) | Some s \<Rightarrow> s)
        in g(sid \<mapsto> core (snd (setup_session intn sid su s))))"

lemma games_world [simp]: "games (m\<lparr>world := w\<rparr>) = games m"
  by (simp add: games_def)

lemma games_set_session [simp]: "games (set_session sid s m) = (games m)(sid \<mapsto> core s)"
  by (auto simp: games_def set_session_def)

lemma set_session_fields [simp]:
  "recoveredIDs (set_session sid s m) = recoveredIDs m" "world (set_session sid s m) = world m"
  "ledgerProfiles (set_session sid s m) = ledgerProfiles m"
  "mgr_sessions (set_session sid s m) = (mgr_sessions m)(sid \<mapsto> s)"
  "gameEngineSet (set_session sid s m) = gameEngineSet m"
  by (simp_all add: set_session_def)

lemma publishTurnEvents_fields [simp]:
  "mgr_sessions (publishTurnEvents env s r m) = mgr_sessions m"
  "recoveredIDs (publishTurnEvents env s r m) = recoveredIDs m"
  "ledgerProfiles (publishTurnEvents env s r m) = ledgerProfiles m"
  by (simp_all add: publishTurnEvents_def)

lemma games_publish [simp]: "games (publishTurnEvents env s r m) = games m"
  by (simp add: games_def)

lemma lookup_loaded:
  "recoveredIDs m = {} \<Longrightarrow> lookupSession env sid m =
     (case mgr_sessions m sid of Some s \<Rightarrow> (Inr s, m) | None \<Rightarrow> (Inl (err_not_found sid), m))"
  by (simp add: lookupSession_def split: option.split)

lemma ProcessGameTurn_ended_locked:
  assumes "ProcessGameTurn a s = (Inr t, s1)" "MatchEnded t"
  shows "MutationsLocked s1 \<and> Status s1 = SessionStatusCompleted"
  using assms(1)
proof (rule ProcessGameTurn_Inr)
  fix s2
  assume "MatchEnded t = (Outcome t \<noteq> None)"
    and "s1 = (if Outcome t \<noteq> None then lockForCompletion (activate s2)
           else if Kind a = TurnKindPlayTile then RotateTurn (activate s2) else activate s2)"
  with assms(2) show ?thesis by (simp add: lockForCompletion_def)
qed

text \<open>Saving and finalizing write back a session with the same game part.\<close>

context session_store begin

lemma persistState_games:
  assumes "save = SaveSession env" "persistState env sid s m = (eo, s1, m1)"
  shows "core s1 = core s" "games m1 = (games m)(sid \<mapsto> core s)" "recoveredIDs m1 = recoveredIDs m"
    "ledgerProfiles m1 = ledgerProfiles m" "mgr_sessions m1 = (mgr_sessions m)(sid \<mapsto> s1)"
  using assms save_core by (auto simp: persistState_def split: prod.splits)

lemma finalize_games:
  assumes "save = SaveSession env" "finalizeMatchLocked env sid s oc m = (eo, s1, m1)"
    and "MutationsLocked s" "games m sid = Some (core s)"
  shows "core s1 = core s \<and> games m1 = games m \<and> recoveredIDs m1 = recoveredIDs m"
proof (cases oc)
  case None
  with assms(2) show ?thesis by (simp add: finalizeMatchLocked_def)
next
  case (Some out)
  obtain e2 s2 m2 where p: "persistState env sid s (set_session sid s m) = (e2, s2, m2)"
    by (metis prod_cases3)
  from Some p assms(2,3) have "s1 = s2" "m1 = m2"
    by (auto simp: finalizeMatchLocked_def split: option.splits)
  with persistState_games [OF assms(1) p] assms(4) show ?thesis
    by (simp add: fun_upd_idem)
qed

lemma processGameTurn_refines:
  assumes env: "save = SaveSession env" and rec: "recoveredIDs m = {}"
  shows "games (snd (processGameTurn env sid a m)) = spec_turn sid a (games m)
    \<and> recoveredIDs (snd (processGameTurn env sid a m)) = {}"
proof (cases "mgr_sessions m sid")
  case None
  with rec show ?thesis by (simp add: processGameTurn_def lookup_loaded spec_turn_def games_def)
next
  case (Some s)
  obtain r s1 where run: "ProcessGameTurn a s = (r, s1)" by force
  let ?m2 = "set_session sid s1 m"
  have spec: "spec_turn sid a (games m) = (games m)(sid \<mapsto> core s1)"
    using Some run by (simp add: spec_turn_def games_def ProcessGameTurn_core_map)
  show ?thesis
  proof (cases r)
    case (Inl e)
    with Some run rec spec show ?thesis by (simp add: processGameTurn_def lookup_loaded)
  next
    case (Inr t)
    obtain e3 s3 m3 where p: "(if shouldPersistSession s1 (Some t) then persistState env sid s1 ?m2
        else (None, s1, ?m2)) = (e3, s3, m3)" by (metis prod_cases3)
    have m3: "core s3 = core s1" "games m3 = (games m)(sid \<mapsto> core s1)" "recoveredIDs m3 = {}"
    proof -
      have "core s3 = core s1 \<and> games m3 = (games m)(sid \<mapsto> core s1) \<and> recoveredIDs m3 = {}"
      proof (cases "shouldPersistSession s1 (Some t)")
        case True
        with p have "persistState env sid s1 ?m2 = (e3, s3, m3)" by simp
        from persistState_games [OF env this] rec show ?thesis by simp
      next
        case False
        with p rec show ?thesis by auto
      qed
      then show "core s3 = core s1" "games m3 = (games m)(sid \<mapsto> core s1)" "recoveredIDs m3 = {}"
        by simp_all
    qed
    obtain e4 s4 m4 where f: "(if MatchEnded t then finalizeMatchLocked env sid s3 (Outcome t) m3
        else (None, s3, m3)) = (e4, s4, m4)" by (metis prod_cases3)
    have lock: "MatchEnded t \<Longrightarrow> MutationsLocked s3"
      using m3(1) run Inr ProcessGameTurn_ended_locked [of a s t s1] by (simp add: core_eq_iff)
    have m4: "games m4 = (games m)(sid \<mapsto> core s1)" "recoveredIDs m4 = {}"
    proof -
      have "games m4 = (games m)(sid \<mapsto> core s1) \<and> recoveredIDs m4 = {}"
      proof (cases "MatchEnded t")
        case True
        with f have "finalizeMatchLocked env sid s3 (Outcome t) m3 = (e4, s4, m4)" by simp
        from finalize_games [OF env this lock [OF True]] m3 show ?thesis by simp
      next
        case False
        with f m3 show ?thesis by auto
      qed
      then show "games m4 = (games m)(sid \<mapsto> core s1)" "recoveredIDs m4 = {}" by simp_all
    qed
    have step: "snd (processGameTurn env sid a m) =
        (case e3 of Some e \<Rightarrow> m3 | None \<Rightarrow>
          (case e4 of Some e \<Rightarrow> m4 | None \<Rightarrow> publishTurnEvents env s4 (Some t) m4))"
      using Some run rec p f Inr
      by (simp add: processGameTurn_def lookup_loaded Let_def split: option.split)
    show ?thesis unfolding step spec using m3 m4 by (simp split: option.split)
  qed
qed

lemma ApplyReplicatedStartMatch_refines:
  assumes env: "save = SaveSession env" and rec: "recoveredIDs m = {}"
  shows "games (snd (ApplyReplicatedStartMatch env intn sid su m)) = spec_start intn sid su (games m)
    \<and> recoveredIDs (snd (ApplyReplicatedStartMatch env intn sid su m)) = {}"
proof (cases "sid = [] \<or> PlayerUIDs su = []")
  case True
  with rec show ?thesis by (auto simp: ApplyReplicatedStartMatch_def spec_start_def)
next
  case False
  define s where "s = (case mgr_sessions m sid of None \<Rightarrow> NewGameSession sid (PlayerUIDs su) | Some s \<Rightarrow> s)"
  define m3 where "m3 = (if mgr_sessions m sid = None then set_session sid s m else m)"
  obtain r s1 where run: "setup_session intn sid su s = (r, s1)" by force
  obtain e4 s4 m4 where p: "persistState env sid s1 (set_session sid s1 m3) = (e4, s4, m4)"
    by (metis prod_cases3)
  have m3: "recoveredIDs m3 = {}" "(games m3)(sid \<mapsto> c) = (games m)(sid \<mapsto> c)" for c
    using rec by (simp_all add: m3_def)
  have found: "(case lookupSession env sid m of
                (Inr s, m1) \<Rightarrow> (Inr s, m1)
              | (Inl _, m1) \<Rightarrow>
                  (case CreateSession sid (PlayerUIDs su) m1 of
                     (Inl e, m2) \<Rightarrow> (Inl e, m2)
                   | (Inr _, m2) \<Rightarrow> lookupSession env sid m2)) = (Inr s, m3)"
    using False rec
    by (auto simp: lookup_loaded CreateSession_def s_def m3_def set_session_def lookupSession_def
        Let_def split: option.split)
  have spec: "spec_start intn sid su (games m) = (games m)(sid \<mapsto> core s1)"
  proof -
    have "core (case games m sid of None \<Rightarrow> NewGameSession sid (PlayerUIDs su) | Some s \<Rightarrow> s) = core s"
      by (auto simp: games_def s_def split: option.split)
    from setup_session_cong(2) [OF this, of intn sid su] run False show ?thesis
      by (simp add: spec_start_def Let_def)
  qed
  have step: "snd (ApplyReplicatedStartMatch env intn sid su m) =
      (case r of Inl e \<Rightarrow> set_session sid s1 m3 | Inr u \<Rightarrow> m4)"
    using False found run p
    by (simp add: ApplyReplicatedStartMatch_def split: sum.split option.split)
  show ?thesis unfolding step spec
    using m3 persistState_games(2,3) [OF env p] by (simp split: sum.split)
qed

end

subsection \<open>What a setup deals\<close>

lemma shuffled_deck_fields:
  "Players (shuffled_deck intn sid s) = Players s" "SessionID (shuffled_deck intn sid s) = SessionID s"
  "CurrentTurn (shuffled_deck intn sid s) = CurrentTurn s" "Status (shuffled_deck intn sid s) = Status s"
  "Hands (shuffled_deck intn sid s) = map (\<lambda>h. h\<lparr>Tiles := [], HasPassed := False\<rparr>) (Hands s)"
  "GameBoard (shuffled_deck intn sid s) = []" "LeftOpenValue (shuffled_deck intn sid s) = -1"
  "RightOpenValue (shuffled_deck intn sid s) = -1" "MutationsLocked (shuffled_deck intn sid s) = False"
  "intn_in_range (intn (DeterministicSeed sid)) \<Longrightarrow>
     mset (Boneyard (shuffled_deck intn sid s)) = mset StandardDoubleSixDeck"
  by (simp_all add: shuffled_deck_def ShuffleBoneyardDeterministic_def GenerateStandardDeck_def
      ResetForSetup_def det_shuffle_loop_mset)

lemma empty_hands_tiles: "\<forall>h \<in> set gs. Tiles h = [] \<Longrightarrow> (\<Sum>h \<leftarrow> gs. mset (map f (Tiles h))) = {#}"
  by (induction gs) auto

text \<open>Dealing only moves tiles from the boneyard to hands that are empty, panics included.\<close>

lemma deal_loop_conserves:
  assumes "\<forall>h \<in> set hs. Tiles h = []" "deal_loop n hs b = (r, hs', b')"
  shows "(\<Sum>h \<leftarrow> hs'. mset (map f (Tiles h))) + mset (map f b') = mset (map f b)
    \<and> map hand_PlayerID hs' = map hand_PlayerID hs"
  using assms
proof (induction hs arbitrary: hs' b b' r)
  case Nil
  then show ?case by simp
next
  case (Cons h hs)
  show ?case
  proof (cases "n < 0 \<or> int (length b) < n")
    case True
    with Cons.prems empty_hands_tiles [of "h # hs" f] show ?thesis by auto
  next
    case False
    obtain r1 gs c where rest: "deal_loop n hs (drop (nat n) b) = (r1, gs, c)" by (metis prod_cases3)
    with Cons.IH [of "drop (nat n) b" r1 gs c] Cons.prems
    have ih: "(\<Sum>h \<leftarrow> gs. mset (map f (Tiles h))) + mset (map f c) = mset (map f (drop (nat n) b))"
      "map hand_PlayerID gs = map hand_PlayerID hs" by simp_all
    have "mset (map f (take (nat n) b)) + mset (map f (drop (nat n) b)) = mset (map f b)"
      by (metis append_take_drop_id map_append mset_append)
    with ih(1) have "mset (map f (take (nat n) b)) + ((\<Sum>h \<leftarrow> gs. mset (map f (Tiles h))) + mset (map f c))
        = mset (map f b)" by simp
    with rest Cons.prems False ih(2) show ?thesis by (auto simp: ac_simps)
  qed
qed

lemma DealHands_conserves:
  assumes "\<forall>h \<in> set (Hands s). Tiles h = []" "GameBoard s = []"
  shows "tiles_by f (snd (DealHands n s)) = mset (map f (Boneyard s))"
    "map hand_PlayerID (Hands (snd (DealHands n s))) = map hand_PlayerID (Hands s)"
    "Players (snd (DealHands n s)) = Players s" "CurrentTurn (snd (DealHands n s)) = CurrentTurn s"
    "GameBoard (snd (DealHands n s)) = []" "SessionID (snd (DealHands n s)) = SessionID s"
proof -
  obtain r hs b where d: "deal_loop n (Hands s) (Boneyard s) = (r, hs, b)" by (metis prod_cases3)
  from deal_loop_conserves [OF assms(1) d, of f] assms d empty_hands_tiles [OF assms(1), of f]
  show "tiles_by f (snd (DealHands n s)) = mset (map f (Boneyard s))"
    "map hand_PlayerID (Hands (snd (DealHands n s))) = map hand_PlayerID (Hands s)"
    "Players (snd (DealHands n s)) = Players s" "CurrentTurn (snd (DealHands n s)) = CurrentTurn s"
    "GameBoard (snd (DealHands n s)) = []" "SessionID (snd (DealHands n s)) = SessionID s"
    by (simp_all add: DealHands_def tiles_by_def ac_simps)
qed

subsection \<open>Sound sessions\<close>

text \<open>
  A sound session has one hand per seat, a seated player (or nobody yet) on turn, and
  either no tile at all or the 28 tile IDs of the deck, each exactly once.
\<close>

abbreviation deck_ids :: "string multiset" where
  "deck_ids \<equiv> mset (map tile_ID StandardDoubleSixDeck)"

definition game_sound :: "game_session \<Rightarrow> bool" where
  "game_sound s =
     (session_wf s \<and> (CurrentTurn s = [] \<or> CurrentTurn s \<in> set (Players s)) \<and>
      (tile_ids s = {#} \<or> tile_ids s = deck_ids))"

lemma game_sound_cong: "core s = core t \<Longrightarrow> game_sound s = game_sound t"
  by (auto simp: core_eq_iff game_sound_def session_wf_def tiles_by_def)

lemma game_sound_frame:
  assumes "game_sound s" "Players t = Players s" "map hand_PlayerID (Hands t) = map hand_PlayerID (Hands s)"
    "tile_ids t = tile_ids s" "CurrentTurn t = CurrentTurn s \<or> CurrentTurn t \<in> set (Players s)"
  shows "game_sound t"
  using assms by (auto simp: game_sound_def session_wf_def)

lemma NewGameSession_sound: "distinct uids \<Longrightarrow> game_sound (NewGameSession sid uids)"
  using NewGameSession_wf [of uids sid]
  by (simp add: game_sound_def NewGameSession_def tiles_by_def NewPlayerHand_def o_def empty_hands_tiles)

lemma RotateTurn_sound:
  assumes s: "game_sound s"
  shows "game_sound (RotateTurn s)"
proof (rule game_sound_frame [OF s])
  show "CurrentTurn (RotateTurn s) = CurrentTurn s \<or> CurrentTurn (RotateTurn s) \<in> set (Players s)"
  proof (cases "Players s = []")
    case True
    then show ?thesis by (simp add: RotateTurn_def)
  next
    case False
    with RotateTurn_current [of s] s show ?thesis by (simp add: game_sound_def)
  qed
qed (simp_all add: session_simps tiles_by_def)

lemma PassTurn_sound: "game_sound s \<Longrightarrow> game_sound (snd (PassTurn p s))"
proof (cases "fst (PassTurn p s)")
  case (Inr u)
  assume s: "game_sound s"
  from Inr obtain i where i: "hand_index p (Hands s) = Some i"
    and res: "snd (PassTurn p s) = RotateTurn (s\<lparr>Hands := (Hands s)[i := (Hands s ! i)\<lparr>HasPassed := True\<rparr>]\<rparr>)"
    by (rule PassTurn_ok)
  have "tile_ids (s\<lparr>Hands := (Hands s)[i := (Hands s ! i)\<lparr>HasPassed := True\<rparr>]\<rparr>) = tile_ids s"
    using tiles_by_hand_update [OF first_index_bound [OF i], of tile_ID "(Hands s ! i)\<lparr>HasPassed := True\<rparr>"]
    by simp
  then show ?thesis unfolding res
    by (intro RotateTurn_sound game_sound_frame [OF s]) (simp_all add: map_list_update_same)
qed (simp add: PassTurn_error)

lemma off_turn_error:
  assumes "CurrentTurn s \<noteq> act_PlayerID a"
  shows "snd (ProcessGameTurn a s) = s"
  using assms
  by (simp add: ProcessGameTurn_def dispatch_action_def PlayTile_def DrawFromBoneyard_def PassTurn_def
      split: turn_kind.split)

lemma ProcessGameTurn_sound:
  assumes "game_sound s" "act_PlayerID a \<noteq> []"
  shows "game_sound (snd (ProcessGameTurn a s))"
proof (cases "CurrentTurn s = act_PlayerID a")
  case True
  with assms have "CurrentTurn s \<in> set (Players s)" "act_PlayerID a \<in> set (Players s)" "session_wf s"
    by (auto simp: game_sound_def)
  then show ?thesis
    using assms ProcessGameTurn_wf [of s a] ProcessGameTurn_ids [of s a] ProcessGameTurn_seated [of s a]
    by (simp add: game_sound_def ProcessGameTurn_frame)
next
  case False
  with assms show ?thesis by (simp add: off_turn_error)
qed

lemma abandon_player_sound: "game_sound s \<Longrightarrow> game_sound (snd (abandon_player sid p s))"
proof (cases "hand_index p (Hands s)")
  case (Some i)
  assume s: "game_sound s"
  let ?s1 = "s\<lparr>Hands := (Hands s)[i := (Hands s ! i)\<lparr>IsAbandoned := True\<rparr>]\<rparr>"
  have "tile_ids ?s1 = tile_ids s"
    using tiles_by_hand_update [OF first_index_bound [OF Some], of tile_ID "(Hands s ! i)\<lparr>IsAbandoned := True\<rparr>"]
    by simp
  then have s1: "game_sound ?s1"
    by (intro game_sound_frame [OF s]) (simp_all add: map_list_update_same)
  have "snd (abandon_player sid p s) \<in> {?s1, snd (PassTurn p ?s1), RotateTurn (snd (PassTurn p ?s1))}"
    using Some by (auto simp: abandon_player_def Let_def split: prod.split sum.split)
  with s1 PassTurn_sound [OF s1, of p] RotateTurn_sound [OF PassTurn_sound [OF s1, of p]]
  show ?thesis by auto
qed (simp add: abandon_player_def)

lemma fill_roster_sound: "game_sound s \<Longrightarrow> distinct (PlayerUIDs su) \<Longrightarrow> game_sound (fill_roster su s)"
  by (cases "Players s = []")
    (auto simp: game_sound_def fill_roster_def session_wf_def tiles_by_def Let_def o_def NewPlayerHand_def
      empty_hands_tiles)

lemma setup_session_sound:
  assumes "game_sound s" "distinct (PlayerUIDs su)" "intn_in_range (intn (DeterministicSeed sid))"
  shows "game_sound (snd (setup_session intn sid su s))"
proof (cases "SetupGame su")
  case True
  let ?s1 = "fill_roster su s"
  let ?d = "shuffled_deck intn sid ?s1"
  let ?n = "if TilesPerHand su \<le> 0 then 7 else TilesPerHand su"
  have s1: "game_sound ?s1" by (rule fill_roster_sound [OF assms(1,2)])
  have e: "\<forall>h \<in> set (Hands ?d). Tiles h = []" "GameBoard ?d = []" by (auto simp: shuffled_deck_fields)
  have ids: "mset (map tile_ID (Boneyard ?d)) = deck_ids"
    using shuffled_deck_fields(10) [where intn = intn and sid = sid and s = ?s1] assms(3) by simp
  have deal: "game_sound (snd (DealHands ?n ?d))"
    using s1 DealHands_conserves(2-6) [OF e] DealHands_conserves(1) [OF e, of tile_ID ?n] ids
    by (simp only: game_sound_def session_wf_def) (simp add: game_sound_def session_wf_def shuffled_deck_fields o_def)
  have fin: "game_sound (t\<lparr>Status := SessionStatusActive\<rparr>)"
    "game_sound (t\<lparr>Status := SessionStatusActive, CurrentTurn := c\<rparr>)"
    if "game_sound t" "c \<in> set (Players t)" for t c
    by (rule game_sound_frame [OF that(1)]; use that in \<open>simp add: tiles_by_def\<close>)+
  have fin0: "game_sound (t\<lparr>Status := SessionStatusActive\<rparr>)" if "game_sound t" for t
    by (rule game_sound_frame [OF that]; simp add: tiles_by_def)
  show ?thesis
    using True deal fin0 [OF deal] fin(2) [OF deal, of "hd (Players (snd (DealHands ?n ?d)))"]
    by (auto simp: setup_session_def Let_def split: prod.splits sum.splits)
next
  case False
  let ?s1 = "fill_roster su s"
  have s1: "game_sound ?s1" by (rule fill_roster_sound [OF assms(1,2)])
  have "game_sound (?s1\<lparr>Status := SessionStatusWaiting\<rparr>)"
    by (rule game_sound_frame [OF s1]) (simp_all add: tiles_by_def)
  with s1 False show ?thesis by (simp add: setup_session_def Let_def)
qed

subsection \<open>Sound registries\<close>

definition all_sound :: "'w manager \<Rightarrow> bool" where
  "all_sound m = (\<forall>i s. mgr_sessions m i = Some s \<longrightarrow> game_sound s)"

definition loads_sound :: "'w manager_env \<Rightarrow> bool" where
  "loads_sound env = (\<forall>sid w s w'. RepoGetSession env sid w = (Inr s, w') \<longrightarrow> game_sound s)"

lemma all_sound_set: "all_sound m \<Longrightarrow> game_sound s \<Longrightarrow> all_sound (set_session sid s m)"
  by (simp add: all_sound_def)

lemma all_sound_cong: "mgr_sessions m = mgr_sessions m' \<Longrightarrow> all_sound m = all_sound m'"
  by (simp add: all_sound_def)

lemma hydrate_sound:
  assumes "loads_sound env" "all_sound m" "hydrateRecoveredSession env sid m = (r, m1)"
  shows "all_sound m1 \<and> (\<forall>s. r = Inr s \<longrightarrow> game_sound s)"
proof -
  have load: "game_sound s" if "RepoGetSession env sid (world m) = (Inr s, w)" for s w
    using assms(1) that unfolding loads_sound_def by blast
  show ?thesis using assms(2,3)
    by (auto simp: hydrateRecoveredSession_def AddSession_def all_sound_def dest: load
        split: option.splits if_splits prod.splits sum.splits)
qed

lemma lookup_sound:
  assumes "loads_sound env" "all_sound m" "lookupSession env sid m = (r, m1)"
  shows "all_sound m1 \<and> (\<forall>s. r = Inr s \<longrightarrow> game_sound s)"
proof (cases "mgr_sessions m sid")
  case (Some s)
  with assms show ?thesis by (auto simp: lookupSession_def all_sound_def)
next
  case None
  obtain r2 m2 where h: "hydrateRecoveredSession env sid m = (r2, m2)" by force
  from hydrate_sound [OF assms(1,2) h] None assms(2,3) h show ?thesis
    by (auto simp: lookupSession_def all_sound_def split: if_splits sum.splits option.splits)
qed

context session_store begin

lemma persist_sound:
  assumes "save = SaveSession env" "all_sound m" "game_sound s" "persistState env sid s m = (eo, s1, m1)"
  shows "all_sound m1 \<and> game_sound s1"
proof -
  from persistState_games [OF assms(1,4)] have "game_sound s1" "mgr_sessions m1 = (mgr_sessions m)(sid \<mapsto> s1)"
    using game_sound_cong [of s1 s] assms(3) by simp_all
  with assms(2) show ?thesis by (auto simp: all_sound_def)
qed

lemma finalize_sound:
  assumes "save = SaveSession env" "all_sound m" "game_sound s"
    "finalizeMatchLocked env sid s oc m = (eo, s1, m1)"
  shows "all_sound m1 \<and> game_sound s1"
proof (cases oc)
  case None
  with assms show ?thesis by (simp add: finalizeMatchLocked_def)
next
  case (Some out)
  let ?s = "if \<not> MutationsLocked s then s\<lparr>MutationsLocked := True, Status := SessionStatusCompleted\<rparr> else s"
  have snd: "game_sound ?s"
    by (rule game_sound_frame [OF assms(3)]) (simp_all add: tiles_by_def)
  obtain e2 s2 m2 where p: "persistState env sid ?s (set_session sid ?s m) = (e2, s2, m2)"
    by (metis prod_cases3)
  from persist_sound [OF assms(1) all_sound_set [OF assms(2) snd] snd p] Some p assms(4) show ?thesis
    by (auto simp: finalizeMatchLocked_def Let_def split: option.splits)
qed

lemma processGameTurn_sound:
  assumes env: "save = SaveSession env" and load: "loads_sound env" and m: "all_sound m"
    and a: "act_PlayerID a \<noteq> []"
  shows "all_sound (snd (processGameTurn env sid a m))"
proof -
  obtain r0 m1 where look: "lookupSession env sid m = (r0, m1)" by force
  note m1 = lookup_sound [OF load m look]
  show ?thesis
  proof (cases r0)
    case (Inl e)
    with look m1 show ?thesis by (simp add: processGameTurn_def)
  next
    case (Inr s)
    obtain r s1 where run: "ProcessGameTurn a s = (r, s1)" by force
    have s1: "game_sound s1" using ProcessGameTurn_sound [of s a] m1 Inr a run by simp
    note m2 = all_sound_set [OF conjunct1 [OF m1] s1, of sid]
    show ?thesis
    proof (cases r)
      case (Inl e)
      with look \<open>r0 = Inr s\<close> run m2 show ?thesis by (simp add: processGameTurn_def)
    next
      case (Inr t)
      let ?m2 = "set_session sid s1 m1"
      obtain e3 s3 m3 where p: "(if shouldPersistSession s1 (Some t) then persistState env sid s1 ?m2
          else (None, s1, ?m2)) = (e3, s3, m3)" by (metis prod_cases3)
      have m3: "all_sound m3 \<and> game_sound s3"
        using p m2 s1 persist_sound [OF env m2 s1] by (metis prod.inject)
      obtain e4 s4 m4 where f: "(if MatchEnded t then finalizeMatchLocked env sid s3 (Outcome t) m3
          else (None, s3, m3)) = (e4, s4, m4)" by (metis prod_cases3)
      have m4: "all_sound m4"
        using f m3 finalize_sound [OF env conjunct1 [OF m3] conjunct2 [OF m3]] by (metis prod.inject)
      have step: "snd (processGameTurn env sid a m) =
          (case e3 of Some e \<Rightarrow> m3 | None \<Rightarrow>
            (case e4 of Some e \<Rightarrow> m4 | None \<Rightarrow> publishTurnEvents env s4 (Some t) m4))"
        using look \<open>r0 = Inr s\<close> run p f Inr
        by (simp add: processGameTurn_def Let_def split: option.split)
      have "all_sound (publishTurnEvents env s4 (Some t) m4)"
        using m4 all_sound_cong [of "publishTurnEvents env s4 (Some t) m4" m4] by simp
      with m3 m4 show ?thesis unfolding step by (simp split: option.split)
    qed
  qed
qed

lemma evaluate_sound:
  assumes env: "save = SaveSession env" and load: "loads_sound env" and m: "all_sound m"
  shows "all_sound (snd (evaluateAndMaybeFinalize env sid m))"
proof -
  obtain r0 m1 where look: "lookupSession env sid m = (r0, m1)" by force
  note m1 = lookup_sound [OF load m look]
  show ?thesis
  proof (cases r0)
    case (Inl e)
    with look m1 show ?thesis by (simp add: evaluateAndMaybeFinalize_def)
  next
    case (Inr s)
    obtain eo s2 m2 where f: "finalizeMatchLocked env sid s (EvaluateMatch s) m1 = (eo, s2, m2)"
      by (metis prod_cases3)
    have "all_sound m2" using finalize_sound [OF env _ _ f] m1 Inr by simp
    moreover have "all_sound (publishTurnEvents env s2 ro m2)" for ro
      using calculation all_sound_cong [of "publishTurnEvents env s2 ro m2" m2] by simp
    ultimately show ?thesis using look Inr m1 f
      by (cases "EvaluateMatch s") (simp_all add: evaluateAndMaybeFinalize_def split: option.split)
  qed
qed

lemma abandoned_sound:
  assumes env: "save = SaveSession env" and load: "loads_sound env" and m: "all_sound m"
  shows "all_sound (snd (HandlePlayerAbandoned env sid p m))"
proof -
  obtain r0 m1 where look: "lookupSession env sid m = (r0, m1)" by force
  note m1 = lookup_sound [OF load m look]
  have "all_sound (snd (withSessionWrite env sid (abandon_player sid p) m))"
  proof (cases r0)
    case (Inl e)
    with look m1 show ?thesis by (simp add: withSessionWrite_def)
  next
    case (Inr s)
    obtain r s1 where run: "abandon_player sid p s = (r, s1)" by force
    have s1: "game_sound s1" using abandon_player_sound [of s sid p] m1 Inr run by simp
    note m2 = all_sound_set [OF conjunct1 [OF m1] s1, of sid]
    obtain e3 s3 m3 where p: "persistState env sid s1 (set_session sid s1 m1) = (e3, s3, m3)"
      by (metis prod_cases3)
    from persist_sound [OF env m2 s1 p] m2 look Inr run p show ?thesis
      by (simp add: withSessionWrite_def split: sum.split option.split)
  qed
  then show ?thesis
    using evaluate_sound [OF env load]
    by (simp add: HandlePlayerAbandoned_def split: prod.splits sum.splits) (metis snd_conv)
qed

lemma start_sound:
  assumes env: "save = SaveSession env" and load: "loads_sound env" and m: "all_sound m"
    and su: "distinct (PlayerUIDs su)" "intn_in_range (intn (DeterministicSeed sid))"
  shows "all_sound (snd (ApplyReplicatedStartMatch env intn sid su m))"
proof -
  define found where "found = (case lookupSession env sid m of
                (Inr s, m1) \<Rightarrow> (Inr s, m1)
              | (Inl _, m1) \<Rightarrow>
                  (case CreateSession sid (PlayerUIDs su) m1 of
                     (Inl e, m2) \<Rightarrow> (Inl e, m2)
                   | (Inr _, m2) \<Rightarrow> lookupSession env sid m2))"
  obtain r0 m3 where fm: "found = (r0, m3)" by force
  have m3: "all_sound m3 \<and> (\<forall>s. r0 = Inr s \<longrightarrow> game_sound s)"
  proof -
    obtain r1 m1 where look: "lookupSession env sid m = (r1, m1)" by force
    note m1 = lookup_sound [OF load m look]
    show ?thesis
    proof (cases r1)
      case (Inr s)
      with m1 look fm show ?thesis by (auto simp: found_def)
    next
      case (Inl e)
      obtain r2 m2 where c: "CreateSession sid (PlayerUIDs su) m1 = (r2, m2)" by force
      have m2: "all_sound m2" using c m1 NewGameSession_sound [OF su(1)]
        by (auto simp: CreateSession_def all_sound_def Let_def split: if_splits)
      from lookup_sound [OF load m2] Inl look c fm m2 show ?thesis
        by (auto simp: found_def split: sum.splits)
    qed
  qed
  show ?thesis
  proof (cases "sid = [] \<or> PlayerUIDs su = [] \<or> (\<exists>e. r0 = Inl e)")
    case True
    with m m3 fm show ?thesis by (auto simp: ApplyReplicatedStartMatch_def found_def)
  next
    case False
    then obtain s where s: "r0 = Inr s" by (cases r0) auto
    obtain r s1 where run: "setup_session intn sid su s = (r, s1)" by force
    have s1: "game_sound s1" using setup_session_sound [where intn = intn and sid = sid and s = s and su = su] su m3 s run by simp
    note m4 = all_sound_set [OF conjunct1 [OF m3] s1, of sid]
    obtain e4 s4 m5 where p: "persistState env sid s1 (set_session sid s1 m3) = (e4, s4, m5)"
      by (metis prod_cases3)
    have step: "snd (ApplyReplicatedStartMatch env intn sid su m) =
        (case r of Inl e \<Rightarrow> set_session sid s1 m3 | Inr u \<Rightarrow> m5)"
      using False fm s run p
      by (simp add: ApplyReplicatedStartMatch_def found_def split: sum.split option.split)
    from persist_sound [OF env m4 s1 p] m4 show ?thesis unfolding step by (simp split: sum.split)
  qed
qed

end

end
