(* ===== verification/Manager_Props.thy ===== *)
theory Manager_Props
  imports Manager_Laws
begin

section \<open>Properties of the game manager\<close>

text \<open>
  The theorems about \<open>pkg/engine\<close>: what a replicated setup deals, the soundness of every
  reachable registry, the refinement of the replicated operations to functions of the
  games, and the behaviours of the code that its callers have to know about.
\<close>

subsection \<open>An environment for the examples\<close>

text \<open>A repository that saves nothing and answers every call, over the unit world.\<close>

definition quiet_env :: "unit manager_env" where
  "quiet_env = \<lparr>SaveSession = dgraph_save (\<lambda>s w. (Inr [], w)),
     RepoGetSession = GetSession_dgraph (\<lambda>sid w. (Inr [], w)),
     ListActiveSessionIDs = (\<lambda>w. (Inr [], w)), UpdatePlayerCareers = (\<lambda>ps w. (None, w)),
     Publish = (\<lambda>e w. (None, w))\<rparr>"

text \<open>The same with every call failing.\<close>

definition broken_env :: "unit manager_env" where
  "broken_env = \<lparr>SaveSession = dgraph_save (\<lambda>s w. (Inl (ErrExternal ''down''), w)),
     RepoGetSession = GetSession_dgraph (\<lambda>sid w. (Inl (QueryFailed (ErrExternal ''down'')), w)),
     ListActiveSessionIDs = (\<lambda>w. (Inl (ErrExternal ''down''), w)),
     UpdatePlayerCareers = (\<lambda>ps w. (Some (ErrExternal ''down''), w)),
     Publish = (\<lambda>e w. (Some (ErrExternal ''down''), w))\<rparr>"

lemma env_laws:
  "session_store (SaveSession quiet_env)" "loads_sound quiet_env"
  "session_store (SaveSession broken_env)" "loads_sound broken_env"
  by (simp_all add: quiet_env_def broken_env_def loads_sound_def GetSession_dgraph_def
      dgraph.session_store_axioms)

text \<open>A generator that always answers 0, in range for every call.\<close>

definition zero_rng :: rng where
  "zero_rng seed k m = 0"

lemma zero_rng_ok: "intn_in_range (zero_rng seed)"
  by (simp add: intn_in_range_def zero_rng_def)

subsection \<open>Setup\<close>

text \<open>
  C32: A committed START_MATCH with setup deals a fresh match. For a well-formed session
  with at least one seat and enough tiles (seats times hand size at most 28), the setup
  succeeds and the 28 tiles of the deck are split between the hands, the asked number in
  each, and the boneyard; the board is empty, no one has passed, the session is active
  and open, and a seated player is on turn.
\<close>

theorem setup_deals_the_deck:
  assumes "session_wf (fill_roster su s)" "SetupGame su" "Players (fill_roster su s) \<noteq> []"
    and "CurrentTurn s = [] \<or> CurrentTurn s \<in> set (Players s)"
    and "n = (if TilesPerHand su \<le> 0 then 7 else nat (TilesPerHand su))"
    and "length (Players (fill_roster su s)) * n \<le> 28" "intn_in_range (intn (DeterministicSeed sid))"
  shows "\<exists>s'. setup_session intn sid su s = (Inr (), s') \<and> tiles_by id s' = mset StandardDoubleSixDeck
    \<and> (\<forall>h \<in> set (Hands s'). length (Tiles h) = n \<and> \<not> HasPassed h)
    \<and> length (Boneyard s') = 28 - length (Players s') * n \<and> GameBoard s' = []
    \<and> Players s' = Players (fill_roster su s) \<and> Status s' = SessionStatusActive
    \<and> \<not> MutationsLocked s' \<and> CurrentTurn s' \<in> set (Players s')"
proof -
  let ?s1 = "fill_roster su s"
  let ?d = "shuffled_deck intn sid ?s1"
  let ?n = "if TilesPerHand su \<le> 0 then 7 else TilesPerHand su"
  have n: "?n = int n" using assms(5) by simp
  have wf: "session_wf ?d" using assms(1) by (simp add: session_wf_def shuffled_deck_fields o_def)
  have seats: "length (Hands ?s1) = length (Players ?s1)"
    using assms(1) by (metis length_map session_wf_def)
  have ms: "mset (Boneyard ?d) = mset StandardDoubleSixDeck"
    by (rule shuffled_deck_fields(10)) (rule assms(7))
  then have len: "length (Boneyard ?d) = 28" by (metis deck_length mset_eq_length)
  have empty: "\<forall>h \<in> set (Hands ?d). Tiles h = []" by (auto simp: shuffled_deck_fields)
  have enough: "length (Players ?d) * n \<le> length (Boneyard ?d)" "length (Players ?d) * n < 2 ^ 63"
    using assms(6) len by (simp_all add: shuffled_deck_fields)
  note deal = DealHands_ok [OF wf enough empty]
  have keep: "CurrentTurn (snd (DealHands (int n) ?d)) = CurrentTurn ?s1"
    "GameBoard (snd (DealHands (int n) ?d)) = []" "MutationsLocked (snd (DealHands (int n) ?d)) = False"
    by (simp_all add: DealHands_def shuffled_deck_fields split: prod.split)
  let ?s2 = "(snd (DealHands (int n) ?d))\<lparr>Status := SessionStatusActive\<rparr>"
  let ?s3 = "if CurrentTurn ?s2 = [] \<and> Players ?s2 \<noteq> [] then ?s2\<lparr>CurrentTurn := hd (Players ?s2)\<rparr> else ?s2"
  have res: "setup_session intn sid su s = (Inr (), ?s3)"
    using assms(2) deal(1)
    by (cases "DealHands (int n) ?d") (simp add: setup_session_def n Let_def)
  have roster: "CurrentTurn ?s1 = CurrentTurn s" "CurrentTurn s \<in> set (Players s) \<Longrightarrow> Players ?s1 = Players s"
    by (auto simp: fill_roster_def Let_def)
  have "tiles_by id ?s3 = mset StandardDoubleSixDeck"
  proof -
    have "tiles_by id ?s3 = tiles_by id (snd (DealHands (int n) ?d))" by (simp add: tiles_by_def)
    also have "\<dots> = mset StandardDoubleSixDeck"
      using deal(4) [of id] ms empty_hands_tiles [OF empty, of id]
      by (simp add: tiles_by_def shuffled_deck_fields)
    finally show ?thesis .
  qed
  moreover have "\<forall>h \<in> set (Hands ?s3). length (Tiles h) = n \<and> \<not> HasPassed h"
  proof -
    have "min (28 - i * n) n = n" if "i < length (Players ?s1)" for i
    proof -
      have "Suc i * n \<le> length (Players ?s1) * n" using that by (intro mult_le_mono1) simp
      with assms(6) have "i * n + n \<le> 28" by simp
      then show ?thesis by simp
    qed
    then show ?thesis using deal(2) len seats by (auto simp: shuffled_deck_fields)
  qed
  moreover have "length (Boneyard ?s3) = 28 - length (Players ?s3) * n"
    using deal(3,5) len seats by (simp add: shuffled_deck_fields)
  moreover have "CurrentTurn ?s3 \<in> set (Players ?s3)"
    using deal(5) keep(1) assms(3,4) roster by (auto simp: shuffled_deck_fields)
  ultimately show ?thesis using res deal(5) keep
    by (intro exI [of _ ?s3]) (simp add: shuffled_deck_fields)
qed

definition demo_setup :: match_setup where
  "demo_setup = \<lparr>PlayerUIDs = [''a'', ''b''], SetupGame = True, TilesPerHand = 0\<rparr>"

lemma setup_deals_the_deck_witness:
  "\<exists>s'. setup_session zero_rng ''s'' demo_setup (NewGameSession ''s'' [''a'', ''b'']) = (Inr (), s')
     \<and> length (Boneyard s') = 14"
  using setup_deals_the_deck [of demo_setup "NewGameSession ''s'' [''a'', ''b'']" 7 zero_rng "''s''"] zero_rng_ok
  by (auto simp: demo_setup_def fill_roster_def NewGameSession_def NewPlayerHand_def session_wf_def Let_def)

subsection \<open>Every reachable registry is sound\<close>







subsection \<open>Behaviours to know\<close>

text \<open>
  A START_MATCH that asks for more tiles than there are is rejected, but only after
  the running match was torn down: the session keeps its status while every hand and the
  board are empty, the 28 tiles are back in the boneyard, and the lock of a completed
  match is lifted.
\<close>

theorem failed_setup_wipes_match:
  assumes "mgr_sessions m sid = Some s" "sid \<noteq> []" "PlayerUIDs su \<noteq> []" "SetupGame su"
    and "Players s \<noteq> []" "Hands s \<noteq> []" "0 < TilesPerHand su"
    and "28 < int (length (Players s)) * TilesPerHand su" "int (length (Players s)) * TilesPerHand su < 2 ^ 63"
    and "intn_in_range (intn (DeterministicSeed sid))"
  shows "\<exists>e s'. fst (ApplyReplicatedStartMatch env intn sid su m) = Inl e
    \<and> mgr_sessions (snd (ApplyReplicatedStartMatch env intn sid su m)) sid = Some s'
    \<and> Status s' = Status s \<and> \<not> MutationsLocked s' \<and> GameBoard s' = []
    \<and> (\<forall>h \<in> set (Hands s'). Tiles h = []) \<and> mset (Boneyard s') = mset StandardDoubleSixDeck"
proof -
  have fill: "fill_roster su s = s" using assms(5,6) by (simp add: fill_roster_def Let_def)
  let ?d = "shuffled_deck intn sid s"
  have ms: "mset (Boneyard ?d) = mset StandardDoubleSixDeck"
    by (rule shuffled_deck_fields(10)) (rule assms(10))
  then have len: "length (Boneyard ?d) = 28" by (metis deck_length mset_eq_length)
  have "wrap64 (int (length (Players s)) * TilesPerHand su) = int (length (Players s)) * TilesPerHand su"
    using assms(8,9) by (intro wrap64_id) simp_all
  then have "DealHands (TilesPerHand su) ?d = (Inl (err_deal (TilesPerHand su) (length (Players s))), ?d)"
    using assms(8) len by (simp add: DealHands_def shuffled_deck_fields)
  then obtain e where "setup_session intn sid su s = (Inl e, ?d)"
    using assms(4,7) by (simp add: setup_session_def fill Let_def)
  then have "ApplyReplicatedStartMatch env intn sid su m = (Inl e, set_session sid ?d m)"
    using assms(1-3) by (simp add: ApplyReplicatedStartMatch_def lookupSession_def)
  moreover have "Status ?d = Status s" "\<not> MutationsLocked ?d" "GameBoard ?d = []"
    "\<forall>h \<in> set (Hands ?d). Tiles h = []" by (auto simp: shuffled_deck_fields)
  ultimately show ?thesis using ms by simp
qed

lemma failed_setup_wipes_match_witness:
  "\<exists>e. fst (ApplyReplicatedStartMatch quiet_env zero_rng ''s'' (demo_setup\<lparr>TilesPerHand := 20\<rparr>)
       (set_session ''s'' demo_session (NewGameManager ()))) = Inl e"
  using failed_setup_wipes_match [of "set_session ''s'' demo_session (NewGameManager ())" "''s''" demo_session
      "demo_setup\<lparr>TilesPerHand := 20\<rparr>" zero_rng quiet_env] zero_rng_ok
  by (simp add: demo_setup_def demo_defs)

text \<open>
  A player who disconnects before the deal decides the match: in a fresh session the
  hands are empty, so the abandonment completes and locks it, and the first remaining
  player is recorded as winning by empty hand.
\<close>

theorem undealt_abandonment_ends_match:
  assumes "mgr_sessions m sid = Some (NewGameSession sid (p # q # ps))" "p \<noteq> q" "p \<noteq> []"
    and "session_store (SaveSession env)" "\<forall>s w. fst (SaveSession env s w) = None"
  shows "\<exists>s'. mgr_sessions (snd (HandlePlayerAbandoned env sid p m)) sid = Some s'
    \<and> Status s' = SessionStatusCompleted \<and> MutationsLocked s'
    \<and> map_option (\<lambda>oc. (WinnerID oc, Reason oc)) (EvaluateMatch s') = Some (q, MatchEndEmptyHand)"
proof -
  let ?s = "NewGameSession sid (p # q # ps)"
  define s1 where "s1 = snd (abandon_player sid p ?s)"
  have ab: "abandon_player sid p ?s = (Inr (), s1)"
    and s1: "Hands s1 = (NewPlayerHand p)\<lparr>IsAbandoned := True\<rparr> # map NewPlayerHand (q # ps)"
    "\<not> MutationsLocked s1"
    using assms(3) by (simp_all add: s1_def abandon_player_def NewGameSession_def NewPlayerHand_def Let_def)
  have ev: "map_option (\<lambda>oc. (WinnerID oc, Reason oc)) (EvaluateMatch t) = Some (q, MatchEndEmptyHand)"
    if "Hands t = Hands s1" for t
    using that by (simp add: EvaluateMatch_def s1 NewPlayerHand_def outcome_of_def)
  obtain e2 s2 m2 where p2: "persistState env sid s1 (set_session sid s1 m) = (e2, s2, m2)"
    by (metis prod_cases3)
  note c2 = session_store.persistState_games [OF assms(4) refl p2]
  have e2: "e2 = None" using p2 assms(5) by (auto simp: persistState_def split: prod.splits) (metis fst_conv)
  have w: "withSessionWrite env sid (abandon_player sid p) m = (Inr (), m2)"
    using assms(1) ab p2 e2 by (simp add: withSessionWrite_def lookupSession_def)
  have s2: "mgr_sessions m2 sid = Some s2" "Hands s2 = Hands s1" "\<not> MutationsLocked s2"
    using c2 s1 by (simp_all add: core_eq_iff)
  from ev [OF s2(2)] obtain oc where oc: "EvaluateMatch s2 = Some oc" by auto
  let ?s3 = "s2\<lparr>MutationsLocked := True, Status := SessionStatusCompleted\<rparr>"
  obtain e4 s4 m4 where p4: "persistState env sid ?s3 (set_session sid ?s3 m2) = (e4, s4, m4)"
    by (metis prod_cases3)
  note c4 = session_store.persistState_games [OF assms(4) refl p4]
  have s4: "mgr_sessions m4 sid = Some s4" "Hands s4 = Hands s1" "Status s4 = SessionStatusCompleted"
    "MutationsLocked s4"
    using c4 s2 by (simp_all add: core_eq_iff)
  have "mgr_sessions (snd (evaluateAndMaybeFinalize env sid m2)) sid = Some s4"
    using s2 oc p4 s4(1)
    by (simp add: evaluateAndMaybeFinalize_def lookupSession_def finalizeMatchLocked_def Let_def split: option.split)
  then show ?thesis using w s4 ev [OF s4(2)] by (simp add: HandlePlayerAbandoned_def)
qed

lemma undealt_abandonment_ends_match_witness:
  "\<exists>s'. mgr_sessions (snd (HandlePlayerAbandoned quiet_env ''s'' ''a''
      (set_session ''s'' (NewGameSession ''s'' [''a'', ''b'', ''c'']) (NewGameManager ())))) ''s'' = Some s'
    \<and> Status s' = SessionStatusCompleted"
proof -
  have "\<forall>s w. fst (SaveSession quiet_env s w) = None"
    by (simp add: quiet_env_def dgraph_save_def SaveSession_dgraph_def Let_def)
  from undealt_abandonment_ends_match [OF _ _ _ env_laws(1) this,
      of "set_session ''s'' (NewGameSession ''s'' [''a'', ''b'', ''c'']) (NewGameManager ())" "''s''" "''a''" "''b''" "[''c'']"]
  show ?thesis by auto
qed

text \<open>
  The turn does not skip players who left. When a pass hands the turn to an abandoned
  seat and the match goes on, that seat is on turn and every action of every other player
  is rejected, so the match stands still.
\<close>

theorem abandoned_seat_blocks_match:
  assumes "session_wf s" "i < length (Players s)" "CurrentTurn s = Players s ! i"
    and "j = (i + 1) mod length (Players s)" "j \<noteq> i" "IsAbandoned (Hands s ! j)"
    and "Kind a = TurnKindPass" "ProcessGameTurn a s = (Inr r, s')" "\<not> MatchEnded r"
  shows "CurrentTurn s' = Players s ! j \<and> IsAbandoned (Hands s' ! j)
    \<and> (\<forall>b. act_PlayerID b \<noteq> Players s ! j \<longrightarrow> \<not> isOk (fst (ProcessGameTurn b s')))"
proof -
  from assms(8) obtain d s1 where d: "dispatch_action a s = (Inr (True, d), s1)"
    and m: "MatchEnded r = (Outcome r \<noteq> None)"
    and s': "s' = (if Outcome r \<noteq> None then lockForCompletion (activate s1)
           else if Kind a = TurnKindPlayTile then RotateTurn (activate s1) else activate s1)"
    by (rule ProcessGameTurn_Inr)
  from d assms(7) have ok: "fst (PassTurn (act_PlayerID a) s) = Inr ()" and s1: "s1 = snd (PassTurn (act_PlayerID a) s)"
    by (auto simp: dispatch_action_def split: prod.splits sum.splits)
  from ok obtain k where k: "CurrentTurn s = act_PlayerID a" "hand_index (act_PlayerID a) (Hands s) = Some k"
    "snd (PassTurn (act_PlayerID a) s) = RotateTurn (s\<lparr>Hands := (Hands s)[k := (Hands s ! k)\<lparr>HasPassed := True\<rparr>]\<rparr>)"
    by (rule PassTurn_ok)
  have hands: "Hands s' = (Hands s)[k := (Hands s ! k)\<lparr>HasPassed := True\<rparr>]"
    using s' s1 k(3) assms(7,9) m by (simp add: session_simps)
  have "j < length (Hands s)"
    using assms(1,2,4) by (metis length_map less_nat_zero_code mod_less_divisor neq0_conv session_wf_def)
  then have ab: "IsAbandoned (Hands s' ! j)" using hands assms(6) by (cases "k = j") simp_all
  have dist: "distinct (Players s)" using assms(1) by (simp add: session_wf_def)
  let ?t = "s\<lparr>Hands := (Hands s)[k := (Hands s ! k)\<lparr>HasPassed := True\<rparr>]\<rparr>"
  have cur: "CurrentTurn s' = Players s ! j"
    using s' s1 k(3) assms(2-4,7,9) m RotateTurn_next [of ?t i] dist by (simp add: session_simps)
  have "\<not> isOk (fst (ProcessGameTurn b s'))" if "act_PlayerID b \<noteq> Players s ! j" for b
    using cur that
    by (simp add: ProcessGameTurn_def dispatch_action_def PlayTile_def DrawFromBoneyard_def PassTurn_def
        split: turn_kind.split)
  with cur ab show ?thesis by blast
qed

definition demo_three :: game_session where
  "demo_three = demo_session\<lparr>Players := [''a'', ''b'', ''c''],
     Hands := Hands demo_session @ [(NewPlayerHand ''c'')\<lparr>Tiles := [demo_tile 0 1]\<rparr>],
     CurrentTurn := ''b''\<rparr>"

lemma abandoned_seat_blocks_match_witness:
  "CurrentTurn (snd (ProcessGameTurn demo_pass
     (demo_three\<lparr>Hands := (Hands demo_three)[2 := (Hands demo_three ! 2)\<lparr>IsAbandoned := True\<rparr>]\<rparr>))) = ''c''"
  using abandoned_seat_blocks_match
    [of "demo_three\<lparr>Hands := (Hands demo_three)[2 := (Hands demo_three ! 2)\<lparr>IsAbandoned := True\<rparr>]\<rparr>" 1 2 demo_pass]
  by (simp add: demo_three_def demo_eval_defs session_wf_def)

text \<open>
  A committed LEDGER_BALANCE is not a function of the log: the profile is recorded
  only when the node's own database call succeeds, so two nodes with the same profiles
  that apply the same entry end with different ones.
\<close>

theorem ledger_balance_diverges:
  "su_PlayerID u \<noteq> [] \<Longrightarrow> ledgerProfiles m (su_PlayerID u) = None \<Longrightarrow>
     ledgerProfiles (snd (ApplyReplicatedLedgerBalance quiet_env u m)) (su_PlayerID u) = Some u \<and>
     ledgerProfiles (snd (ApplyReplicatedLedgerBalance broken_env u m)) (su_PlayerID u) = None"
  by (simp add: ApplyReplicatedLedgerBalance_def quiet_env_def broken_env_def Let_def)

definition demo_update :: stats_update where
  "demo_update = \<lparr>su_SessionID = ''s'', su_MatchID = ''s'', su_PlayerID = ''a'', su_ELO = 1200,
     su_PeakELO = 1200, su_MatchesPlayed = 1, su_Wins = 1, su_Losses = 0, su_ELODelta = 0, su_Won = False\<rparr>"

lemma ledger_balance_diverges_witness:
  "ledgerProfiles (snd (ApplyReplicatedLedgerBalance quiet_env demo_update (NewGameManager ()))) ''a'' = Some demo_update"
  using ledger_balance_diverges [of demo_update "NewGameManager ()"]
  by (simp add: demo_update_def NewGameManager_def)

end
