(* ===== verification/Commands.thy ===== *)
theory Commands
  imports Manager Deal
begin

section \<open>Replicated commands\<close>

text \<open>
  Models \<open>pkg/consensus/commands.go\<close> and the \<open>Command\<close> type of \<open>fsm.go\<close>: the
  operation names, the payloads, their JSON encoders and decoders. A log entry is a JSON
  text (\<open>jtext\<close>); \<open>Payload\<close> is a byte slice that holds another JSON text and travels as
  base64. Strings are valid UTF-8, which \<open>encoding/json\<close> writes and reads back
  unchanged.
\<close>

subsection \<open>Operations\<close>

definition OpStartMatch :: string where "OpStartMatch = ''START_MATCH''"
definition OpApplyTurn :: string where "OpApplyTurn = ''APPLY_TURN''"
definition OpLedgerBalance :: string where "OpLedgerBalance = ''LEDGER_BALANCE''"
definition OpAddNode :: string where "OpAddNode = ''ADD_NODE''"
definition OpRemoveNode :: string where "OpRemoveNode = ''REMOVE_NODE''"
definition OpCommitConfig :: string where "OpCommitConfig = ''COMMIT_CONFIG''"
definition OpDebugNoop :: string where "OpDebugNoop = ''DEBUG_NOOP''"
definition ClusterMatchID :: string where "ClusterMatchID = ''_cluster''"

lemmas op_defs = OpStartMatch_def OpApplyTurn_def OpLedgerBalance_def OpAddNode_def OpRemoveNode_def
  OpCommitConfig_def OpDebugNoop_def ClusterMatchID_def

lemma op_distinct [simp]:
  "distinct [OpStartMatch, OpApplyTurn, OpLedgerBalance, OpAddNode, OpRemoveNode, OpCommitConfig, OpDebugNoop]"
  "OpStartMatch \<noteq> []" "OpApplyTurn \<noteq> []" "OpLedgerBalance \<noteq> []" "OpAddNode \<noteq> []"
  "OpRemoveNode \<noteq> []" "OpCommitConfig \<noteq> []" "OpDebugNoop \<noteq> []" "ClusterMatchID \<noteq> []"
  by (simp_all add: op_defs)

definition IsMembershipOp :: "string \<Rightarrow> bool" where
  "IsMembershipOp op = (op = OpAddNode \<or> op = OpRemoveNode \<or> op = OpCommitConfig)"

definition IsNonMatchOp :: "string \<Rightarrow> bool" where
  "IsNonMatchOp op = (IsMembershipOp op \<or> op = OpDebugNoop)"

subsection \<open>Types\<close>

record command =
  Op :: string
  cmd_MatchID :: string
  Payload :: jtext

record add_node =
  an_NodeID :: string
  an_Address :: string

record apply_turn_payload =
  at_Kind :: string
  at_PlayerID :: string
  at_Tile :: domino_tile
  at_PlayAtLeft :: bool

record ledger_payload =
  lp_PlayerID :: string
  lp_ELO :: rat
  lp_PeakELO :: rat
  lp_ELODelta :: rat
  lp_MatchesPlayed :: int
  lp_Wins :: int
  lp_Losses :: int

record apply_result =
  ar_OK :: bool
  ar_Op :: string
  ar_MatchID :: string
  ar_Applied :: bool
  ar_Turn :: "turn_result option"
  ar_Session :: "game_session option"
  ar_Ledger :: "stats_update option"

text \<open>\<open>models.TurnKind(p.Kind)\<close>, and the conversions to the domain structs.\<close>

definition turn_kind_of :: "string \<Rightarrow> turn_kind" where
  "turn_kind_of k =
     (if k = ''PLAY_TILE'' then TurnKindPlayTile else if k = ''DRAW'' then TurnKindDraw
      else if k = ''PASS'' then TurnKindPass else TurnKindOther k)"

definition ToTurnAction :: "apply_turn_payload \<Rightarrow> turn_action" where
  "ToTurnAction p = \<lparr>Kind = turn_kind_of (at_Kind p), act_PlayerID = at_PlayerID p, act_Tile = at_Tile p,
     act_PlayAtLeft = at_PlayAtLeft p\<rparr>"

definition ToStatsUpdate :: "string \<Rightarrow> ledger_payload \<Rightarrow> stats_update" where
  "ToStatsUpdate mid p = \<lparr>su_SessionID = mid, su_MatchID = mid, su_PlayerID = lp_PlayerID p,
     su_ELO = lp_ELO p, su_PeakELO = lp_PeakELO p, su_MatchesPlayed = lp_MatchesPlayed p, su_Wins = lp_Wins p,
     su_Losses = lp_Losses p, su_ELODelta = lp_ELODelta p, su_Won = False\<rparr>"

subsection \<open>Marshalling\<close>

definition command_json :: "command \<Rightarrow> json" where
  "command_json c =
     JObj ([(''op'', JStr (Op c)), (''match_id'', JStr (cmd_MatchID c))]
           @ (case Payload c of None \<Rightarrow> [] | Some d \<Rightarrow> [(''payload'', JB64 d)]))"

definition add_node_json :: "add_node \<Rightarrow> json" where
  "add_node_json a = JObj [(''node_id'', JStr (an_NodeID a)), (''address'', JStr (an_Address a))]"

definition remove_node_json :: "string \<Rightarrow> json" where
  "remove_node_json nid = JObj [(''node_id'', JStr nid)]"

definition debug_noop_json :: "string \<Rightarrow> json" where
  "debug_noop_json msg = JObj [(''message'', JStr msg)]"

definition start_match_json :: "match_setup \<Rightarrow> json" where
  "start_match_json p =
     JObj ([(''player_uids'', JArr (map JStr (PlayerUIDs p)))]
           @ omitempty (\<not> SetupGame p) ''setup_game'' (JBool (SetupGame p))
           @ omitempty (TilesPerHand p = 0) ''tiles_per_hand'' (JInt (TilesPerHand p)))"

text \<open>\<open>omitempty\<close> has no effect on a struct field: the tile is always written.\<close>

definition apply_turn_json :: "apply_turn_payload \<Rightarrow> json" where
  "apply_turn_json p =
     JObj ([(''kind'', JStr (at_Kind p)), (''player_id'', JStr (at_PlayerID p)), (''tile'', tile_json (at_Tile p))]
           @ omitempty (\<not> at_PlayAtLeft p) ''play_at_left'' (JBool (at_PlayAtLeft p)))"

definition ledger_json :: "ledger_payload \<Rightarrow> json" where
  "ledger_json p =
     JObj [(''player_id'', JStr (lp_PlayerID p)), (''elo'', JFloat (lp_ELO p)), (''peak_elo'', JFloat (lp_PeakELO p)),
           (''elo_delta'', JFloat (lp_ELODelta p)), (''matches_played'', JInt (lp_MatchesPlayed p)),
           (''wins'', JInt (lp_Wins p)), (''losses'', JInt (lp_Losses p))]"

text \<open>
  \<open>EncodeCommandWithPayload\<close>: the payload is absent, raw bytes that are copied, or a
  value whose JSON form is given.
\<close>

datatype cmd_payload = NoPayload | RawPayload jtext | TypedPayload json

definition EncodeCommandWithPayload :: "string \<Rightarrow> string \<Rightarrow> cmd_payload \<Rightarrow> json" where
  "EncodeCommandWithPayload op mid p =
     command_json \<lparr>Op = op, cmd_MatchID = mid,
       Payload = (case p of NoPayload \<Rightarrow> None | RawPayload b \<Rightarrow> b | TypedPayload j \<Rightarrow> Some j)\<rparr>"

definition EncodeAddNodeCommand :: "string \<Rightarrow> string \<Rightarrow> json" where
  "EncodeAddNodeCommand nid addr =
     EncodeCommandWithPayload OpAddNode ClusterMatchID
       (TypedPayload (add_node_json \<lparr>an_NodeID = nid, an_Address = addr\<rparr>))"

definition EncodeRemoveNodeCommand :: "string \<Rightarrow> json" where
  "EncodeRemoveNodeCommand nid =
     EncodeCommandWithPayload OpRemoveNode ClusterMatchID (TypedPayload (remove_node_json nid))"

definition EncodeCommitConfigCommand :: json where
  "EncodeCommitConfigCommand = EncodeCommandWithPayload OpCommitConfig ClusterMatchID NoPayload"

definition EncodeDebugNoopCommand :: "string \<Rightarrow> json" where
  "EncodeDebugNoopCommand msg =
     EncodeCommandWithPayload OpDebugNoop ClusterMatchID (TypedPayload (debug_noop_json msg))"

subsection \<open>Unmarshalling\<close>

definition command_field :: "string \<Rightarrow> json \<Rightarrow> command \<Rightarrow> command option" where
  "command_field k j c =
     (if key_is ''op'' k then map_option (\<lambda>v. c\<lparr>Op := v\<rparr>) (un_string j (Op c))
      else if key_is ''match_id'' k then map_option (\<lambda>v. c\<lparr>cmd_MatchID := v\<rparr>) (un_string j (cmd_MatchID c))
      else if key_is ''payload'' k then map_option (\<lambda>v. c\<lparr>Payload := v\<rparr>) (un_bytes j (Payload c))
      else Some c)"

definition zero_command :: command where
  "zero_command = \<lparr>Op = [], cmd_MatchID = [], Payload = None\<rparr>"

text \<open>Unmarshalling a text: the empty text is not valid JSON.\<close>

definition un_text :: "(string \<Rightarrow> json \<Rightarrow> 'a \<Rightarrow> 'a option) \<Rightarrow> jtext \<Rightarrow> 'a \<Rightarrow> 'a option" where
  "un_text asg t zero = (case t of None \<Rightarrow> None | Some j \<Rightarrow> un_struct asg j zero)"

definition DecodeCommand :: "jtext \<Rightarrow> command result" where
  "DecodeCommand logEntry =
     (case un_text command_field logEntry zero_command of
        None \<Rightarrow> Inl (Wrapf ''decode command: '' ErrJson)
      | Some cmd \<Rightarrow>
          if Op cmd = [] then Inl (Errorf ''command op is required'')
          else if cmd_MatchID cmd = [] \<and> \<not> IsNonMatchOp (Op cmd) then
            Inl (Errorf ''command match_id is required'')
          else Inr cmd)"

definition add_node_field :: "string \<Rightarrow> json \<Rightarrow> add_node \<Rightarrow> add_node option" where
  "add_node_field k j a =
     (if key_is ''node_id'' k then map_option (\<lambda>v. a\<lparr>an_NodeID := v\<rparr>) (un_string j (an_NodeID a))
      else if key_is ''address'' k then map_option (\<lambda>v. a\<lparr>an_Address := v\<rparr>) (un_string j (an_Address a))
      else Some a)"

definition DecodeAddNodeCommand :: "jtext \<Rightarrow> add_node result" where
  "DecodeAddNodeCommand payload =
     (if payload = None then Inl (Errorf ''add node payload is required'')
      else case un_text add_node_field payload \<lparr>an_NodeID = [], an_Address = []\<rparr> of
        None \<Rightarrow> Inl (Wrapf ''decode add node payload: '' ErrJson)
      | Some out \<Rightarrow>
          if an_NodeID out = [] then Inl (Errorf ''node_id is required'')
          else if an_Address out = [] then Inl (Errorf ''address is required'')
          else Inr out)"

definition remove_node_field :: "string \<Rightarrow> json \<Rightarrow> string \<Rightarrow> string option" where
  "remove_node_field k j nid = (if key_is ''node_id'' k then un_string j nid else Some nid)"

definition DecodeRemoveNodeCommand :: "jtext \<Rightarrow> string result" where
  "DecodeRemoveNodeCommand payload =
     (if payload = None then Inl (Errorf ''remove node payload is required'')
      else case un_text remove_node_field payload [] of
        None \<Rightarrow> Inl (Wrapf ''decode remove node payload: '' ErrJson)
      | Some nid \<Rightarrow> if nid = [] then Inl (Errorf ''node_id is required'') else Inr nid)"

definition debug_noop_field :: "string \<Rightarrow> json \<Rightarrow> string \<Rightarrow> string option" where
  "debug_noop_field k j msg = (if key_is ''message'' k then un_string j msg else Some msg)"

definition DecodeDebugNoopPayload :: "jtext \<Rightarrow> string result" where
  "DecodeDebugNoopPayload payload =
     (if payload = None then Inr []
      else case un_text debug_noop_field payload [] of
        None \<Rightarrow> Inl (Wrapf ''decode debug noop payload: '' ErrJson)
      | Some msg \<Rightarrow> Inr msg)"

definition start_match_field :: "string \<Rightarrow> json \<Rightarrow> match_setup \<Rightarrow> match_setup option" where
  "start_match_field k j p =
     (if key_is ''player_uids'' k then
        map_option (\<lambda>v. p\<lparr>PlayerUIDs := v\<rparr>) (un_list un_string [] j (PlayerUIDs p))
      else if key_is ''setup_game'' k then map_option (\<lambda>v. p\<lparr>SetupGame := v\<rparr>) (un_bool j (SetupGame p))
      else if key_is ''tiles_per_hand'' k then map_option (\<lambda>v. p\<lparr>TilesPerHand := v\<rparr>) (un_int j (TilesPerHand p))
      else Some p)"

definition zero_setup :: match_setup where
  "zero_setup = \<lparr>PlayerUIDs = [], SetupGame = False, TilesPerHand = 0\<rparr>"

definition DecodeStartMatchPayload :: "jtext \<Rightarrow> match_setup result" where
  "DecodeStartMatchPayload payload =
     (if payload = None then Inr zero_setup
      else case un_text start_match_field payload zero_setup of
        None \<Rightarrow> Inl (Wrapf ''decode start match payload: '' ErrJson)
      | Some out \<Rightarrow> Inr out)"

definition apply_turn_field :: "string \<Rightarrow> json \<Rightarrow> apply_turn_payload \<Rightarrow> apply_turn_payload option" where
  "apply_turn_field k j p =
     (if key_is ''kind'' k then map_option (\<lambda>v. p\<lparr>at_Kind := v\<rparr>) (un_string j (at_Kind p))
      else if key_is ''player_id'' k then map_option (\<lambda>v. p\<lparr>at_PlayerID := v\<rparr>) (un_string j (at_PlayerID p))
      else if key_is ''tile'' k then map_option (\<lambda>v. p\<lparr>at_Tile := v\<rparr>) (un_struct tile_field j (at_Tile p))
      else if key_is ''play_at_left'' k then map_option (\<lambda>v. p\<lparr>at_PlayAtLeft := v\<rparr>) (un_bool j (at_PlayAtLeft p))
      else Some p)"

definition zero_turn :: apply_turn_payload where
  "zero_turn = \<lparr>at_Kind = [], at_PlayerID = [], at_Tile = zero_tile, at_PlayAtLeft = False\<rparr>"

definition DecodeApplyTurnPayload :: "jtext \<Rightarrow> apply_turn_payload result" where
  "DecodeApplyTurnPayload payload =
     (if payload = None then Inl (Errorf ''apply turn payload is required'')
      else case un_text apply_turn_field payload zero_turn of
        None \<Rightarrow> Inl (Wrapf ''decode apply turn payload: '' ErrJson)
      | Some out \<Rightarrow>
          if at_Kind out = [] then Inl (Errorf ''turn kind is required'')
          else if at_PlayerID out = [] then Inl (Errorf ''player_id is required'')
          else Inr out)"

definition ledger_field :: "string \<Rightarrow> json \<Rightarrow> ledger_payload \<Rightarrow> ledger_payload option" where
  "ledger_field k j p =
     (if key_is ''player_id'' k then map_option (\<lambda>v. p\<lparr>lp_PlayerID := v\<rparr>) (un_string j (lp_PlayerID p))
      else if key_is ''elo'' k then map_option (\<lambda>v. p\<lparr>lp_ELO := v\<rparr>) (un_float j (lp_ELO p))
      else if key_is ''peak_elo'' k then map_option (\<lambda>v. p\<lparr>lp_PeakELO := v\<rparr>) (un_float j (lp_PeakELO p))
      else if key_is ''elo_delta'' k then map_option (\<lambda>v. p\<lparr>lp_ELODelta := v\<rparr>) (un_float j (lp_ELODelta p))
      else if key_is ''matches_played'' k then
        map_option (\<lambda>v. p\<lparr>lp_MatchesPlayed := v\<rparr>) (un_int j (lp_MatchesPlayed p))
      else if key_is ''wins'' k then map_option (\<lambda>v. p\<lparr>lp_Wins := v\<rparr>) (un_int j (lp_Wins p))
      else if key_is ''losses'' k then map_option (\<lambda>v. p\<lparr>lp_Losses := v\<rparr>) (un_int j (lp_Losses p))
      else Some p)"

definition zero_ledger :: ledger_payload where
  "zero_ledger = \<lparr>lp_PlayerID = [], lp_ELO = 0, lp_PeakELO = 0, lp_ELODelta = 0, lp_MatchesPlayed = 0,
     lp_Wins = 0, lp_Losses = 0\<rparr>"

definition DecodeLedgerBalancePayload :: "jtext \<Rightarrow> ledger_payload result" where
  "DecodeLedgerBalancePayload payload =
     (if payload = None then Inl (Errorf ''ledger balance payload is required'')
      else case un_text ledger_field payload zero_ledger of
        None \<Rightarrow> Inl (Wrapf ''decode ledger balance payload: '' ErrJson)
      | Some out \<Rightarrow>
          if lp_PlayerID out = [] then Inl (Errorf ''player_id is required'') else Inr out)"

subsection \<open>Round trips\<close>

text \<open>Encoding and decoding meet in the fields' names, which are pairwise different.\<close>

lemma key_is_eq: "key_is name k \<longleftrightarrow> map lower_char k = map lower_char name"
  by (auto simp: key_is_def)

lemmas key_eval = key_is_eq lower_char_def

lemma DecodeCommand_encode:
  assumes "op \<noteq> []" "mid \<noteq> [] \<or> IsNonMatchOp op"
  shows "DecodeCommand (Some (EncodeCommandWithPayload op mid p)) =
    Inr \<lparr>Op = op, cmd_MatchID = mid,
         Payload = (case p of NoPayload \<Rightarrow> None | RawPayload b \<Rightarrow> b | TypedPayload j \<Rightarrow> Some j)\<rparr>"
proof -
  let ?c = "\<lparr>Op = op, cmd_MatchID = mid,
         Payload = (case p of NoPayload \<Rightarrow> None | RawPayload b \<Rightarrow> b | TypedPayload j \<Rightarrow> Some j)\<rparr>"
  have "un_text command_field (Some (command_json ?c)) zero_command = Some ?c"
    by (cases "Payload ?c")
      (simp_all add: un_text_def un_struct_def command_json_def command_field_def key_eval un_string_def
        un_bytes_def zero_command_def)
  then show ?thesis using assms by (simp add: DecodeCommand_def EncodeCommandWithPayload_def)
qed

lemma DecodeAddNode_encode:
  "an_NodeID a \<noteq> [] \<Longrightarrow> an_Address a \<noteq> [] \<Longrightarrow> DecodeAddNodeCommand (Some (add_node_json a)) = Inr a"
  by (simp add: DecodeAddNodeCommand_def un_text_def un_struct_def add_node_json_def add_node_field_def
      key_eval un_string_def)

lemma DecodeRemoveNode_encode: "nid \<noteq> [] \<Longrightarrow> DecodeRemoveNodeCommand (Some (remove_node_json nid)) = Inr nid"
  by (simp add: DecodeRemoveNodeCommand_def un_text_def un_struct_def remove_node_json_def remove_node_field_def
      key_eval un_string_def)

lemma DecodeDebugNoop_encode: "DecodeDebugNoopPayload (Some (debug_noop_json msg)) = Inr msg"
  by (simp add: DecodeDebugNoopPayload_def un_text_def un_struct_def debug_noop_json_def debug_noop_field_def
      key_eval un_string_def)

lemma un_strings: "un_list un_string [] (JArr (map JStr ss)) [] = Some ss"
  by (simp add: un_list_def un_elems_map un_string_def)

lemma DecodeStartMatch_encode:
  "in_int64 (TilesPerHand p) \<Longrightarrow> DecodeStartMatchPayload (Some (start_match_json p)) = Inr p"
  by (simp add: DecodeStartMatchPayload_def un_text_def un_struct_def start_match_json_def start_match_field_def
      key_eval un_bool_def un_int_def un_strings omitempty_def zero_setup_def)

lemma un_tile_from: "tile_int64 t \<Longrightarrow> un_struct tile_field (tile_json t) zero_tile = Some t"
  using un_tile_tile_json [of t] by (simp add: un_tile_def)

lemma DecodeApplyTurn_encode:
  "at_Kind p \<noteq> [] \<Longrightarrow> at_PlayerID p \<noteq> [] \<Longrightarrow> tile_int64 (at_Tile p) \<Longrightarrow>
     DecodeApplyTurnPayload (Some (apply_turn_json p)) = Inr p"
  by (simp add: DecodeApplyTurnPayload_def un_text_def un_struct_def [of apply_turn_field] apply_turn_json_def
      apply_turn_field_def key_eval un_bool_def un_string_def un_tile_from omitempty_def zero_turn_def)

lemma DecodeLedger_encode:
  "lp_PlayerID p \<noteq> [] \<Longrightarrow> in_int64 (lp_MatchesPlayed p) \<Longrightarrow> in_int64 (lp_Wins p) \<Longrightarrow> in_int64 (lp_Losses p) \<Longrightarrow>
     DecodeLedgerBalancePayload (Some (ledger_json p)) = Inr p"
  by (simp add: DecodeLedgerBalancePayload_def un_text_def un_struct_def ledger_json_def ledger_field_def
      key_eval un_float_def un_int_def un_string_def zero_ledger_def)

subsection \<open>Property\<close>

text \<open>The two decoding steps of a log entry.\<close>

definition decode_entry :: "(jtext \<Rightarrow> 'p result) \<Rightarrow> json \<Rightarrow> (string \<times> string \<times> 'p) result" where
  "decode_entry dec j =
     (case DecodeCommand (Some j) of
        Inl e \<Rightarrow> Inl e
      | Inr c \<Rightarrow> (case dec (Payload c) of Inl e \<Rightarrow> Inl e | Inr p \<Rightarrow> Inr (Op c, cmd_MatchID c, p)))"

text \<open>
  C26: Wire round trip: a START_MATCH, APPLY_TURN or LEDGER_BALANCE command for a named
  match, with the fields the decoders require and integers of 64 bits, is decoded by the
  receiving node to exactly the operation, match and payload that were encoded, and so
  are the membership commands ADD_NODE and REMOVE_NODE.
\<close>

theorem command_round_trip:
  assumes "mid \<noteq> []" "in_int64 (TilesPerHand su)"
    and "at_Kind tp \<noteq> []" "at_PlayerID tp \<noteq> []" "tile_int64 (at_Tile tp)"
    and "lp_PlayerID lp \<noteq> []" "in_int64 (lp_MatchesPlayed lp)" "in_int64 (lp_Wins lp)" "in_int64 (lp_Losses lp)"
    and "nid \<noteq> []" "addr \<noteq> []"
  shows "decode_entry DecodeStartMatchPayload
           (EncodeCommandWithPayload OpStartMatch mid (TypedPayload (start_match_json su))) = Inr (OpStartMatch, mid, su)
    \<and> decode_entry DecodeApplyTurnPayload
           (EncodeCommandWithPayload OpApplyTurn mid (TypedPayload (apply_turn_json tp))) = Inr (OpApplyTurn, mid, tp)
    \<and> decode_entry DecodeLedgerBalancePayload
           (EncodeCommandWithPayload OpLedgerBalance mid (TypedPayload (ledger_json lp))) = Inr (OpLedgerBalance, mid, lp)
    \<and> decode_entry DecodeAddNodeCommand (EncodeAddNodeCommand nid addr)
         = Inr (OpAddNode, ClusterMatchID, \<lparr>an_NodeID = nid, an_Address = addr\<rparr>)
    \<and> decode_entry DecodeRemoveNodeCommand (EncodeRemoveNodeCommand nid) = Inr (OpRemoveNode, ClusterMatchID, nid)"
  using assms
  by (simp add: decode_entry_def DecodeCommand_encode DecodeStartMatch_encode DecodeApplyTurn_encode
      DecodeLedger_encode DecodeAddNode_encode DecodeRemoveNode_encode EncodeAddNodeCommand_def
      EncodeRemoveNodeCommand_def)

definition demo_turn_payload :: apply_turn_payload where
  "demo_turn_payload = \<lparr>at_Kind = ''PASS'', at_PlayerID = ''a'', at_Tile = zero_tile, at_PlayAtLeft = True\<rparr>"

lemma command_round_trip_witness:
  "decode_entry DecodeApplyTurnPayload
     (EncodeCommandWithPayload OpApplyTurn ''m'' (TypedPayload (apply_turn_json demo_turn_payload)))
   = Inr (OpApplyTurn, ''m'', demo_turn_payload)"
  using command_round_trip [of "''m''" zero_setup demo_turn_payload "zero_ledger\<lparr>lp_PlayerID := ''a''\<rparr>" "''n''" "''x''"]
  by (simp add: demo_turn_payload_def zero_setup_def zero_ledger_def zero_tile_def tile_int64_def in_int64_def)

end
