(* ===== verification/Local_FSM.thy ===== *)
theory Local_FSM
  imports Commands
begin

section \<open>The local state machine and its snapshot codec\<close>

text \<open>
  Models \<open>LocalGameFSM\<close> of \<open>pkg/consensus/fsm.go\<close>: \<open>Apply\<close>, \<open>CreateSnapshot\<close>,
  \<open>Restore\<close>, \<open>ReplayCommands\<close> and the big-endian codec of its snapshots, byte by byte.
  The interface every replicated state machine fulfils towards Raft is the locale
  \<open>game_fsm\<close>. Lock sections are atomic and left out.
\<close>

unbundle bit_operations_syntax

subsection \<open>Bytes\<close>

type_synonym bytes = "8 word list"

definition str_bytes :: "string \<Rightarrow> bytes" where
  "str_bytes s = map of_char s"

definition bytes_str :: "bytes \<Rightarrow> string" where
  "bytes_str bs = map (\<lambda>b. char_of (unat b)) bs"

lemma bytes_str_bytes [simp]: "bytes_str (str_bytes s) = s"
proof -
  have "char_of (unat (of_char c :: 8 word)) = c" for c
  proof -
    have "(of_char c :: 8 word) = of_nat (of_char c)" by (simp add: of_nat_of_char)
    then have "unat (of_char c :: 8 word) = of_char c mod 2 ^ 8" by (simp only: unat_of_nat) simp
    then have "unat (of_char c :: 8 word) = of_char c" by simp
    then show ?thesis by simp
  qed
  then show ?thesis by (simp add: bytes_str_def str_bytes_def o_def map_idI)
qed

text \<open>\<open>binary.Write\<close> and \<open>binary.Read\<close> with \<open>binary.BigEndian\<close>.\<close>

definition be16 :: "16 word \<Rightarrow> bytes" where
  "be16 w = [ucast (drop_bit 8 w), ucast w]"

definition be32 :: "32 word \<Rightarrow> bytes" where
  "be32 w = [ucast (drop_bit 24 w), ucast (drop_bit 16 w), ucast (drop_bit 8 w), ucast w]"

definition un_be16 :: "bytes \<Rightarrow> 16 word" where
  "un_be16 bs = foldl (\<lambda>a b. push_bit 8 a OR ucast b) 0 bs"

definition un_be32 :: "bytes \<Rightarrow> 32 word" where
  "un_be32 bs = foldl (\<lambda>a b. push_bit 8 a OR ucast b) 0 bs"

lemma un_be16_be16 [simp]: "un_be16 (be16 w) = w"
  by (rule bit_word_eqI) (auto simp: un_be16_def be16_def bit_simps)

lemma un_be32_be32 [simp]: "un_be32 (be32 w) = w"
proof (rule bit_word_eqI)
  fix n assume "n < LENGTH(32)"
  then consider "n < 8" | "8 \<le> n" "n < 16" | "16 \<le> n" "n < 24" | "24 \<le> n" "n < 32" by fastforce
  then show "bit (un_be32 (be32 w)) n = bit w n"
    by cases (auto simp: un_be32_def be32_def bit_simps)
qed

lemma be_lengths [simp]: "length (be16 w) = 2" "length (be32 v) = 4" "length (str_bytes s) = length s"
  by (simp_all add: be16_def be32_def str_bytes_def)

subsection \<open>State\<close>

record match_state =
  Counter :: int
  ms_Status :: string

type_synonym local_fsm = "string \<rightharpoonup> match_state"

definition NewLocalGameFSM :: local_fsm where
  "NewLocalGameFSM = Map.empty"

definition ok_result :: "string \<Rightarrow> string \<Rightarrow> apply_result" where
  "ok_result op mid = \<lparr>ar_OK = True, ar_Op = op, ar_MatchID = mid, ar_Applied = False, ar_Turn = None,
     ar_Session = None, ar_Ledger = None\<rparr>"

definition LocalApply :: "jtext \<Rightarrow> local_fsm \<Rightarrow> apply_result result \<times> local_fsm" where
  "LocalApply logEntry f =
     (case DecodeCommand logEntry of
        Inl e \<Rightarrow> (Inl e, f)
      | Inr cmd \<Rightarrow>
          if Op cmd = OpStartMatch then
            (Inr (ok_result (Op cmd) (cmd_MatchID cmd)),
             f(cmd_MatchID cmd \<mapsto> \<lparr>Counter = 0, ms_Status = ''active''\<rparr>))
          else if Op cmd = OpApplyTurn then
            (case f (cmd_MatchID cmd) of
               None \<Rightarrow> (Inl (Errorf (''match '' @ quote (cmd_MatchID cmd) @ '' not found'')), f)
             | Some st \<Rightarrow>
                 (Inr ((ok_result (Op cmd) (cmd_MatchID cmd))\<lparr>ar_Applied := True\<rparr>),
                  f(cmd_MatchID cmd \<mapsto> st\<lparr>Counter := wrap64 (Counter st + 1)\<rparr>)))
          else if Op cmd = OpDebugNoop then (Inr (ok_result (Op cmd) []), f)
          else (Inl (Errorf (''unknown op '' @ quote (Op cmd))), f))"

subsection \<open>Snapshot codec\<close>

definition fsmSnapshotMagic :: "32 word" where "fsmSnapshotMagic = 0x4746534D"
definition fsmSnapshotVersion :: "8 word" where "fsmSnapshotVersion = 1"

text \<open>
  The body of \<open>encodeLocalFSMSnapshot\<close> over the entries in the order in which Go's
  \<open>range\<close> visits the map, which is unspecified and therefore an argument.
\<close>

fun encode_entries :: "(string \<times> match_state) list \<Rightarrow> bytes result" where
  "encode_entries [] = Inr []"
| "encode_entries ((i, st) # es) =
     (if length i > 65535 then Inl (Errorf (''match id '' @ quote i @ '' exceeds maximum encoded length''))
      else if length (ms_Status st) > 65535 then
        Inl (Errorf (''match status for '' @ quote i @ '' exceeds maximum encoded length''))
      else
        (case encode_entries es of
           Inl e \<Rightarrow> Inl e
         | Inr rest \<Rightarrow>
             Inr (be16 (of_nat (length i)) @ str_bytes i @ be32 (of_int (Counter st))
                  @ be16 (of_nat (length (ms_Status st))) @ str_bytes (ms_Status st) @ rest)))"

definition encodeLocalFSMSnapshot :: "(string \<times> match_state) list \<Rightarrow> bytes result" where
  "encodeLocalFSMSnapshot es =
     (case encode_entries es of
        Inl e \<Rightarrow> Inl e
      | Inr body \<Rightarrow>
          Inr (be32 fsmSnapshotMagic @ [fsmSnapshotVersion] @ be32 (of_nat (length es)) @ body))"

definition CreateSnapshot :: "string list \<Rightarrow> local_fsm \<Rightarrow> bytes result" where
  "CreateSnapshot order f = encodeLocalFSMSnapshot (map (\<lambda>i. (i, the (f i))) order)"

text \<open>A read of \<open>n\<close> bytes, which fails at the end of the input.\<close>

definition read_n :: "nat \<Rightarrow> bytes \<Rightarrow> (bytes \<times> bytes) option" where
  "read_n n bs = (if length bs < n then None else Some (take n bs, drop n bs))"

definition eof :: go_error where "eof = ErrExternal ''EOF''"

text \<open>\<open>binary.Read\<close> tells an empty input from one that ends in the middle of the value.\<close>

definition short_read :: "bytes \<Rightarrow> go_error" where
  "short_read bs = (if bs = [] then eof else ErrExternal ''unexpected EOF'')"

fun decode_entries :: "nat \<Rightarrow> bytes \<Rightarrow> local_fsm \<Rightarrow> local_fsm result" where
  "decode_entries 0 bs m = Inr m"
| "decode_entries (Suc k) bs m =
     (case read_n 2 bs of None \<Rightarrow> Inl (Wrapf ''decode snapshot match id length: '' (short_read bs))
      | Some (l, bs1) \<Rightarrow>
     (case read_n (unat (un_be16 l)) bs1 of None \<Rightarrow> Inl (Wrapf ''decode snapshot match id: '' eof)
      | Some (idb, bs2) \<Rightarrow>
     (case read_n 4 bs2 of None \<Rightarrow> Inl (Wrapf ''decode snapshot counter: '' (short_read bs2))
      | Some (c, bs3) \<Rightarrow>
     (case read_n 2 bs3 of None \<Rightarrow> Inl (Wrapf ''decode snapshot status length: '' (short_read bs3))
      | Some (sl, bs4) \<Rightarrow>
     (case read_n (unat (un_be16 sl)) bs4 of None \<Rightarrow> Inl (Wrapf ''decode snapshot status: '' eof)
      | Some (stb, bs5) \<Rightarrow>
          decode_entries k bs5
            (m(bytes_str idb \<mapsto> \<lparr>Counter = sint (un_be32 c), ms_Status = bytes_str stb\<rparr>)))))))"

text \<open>The nine header bytes are there once the length is checked.\<close>

definition decodeLocalFSMSnapshot :: "bytes \<Rightarrow> local_fsm result" where
  "decodeLocalFSMSnapshot bs =
     (if length bs < 9 then Inl (Errorf ''decode snapshot: payload too short'')
      else if un_be32 (take 4 bs) \<noteq> fsmSnapshotMagic then Inl (Errorf ''decode snapshot: invalid magic'')
      else if bs ! 4 \<noteq> fsmSnapshotVersion then
        Inl (Errorf (''decode snapshot: unsupported version '' @ nat_dec (unat (bs ! 4))))
      else decode_entries (unat (un_be32 (take 4 (drop 5 bs)))) (drop 9 bs) Map.empty)"

definition Restore :: "bytes \<Rightarrow> local_fsm \<Rightarrow> unit result \<times> local_fsm" where
  "Restore snapshot f =
     (case decodeLocalFSMSnapshot snapshot of Inl e \<Rightarrow> (Inl e, f) | Inr m \<Rightarrow> (Inr (), m))"

text \<open>\<open>ReplayCommands\<close>: apply the entries in order to a fresh machine, stopping at an error.\<close>

fun replay_loop :: "nat \<Rightarrow> jtext list \<Rightarrow> local_fsm \<Rightarrow> local_fsm result" where
  "replay_loop i [] f = Inr f"
| "replay_loop i (e # es) f =
     (case LocalApply e f of
        (Inl err, _) \<Rightarrow> Inl (Wrapf (''entry '' @ nat_dec i @ '': '') err)
      | (Inr _, f1) \<Rightarrow> replay_loop (Suc i) es f1)"

definition ReplayCommands :: "jtext list \<Rightarrow> local_fsm result" where
  "ReplayCommands entries = replay_loop 0 entries NewLocalGameFSM"

subsection \<open>The codec round trip\<close>

lemma read_n_append: "n = length xs \<Longrightarrow> read_n n (xs @ ys) = Some (xs, ys)"
  by (simp add: read_n_def)

lemma read_n_all: "n = length xs \<Longrightarrow> read_n n xs = Some (xs, [])"
  by (simp add: read_n_def)

definition state_fits :: "match_state \<Rightarrow> bool" where
  "state_fits st = (- (2 ^ 31) \<le> Counter st \<and> Counter st < 2 ^ 31)"

lemma sint_counter: "state_fits st \<Longrightarrow> sint (of_int (Counter st) :: 32 word) = Counter st"
  by (simp add: state_fits_def sint_sbintrunc' signed_take_bit_int_eq_self)

lemma unat_len16: "n \<le> 65535 \<Longrightarrow> unat (of_nat n :: 16 word) = n"
  by (simp add: unat_of_nat)

lemma decode_encode_entries:
  assumes "encode_entries es = Inr body" "\<forall>(i, st) \<in> set es. state_fits st"
  shows "decode_entries (length es) (body @ rest) m = Inr (m ++ map_of (rev es))"
  using assms
proof (induction es arbitrary: body m)
  case Nil
  then show ?case by simp
next
  case (Cons e es)
  obtain i st where e: "e = (i, st)" by force
  from Cons.prems e obtain body' where b: "encode_entries es = Inr body'"
    and len: "length i \<le> 65535" "length (ms_Status st) \<le> 65535"
    and body: "body = be16 (of_nat (length i)) @ str_bytes i @ be32 (of_int (Counter st))
                  @ be16 (of_nat (length (ms_Status st))) @ str_bytes (ms_Status st) @ body'"
    by (auto split: if_splits sum.splits)
  have fits: "state_fits st" using Cons.prems(2) e by simp
  have eta: "\<lparr>Counter = Counter st, ms_Status = ms_Status st\<rparr> = st" by simp
  have "decode_entries (length (e # es)) (body @ rest) m =
      decode_entries (length es) (body' @ rest) (m(i \<mapsto> st))"
    using len by (simp add: body read_n_append unat_len16 sint_counter [OF fits] eta del: match_state.surjective)
  also have "\<dots> = Inr (m(i \<mapsto> st) ++ map_of (rev es))"
    using Cons.IH [OF b] Cons.prems(2) by simp
  also have "m(i \<mapsto> st) ++ map_of (rev es) = m ++ map_of (rev (e # es))"
    by (simp add: e)
  finally show ?case .
qed

lemma decode_encode_snapshot:
  assumes "encodeLocalFSMSnapshot es = Inr bs" "\<forall>(i, st) \<in> set es. state_fits st" "length es < 2 ^ 32"
  shows "decodeLocalFSMSnapshot bs = Inr (map_of (rev es))"
proof -
  from assms(1) obtain body where b: "encode_entries es = Inr body"
    and bs: "bs = be32 fsmSnapshotMagic @ [fsmSnapshotVersion] @ be32 (of_nat (length es)) @ body"
    by (auto simp: encodeLocalFSMSnapshot_def split: sum.splits)
  have n: "unat (of_nat (length es) :: 32 word) = length es"
    using assms(3) by (simp add: unat_of_nat)
  have "bs ! 4 = fsmSnapshotVersion" "take 4 bs = be32 fsmSnapshotMagic"
    "take 4 (drop 5 bs) = be32 (of_nat (length es))" "drop 9 bs = body" "\<not> length bs < 9"
    by (simp_all add: bs nth_append)
  with decode_encode_entries [OF b assms(2), of "[]" Map.empty] n show ?thesis
    by (simp add: decodeLocalFSMSnapshot_def)
qed

subsection \<open>The contract of a replicated state machine\<close>

text \<open>
  What Raft needs of a \<open>GameFSM\<close>: the observable state after an entry depends only on
  the observable state before it, and restoring a snapshot of a state that fits the
  format gives that state back. \<open>snapshot_of s r\<close> says that \<open>r\<close> is a possible answer of
  \<open>CreateSnapshot\<close> in state \<open>s\<close>; \<open>ok\<close> is an invariant of the machine.
\<close>

definition fsm_run :: "('e \<Rightarrow> 's \<Rightarrow> 'r \<times> 's) \<Rightarrow> 'e list \<Rightarrow> 's \<Rightarrow> 's" where
  "fsm_run apply_entry es s = foldl (\<lambda>s e. snd (apply_entry e s)) s es"

lemma fsm_run_simps [simp]:
  "fsm_run f [] s = s" "fsm_run f (e # es) s = fsm_run f es (snd (f e s))"
  "fsm_run f (es @ es') s = fsm_run f es' (fsm_run f es s)"
  by (simp_all add: fsm_run_def)

locale game_fsm =
  fixes apply_entry :: "jtext \<Rightarrow> 's \<Rightarrow> apply_result result \<times> 's"
    and snapshot_of :: "'s \<Rightarrow> bytes result \<Rightarrow> bool"
    and restore :: "bytes \<Rightarrow> 's \<Rightarrow> unit result \<times> 's"
    and obs :: "'s \<Rightarrow> 'o"
    and ok :: "'s \<Rightarrow> bool"
    and fits :: "'s \<Rightarrow> bool"
  assumes ok_apply: "ok s \<Longrightarrow> ok (snd (apply_entry e s))"
    and obs_apply: "ok s \<Longrightarrow> ok t \<Longrightarrow> obs s = obs t \<Longrightarrow>
      obs (snd (apply_entry e s)) = obs (snd (apply_entry e t))"
    and restore_snapshot: "ok s \<Longrightarrow> fits s \<Longrightarrow> snapshot_of s (Inr b) \<Longrightarrow>
      \<exists>t'. restore b t = (Inr (), t') \<and> ok t' \<and> obs t' = obs s"
begin

lemma ok_run: "ok s \<Longrightarrow> ok (fsm_run apply_entry es s)"
  by (induction es arbitrary: s) (simp_all add: ok_apply)

lemma obs_run:
  "ok s \<Longrightarrow> ok t \<Longrightarrow> obs s = obs t \<Longrightarrow> obs (fsm_run apply_entry es s) = obs (fsm_run apply_entry es t)"
proof (induction es arbitrary: s t)
  case Nil
  then show ?case by simp
next
  case (Cons e es)
  have "ok (snd (apply_entry e s))" "ok (snd (apply_entry e t))"
    "obs (snd (apply_entry e s)) = obs (snd (apply_entry e t))"
    using Cons.prems by (blast intro: ok_apply obs_apply)+
  from Cons.IH [OF this] show ?case by simp
qed

text \<open>Log compaction is sound: a snapshot and the tail of the log stand for the whole log.\<close>

lemma snapshot_then_tail:
  assumes "ok s" "fits (fsm_run apply_entry es s)" "snapshot_of (fsm_run apply_entry es s) (Inr b)"
  shows "\<exists>t'. restore b t = (Inr (), t') \<and>
    obs (fsm_run apply_entry es' t') = obs (fsm_run apply_entry (es @ es') s)"
proof -
  obtain t' where "restore b t = (Inr (), t')" "ok t'" "obs t' = obs (fsm_run apply_entry es s)"
    using restore_snapshot [OF ok_run [OF assms(1)] assms(2,3)] by blast
  with obs_run [of t' "fsm_run apply_entry es s" es'] ok_run [OF assms(1)] show ?thesis by simp
qed

end

definition local_snapshot :: "local_fsm \<Rightarrow> bytes result \<Rightarrow> bool" where
  "local_snapshot f r = (\<exists>order. distinct order \<and> set order = dom f \<and> r = CreateSnapshot order f)"

definition local_fits :: "local_fsm \<Rightarrow> bool" where
  "local_fits f = ((\<forall>st \<in> ran f. state_fits st) \<and> card (dom f) < 2 ^ 32)"

lemma map_of_order:
  assumes "distinct order" "set order = dom f"
  shows "map_of (rev (map (\<lambda>i. (i, the (f i))) order)) = f"
proof
  fix i
  have d: "distinct (map fst (rev (map (\<lambda>i. (i, the (f i))) order)))"
    using assms(1) by (simp add: rev_map o_def)
  show "map_of (rev (map (\<lambda>i. (i, the (f i))) order)) i = f i"
  proof (cases "f i")
    case None
    then have "i \<notin> set order" using assms(2) by auto
    then show ?thesis using None by (auto simp: map_of_eq_None_iff)
  next
    case (Some st)
    then have "(i, st) \<in> set (rev (map (\<lambda>i. (i, the (f i))) order))" using assms(2) by force
    with d Some show ?thesis by (metis map_of_eq_Some_iff)
  qed
qed

lemma local_restore:
  assumes "local_fits f" "distinct order" "set order = dom f" "CreateSnapshot order f = Inr b"
  shows "Restore b g = (Inr (), f)"
proof -
  have "\<forall>(i, st) \<in> set (map (\<lambda>i. (i, the (f i))) order). state_fits st"
    using assms(1,3) by (auto simp: local_fits_def ran_def)
  moreover have "length order < 2 ^ 32"
    using assms(1-3) by (simp add: local_fits_def distinct_card [symmetric])
  ultimately have "decodeLocalFSMSnapshot b = Inr f"
    using decode_encode_snapshot [of "map (\<lambda>i. (i, the (f i))) order" b] assms(4) map_of_order [OF assms(2,3)]
    by (simp add: CreateSnapshot_def)
  then show ?thesis by (simp add: Restore_def)
qed

interpretation local_machine: game_fsm LocalApply local_snapshot Restore "\<lambda>f. f" "\<lambda>_. True" local_fits
proof unfold_locales
  fix f g :: local_fsm and b
  assume "local_fits f" "local_snapshot f (Inr b)"
  then show "\<exists>t'. Restore b g = (Inr (), t') \<and> True \<and> t' = f"
    by (auto simp: local_snapshot_def dest: local_restore [symmetric] intro: local_restore)
qed simp_all

subsection \<open>Properties\<close>

text \<open>
  Snapshot round trip: whatever order Go visits the map in, a snapshot of a state
  whose counters fit 32 bits (and with fewer than \<open>2^32\<close> matches) restores exactly that
  state, into a machine in any state.
\<close>

theorem local_snapshot_round_trip:
  assumes "local_fits f" "distinct order" "set order = dom f" "CreateSnapshot order f = Inr b"
  shows "Restore b g = (Inr (), f)"
  using assms by (rule local_restore)

definition demo_fsm :: local_fsm where
  "demo_fsm = [''m'' \<mapsto> \<lparr>Counter = 3, ms_Status = ''active''\<rparr>]"

lemma local_snapshot_round_trip_witness:
  "\<exists>b. CreateSnapshot [''m''] demo_fsm = Inr b \<and> Restore b Map.empty = (Inr (), demo_fsm)"
proof -
  have "\<exists>b. CreateSnapshot [''m''] demo_fsm = Inr b"
    by (simp add: CreateSnapshot_def demo_fsm_def encodeLocalFSMSnapshot_def)
  then show ?thesis
    using local_snapshot_round_trip [of demo_fsm "[''m'']" _ Map.empty]
    by (auto simp: local_fits_def demo_fsm_def state_fits_def)
qed

text \<open>
  Log compaction: restoring a snapshot taken after the entries \<open>es\<close> and applying the
  entries \<open>es'\<close> that follow gives the state of applying the whole log.
\<close>

theorem local_compaction:
  assumes "local_fits (fsm_run LocalApply es f)"
    and "distinct order" "set order = dom (fsm_run LocalApply es f)"
    and "CreateSnapshot order (fsm_run LocalApply es f) = Inr b"
  shows "fst (Restore b g) = Inr () \<and>
    fsm_run LocalApply es' (snd (Restore b g)) = fsm_run LocalApply (es @ es') f"
proof -
  have "local_snapshot (fsm_run LocalApply es f) (Inr b)"
    using assms(2-4) by (auto simp: local_snapshot_def intro!: exI [of _ order])
  from local_machine.snapshot_then_tail [OF TrueI assms(1) this, of g es'] show ?thesis by auto
qed

definition demo_log :: "jtext list" where
  "demo_log = [Some (EncodeCommandWithPayload OpStartMatch ''m'' NoPayload)]"

lemma local_compaction_witness:
  "\<exists>b. CreateSnapshot [''m''] (fsm_run LocalApply demo_log Map.empty) = Inr b
    \<and> fst (Restore b Map.empty) = Inr ()"
proof -
  have run: "fsm_run LocalApply demo_log Map.empty = [''m'' \<mapsto> \<lparr>Counter = 0, ms_Status = ''active''\<rparr>]"
    by (simp add: demo_log_def LocalApply_def DecodeCommand_encode)
  have "\<exists>b. CreateSnapshot [''m''] (fsm_run LocalApply demo_log Map.empty) = Inr b"
    by (simp add: run CreateSnapshot_def encodeLocalFSMSnapshot_def)
  then show ?thesis
    using local_compaction [of demo_log Map.empty "[''m'']" _ Map.empty "[]"]
    by (auto simp: run local_fits_def state_fits_def)
qed

text \<open>
  The snapshot format keeps 32 bits of a counter that the machine counts in 64: one
  turn past \<open>2^31 - 1\<close> the snapshot still succeeds and restores a negative count.
\<close>

theorem snapshot_truncates_counter:
  "\<exists>f b. CreateSnapshot [''m''] f = Inr b \<and> map_option Counter (f ''m'') = Some (2 ^ 31)
     \<and> map_option Counter (snd (Restore b Map.empty) ''m'') = Some (- (2 ^ 31))"
proof -
  let ?st = "\<lparr>Counter = 2 ^ 31, ms_Status = []\<rparr>"
  let ?f = "[''m'' \<mapsto> ?st]"
  have len: "unat (of_nat (length ''m'') :: 16 word) = 1" by simp
  have c: "sint (of_int (2 ^ 31) :: 32 word) = - (2 ^ 31)" by simp
  obtain b where b: "CreateSnapshot [''m''] ?f = Inr b"
    by (simp add: CreateSnapshot_def encodeLocalFSMSnapshot_def)
  then have bs: "b = be32 fsmSnapshotMagic @ [fsmSnapshotVersion] @ be32 1 @ be16 1 @ str_bytes ''m''
      @ be32 (of_int (2 ^ 31)) @ be16 0 @ []"
    by (simp add: CreateSnapshot_def encodeLocalFSMSnapshot_def str_bytes_def)
  have "decodeLocalFSMSnapshot b = decode_entries 1 (be16 1 @ str_bytes ''m'' @ be32 (of_int (2 ^ 31)) @ be16 0 @ []) Map.empty"
    by (simp add: decodeLocalFSMSnapshot_def bs nth_append)
  also have "\<dots> = Inr [''m'' \<mapsto> \<lparr>Counter = - (2 ^ 31), ms_Status = []\<rparr>]"
    using c by (simp add: read_n_append read_n_all bytes_str_def [of "[]"])
  finally have "snd (Restore b Map.empty) ''m'' = Some \<lparr>Counter = - (2 ^ 31), ms_Status = []\<rparr>"
    by (simp add: Restore_def)
  with b show ?thesis by (intro exI [of _ ?f] exI [of _ b]) simp
qed

end
