(* ===== verification/Managed_FSM.thy ===== *)
theory Managed_FSM
  imports Local_FSM Manager_Props
begin

section \<open>The production state machine\<close>

text \<open>
  Models \<open>ManagedGameFSM\<close> of \<open>pkg/consensus/fsm.go\<close>: every committed entry is decoded
  and handed to the game manager. The gob encoder and decoder of \<open>encoding/gob\<close> are
  arguments; the frame around the gob payload is modelled byte by byte.
\<close>

unbundle bit_operations_syntax

subsection \<open>Apply\<close>

text \<open>On a configured manager, and with the nil check in front.\<close>

definition ManagedApply ::
  "'w manager_env \<Rightarrow> rng \<Rightarrow> jtext \<Rightarrow> 'w manager \<Rightarrow> apply_result result \<times> 'w manager" where
  "ManagedApply env intn logEntry m =
     (case DecodeCommand logEntry of
        Inl e \<Rightarrow> (Inl e, m)
      | Inr cmd \<Rightarrow>
          let ok = ok_result (Op cmd) (cmd_MatchID cmd) in
          if Op cmd = OpStartMatch then
            (case DecodeStartMatchPayload (Payload cmd) of
               Inl e \<Rightarrow> (Inl e, m)
             | Inr p \<Rightarrow>
                 (case ApplyReplicatedStartMatch env intn (cmd_MatchID cmd) p m of
                    (Inl e, m1) \<Rightarrow> (Inl e, m1)
                  | (Inr s, m1) \<Rightarrow> (Inr (ok\<lparr>ar_Session := Some s\<rparr>), m1)))
          else if Op cmd = OpApplyTurn then
            (case DecodeApplyTurnPayload (Payload cmd) of
               Inl e \<Rightarrow> (Inl e, m)
             | Inr p \<Rightarrow>
                 (case ApplyReplicatedTurn env (cmd_MatchID cmd) (ToTurnAction p) m of
                    (Inl e, m1) \<Rightarrow> (Inl e, m1)
                  | (Inr turn, m1) \<Rightarrow>
                      (case GetSession env (cmd_MatchID cmd) m1 of
                         (so, m2) \<Rightarrow>
                           (Inr (ok\<lparr>ar_Applied := Applied turn, ar_Turn := Some turn, ar_Session := so\<rparr>), m2))))
          else if Op cmd = OpLedgerBalance then
            (case DecodeLedgerBalancePayload (Payload cmd) of
               Inl e \<Rightarrow> (Inl e, m)
             | Inr p \<Rightarrow>
                 (case ApplyReplicatedLedgerBalance env (ToStatsUpdate (cmd_MatchID cmd) p) m of
                    (Inl e, m1) \<Rightarrow> (Inl e, m1)
                  | (Inr u, m1) \<Rightarrow> (Inr (ok\<lparr>ar_Ledger := Some u\<rparr>), m1)))
          else if Op cmd = OpDebugNoop then (Inr (ok_result (Op cmd) []), m)
          else (Inl (Errorf (''unknown op '' @ quote (Op cmd))), m))"

definition ManagedGameFSM_Apply ::
  "'w manager_env \<Rightarrow> rng \<Rightarrow> jtext \<Rightarrow> 'w manager option \<Rightarrow> apply_result result \<times> 'w manager option" where
  "ManagedGameFSM_Apply env intn logEntry mo =
     (case mo of
        None \<Rightarrow> (Inl (Errorf ''game manager is not configured''), None)
      | Some m \<Rightarrow> (case ManagedApply env intn logEntry m of (r, m1) \<Rightarrow> (r, Some m1)))"

subsection \<open>Snapshots\<close>

record managed_snapshot =
  snap_Sessions :: "string \<rightharpoonup> game_session option"
  snap_Ledger :: "string \<rightharpoonup> stats_update"

definition encodeManagedFSMSnapshot ::
  "(managed_snapshot \<Rightarrow> bytes result) \<Rightarrow> managed_snapshot \<Rightarrow> bytes result" where
  "encodeManagedFSMSnapshot gob_encode snap =
     (case gob_encode snap of
        Inl e \<Rightarrow> Inl (Wrapf ''encode managed snapshot: '' e)
      | Inr payload \<Rightarrow>
          Inr (be32 fsmSnapshotMagic @ [fsmSnapshotVersion + 1] @ be32 (of_nat (length payload)) @ payload))"

definition decodeManagedFSMSnapshot ::
  "(bytes \<Rightarrow> managed_snapshot result) \<Rightarrow> bytes \<Rightarrow> managed_snapshot result" where
  "decodeManagedFSMSnapshot gob_decode bs =
     (if length bs < 9 then Inl (Errorf ''decode snapshot: payload too short'')
      else if un_be32 (take 4 bs) \<noteq> fsmSnapshotMagic then Inl (Errorf ''decode snapshot: invalid magic'')
      else if bs ! 4 \<noteq> fsmSnapshotVersion + 1 then
        Inl (Errorf (''decode snapshot: unsupported version '' @ nat_dec (unat (bs ! 4))))
      else
        (case read_n (unat (un_be32 (take 4 (drop 5 bs)))) (drop 9 bs) of
           None \<Rightarrow> Inl (Wrapf ''decode snapshot payload: '' eof)
         | Some (payload, _) \<Rightarrow>
             (case gob_decode payload of
                Inl e \<Rightarrow> Inl (Wrapf ''decode managed snapshot: '' e)
              | Inr snap \<Rightarrow> Inr snap)))"

definition ManagedCreateSnapshot ::
  "(managed_snapshot \<Rightarrow> bytes result) \<Rightarrow> 'w manager \<Rightarrow> bytes result" where
  "ManagedCreateSnapshot gob_encode m =
     encodeManagedFSMSnapshot gob_encode
       \<lparr>snap_Sessions = (\<lambda>i. map_option Some (SnapshotSessions m i)), snap_Ledger = LedgerProfiles m\<rparr>"

definition ManagedRestore ::
  "(bytes \<Rightarrow> managed_snapshot result) \<Rightarrow> bytes \<Rightarrow> 'w manager \<Rightarrow> unit result \<times> 'w manager" where
  "ManagedRestore gob_decode snapshot m =
     (case decodeManagedFSMSnapshot gob_decode snapshot of
        Inl e \<Rightarrow> (Inl e, m)
      | Inr snap \<Rightarrow> (Inr (), RestoreLedgerProfiles (snap_Ledger snap) (RestoreSessions (snap_Sessions snap) m)))"

subsection \<open>Refinement of a log to a function of the games\<close>

text \<open>What an entry does to the games, with no environment at all.\<close>

definition spec_entry :: "rng \<Rightarrow> jtext \<Rightarrow> (string \<rightharpoonup> game_session) \<Rightarrow> (string \<rightharpoonup> game_session)" where
  "spec_entry intn logEntry g =
     (case DecodeCommand logEntry of
        Inl e \<Rightarrow> g
      | Inr cmd \<Rightarrow>
          if Op cmd = OpStartMatch then
            (case DecodeStartMatchPayload (Payload cmd) of
               Inl e \<Rightarrow> g | Inr p \<Rightarrow> spec_start intn (cmd_MatchID cmd) p g)
          else if Op cmd = OpApplyTurn then
            (case DecodeApplyTurnPayload (Payload cmd) of
               Inl e \<Rightarrow> g | Inr p \<Rightarrow> spec_turn (cmd_MatchID cmd) (ToTurnAction p) g)
          else g)"

definition spec_log :: "rng \<Rightarrow> jtext list \<Rightarrow> (string \<rightharpoonup> game_session) \<Rightarrow> (string \<rightharpoonup> game_session)" where
  "spec_log intn es g = foldl (\<lambda>g e. spec_entry intn e g) g es"

lemma spec_log_simps [simp]:
  "spec_log intn [] g = g" "spec_log intn (e # es) g = spec_log intn es (spec_entry intn e g)"
  by (simp_all add: spec_log_def)





subsection \<open>The contract\<close>


definition payload_fits :: "(managed_snapshot \<Rightarrow> bytes result) \<Rightarrow> 'w manager \<Rightarrow> bool" where
  "payload_fits gob_encode m =
     (\<forall>b. gob_encode \<lparr>snap_Sessions = (\<lambda>i. map_option Some (SnapshotSessions m i)), snap_Ledger = LedgerProfiles m\<rparr>
        = Inr b \<longrightarrow> length b < 2 ^ 32)"

text \<open>\<open>encoding/gob\<close> decodes what it encoded.\<close>

definition gob_round_trip :: "(managed_snapshot \<Rightarrow> bytes result) \<Rightarrow> (bytes \<Rightarrow> managed_snapshot result) \<Rightarrow> bool" where
  "gob_round_trip gob_encode gob_decode = (\<forall>s b. gob_encode s = Inr b \<longrightarrow> gob_decode b = Inr s)"


lemma decode_managed:
  assumes "encodeManagedFSMSnapshot gob_encode s = Inr b" "gob_round_trip gob_encode gob_decode"
    and "\<And>p. gob_encode s = Inr p \<Longrightarrow> length p < 2 ^ 32"
  shows "decodeManagedFSMSnapshot gob_decode b = Inr s"
proof -
  from assms(1) obtain p where p: "gob_encode s = Inr p"
    and b: "b = be32 fsmSnapshotMagic @ [fsmSnapshotVersion + 1] @ be32 (of_nat (length p)) @ p"
    by (auto simp: encodeManagedFSMSnapshot_def split: sum.splits)
  have n: "unat (of_nat (length p) :: 32 word) = length p"
    using assms(3) [OF p] by (simp add: unat_of_nat)
  have "b ! 4 = fsmSnapshotVersion + 1" "take 4 b = be32 fsmSnapshotMagic"
    "take 4 (drop 5 b) = be32 (of_nat (length p))" "drop 9 b = p" "\<not> length b < 9"
    by (simp_all add: b nth_append)
  with n p assms(2) show ?thesis
    by (simp add: decodeManagedFSMSnapshot_def read_n_all gob_round_trip_def)
qed

lemma ManagedRestore_snapshot:
  assumes "gob_round_trip gob_encode gob_decode" "payload_fits gob_encode m" "mgr_sessions m [] = None"
    and "ManagedCreateSnapshot gob_encode m = Inr b"
  shows "ManagedRestore gob_decode b m' =
    (Inr (), m'\<lparr>mgr_sessions := mgr_sessions m, recoveredIDs := {}, ledgerProfiles := ledgerProfiles m\<rparr>)"
proof -
  let ?s = "\<lparr>snap_Sessions = (\<lambda>i. map_option Some (SnapshotSessions m i)), snap_Ledger = LedgerProfiles m\<rparr>"
  have "decodeManagedFSMSnapshot gob_decode b = Inr ?s"
    by (rule decode_managed [OF assms(4) [unfolded ManagedCreateSnapshot_def] assms(1)])
      (use assms(2) in \<open>simp add: payload_fits_def\<close>)
  moreover have "(\<lambda>i. if i = [] then None
      else case map_option Some (mgr_sessions m i) of None \<Rightarrow> None | Some so \<Rightarrow> so) = mgr_sessions m"
    using assms(3) by (auto split: option.split)
  ultimately show ?thesis
    by (simp add: ManagedRestore_def RestoreSessions_def RestoreLedgerProfiles_def SnapshotSessions_def LedgerProfiles_def)
qed



subsection \<open>Properties\<close>






text \<open>
  Restoring a snapshot of a manager brings back its sessions and its ledger profiles
  exactly, into any manager, and forgets the IDs that were left to recover; gob is
  assumed to decode what it encoded, and the payload to be shorter than \<open>2^32\<close> bytes.
\<close>

theorem managed_snapshot_round_trip:
  assumes "gob_round_trip gob_encode gob_decode" "payload_fits gob_encode m" "mgr_sessions m [] = None"
    and "ManagedCreateSnapshot gob_encode m = Inr b"
  shows "fst (ManagedRestore gob_decode b m') = Inr ()
    \<and> mgr_sessions (snd (ManagedRestore gob_decode b m')) = mgr_sessions m
    \<and> ledgerProfiles (snd (ManagedRestore gob_decode b m')) = ledgerProfiles m
    \<and> recoveredIDs (snd (ManagedRestore gob_decode b m')) = {}"
  using ManagedRestore_snapshot [OF assms, of m'] by simp

text \<open>A codec for the example: it knows the empty snapshot only.\<close>

definition tiny_encode :: "managed_snapshot \<Rightarrow> bytes result" where
  "tiny_encode s = (if \<forall>i. snap_Sessions s i = None \<and> snap_Ledger s i = None then Inr [7]
     else Inl (ErrExternal ''gob''))"

definition tiny_decode :: "bytes \<Rightarrow> managed_snapshot result" where
  "tiny_decode b = (if b = [7] then Inr \<lparr>snap_Sessions = Map.empty, snap_Ledger = Map.empty\<rparr>
     else Inl (ErrExternal ''gob''))"

lemma tiny_round_trip: "gob_round_trip tiny_encode tiny_decode"
proof -
  have "s = \<lparr>snap_Sessions = Map.empty, snap_Ledger = Map.empty\<rparr>"
    if "\<forall>i. snap_Sessions s i = None \<and> snap_Ledger s i = None" for s :: managed_snapshot
    using that by (cases s) (auto simp: fun_eq_iff)
  then show ?thesis by (auto simp: gob_round_trip_def tiny_encode_def tiny_decode_def)
qed

lemma managed_snapshot_round_trip_witness:
  "\<exists>b. ManagedCreateSnapshot tiny_encode (NewGameManager ()) = Inr b
     \<and> mgr_sessions (snd (ManagedRestore tiny_decode b demo_manager)) = Map.empty"
proof -
  have "\<exists>b. ManagedCreateSnapshot tiny_encode (NewGameManager ()) = Inr b"
    by (simp add: ManagedCreateSnapshot_def encodeManagedFSMSnapshot_def tiny_encode_def NewGameManager_def
      SnapshotSessions_def LedgerProfiles_def)
  moreover have "payload_fits tiny_encode (NewGameManager ())"
    by (simp add: payload_fits_def tiny_encode_def)
  ultimately show ?thesis
    using managed_snapshot_round_trip [OF tiny_round_trip, of "NewGameManager ()" _ demo_manager]
    by (auto simp: NewGameManager_def)
qed



end
