(* ===== verification/Raft_Node.thy ===== *)
theory Raft_Node
  imports Local_FSM
begin

section \<open>The Raft node\<close>

text \<open>
  Models \<open>pkg/consensus/raft_node.go\<close>: the node's state and each of its lock-protected
  sections as a function on it. An operation of the source that talks to peers between
  two lock sections is split there, with the peer's reply as an argument of the second.
  The state machine (\<open>GameFSM\<close>) and the storage are the interfaces of the source,
  here the fields of \<open>raft_env\<close>. Terms and indices count single steps in 64 bits and are
  kept as \<open>nat\<close>; timers, sleeps and the telemetry are left out, and reply pointers are
  not nil. A run-time panic (a slice index out of range, a write to a nil map) is the
  error \<open>GoPanic\<close>.
\<close>

subsection \<open>Messages\<close>

record log_entry =
  le_Index :: nat
  le_Term :: nat
  le_Command :: jtext

record request_vote_args =
  rv_Term :: nat
  rv_CandidateID :: string
  rv_LastLogIndex :: nat
  rv_LastLogTerm :: nat

record request_vote_reply =
  rvr_Term :: nat
  rvr_VoteGranted :: bool

record append_entries_args =
  ae_Term :: nat
  ae_LeaderID :: string
  ae_PrevLogIndex :: nat
  ae_PrevLogTerm :: nat
  ae_Entries :: "log_entry list"
  ae_LeaderCommit :: nat

record append_entries_reply =
  aer_Term :: nat
  aer_Success :: bool

record install_snapshot_args =
  is_Term :: nat
  is_LeaderID :: string
  is_LastIncludedIndex :: nat
  is_LastIncludedTerm :: nat
  is_Data :: bytes

record replication_task =
  rt_peerID :: string
  rt_addr :: string
  rt_prevLogIndex :: nat
  rt_prevLogTerm :: nat
  rt_entries :: "log_entry list"
  rt_leaderCommit :: nat
  rt_installSnap :: bool

subsection \<open>State\<close>

text \<open>
  A peer map is an association list with distinct keys; the code only counts, looks up,
  adds and deletes. \<open>nextIndex\<close> and \<open>matchIndex\<close> are \<open>None\<close> when nil; a missing key
  reads 0.
\<close>

type_synonym peer_map = "(string \<times> string) list"

datatype raft_role = StateLeader | StateCandidate | StateFollower

record joint_config =
  joint_old :: peer_map
  joint_new :: peer_map

text \<open>
  The value of an apply result: an error, an \<open>ApplyResult\<close>, or the nil that a
  successful membership change returns.
\<close>

datatype apply_outcome = ApplyErr go_error | ApplyOK apply_result | ApplyNil

record ('s, 'd) raft_node =
  NodeID :: string
  PeerAddresses :: peer_map
  CurrentTerm :: nat
  VotedFor :: string
  State :: raft_role
  MatchFSM :: 's
  raft_log :: "log_entry list"
  commitIndex :: nat
  lastApplied :: nat
  nextIndex :: "(string \<rightharpoonup> nat) option"
  matchIndex :: "(string \<rightharpoonup> nat) option"
  joint :: "joint_config option"
  knownLeaderID :: string
  knownLeaderTerm :: nat
  applyResults :: "nat \<rightharpoonup> apply_outcome"
  applyWaiters :: "nat \<Rightarrow> nat list"
  waiterSent :: "(nat \<times> apply_outcome) list"
  applyNotify :: bool
  notified :: "apply_result list"
  storage :: "'d option"
  compactThreshold :: nat
  snapshotIndex :: nat
  snapshotTerm :: nat
  lastSnapshot :: bytes
  electionReset :: bool
  heartbeatStop :: bool

text \<open>\<open>waiterSent\<close> and \<open>notified\<close> log what is sent on the waiters' channels and to the notifier.\<close>

record raft_meta =
  rm_SnapshotIndex :: nat
  rm_SnapshotTerm :: nat
  rm_CommitIndex :: nat
  rm_LastApplied :: nat
  rm_CurrentTerm :: nat
  rm_VotedFor :: string

record snapshot_record =
  sr_LastIncludedIndex :: nat
  sr_LastIncludedTerm :: nat
  sr_Data :: bytes

record ('s, 'd) raft_env =
  fsm_Apply :: "jtext \<Rightarrow> 's \<Rightarrow> apply_result result \<times> 's"
  fsm_CreateSnapshot :: "'s \<Rightarrow> bytes result"
  fsm_Restore :: "bytes \<Rightarrow> 's \<Rightarrow> unit result \<times> 's"
  st_PersistSnapshot :: "nat \<Rightarrow> nat \<Rightarrow> bytes \<Rightarrow> 'd \<Rightarrow> go_error option \<times> 'd"
  st_TruncateLog :: "log_entry list \<Rightarrow> raft_meta \<Rightarrow> 'd \<Rightarrow> go_error option \<times> 'd"
  st_LoadSnapshot :: "'d \<Rightarrow> snapshot_record option result"
  st_LoadLog :: "'d \<Rightarrow> (log_entry list \<times> raft_meta option) result"

definition defaultCompactThreshold :: nat where "defaultCompactThreshold = 1000"

definition NewRaftNode :: "string \<Rightarrow> peer_map \<Rightarrow> 's \<Rightarrow> ('s, 'd) raft_node" where
  "NewRaftNode nid peers fsm =
     \<lparr>NodeID = nid, PeerAddresses = peers, CurrentTerm = 0, VotedFor = [], State = StateFollower,
      MatchFSM = fsm, raft_log = [\<lparr>le_Index = 0, le_Term = 0, le_Command = None\<rparr>], commitIndex = 0,
      lastApplied = 0, nextIndex = None, matchIndex = None, joint = None, knownLeaderID = [],
      knownLeaderTerm = 0, applyResults = Map.empty, applyWaiters = (\<lambda>_. []), waiterSent = [],
      applyNotify = False, notified = [], storage = None, compactThreshold = defaultCompactThreshold,
      snapshotIndex = 0, snapshotTerm = 0, lastSnapshot = [], electionReset = False, heartbeatStop = False\<rparr>"

definition SetCompactThreshold :: "nat \<Rightarrow> ('s, 'd) raft_node \<Rightarrow> ('s, 'd) raft_node" where
  "SetCompactThreshold t n = n\<lparr>compactThreshold := (if t = 0 then defaultCompactThreshold else t)\<rparr>"

definition SetApplyNotifier :: "bool \<Rightarrow> ('s, 'd) raft_node \<Rightarrow> ('s, 'd) raft_node" where
  "SetApplyNotifier b n = n\<lparr>applyNotify := b\<rparr>"

subsection \<open>The log\<close>

definition lastLogIndex :: "('s, 'd) raft_node \<Rightarrow> nat" where
  "lastLogIndex n = (if raft_log n = [] then snapshotIndex n else le_Index (last (raft_log n)))"

definition lastLogTerm :: "('s, 'd) raft_node \<Rightarrow> nat" where
  "lastLogTerm n = (if raft_log n = [] then snapshotTerm n else le_Term (last (raft_log n)))"

definition logOffsetForIndex :: "('s, 'd) raft_node \<Rightarrow> nat \<Rightarrow> int" where
  "logOffsetForIndex n i = (if i < snapshotIndex n then -1 else int (i - snapshotIndex n))"

text \<open>The bounds check \<open>offset < 0 || offset >= len(n.log)\<close> and the access behind it.\<close>

definition entry_at :: "('s, 'd) raft_node \<Rightarrow> nat \<Rightarrow> log_entry option" where
  "entry_at n i =
     (let offset = logOffsetForIndex n i in
      if offset < 0 \<or> offset \<ge> int (length (raft_log n)) then None else Some (raft_log n ! nat offset))"

definition logIsUpToDate :: "('s, 'd) raft_node \<Rightarrow> nat \<Rightarrow> nat \<Rightarrow> bool" where
  "logIsUpToDate n idx trm =
     (if trm \<noteq> lastLogTerm n then trm > lastLogTerm n else idx \<ge> lastLogIndex n)"

definition entriesFromArgs :: "append_entries_args \<Rightarrow> log_entry list" where
  "entriesFromArgs args =
     map (\<lambda>(i, e). \<lparr>le_Index = (if le_Index e = 0 then ae_PrevLogIndex args + 1 + i else le_Index e),
                    le_Term = (if le_Term e = 0 then ae_Term args else le_Term e),
                    le_Command = le_Command e\<rparr>)
       (zip [0..<length (ae_Entries args)] (ae_Entries args))"

definition uncompactedLogEntries :: "('s, 'd) raft_node \<Rightarrow> nat" where
  "uncompactedLogEntries n =
     (if lastLogIndex n \<le> snapshotIndex n then 0 else lastLogIndex n - snapshotIndex n)"

definition truncateLogInMemory :: "nat \<Rightarrow> ('s, 'd) raft_node \<Rightarrow> ('s, 'd) raft_node" where
  "truncateLogInMemory upTo n =
     (let offset = logOffsetForIndex n upTo;
          trm = (if offset \<ge> 0 \<and> offset < int (length (raft_log n)) then le_Term (raft_log n ! nat offset)
                 else snapshotTerm n);
          head = \<lparr>le_Index = upTo, le_Term = trm, le_Command = None\<rparr> in
      if offset + 1 \<ge> int (length (raft_log n)) then n\<lparr>raft_log := [head]\<rparr>
      else n\<lparr>raft_log := head # drop (nat (offset + 1)) (raft_log n)\<rparr>)"

subsection \<open>Roles\<close>

definition becomeFollower :: "nat \<Rightarrow> ('s, 'd) raft_node \<Rightarrow> ('s, 'd) raft_node" where
  "becomeFollower trm n =
     n\<lparr>heartbeatStop := False, CurrentTerm := trm, VotedFor := [], State := StateFollower,
       nextIndex := None, matchIndex := None\<rparr>"

definition notifyHeartbeat :: "('s, 'd) raft_node \<Rightarrow> ('s, 'd) raft_node" where
  "notifyHeartbeat n = n\<lparr>electionReset := True\<rparr>"

definition IsLeader :: "('s, 'd) raft_node \<Rightarrow> bool" where
  "IsLeader n = (State n = StateLeader)"

definition leaderRedirect :: "('s, 'd) raft_node \<Rightarrow> go_error option" where
  "leaderRedirect n =
     (if State n = StateLeader then None
      else if knownLeaderID n = [] then Some (LeaderRedirectError [] [] ''cluster leader is unknown'')
      else case map_of (PeerAddresses n) (knownLeaderID n) of
        None \<Rightarrow> Some (LeaderRedirectError (knownLeaderID n) []
          (''leader address for '' @ quote (knownLeaderID n) @ '' is not configured''))
      | Some addr \<Rightarrow> Some (LeaderRedirectError (knownLeaderID n) addr
          ''submit in-game actions to the cluster leader''))"

text \<open>The three results of \<open>LeaderEndpoint\<close>.\<close>

definition LeaderEndpoint :: "('s, 'd) raft_node \<Rightarrow> string \<times> string \<times> go_error option" where
  "LeaderEndpoint n =
     (if State n = StateLeader then
        (case map_of (PeerAddresses n) (NodeID n) of
           None \<Rightarrow> (NodeID n, [], Some (Errorf (''leader address for '' @ quote (NodeID n) @ '' is not configured'')))
         | Some addr \<Rightarrow> (NodeID n, addr, None))
      else if knownLeaderID n = [] then ([], [], Some (Errorf ''cluster leader is unknown''))
      else
        (case map_of (PeerAddresses n) (knownLeaderID n) of
           None \<Rightarrow> (knownLeaderID n, [],
             Some (Errorf (''leader address for '' @ quote (knownLeaderID n) @ '' is not configured'')))
         | Some addr \<Rightarrow> (knownLeaderID n, addr, None)))"

definition RequestVote ::
  "request_vote_args \<Rightarrow> ('s, 'd) raft_node \<Rightarrow> request_vote_reply \<times> ('s, 'd) raft_node" where
  "RequestVote args n0 =
     (let n = (if rv_Term args > CurrentTerm n0 then becomeFollower (rv_Term args) n0 else n0);
          no = \<lparr>rvr_Term = CurrentTerm n, rvr_VoteGranted = False\<rparr> in
      if rv_Term args < CurrentTerm n then (no, n)
      else if VotedFor n \<noteq> [] \<and> VotedFor n \<noteq> rv_CandidateID args then (no, n)
      else if \<not> logIsUpToDate n (rv_LastLogIndex args) (rv_LastLogTerm args) then (no, n)
      else (no\<lparr>rvr_VoteGranted := True\<rparr>, n\<lparr>VotedFor := rv_CandidateID args\<rparr>))"

subsection \<open>Membership\<close>

text \<open>A map read: a missing key, or a nil map, gives 0.\<close>

definition idx_get :: "(string \<rightharpoonup> nat) option \<Rightarrow> string \<Rightarrow> nat" where
  "idx_get mo p = (case mo of None \<Rightarrow> 0 | Some m \<Rightarrow> (case m p of None \<Rightarrow> 0 | Some v \<Rightarrow> v))"

definition remotePeers :: "('s, 'd) raft_node \<Rightarrow> peer_map" where
  "remotePeers n = filter (\<lambda>(p, a). p \<noteq> NodeID n) (PeerAddresses n)"

definition electionMajority :: "('s, 'd) raft_node \<Rightarrow> nat" where
  "electionMajority n =
     length (case joint n of None \<Rightarrow> PeerAddresses n | Some j \<Rightarrow> joint_old j) div 2 + 1"

definition trackNewPeer :: "string \<Rightarrow> ('s, 'd) raft_node \<Rightarrow> ('s, 'd) raft_node" where
  "trackNewPeer p n =
     (if State n \<noteq> StateLeader \<or> nextIndex n = None then n
      else n\<lparr>nextIndex := map_option (\<lambda>m. m(p \<mapsto> lastLogIndex n + 1)) (nextIndex n),
             matchIndex := map_option (\<lambda>m. m(p \<mapsto> 0)) (matchIndex n)\<rparr>)"

definition dropPeer :: "string \<Rightarrow> ('s, 'd) raft_node \<Rightarrow> ('s, 'd) raft_node" where
  "dropPeer p n =
     n\<lparr>nextIndex := map_option (\<lambda>m. m(p := None)) (nextIndex n),
       matchIndex := map_option (\<lambda>m. m(p := None)) (matchIndex n)\<rparr>"

definition pruneReplicationState :: "('s, 'd) raft_node \<Rightarrow> ('s, 'd) raft_node" where
  "pruneReplicationState n =
     (case nextIndex n of
        None \<Rightarrow> n
      | Some nx \<Rightarrow>
          let gone = (\<lambda>p. nx p \<noteq> None \<and> map_of (PeerAddresses n) p = None) in
          n\<lparr>nextIndex := Some (\<lambda>p. if gone p then None else nx p),
            matchIndex := map_option (\<lambda>m p. if gone p then None else m p) (matchIndex n)\<rparr>)"

definition applyMembership :: "command \<Rightarrow> ('s, 'd) raft_node \<Rightarrow> go_error option \<times> ('s, 'd) raft_node" where
  "applyMembership cmd n =
     (if Op cmd = OpAddNode then
        (case DecodeAddNodeCommand (Payload cmd) of
           Inl e \<Rightarrow> (Some e, n)
         | Inr add \<Rightarrow>
             if map_of (PeerAddresses n) (an_NodeID add) \<noteq> None then
               (Some (Errorf (''node '' @ quote (an_NodeID add) @ '' already in cluster'')), n)
             else if joint n \<noteq> None then (Some (Errorf ''already in joint consensus''), n)
             else
               let newPeers = PeerAddresses n @ [(an_NodeID add, an_Address add)] in
               (None, trackNewPeer (an_NodeID add)
                  (n\<lparr>joint := Some \<lparr>joint_old = PeerAddresses n, joint_new = newPeers\<rparr>,
                     PeerAddresses := newPeers\<rparr>)))
      else if Op cmd = OpRemoveNode then
        (case DecodeRemoveNodeCommand (Payload cmd) of
           Inl e \<Rightarrow> (Some e, n)
         | Inr nid \<Rightarrow>
             if map_of (PeerAddresses n) nid = None then
               (Some (Errorf (''node '' @ quote nid @ '' not in cluster'')), n)
             else if joint n \<noteq> None then (Some (Errorf ''already in joint consensus''), n)
             else
               let newPeers = filter (\<lambda>(p, a). p \<noteq> nid) (PeerAddresses n) in
               (None, dropPeer nid
                  (n\<lparr>joint := Some \<lparr>joint_old = PeerAddresses n, joint_new = newPeers\<rparr>,
                     PeerAddresses := newPeers\<rparr>)))
      else if Op cmd = OpCommitConfig then
        (case joint n of
           None \<Rightarrow> (Some (Errorf ''not in joint consensus''), n)
         | Some j \<Rightarrow> (None, pruneReplicationState (n\<lparr>PeerAddresses := joint_new j, joint := None\<rparr>)))
      else (Some (Errorf (''unknown membership op '' @ quote (Op cmd))), n))"

subsection \<open>Quorums\<close>

definition isPendingNewPeer :: "('s, 'd) raft_node \<Rightarrow> string \<Rightarrow> bool" where
  "isPendingNewPeer n p =
     (case joint n of
        None \<Rightarrow> False
      | Some j \<Rightarrow>
          if map_of (joint_old j) p \<noteq> None then False
          else if matchIndex n = None then True
          else idx_get (matchIndex n) p = 0)"

definition activeVotersInConfig :: "('s, 'd) raft_node \<Rightarrow> peer_map \<Rightarrow> nat" where
  "activeVotersInConfig n config = length (filter (\<lambda>(p, a). \<not> isPendingNewPeer n p) config)"

definition replicationCountInConfig :: "('s, 'd) raft_node \<Rightarrow> nat \<Rightarrow> peer_map \<Rightarrow> nat" where
  "replicationCountInConfig n i config =
     length (filter (\<lambda>(p, a). \<not> isPendingNewPeer n p \<and>
       (p = NodeID n \<or> (matchIndex n \<noteq> None \<and> idx_get (matchIndex n) p \<ge> i))) config)"

definition quorumMetInConfig :: "('s, 'd) raft_node \<Rightarrow> nat \<Rightarrow> peer_map \<Rightarrow> bool" where
  "quorumMetInConfig n i config =
     (let voters = activeVotersInConfig n config in
      if voters = 0 then True else replicationCountInConfig n i config \<ge> voters div 2 + 1)"

definition quorumMetForIndex :: "('s, 'd) raft_node \<Rightarrow> nat \<Rightarrow> bool" where
  "quorumMetForIndex n i =
     (case joint n of
        Some j \<Rightarrow> quorumMetInConfig n i (joint_old j) \<and> quorumMetInConfig n i (joint_new j)
      | None \<Rightarrow> quorumMetInConfig n i (PeerAddresses n))"

end
