(* ===== verification/Raft_Ops.thy ===== *)
theory Raft_Ops
  imports Raft_Node
begin

section \<open>Operations of the Raft node\<close>

text \<open>
  The sections of \<open>pkg/consensus/raft_node.go\<close> that apply entries, compact and persist
  the log, and handle replication, elections, proposals, reads and the start from disk.
\<close>

subsection \<open>Applying entries\<close>

definition dispatchApplyNotification :: "apply_result result \<Rightarrow> ('s, 'd) raft_node \<Rightarrow> ('s, 'd) raft_node" where
  "dispatchApplyNotification r n =
     (if \<not> applyNotify n then n
      else case r of
        Inl e \<Rightarrow> n
      | Inr ar \<Rightarrow> if \<not> ar_OK ar \<or> ar_Op ar = OpDebugNoop then n else n\<lparr>notified := notified n @ [ar]\<rparr>)"

text \<open>Every waiter is a channel of capacity one, registered once: the send succeeds.\<close>

definition recordApplyResult :: "nat \<Rightarrow> apply_outcome \<Rightarrow> ('s, 'd) raft_node \<Rightarrow> ('s, 'd) raft_node" where
  "recordApplyResult i r n =
     n\<lparr>applyResults := (applyResults n)(i \<mapsto> r),
       waiterSent := waiterSent n @ map (\<lambda>w. (w, r)) (applyWaiters n i),
       applyWaiters := (applyWaiters n)(i := [])\<rparr>"

text \<open>
  The body of the loops of \<open>applyCommittedLocked\<close> and \<open>replayUncompactedLogLocked\<close>
  for one entry; only the first of them notifies.
\<close>

definition apply_entry :: "('s, 'd) raft_env \<Rightarrow> bool \<Rightarrow> nat \<Rightarrow> log_entry \<Rightarrow> ('s, 'd) raft_node \<Rightarrow> ('s, 'd) raft_node" where
  "apply_entry env notify i entry n =
     (case DecodeCommand (le_Command entry) of
        Inl e \<Rightarrow> recordApplyResult i (ApplyErr e) n
      | Inr cmd \<Rightarrow>
          if IsMembershipOp (Op cmd) then
            (case applyMembership cmd n of
               (eo, n1) \<Rightarrow> recordApplyResult i (case eo of None \<Rightarrow> ApplyNil | Some e \<Rightarrow> ApplyErr e) n1)
          else
            (case fsm_Apply env (le_Command entry) (MatchFSM n) of
               (r, s1) \<Rightarrow>
                 let n1 = n\<lparr>MatchFSM := s1\<rparr>;
                     n2 = (if notify then dispatchApplyNotification r n1 else n1)
                 in recordApplyResult i (case r of Inl e \<Rightarrow> ApplyErr e | Inr ar \<Rightarrow> ApplyOK ar) n2))"

text \<open>What applying an entry leaves alone.\<close>

named_theorems raft_frame \<open>fields an operation does not change\<close>

lemma record_frame [raft_frame]:
  "commitIndex (recordApplyResult i r n) = commitIndex n"
  "lastApplied (recordApplyResult i r n) = lastApplied n"
  "raft_log (recordApplyResult i r n) = raft_log n"
  "snapshotIndex (recordApplyResult i r n) = snapshotIndex n"
  "snapshotTerm (recordApplyResult i r n) = snapshotTerm n"
  "CurrentTerm (recordApplyResult i r n) = CurrentTerm n"
  "VotedFor (recordApplyResult i r n) = VotedFor n"
  "State (recordApplyResult i r n) = State n"
  "NodeID (recordApplyResult i r n) = NodeID n"
  "storage (recordApplyResult i r n) = storage n"
  "compactThreshold (recordApplyResult i r n) = compactThreshold n"
  "lastSnapshot (recordApplyResult i r n) = lastSnapshot n"
  "knownLeaderID (recordApplyResult i r n) = knownLeaderID n"
  "electionReset (recordApplyResult i r n) = electionReset n"
  by (simp_all add: recordApplyResult_def)

lemma dispatch_frame [raft_frame]:
  "commitIndex (dispatchApplyNotification r n) = commitIndex n"
  "lastApplied (dispatchApplyNotification r n) = lastApplied n"
  "raft_log (dispatchApplyNotification r n) = raft_log n"
  "snapshotIndex (dispatchApplyNotification r n) = snapshotIndex n"
  "snapshotTerm (dispatchApplyNotification r n) = snapshotTerm n"
  "CurrentTerm (dispatchApplyNotification r n) = CurrentTerm n"
  "VotedFor (dispatchApplyNotification r n) = VotedFor n"
  "State (dispatchApplyNotification r n) = State n"
  "NodeID (dispatchApplyNotification r n) = NodeID n"
  "storage (dispatchApplyNotification r n) = storage n"
  "compactThreshold (dispatchApplyNotification r n) = compactThreshold n"
  "lastSnapshot (dispatchApplyNotification r n) = lastSnapshot n"
  "knownLeaderID (dispatchApplyNotification r n) = knownLeaderID n"
  "electionReset (dispatchApplyNotification r n) = electionReset n"
  by (simp_all add: dispatchApplyNotification_def split: sum.split)

lemma track_frame [raft_frame]:
  "commitIndex (trackNewPeer p n) = commitIndex n"
  "lastApplied (trackNewPeer p n) = lastApplied n"
  "raft_log (trackNewPeer p n) = raft_log n"
  "snapshotIndex (trackNewPeer p n) = snapshotIndex n"
  "snapshotTerm (trackNewPeer p n) = snapshotTerm n"
  "CurrentTerm (trackNewPeer p n) = CurrentTerm n"
  "VotedFor (trackNewPeer p n) = VotedFor n"
  "State (trackNewPeer p n) = State n"
  "NodeID (trackNewPeer p n) = NodeID n"
  "storage (trackNewPeer p n) = storage n"
  "compactThreshold (trackNewPeer p n) = compactThreshold n"
  "lastSnapshot (trackNewPeer p n) = lastSnapshot n"
  "knownLeaderID (trackNewPeer p n) = knownLeaderID n"
  "electionReset (trackNewPeer p n) = electionReset n"
  by (simp_all add: trackNewPeer_def)

lemma drop_frame [raft_frame]:
  "commitIndex (dropPeer p n) = commitIndex n"
  "lastApplied (dropPeer p n) = lastApplied n"
  "raft_log (dropPeer p n) = raft_log n"
  "snapshotIndex (dropPeer p n) = snapshotIndex n"
  "snapshotTerm (dropPeer p n) = snapshotTerm n"
  "CurrentTerm (dropPeer p n) = CurrentTerm n"
  "VotedFor (dropPeer p n) = VotedFor n"
  "State (dropPeer p n) = State n"
  "NodeID (dropPeer p n) = NodeID n"
  "storage (dropPeer p n) = storage n"
  "compactThreshold (dropPeer p n) = compactThreshold n"
  "lastSnapshot (dropPeer p n) = lastSnapshot n"
  "knownLeaderID (dropPeer p n) = knownLeaderID n"
  "electionReset (dropPeer p n) = electionReset n"
  by (simp_all add: dropPeer_def)

lemma prune_frame [raft_frame]:
  "commitIndex (pruneReplicationState n) = commitIndex n"
  "lastApplied (pruneReplicationState n) = lastApplied n"
  "raft_log (pruneReplicationState n) = raft_log n"
  "snapshotIndex (pruneReplicationState n) = snapshotIndex n"
  "snapshotTerm (pruneReplicationState n) = snapshotTerm n"
  "CurrentTerm (pruneReplicationState n) = CurrentTerm n"
  "VotedFor (pruneReplicationState n) = VotedFor n"
  "State (pruneReplicationState n) = State n"
  "NodeID (pruneReplicationState n) = NodeID n"
  "storage (pruneReplicationState n) = storage n"
  "compactThreshold (pruneReplicationState n) = compactThreshold n"
  "lastSnapshot (pruneReplicationState n) = lastSnapshot n"
  "knownLeaderID (pruneReplicationState n) = knownLeaderID n"
  "electionReset (pruneReplicationState n) = electionReset n"
  by (simp_all add: pruneReplicationState_def Let_def split: option.split)

lemma membership_frame [raft_frame]:
  "commitIndex (snd (applyMembership cmd n)) = commitIndex n"
  "lastApplied (snd (applyMembership cmd n)) = lastApplied n"
  "raft_log (snd (applyMembership cmd n)) = raft_log n"
  "snapshotIndex (snd (applyMembership cmd n)) = snapshotIndex n"
  "snapshotTerm (snd (applyMembership cmd n)) = snapshotTerm n"
  "CurrentTerm (snd (applyMembership cmd n)) = CurrentTerm n"
  "VotedFor (snd (applyMembership cmd n)) = VotedFor n"
  "State (snd (applyMembership cmd n)) = State n"
  "NodeID (snd (applyMembership cmd n)) = NodeID n"
  "storage (snd (applyMembership cmd n)) = storage n"
  "compactThreshold (snd (applyMembership cmd n)) = compactThreshold n"
  "lastSnapshot (snd (applyMembership cmd n)) = lastSnapshot n"
  "knownLeaderID (snd (applyMembership cmd n)) = knownLeaderID n"
  "electionReset (snd (applyMembership cmd n)) = electionReset n"
  by (simp_all add: applyMembership_def raft_frame Let_def split: sum.split option.split)

lemma apply_entry_frame [raft_frame]:
  "commitIndex (apply_entry env b i e n) = commitIndex n"
  "lastApplied (apply_entry env b i e n) = lastApplied n"
  "raft_log (apply_entry env b i e n) = raft_log n"
  "snapshotIndex (apply_entry env b i e n) = snapshotIndex n"
  "snapshotTerm (apply_entry env b i e n) = snapshotTerm n"
  "CurrentTerm (apply_entry env b i e n) = CurrentTerm n"
  "VotedFor (apply_entry env b i e n) = VotedFor n"
  "State (apply_entry env b i e n) = State n"
  "NodeID (apply_entry env b i e n) = NodeID n"
  "storage (apply_entry env b i e n) = storage n"
  "compactThreshold (apply_entry env b i e n) = compactThreshold n"
  "lastSnapshot (apply_entry env b i e n) = lastSnapshot n"
  "knownLeaderID (apply_entry env b i e n) = knownLeaderID n"
  "electionReset (apply_entry env b i e n) = electionReset n"
  by (simp_all add: apply_entry_def raft_frame Let_def case_prod_unfold split: sum.split)

text \<open>The loop: it stops at the commit index or where the log has no entry.\<close>

function apply_loop :: "('s, 'd) raft_env \<Rightarrow> bool \<Rightarrow> ('s, 'd) raft_node \<Rightarrow> ('s, 'd) raft_node" where
  "apply_loop env b n =
     (if lastApplied n < commitIndex n then
        (case entry_at n (lastApplied n + 1) of
           None \<Rightarrow> n
         | Some e \<Rightarrow>
             apply_loop env b (apply_entry env b (lastApplied n + 1) e (n\<lparr>lastApplied := lastApplied n + 1\<rparr>)))
      else n)"
  by pat_completeness auto

termination
  by (relation "measure (\<lambda>(env, b, n). commitIndex n - lastApplied n)") (auto simp: raft_frame)

declare apply_loop.simps [simp del]

subsection \<open>Persistence and compaction\<close>

definition persistDurableState :: "('s, 'd) raft_env \<Rightarrow> ('s, 'd) raft_node \<Rightarrow> go_error option \<times> ('s, 'd) raft_node" where
  "persistDurableState env n =
     (case storage n of
        None \<Rightarrow> (None, n)
      | Some d \<Rightarrow>
          let entries = filter (\<lambda>e. \<not> le_Index e \<le> snapshotIndex n) (drop 1 (raft_log n));
              meta = \<lparr>rm_SnapshotIndex = snapshotIndex n, rm_SnapshotTerm = snapshotTerm n,
                      rm_CommitIndex = commitIndex n, rm_LastApplied = lastApplied n,
                      rm_CurrentTerm = CurrentTerm n, rm_VotedFor = VotedFor n\<rparr> in
          (case st_TruncateLog env entries meta d of (eo, d1) \<Rightarrow> (eo, n\<lparr>storage := Some d1\<rparr>)))"

text \<open>Writing the snapshot to the storage, if there is one.\<close>

definition persistSnapshot ::
  "('s, 'd) raft_env \<Rightarrow> nat \<Rightarrow> nat \<Rightarrow> bytes \<Rightarrow> ('s, 'd) raft_node \<Rightarrow> go_error option \<times> ('s, 'd) raft_node" where
  "persistSnapshot env i t data n =
     (case storage n of
        None \<Rightarrow> (None, n)
      | Some d \<Rightarrow> (case st_PersistSnapshot env i t data d of (eo, d1) \<Rightarrow> (eo, n\<lparr>storage := Some d1\<rparr>)))"

text \<open>\<open>n.log\<close> with everything up to \<open>i\<close> replaced by the sentinel entry \<open>(i, t)\<close>.\<close>

definition compacted_log :: "nat \<Rightarrow> nat \<Rightarrow> ('s, 'd) raft_node \<Rightarrow> log_entry list" where
  "compacted_log i t n =
     (let tailOffset = logOffsetForIndex n i + 1 in
      \<lparr>le_Index = i, le_Term = t, le_Command = None\<rparr>
        # (if 0 < tailOffset \<and> tailOffset < int (length (raft_log n)) then drop (nat tailOffset) (raft_log n) else []))"

definition panic_index :: go_error where
  "panic_index = GoPanic ''index out of range''"

definition maybeCompact :: "('s, 'd) raft_env \<Rightarrow> ('s, 'd) raft_node \<Rightarrow> go_error option \<times> ('s, 'd) raft_node" where
  "maybeCompact env n =
     (if uncompactedLogEntries n < compactThreshold n then (None, n)
      else
        let upTo = lastApplied n in
        if upTo \<le> snapshotIndex n then (None, n)
        else case fsm_CreateSnapshot env (MatchFSM n) of
          Inl e \<Rightarrow> (Some (Wrapf (''create snapshot at index '' @ nat_dec upTo @ '': '') e), n)
        | Inr data \<Rightarrow>
            (case entry_at n upTo of
               None \<Rightarrow> (Some panic_index, n)
             | Some e \<Rightarrow>
                 (case persistSnapshot env upTo (le_Term e) data n of
                    (Some err, n1) \<Rightarrow> (Some (Wrapf (''persist snapshot at index '' @ nat_dec upTo @ '': '') err), n1)
                  | (None, n1) \<Rightarrow>
                      persistDurableState env
                        (n1\<lparr>snapshotIndex := upTo, snapshotTerm := le_Term e, lastSnapshot := data,
                            raft_log := compacted_log upTo (le_Term e) n1\<rparr>))))"

text \<open>
  \<open>applyCommittedLocked\<close> ignores the error of the compaction; a panic goes through.
\<close>

definition applyCommitted :: "('s, 'd) raft_env \<Rightarrow> ('s, 'd) raft_node \<Rightarrow> go_error option \<times> ('s, 'd) raft_node" where
  "applyCommitted env n =
     (case maybeCompact env (apply_loop env True n) of
        (Some e, n1) \<Rightarrow> (if is_panic e then Some e else None, n1)
      | (None, n1) \<Rightarrow> (None, n1))"

subsection \<open>AppendEntries\<close>

text \<open>The step both replication handlers start with on a term that is not stale.\<close>

definition accept_leader :: "nat \<Rightarrow> string \<Rightarrow> ('s, 'd) raft_node \<Rightarrow> ('s, 'd) raft_node" where
  "accept_leader trm lid n =
     (let n1 = (if trm > CurrentTerm n \<or> State n \<noteq> StateFollower then becomeFollower trm n
                else n\<lparr>CurrentTerm := trm, VotedFor := []\<rparr>)
      in n1\<lparr>knownLeaderID := lid, knownLeaderTerm := trm\<rparr>)"

text \<open>The two updates of an accepted call: the log behind \<open>PrevLogIndex\<close>, and the commit index.\<close>

definition append_log :: "append_entries_args \<Rightarrow> ('s, 'd) raft_node \<Rightarrow> ('s, 'd) raft_node" where
  "append_log args n =
     (let prevOffset = nat (logOffsetForIndex n (ae_PrevLogIndex args)) in
      if ae_Entries args \<noteq> [] then
        n\<lparr>raft_log := take (prevOffset + 1) (raft_log n) @ entriesFromArgs args\<rparr>
      else n)"

definition adopt_commit :: "append_entries_args \<Rightarrow> ('s, 'd) raft_node \<Rightarrow> ('s, 'd) raft_node" where
  "adopt_commit args n =
     (if ae_LeaderCommit args > commitIndex n then
        n\<lparr>commitIndex := (if ae_LeaderCommit args < lastLogIndex n then ae_LeaderCommit args
                          else lastLogIndex n)\<rparr>
      else n)"

text \<open>\<open>Inl\<close> is a panic; the deferred heartbeat signal is sent on every path but the stale one.\<close>

definition AppendEntries ::
  "('s, 'd) raft_env \<Rightarrow> append_entries_args \<Rightarrow> ('s, 'd) raft_node \<Rightarrow> append_entries_reply result \<times> ('s, 'd) raft_node" where
  "AppendEntries env args n =
     (if ae_Term args < CurrentTerm n then (Inr \<lparr>aer_Term = CurrentTerm n, aer_Success = False\<rparr>, n)
      else
        let n1 = accept_leader (ae_Term args) (ae_LeaderID args) n;
            fail = (Inr \<lparr>aer_Term = CurrentTerm n1, aer_Success = False\<rparr>, notifyHeartbeat n1) in
        if ae_PrevLogIndex args < snapshotIndex n1 then fail
        else case entry_at n1 (ae_PrevLogIndex args) of
          None \<Rightarrow> fail
        | Some prev \<Rightarrow>
            if le_Term prev \<noteq> ae_PrevLogTerm args then fail
            else
              (case applyCommitted env (adopt_commit args (append_log args n1)) of
                 (Some p, n4) \<Rightarrow> (Inl p, notifyHeartbeat n4)
               | (None, n4) \<Rightarrow>
                   (case persistDurableState env n4 of
                      (_, n5) \<Rightarrow> (Inr \<lparr>aer_Term = CurrentTerm n5, aer_Success = True\<rparr>, notifyHeartbeat n5))))"

subsection \<open>InstallSnapshot\<close>

text \<open>The result is the error returned, the reply's term, and the node.\<close>

definition InstallSnapshot ::
  "('s, 'd) raft_env \<Rightarrow> install_snapshot_args \<Rightarrow> ('s, 'd) raft_node \<Rightarrow> go_error option \<times> nat \<times> ('s, 'd) raft_node" where
  "InstallSnapshot env args n =
     (let t0 = CurrentTerm n in
      if is_Term args < CurrentTerm n then (None, t0, n)
      else
        let n1 = accept_leader (is_Term args) (is_LeaderID args) n in
        if is_LastIncludedIndex args \<le> snapshotIndex n1 then (None, t0, notifyHeartbeat n1)
        else case fsm_Restore env (is_Data args) (MatchFSM n1) of
          (Inl e, s1) \<Rightarrow>
            (Some (Wrapf (''restore snapshot at index '' @ nat_dec (is_LastIncludedIndex args) @ '': '') e), t0,
             notifyHeartbeat (n1\<lparr>MatchFSM := s1\<rparr>))
        | (Inr _, s1) \<Rightarrow>
            let i = is_LastIncludedIndex args; t = is_LastIncludedTerm args;
                n2 = n1\<lparr>MatchFSM := s1, snapshotIndex := i, snapshotTerm := t, lastSnapshot := is_Data args,
                        lastApplied := i, raft_log := compacted_log i t n1,
                        commitIndex := (if i < commitIndex n1 then i else commitIndex n1)\<rparr> in
            (case persistSnapshot env i t (is_Data args) n2 of
               (Some e, n3) \<Rightarrow> (Some (Wrapf ''persist installed snapshot: '' e), t0, notifyHeartbeat n3)
             | (None, n3) \<Rightarrow>
                 (case persistDurableState env n3 of
                    (Some e, n4) \<Rightarrow> (Some e, t0, notifyHeartbeat n4)
                  | (None, n4) \<Rightarrow> (None, CurrentTerm n4, notifyHeartbeat n4))))"

subsection \<open>Elections\<close>

text \<open>
  The first section of \<open>startElection\<close>: \<open>None\<close> for a leader, otherwise the request to
  send, the peers and the majority.
\<close>

definition startElection ::
  "('s, 'd) raft_node \<Rightarrow> (request_vote_args \<times> peer_map \<times> nat) option \<times> ('s, 'd) raft_node" where
  "startElection n0 =
     (if State n0 = StateLeader then (None, n0)
      else
        let n = n0\<lparr>CurrentTerm := CurrentTerm n0 + 1, State := StateCandidate, VotedFor := NodeID n0\<rparr> in
        (Some (\<lparr>rv_Term = CurrentTerm n, rv_CandidateID = NodeID n, rv_LastLogIndex = lastLogIndex n,
                rv_LastLogTerm = lastLogTerm n\<rparr>, remotePeers n, electionMajority n), n))"

text \<open>The section that handles one reply; the result says whether the vote counts.\<close>

definition handleVoteReply ::
  "nat \<Rightarrow> request_vote_reply \<Rightarrow> ('s, 'd) raft_node \<Rightarrow> bool \<times> ('s, 'd) raft_node" where
  "handleVoteReply trm reply n =
     (if rvr_Term reply > CurrentTerm n then (False, becomeFollower (rvr_Term reply) n)
      else (rvr_VoteGranted reply \<and> rvr_Term reply = trm \<and> State n = StateCandidate \<and> CurrentTerm n = trm, n))"

definition initLeaderReplication :: "('s, 'd) raft_node \<Rightarrow> ('s, 'd) raft_node" where
  "initLeaderReplication n =
     (let peers = map fst (remotePeers n) in
      n\<lparr>nextIndex := Some (\<lambda>p. if p \<in> set peers then Some (lastLogIndex n + 1) else None),
        matchIndex := Some (\<lambda>p. if p \<in> set peers then Some 0 else None)\<rparr>)"

definition promoteToLeader :: "nat \<Rightarrow> ('s, 'd) raft_node \<Rightarrow> ('s, 'd) raft_node" where
  "promoteToLeader trm n =
     (if State n \<noteq> StateCandidate \<or> CurrentTerm n \<noteq> trm then n
      else initLeaderReplication (n\<lparr>State := StateLeader\<rparr>))"

definition startHeartbeatTicker :: "('s, 'd) raft_node \<Rightarrow> ('s, 'd) raft_node" where
  "startHeartbeatTicker n = n\<lparr>heartbeatStop := True\<rparr>"

text \<open>A tick of the heartbeat loop: the term to replicate in, if still leader.\<close>

definition heartbeatTick :: "('s, 'd) raft_node \<Rightarrow> nat option" where
  "heartbeatTick n = (if State n = StateLeader then Some (CurrentTerm n) else None)"

text \<open>
  The rest of \<open>startElection\<close> for replies that arrive one after the other with nothing in
  between; a failed call has no reply. Every vote from the majority on calls
  \<open>promoteToLeader\<close>.
\<close>

fun collect_votes ::
  "nat \<Rightarrow> nat \<Rightarrow> nat \<Rightarrow> request_vote_reply option list \<Rightarrow> ('s, 'd) raft_node \<Rightarrow> ('s, 'd) raft_node" where
  "collect_votes trm majority votes [] n = n"
| "collect_votes trm majority votes (None # rs) n = collect_votes trm majority votes rs n"
| "collect_votes trm majority votes (Some r # rs) n =
     (case handleVoteReply trm r n of
        (False, n1) \<Rightarrow> collect_votes trm majority votes rs n1
      | (True, n1) \<Rightarrow>
          collect_votes trm majority (votes + 1) rs
            (if votes + 1 \<ge> majority then promoteToLeader trm n1 else n1))"

definition runElection :: "request_vote_reply option list \<Rightarrow> ('s, 'd) raft_node \<Rightarrow> ('s, 'd) raft_node" where
  "runElection replies n0 =
     (case startElection n0 of
        (None, n) \<Rightarrow> n
      | (Some (args, peers, majority), n) \<Rightarrow>
          if 1 \<ge> majority then promoteToLeader (rv_Term args) n
          else collect_votes (rv_Term args) majority 1 replies n)"

subsection \<open>Replication\<close>

text \<open>
  \<open>collectReplicationTasks\<close>: \<open>Inr None\<close> when no longer leader in the term. The access
  \<open>n.log[prevOffset]\<close> has no bounds check.
\<close>

definition replication_task_for :: "('s, 'd) raft_node \<Rightarrow> string \<times> string \<Rightarrow> replication_task result" where
  "replication_task_for n pa =
     (let p = fst pa; addr = snd pa; nextIdx = idx_get (nextIndex n) p in
      if nextIdx \<le> snapshotIndex n then
        Inr \<lparr>rt_peerID = p, rt_addr = addr, rt_prevLogIndex = 0, rt_prevLogTerm = 0, rt_entries = [],
             rt_leaderCommit = 0, rt_installSnap = True\<rparr>
      else
        (case entry_at n (nextIdx - 1) of
           None \<Rightarrow> Inl panic_index
         | Some prev \<Rightarrow>
             Inr \<lparr>rt_peerID = p, rt_addr = addr, rt_prevLogIndex = nextIdx - 1, rt_prevLogTerm = le_Term prev,
                  rt_entries = drop (nat (logOffsetForIndex n nextIdx)) (raft_log n),
                  rt_leaderCommit = commitIndex n, rt_installSnap = False\<rparr>))"

fun collect_tasks :: "('s, 'd) raft_node \<Rightarrow> peer_map \<Rightarrow> replication_task list result" where
  "collect_tasks n [] = Inr []"
| "collect_tasks n (pa # ps) =
     (case replication_task_for n pa of
        Inl e \<Rightarrow> Inl e
      | Inr t \<Rightarrow> (case collect_tasks n ps of Inl e \<Rightarrow> Inl e | Inr ts \<Rightarrow> Inr (t # ts)))"

definition collectReplicationTasks ::
  "nat \<Rightarrow> ('s, 'd) raft_node \<Rightarrow> (replication_task list \<times> string) option result" where
  "collectReplicationTasks trm n =
     (if State n \<noteq> StateLeader \<or> CurrentTerm n \<noteq> trm then Inr None
      else case collect_tasks n (remotePeers n) of
        Inl e \<Rightarrow> Inl e
      | Inr ts \<Rightarrow> Inr (Some (ts, NodeID n)))"

text \<open>What \<open>replicateToPeer\<close> sends for a task.\<close>

definition append_args_of :: "nat \<Rightarrow> string \<Rightarrow> replication_task \<Rightarrow> append_entries_args" where
  "append_args_of trm lid t =
     \<lparr>ae_Term = trm, ae_LeaderID = lid, ae_PrevLogIndex = rt_prevLogIndex t, ae_PrevLogTerm = rt_prevLogTerm t,
      ae_Entries = rt_entries t, ae_LeaderCommit = rt_leaderCommit t\<rparr>"

definition install_args_of :: "nat \<Rightarrow> ('s, 'd) raft_node \<Rightarrow> install_snapshot_args option" where
  "install_args_of trm n =
     (if State n \<noteq> StateLeader \<or> CurrentTerm n \<noteq> trm \<or> lastSnapshot n = [] then None
      else Some \<lparr>is_Term = trm, is_LeaderID = NodeID n, is_LastIncludedIndex = snapshotIndex n,
                 is_LastIncludedTerm = snapshotTerm n, is_Data = lastSnapshot n\<rparr>)"

text \<open>The loop runs down from the last index to the commit index.\<close>

fun advance_loop :: "('s, 'd) raft_env \<Rightarrow> nat \<Rightarrow> ('s, 'd) raft_node \<Rightarrow> go_error option \<times> ('s, 'd) raft_node" where
  "advance_loop env 0 n = (None, n)"
| "advance_loop env (Suc k) n =
     (if \<not> Suc k > commitIndex n then (None, n)
      else case entry_at n (Suc k) of
        None \<Rightarrow> advance_loop env k n
      | Some e \<Rightarrow>
          if le_Term e \<noteq> CurrentTerm n then advance_loop env k n
          else if quorumMetForIndex n (Suc k) then applyCommitted env (n\<lparr>commitIndex := Suc k\<rparr>)
          else advance_loop env k n)"

definition advanceCommitIndex ::
  "('s, 'd) raft_env \<Rightarrow> ('s, 'd) raft_node \<Rightarrow> go_error option \<times> ('s, 'd) raft_node" where
  "advanceCommitIndex env n = advance_loop env (lastLogIndex n) n"

text \<open>The result says whether the handler starts sending a snapshot.\<close>

definition panic_nil_map :: go_error where
  "panic_nil_map = GoPanic ''assignment to entry in nil map''"

definition handleAppendEntriesReply ::
  "('s, 'd) raft_env \<Rightarrow> nat \<Rightarrow> string \<Rightarrow> append_entries_args \<Rightarrow> append_entries_reply \<Rightarrow> ('s, 'd) raft_node
     \<Rightarrow> bool result \<times> ('s, 'd) raft_node" where
  "handleAppendEntriesReply env trm p args reply n =
     (if aer_Term reply > CurrentTerm n then (Inr False, becomeFollower (aer_Term reply) n)
      else if State n \<noteq> StateLeader \<or> CurrentTerm n \<noteq> trm then (Inr False, n)
      else if aer_Success reply then
        (case (nextIndex n, matchIndex n) of
           (Some nx, Some mt) \<Rightarrow>
             let m = ae_PrevLogIndex args + length (ae_Entries args) in
             (case advanceCommitIndex env
                     (n\<lparr>matchIndex := Some (mt(p \<mapsto> m)), nextIndex := Some (nx(p \<mapsto> m + 1))\<rparr>) of
                (Some e, n1) \<Rightarrow> (Inl e, n1)
              | (None, n1) \<Rightarrow> (Inr False, n1))
         | _ \<Rightarrow> (Inl panic_nil_map, n))
      else if idx_get (nextIndex n) p \<le> snapshotIndex n + 1 then (Inr True, n)
      else if idx_get (nextIndex n) p > 1 then
        (Inr False, n\<lparr>nextIndex := map_option (\<lambda>nx. nx(p \<mapsto> idx_get (nextIndex n) p - 1)) (nextIndex n)\<rparr>)
      else (Inr False, n))"

definition Propose :: "('s, 'd) raft_env \<Rightarrow> jtext \<Rightarrow> ('s, 'd) raft_node \<Rightarrow> nat result \<times> ('s, 'd) raft_node" where
  "Propose env cmd n =
     (if State n \<noteq> StateLeader then
        (case leaderRedirect n of Some e \<Rightarrow> (Inl e, n) | None \<Rightarrow> (Inl ErrNotLeader, n))
      else
        let i = lastLogIndex n + 1;
            n1 = n\<lparr>raft_log := raft_log n @ [\<lparr>le_Index = i, le_Term = CurrentTerm n, le_Command = cmd\<rparr>]\<rparr> in
        (case persistDurableState env n1 of (_, n2) \<Rightarrow> (Inr i, n2)))"

text \<open>The first section of \<open>waitForApply\<close>: the recorded result, or a registered waiter.\<close>

definition waitForApply :: "nat \<Rightarrow> nat \<Rightarrow> ('s, 'd) raft_node \<Rightarrow> apply_outcome option \<times> ('s, 'd) raft_node" where
  "waitForApply i w n =
     (case applyResults n i of
        Some r \<Rightarrow> (Some r, n)
      | None \<Rightarrow> (None, n\<lparr>applyWaiters := (applyWaiters n)(i := applyWaiters n i @ [w])\<rparr>))"

subsection \<open>Linearizable reads\<close>

definition beginReadIndex :: "('s, 'd) raft_node \<Rightarrow> (nat \<times> nat) result" where
  "beginReadIndex n =
     (if State n \<noteq> StateLeader then
        (case leaderRedirect n of Some e \<Rightarrow> Inl e | None \<Rightarrow> Inl ErrNotLeader)
      else Inr (commitIndex n, CurrentTerm n))"

text \<open>The heartbeat \<open>confirmLeadershipForRead\<close> sends to a peer.\<close>

definition confirm_args :: "nat \<Rightarrow> nat \<Rightarrow> ('s, 'd) raft_node \<Rightarrow> append_entries_args option" where
  "confirm_args trm readIndex n =
     (if State n \<noteq> StateLeader \<or> CurrentTerm n \<noteq> trm then None
      else Some \<lparr>ae_Term = trm, ae_LeaderID = NodeID n, ae_PrevLogIndex = lastLogIndex n,
                 ae_PrevLogTerm = lastLogTerm n, ae_Entries = [],
                 ae_LeaderCommit = (if commitIndex n < readIndex then readIndex else commitIndex n)\<rparr>)"

fun confirm_loop ::
  "nat \<Rightarrow> append_entries_reply option list \<Rightarrow> nat \<Rightarrow> ('s, 'd) raft_node \<Rightarrow> nat \<times> ('s, 'd) raft_node" where
  "confirm_loop trm [] c n = (c, n)"
| "confirm_loop trm (None # rs) c n = confirm_loop trm rs c n"
| "confirm_loop trm (Some r # rs) c n =
     (if aer_Term r > trm then
        confirm_loop trm rs c (if aer_Term r > CurrentTerm n then becomeFollower (aer_Term r) n else n)
      else if aer_Success r \<and> aer_Term r = trm then confirm_loop trm rs (c + 1) n
      else confirm_loop trm rs c n)"

definition confirmLeadershipForRead ::
  "nat \<Rightarrow> append_entries_reply option list \<Rightarrow> ('s, 'd) raft_node \<Rightarrow> unit result \<times> ('s, 'd) raft_node" where
  "confirmLeadershipForRead trm replies n =
     (if State n \<noteq> StateLeader \<or> CurrentTerm n \<noteq> trm then (Inl (Errorf ''leadership lost''), n)
      else
        let majority = electionMajority n in
        if remotePeers n = [] then (Inr (), n)
        else
          (case confirm_loop trm replies 1 n of
             (c, n1) \<Rightarrow>
               if State n1 \<noteq> StateLeader \<or> CurrentTerm n1 \<noteq> trm then
                 (Inl (Errorf ''leadership lost during verification''), n1)
               else if c \<ge> majority then (Inr (), n1)
               else (Inl (Errorf ''failed to confirm leadership with quorum''), n1)))"

subsection \<open>Start from disk\<close>

definition load_entries :: "nat \<Rightarrow> log_entry list \<Rightarrow> log_entry list" where
  "load_entries snap es = filter (\<lambda>e. \<not> le_Index e \<le> snap) es"

definition load_meta :: "raft_meta option \<Rightarrow> ('s, 'd) raft_node \<Rightarrow> ('s, 'd) raft_node" where
  "load_meta mo n =
     (case mo of
        None \<Rightarrow> n
      | Some m \<Rightarrow>
          let n1 = (if rm_SnapshotIndex m > snapshotIndex n
                    then n\<lparr>snapshotIndex := rm_SnapshotIndex m, snapshotTerm := rm_SnapshotTerm m\<rparr> else n);
              n2 = (if rm_CommitIndex m > commitIndex n1 then n1\<lparr>commitIndex := rm_CommitIndex m\<rparr> else n1);
              n3 = (if rm_CurrentTerm m > CurrentTerm n2 then n2\<lparr>CurrentTerm := rm_CurrentTerm m\<rparr> else n2)
          in (if rm_VotedFor m \<noteq> [] then n3\<lparr>VotedFor := rm_VotedFor m\<rparr> else n3))"

definition settle_indices :: "('s, 'd) raft_node \<Rightarrow> ('s, 'd) raft_node" where
  "settle_indices n =
     (let n1 = (if lastLogIndex n > commitIndex n then n\<lparr>commitIndex := lastLogIndex n\<rparr> else n);
          n2 = (if lastApplied n1 < snapshotIndex n1 then n1\<lparr>lastApplied := snapshotIndex n1\<rparr> else n1)
      in (if commitIndex n2 < snapshotIndex n2 then n2\<lparr>commitIndex := snapshotIndex n2\<rparr> else n2))"

definition bootstrapFromStorage ::
  "('s, 'd) raft_env \<Rightarrow> 'd \<Rightarrow> ('s, 'd) raft_node \<Rightarrow> unit result \<times> ('s, 'd) raft_node" where
  "bootstrapFromStorage env d n =
     (case st_LoadSnapshot env d of
        Inl e \<Rightarrow> (Inl (Wrapf ''load snapshot: '' e), n)
      | Inr ro \<Rightarrow>
          (case (case ro of
                   None \<Rightarrow> (Inr (), n)
                 | Some r \<Rightarrow>
                     (case fsm_Restore env (sr_Data r) (MatchFSM n) of
                        (Inl e, s1) \<Rightarrow>
                          (Inl (Wrapf (''restore snapshot at index '' @ nat_dec (sr_LastIncludedIndex r) @ '': '') e),
                           n\<lparr>MatchFSM := s1\<rparr>)
                      | (Inr _, s1) \<Rightarrow>
                          (Inr (), n\<lparr>MatchFSM := s1, snapshotIndex := sr_LastIncludedIndex r,
                                     snapshotTerm := sr_LastIncludedTerm r, lastSnapshot := sr_Data r,
                                     lastApplied := sr_LastIncludedIndex r\<rparr>))) of
             (Inl e, n1) \<Rightarrow> (Inl e, n1)
           | (Inr _, n1) \<Rightarrow>
               (case st_LoadLog env d of
                  Inl e \<Rightarrow> (Inl (Wrapf ''load log: '' e), n1)
                | Inr (entries, mo) \<Rightarrow>
                    let n2 = n1\<lparr>raft_log := \<lparr>le_Index = snapshotIndex n1, le_Term = snapshotTerm n1, le_Command = None\<rparr>
                                  # load_entries (snapshotIndex n1) entries\<rparr>
                    in (Inr (), apply_loop env False (settle_indices (load_meta mo n2))))))"

definition NewRaftNodeWithStorage ::
  "('s, 'd) raft_env \<Rightarrow> string \<Rightarrow> peer_map \<Rightarrow> 's \<Rightarrow> 'd option \<Rightarrow> ('s, 'd) raft_node result" where
  "NewRaftNodeWithStorage env nid peers fsm st =
     (let n = (NewRaftNode nid peers fsm)\<lparr>storage := st\<rparr> in
      case st of
        None \<Rightarrow> Inr n
      | Some d \<Rightarrow> (case bootstrapFromStorage env d n of (Inl e, _) \<Rightarrow> Inl e | (Inr _, n1) \<Rightarrow> Inr n1))"

end
