(* ===== verification/Raft_Laws.thy ===== *)
theory Raft_Laws
  imports Raft_Ops
begin

section \<open>Laws of the Raft node\<close>

text \<open>
  The shape of the log and what each operation keeps of it, the monotonicity of terms,
  the meaning of the apply loop, and what compaction changes.
\<close>

subsection \<open>The shape of the log\<close>

text \<open>
  The log starts with the sentinel of the snapshot and its indices are consecutive;
  everything up to the snapshot has been applied.
\<close>

definition log_wf :: "('s, 'd) raft_node \<Rightarrow> bool" where
  "log_wf n =
     (raft_log n \<noteq> [] \<and> map le_Index (raft_log n) = [snapshotIndex n ..< snapshotIndex n + length (raft_log n)]
      \<and> le_Term (hd (raft_log n)) = snapshotTerm n \<and> snapshotIndex n \<le> lastApplied n)"

lemma log_wf_nth:
  "log_wf n \<Longrightarrow> k < length (raft_log n) \<Longrightarrow> le_Index (raft_log n ! k) = snapshotIndex n + k"
  unfolding log_wf_def by (metis (no_types, lifting) add_less_cancel_left nth_map nth_upt)

lemma log_wf_last:
  assumes "log_wf n"
  shows "lastLogIndex n = snapshotIndex n + (length (raft_log n) - 1)"
  using assms log_wf_nth [OF assms, of "length (raft_log n) - 1"]
  by (simp add: lastLogIndex_def log_wf_def last_conv_nth)

lemma entry_at_nat:
  "entry_at n i = (if snapshotIndex n \<le> i \<and> i - snapshotIndex n < length (raft_log n)
     then Some (raft_log n ! (i - snapshotIndex n)) else None)"
  by (cases "i < snapshotIndex n") (simp_all add: entry_at_def logOffsetForIndex_def Let_def del: of_nat_diff)

lemma entry_at_iff:
  assumes "log_wf n"
  shows "entry_at n i = (if snapshotIndex n \<le> i \<and> i \<le> lastLogIndex n then Some (raft_log n ! (i - snapshotIndex n)) else None)"
proof -
  from assms obtain k where "length (raft_log n) = Suc k"
    by (metis length_greater_0_conv log_wf_def not0_implies_Suc not_less_zero)
  then show ?thesis using log_wf_last [OF assms] by (auto simp: entry_at_nat)
qed

lemma entry_at_index: "log_wf n \<Longrightarrow> entry_at n i = Some e \<Longrightarrow> le_Index e = i"
  using log_wf_nth [of n "i - snapshotIndex n"] by (auto simp: entry_at_nat split: if_splits)

lemma log_wf_cong:
  "raft_log n = raft_log m \<Longrightarrow> snapshotIndex n = snapshotIndex m \<Longrightarrow> snapshotTerm n = snapshotTerm m \<Longrightarrow>
     lastApplied n = lastApplied m \<Longrightarrow> log_wf n = log_wf m"
  by (simp add: log_wf_def)

lemma entry_at_cong:
  "raft_log n = raft_log m \<Longrightarrow> snapshotIndex n = snapshotIndex m \<Longrightarrow> entry_at n i = entry_at m i"
  by (simp add: entry_at_nat)

lemma lastLogIndex_cong:
  "raft_log n = raft_log m \<Longrightarrow> snapshotIndex n = snapshotIndex m \<Longrightarrow> lastLogIndex n = lastLogIndex m"
  by (simp add: lastLogIndex_def)

lemma NewRaftNode_wf: "log_wf (NewRaftNode nid peers fsm)"
  by (simp add: log_wf_def NewRaftNode_def)

subsection \<open>The apply loop\<close>

lemma apply_loop_induct_step:
  assumes "lastApplied n < commitIndex n" "entry_at n (lastApplied n + 1) = Some e"
  shows "apply_loop env b n =
    apply_loop env b (apply_entry env b (lastApplied n + 1) e (n\<lparr>lastApplied := lastApplied n + 1\<rparr>))"
  by (subst apply_loop.simps) (use assms in simp)

lemma apply_loop_stop:
  "\<not> lastApplied n < commitIndex n \<or> entry_at n (lastApplied n + 1) = None \<Longrightarrow> apply_loop env b n = n"
  by (subst apply_loop.simps) (auto split: option.split)

lemma apply_loop_frame_all:
  "commitIndex (apply_loop env b n) = commitIndex n
    \<and> raft_log (apply_loop env b n) = raft_log n
    \<and> snapshotIndex (apply_loop env b n) = snapshotIndex n
    \<and> snapshotTerm (apply_loop env b n) = snapshotTerm n
    \<and> CurrentTerm (apply_loop env b n) = CurrentTerm n
    \<and> VotedFor (apply_loop env b n) = VotedFor n
    \<and> State (apply_loop env b n) = State n
    \<and> NodeID (apply_loop env b n) = NodeID n
    \<and> storage (apply_loop env b n) = storage n
    \<and> compactThreshold (apply_loop env b n) = compactThreshold n
    \<and> electionReset (apply_loop env b n) = electionReset n"
proof (induction env b n rule: apply_loop.induct)
  case (1 env b n)
  show ?case
  proof (cases "lastApplied n < commitIndex n \<and> entry_at n (lastApplied n + 1) \<noteq> None")
    case True
    then obtain e where e: "entry_at n (lastApplied n + 1) = Some e" by auto
    from 1 [OF conjunct1 [OF True] e] show ?thesis
      using True e by (simp add: apply_loop_induct_step raft_frame)
  next
    case False
    then show ?thesis by (simp add: apply_loop_stop)
  qed
qed

lemmas apply_loop_frame [raft_frame] = apply_loop_frame_all [THEN conjunct1]
  apply_loop_frame_all [THEN conjunct2, THEN conjunct1]
  apply_loop_frame_all [THEN conjunct2, THEN conjunct2, THEN conjunct1]
  apply_loop_frame_all [THEN conjunct2, THEN conjunct2, THEN conjunct2, THEN conjunct1]
  apply_loop_frame_all [THEN conjunct2, THEN conjunct2, THEN conjunct2, THEN conjunct2, THEN conjunct1]
  apply_loop_frame_all [THEN conjunct2, THEN conjunct2, THEN conjunct2, THEN conjunct2, THEN conjunct2, THEN conjunct1]
  apply_loop_frame_all [THEN conjunct2, THEN conjunct2, THEN conjunct2, THEN conjunct2, THEN conjunct2, THEN conjunct2, THEN conjunct1]
  apply_loop_frame_all [THEN conjunct2, THEN conjunct2, THEN conjunct2, THEN conjunct2, THEN conjunct2, THEN conjunct2, THEN conjunct2, THEN conjunct1]
  apply_loop_frame_all [THEN conjunct2, THEN conjunct2, THEN conjunct2, THEN conjunct2, THEN conjunct2, THEN conjunct2, THEN conjunct2, THEN conjunct2, THEN conjunct1]
  apply_loop_frame_all [THEN conjunct2, THEN conjunct2, THEN conjunct2, THEN conjunct2, THEN conjunct2, THEN conjunct2, THEN conjunct2, THEN conjunct2, THEN conjunct2, THEN conjunct1]
  apply_loop_frame_all [THEN conjunct2, THEN conjunct2, THEN conjunct2, THEN conjunct2, THEN conjunct2, THEN conjunct2, THEN conjunct2, THEN conjunct2, THEN conjunct2, THEN conjunct2]

text \<open>What one entry does to the state machine.\<close>

definition fsm_effect :: "('s, 'd) raft_env \<Rightarrow> log_entry \<Rightarrow> 's \<Rightarrow> 's" where
  "fsm_effect env e s =
     (case DecodeCommand (le_Command e) of
        Inl _ \<Rightarrow> s
      | Inr cmd \<Rightarrow> if IsMembershipOp (Op cmd) then s else snd (fsm_Apply env (le_Command e) s))"

lemma track_fsm [simp]: "MatchFSM (trackNewPeer p n) = MatchFSM n" "MatchFSM (dropPeer p n) = MatchFSM n"
  "MatchFSM (pruneReplicationState n) = MatchFSM n"
  by (simp_all add: trackNewPeer_def dropPeer_def pruneReplicationState_def Let_def split: option.split)

lemma membership_fsm [simp]: "MatchFSM (snd (applyMembership cmd n)) = MatchFSM n"
  by (simp add: applyMembership_def Let_def split: sum.split option.split)

lemma apply_entry_fsm [simp]: "MatchFSM (apply_entry env b i e n) = fsm_effect env e (MatchFSM n)"
  by (simp add: apply_entry_def fsm_effect_def recordApplyResult_def dispatchApplyNotification_def Let_def
      case_prod_unfold split: sum.split)

lemma apply_entry_results:
  "dom (applyResults (apply_entry env b i e n)) = insert i (dom (applyResults n))"
proof -
  have m: "applyResults (snd (applyMembership cmd n)) = applyResults n" for cmd
    by (simp add: applyMembership_def trackNewPeer_def dropPeer_def pruneReplicationState_def Let_def
        split: sum.split option.split)
  show ?thesis
    by (auto simp: apply_entry_def recordApplyResult_def dispatchApplyNotification_def Let_def
        case_prod_unfold m split: sum.split)
qed

text \<open>The indices an apply loop goes through, and its effect.\<close>

definition apply_target :: "('s, 'd) raft_node \<Rightarrow> nat" where
  "apply_target n = max (lastApplied n) (min (commitIndex n) (lastLogIndex n))"

definition apply_effect :: "('s, 'd) raft_env \<Rightarrow> ('s, 'd) raft_node \<Rightarrow> nat list \<Rightarrow> 's \<Rightarrow> 's" where
  "apply_effect env n is s = foldl (\<lambda>s i. fsm_effect env (raft_log n ! (i - snapshotIndex n)) s) s is"

lemma apply_loop_effect:
  assumes "log_wf n"
  shows "lastApplied (apply_loop env b n) = apply_target n
    \<and> MatchFSM (apply_loop env b n) = apply_effect env n [Suc (lastApplied n) ..< Suc (apply_target n)] (MatchFSM n)
    \<and> dom (applyResults (apply_loop env b n)) = dom (applyResults n) \<union> {lastApplied n <.. apply_target n}"
  using assms
proof (induction env b n rule: apply_loop.induct)
  case (1 env b n)
  note wf = "1.prems"
  have snap: "snapshotIndex n \<le> lastApplied n" using wf by (simp add: log_wf_def)
  show ?case
  proof (cases "lastApplied n < commitIndex n \<and> entry_at n (lastApplied n + 1) \<noteq> None")
    case True
    then obtain e where e: "entry_at n (lastApplied n + 1) = Some e" by auto
    let ?m = "apply_entry env b (lastApplied n + 1) e (n\<lparr>lastApplied := lastApplied n + 1\<rparr>)"
    have last: "lastApplied n < lastLogIndex n" and ent: "e = raft_log n ! (Suc (lastApplied n) - snapshotIndex n)"
      using e by (auto simp: entry_at_iff [OF wf] split: if_splits)
    have wf': "log_wf ?m" using wf by (simp add: log_wf_def raft_frame)
    have last': "lastLogIndex ?m = lastLogIndex n" by (rule lastLogIndex_cong) (simp_all add: raft_frame)
    have same: "apply_target ?m = apply_target n"
      using True last unfolding apply_target_def last' by (simp add: raft_frame)
    have eff: "apply_effect env ?m is s = apply_effect env n is s" for "is" s
      by (simp add: apply_effect_def raft_frame)
    have hi: "Suc (lastApplied n) \<le> apply_target n" using True last by (simp add: apply_target_def)
    then have cons: "[Suc (lastApplied n) ..< Suc (apply_target n)]
        = Suc (lastApplied n) # [Suc (Suc (lastApplied n)) ..< Suc (apply_target n)]"
      by (simp add: upt_conv_Cons)
    have step: "apply_loop env b n = apply_loop env b ?m"
      using True e by (simp add: apply_loop_induct_step)
    from "1.IH" [OF conjunct1 [OF True] e wf']
    have ih: "lastApplied (apply_loop env b ?m) = apply_target n"
      "MatchFSM (apply_loop env b ?m) = apply_effect env n [Suc (Suc (lastApplied n)) ..< Suc (apply_target n)]
         (fsm_effect env e (MatchFSM n))"
      "dom (applyResults (apply_loop env b ?m)) = dom (applyResults ?m) \<union> {Suc (lastApplied n) <.. apply_target n}"
      by (simp_all only: same eff raft_frame apply_entry_fsm) simp_all
    have dom: "insert (Suc (lastApplied n)) (dom (applyResults n)) \<union> {Suc (lastApplied n) <.. apply_target n}
        = dom (applyResults n) \<union> {lastApplied n <.. apply_target n}"
      using hi by auto
    show ?thesis unfolding step cons
      using ih ent dom by (simp add: apply_effect_def apply_entry_results)
  next
    case False
    then have "apply_target n = lastApplied n"
      using snap by (auto simp: apply_target_def entry_at_iff [OF wf] split: if_splits)
    with False show ?thesis by (simp add: apply_loop_stop apply_effect_def)
  qed
qed

lemma apply_loop_wf: "log_wf n \<Longrightarrow> log_wf (apply_loop env b n)"
  using apply_loop_effect [of n env b] max.cobounded1 [of "lastApplied n"]
  by (fastforce simp: log_wf_def raft_frame apply_target_def simp del: upt_Suc)

subsection \<open>Compaction\<close>

lemma compacted_log_drop:
  assumes "snapshotIndex n \<le> i"
  shows "compacted_log i t n =
    \<lparr>le_Index = i, le_Term = t, le_Command = None\<rparr> # drop (Suc (i - snapshotIndex n)) (raft_log n)"
proof -
  have off: "logOffsetForIndex n i + 1 = int (Suc (i - snapshotIndex n))"
    using assms by (simp add: logOffsetForIndex_def)
  have n: "nat (int (Suc (i - snapshotIndex n))) = Suc (i - snapshotIndex n)" by (rule nat_int)
  show ?thesis unfolding compacted_log_def off Let_def n by (auto simp del: of_nat_Suc)
qed

lemma persist_frame [raft_frame]:
  "raft_log (snd (persistDurableState env n)) = raft_log n"
  "commitIndex (snd (persistDurableState env n)) = commitIndex n"
  "lastApplied (snd (persistDurableState env n)) = lastApplied n"
  "snapshotIndex (snd (persistDurableState env n)) = snapshotIndex n"
  "snapshotTerm (snd (persistDurableState env n)) = snapshotTerm n"
  "CurrentTerm (snd (persistDurableState env n)) = CurrentTerm n"
  "VotedFor (snd (persistDurableState env n)) = VotedFor n" "State (snd (persistDurableState env n)) = State n"
  "MatchFSM (snd (persistDurableState env n)) = MatchFSM n" "NodeID (snd (persistDurableState env n)) = NodeID n"
  "raft_log (snd (persistSnapshot env i t d n)) = raft_log n"
  "commitIndex (snd (persistSnapshot env i t d n)) = commitIndex n"
  "lastApplied (snd (persistSnapshot env i t d n)) = lastApplied n"
  "snapshotIndex (snd (persistSnapshot env i t d n)) = snapshotIndex n"
  "snapshotTerm (snd (persistSnapshot env i t d n)) = snapshotTerm n"
  "CurrentTerm (snd (persistSnapshot env i t d n)) = CurrentTerm n"
  "VotedFor (snd (persistSnapshot env i t d n)) = VotedFor n" "State (snd (persistSnapshot env i t d n)) = State n"
  "MatchFSM (snd (persistSnapshot env i t d n)) = MatchFSM n" "NodeID (snd (persistSnapshot env i t d n)) = NodeID n"
  by (simp_all add: persistDurableState_def persistSnapshot_def Let_def case_prod_unfold split: option.split)

text \<open>The outcomes of a compaction: nothing, a failed save, or the log cut at \<open>lastApplied\<close>.\<close>

lemma maybeCompact_cases:
  obtains (unchanged) eo where "maybeCompact env n = (eo, n)"
  | (not_saved) e t err data where "entry_at n (lastApplied n) = Some e"
      "maybeCompact env n = (Some err, snd (persistSnapshot env (lastApplied n) t data n))" "\<not> is_panic err"
  | (compacted) e data where "snapshotIndex n < lastApplied n" "entry_at n (lastApplied n) = Some e"
      "fsm_CreateSnapshot env (MatchFSM n) = Inr data"
      "maybeCompact env n = persistDurableState env
         ((snd (persistSnapshot env (lastApplied n) (le_Term e) data n))\<lparr>snapshotIndex := lastApplied n,
            snapshotTerm := le_Term e, lastSnapshot := data,
            raft_log := compacted_log (lastApplied n) (le_Term e) n\<rparr>)"
proof -
  have cong: "compacted_log i t (snd (persistSnapshot env i t d n)) = compacted_log i t n" for i t d
    by (simp add: compacted_log_def logOffsetForIndex_def raft_frame Let_def)
  consider (u) "uncompactedLogEntries n < compactThreshold n \<or> lastApplied n \<le> snapshotIndex n
      \<or> (\<exists>e. fsm_CreateSnapshot env (MatchFSM n) = Inl e) \<or> entry_at n (lastApplied n) = None"
    | (c) e data where "\<not> uncompactedLogEntries n < compactThreshold n" "snapshotIndex n < lastApplied n"
      "fsm_CreateSnapshot env (MatchFSM n) = Inr data" "entry_at n (lastApplied n) = Some e"
    by (metis not_None_eq not_le_imp_less sum.exhaust)
  then show ?thesis
  proof cases
    case u
    then have "\<exists>eo. maybeCompact env n = (eo, n)"
      by (auto simp: maybeCompact_def Let_def split: sum.split)
    then show ?thesis using unchanged by blast
  next
    case (c e data)
    obtain eo n1 where p: "persistSnapshot env (lastApplied n) (le_Term e) data n = (eo, n1)" by force
    show ?thesis
    proof (cases eo)
      case None
      with c p cong [of "lastApplied n" "le_Term e" data] show ?thesis
        by (intro compacted [of e data]) (simp_all add: maybeCompact_def Let_def)
    next
      case (Some err)
      with c p show ?thesis
        by (intro not_saved [of e "Wrapf (''persist snapshot at index '' @ nat_dec (lastApplied n) @ '': '') err" "le_Term e" data])
          (simp_all add: maybeCompact_def Let_def is_panic_def)
    qed
  qed
qed

text \<open>
  A compaction changes neither the last entry's coordinates, nor any entry after the new
  snapshot index, nor the state machine and the indices.
\<close>

definition same_tail :: "('s, 'd) raft_node \<Rightarrow> ('s, 'd) raft_node \<Rightarrow> bool" where
  "same_tail n m =
     (lastLogIndex m = lastLogIndex n \<and> lastLogTerm m = lastLogTerm n \<and>
      snapshotIndex n \<le> snapshotIndex m \<and> snapshotIndex m \<le> max (snapshotIndex n) (lastApplied n) \<and>
      (\<forall>i > snapshotIndex m. entry_at m i = entry_at n i) \<and>
      (\<forall>e. entry_at n (snapshotIndex m) = Some e \<longrightarrow> snapshotTerm n = le_Term (hd (raft_log n)) \<longrightarrow> snapshotTerm m = le_Term e) \<and>
      MatchFSM m = MatchFSM n \<and> commitIndex m = commitIndex n \<and> lastApplied m = lastApplied n \<and>
      CurrentTerm m = CurrentTerm n \<and> VotedFor m = VotedFor n \<and> State m = State n \<and> NodeID m = NodeID n)"

lemma lastLog_cong:
  "raft_log n = raft_log m \<Longrightarrow> snapshotIndex n = snapshotIndex m \<Longrightarrow> snapshotTerm n = snapshotTerm m \<Longrightarrow>
     lastLogIndex n = lastLogIndex m \<and> lastLogTerm n = lastLogTerm m"
  by (simp add: lastLogIndex_def lastLogTerm_def)

lemma same_tail_frame:
  assumes "log_wf n" "raft_log m = raft_log n" "snapshotIndex m = snapshotIndex n" "snapshotTerm m = snapshotTerm n"
    "MatchFSM m = MatchFSM n" "commitIndex m = commitIndex n" "lastApplied m = lastApplied n"
    "CurrentTerm m = CurrentTerm n" "VotedFor m = VotedFor n" "State m = State n" "NodeID m = NodeID n"
  shows "same_tail n m \<and> log_wf m"
proof -
  have "entry_at n (snapshotIndex n) = Some (hd (raft_log n))"
    using assms(1) by (simp add: entry_at_nat log_wf_def hd_conv_nth)
  then show ?thesis
    using assms lastLog_cong [of m n] entry_at_cong [of m n] by (simp add: same_tail_def log_wf_def)
qed

lemma compacted_wf:
  assumes wf: "log_wf n" and lo: "snapshotIndex n \<le> i"
    and m: "raft_log m = compacted_log i t n" "snapshotIndex m = i" "snapshotTerm m = t" "i \<le> lastApplied m"
  shows "log_wf m"
proof -
  let ?k = "i - snapshotIndex n"
  have log: "raft_log m = \<lparr>le_Index = i, le_Term = t, le_Command = None\<rparr> # drop (Suc ?k) (raft_log n)"
    using m(1) compacted_log_drop [OF lo, of t] by simp
  have "map le_Index (raft_log n) = [snapshotIndex n ..< snapshotIndex n + length (raft_log n)]"
    using wf by (simp add: log_wf_def)
  then have d: "map le_Index (drop (Suc ?k) (raft_log n)) = [Suc i ..< snapshotIndex n + length (raft_log n)]"
    using lo by (simp add: drop_map [symmetric])
  then have "length (raft_log m) = Suc (snapshotIndex n + length (raft_log n) - Suc i)"
    by (metis length_Cons length_map length_upt log)
  then have len: "[i ..< i + length (raft_log m)] = i # [Suc i ..< Suc i + (snapshotIndex n + length (raft_log n) - Suc i)]"
    by (simp add: upt_conv_Cons del: upt_Suc)
  have "[i ..< i + length (raft_log m)] = i # [Suc i ..< snapshotIndex n + length (raft_log n)]"
  proof (cases "Suc i \<le> snapshotIndex n + length (raft_log n)")
    case True
    then show ?thesis unfolding len by (simp only: le_add_diff_inverse)
  next
    case False
    then show ?thesis unfolding len by simp
  qed
  with d log m show ?thesis by (simp add: log_wf_def)
qed

lemma cut_log:
  assumes wf: "log_wf n" and e: "entry_at n i = Some e" and lo: "snapshotIndex n < i" "i \<le> lastApplied n"
    and m: "raft_log m = compacted_log i (le_Term e) n" "snapshotIndex m = i" "snapshotTerm m = le_Term e"
    "lastApplied m = lastApplied n"
  shows "log_wf m \<and> lastLogIndex m = lastLogIndex n \<and> lastLogTerm m = lastLogTerm n
    \<and> (\<forall>j > i. entry_at m j = entry_at n j)"
proof -
  let ?k = "i - snapshotIndex n"
  have k: "?k < length (raft_log n)" and ek: "e = raft_log n ! ?k"
    using e by (auto simp: entry_at_nat split: if_splits)
  have log: "raft_log m = \<lparr>le_Index = i, le_Term = le_Term e, le_Command = None\<rparr> # drop (Suc ?k) (raft_log n)"
    using m(1) compacted_log_drop [of n i "le_Term e"] lo by simp
  have len: "length (raft_log m) = length (raft_log n) - ?k" using log k by simp
  have wfm: "log_wf m" by (rule compacted_wf [OF wf _ m(1-3)]) (use lo m in simp_all)
  have after: "entry_at m j = entry_at n j" if "i < j" for j
  proof -
    obtain d where d: "j = i + Suc d" using less_imp_Suc_add [OF \<open>i < j\<close>] by auto
    have "j - snapshotIndex n = Suc (?k + d)" using d lo by simp
    moreover have "j - snapshotIndex m = Suc d" using d m by simp
    ultimately show ?thesis using that lo m(2) log k by (simp add: entry_at_nat add.commute) arith
  qed
  have last: "lastLogIndex m = lastLogIndex n"
    using log_wf_last [OF wf] log_wf_last [OF wfm] m(2) len k lo by simp
  have "lastLogTerm m = lastLogTerm n"
  proof (cases "Suc ?k < length (raft_log n)")
    case True
    then show ?thesis using log wf by (simp add: lastLogTerm_def log_wf_def last_drop)
  next
    case False
    with k have "length (raft_log n) = Suc ?k" by simp
    then have "last (raft_log n) = e" using ek wf by (simp add: last_conv_nth log_wf_def)
    with False log k wf show ?thesis by (simp add: lastLogTerm_def log_wf_def)
  qed
  with wfm last after show ?thesis by blast
qed

lemma maybeCompact_same_tail:
  assumes wf: "log_wf n"
  shows "same_tail n (snd (maybeCompact env n)) \<and> log_wf (snd (maybeCompact env n))"
proof (cases rule: maybeCompact_cases [of env n])
  case (unchanged eo)
  then show ?thesis using same_tail_frame [OF wf, of n] by simp
next
  case (not_saved e t err data)
  then show ?thesis using same_tail_frame [OF wf, of "snd (persistSnapshot env (lastApplied n) t data n)"]
    by (simp add: raft_frame)
next
  case (compacted e data)
  let ?m = "snd (maybeCompact env n)"
  have m: "raft_log ?m = compacted_log (lastApplied n) (le_Term e) n" "snapshotIndex ?m = lastApplied n"
    "snapshotTerm ?m = le_Term e" "lastApplied ?m = lastApplied n" "MatchFSM ?m = MatchFSM n"
    "commitIndex ?m = commitIndex n" "CurrentTerm ?m = CurrentTerm n" "VotedFor ?m = VotedFor n"
    "State ?m = State n" "NodeID ?m = NodeID n"
    using compacted by (simp_all add: raft_frame)
  from cut_log [OF wf compacted(2,1) order_refl m(1-4)] m compacted(1,2) show ?thesis
    by (simp add: same_tail_def)
qed

lemma applyCommitted_node: "snd (applyCommitted env n) = snd (maybeCompact env (apply_loop env True n))"
  by (cases "maybeCompact env (apply_loop env True n)") (auto simp: applyCommitted_def split: option.split)

lemma applyCommitted_law:
  assumes "log_wf n"
  shows "log_wf (snd (applyCommitted env n)) \<and> same_tail (apply_loop env True n) (snd (applyCommitted env n))"
  using maybeCompact_same_tail [OF apply_loop_wf [OF assms]] unfolding applyCommitted_node by blast

lemma applyCommitted_fields:
  assumes "log_wf n"
  shows "CurrentTerm (snd (applyCommitted env n)) = CurrentTerm n" "VotedFor (snd (applyCommitted env n)) = VotedFor n"
    "State (snd (applyCommitted env n)) = State n" "commitIndex (snd (applyCommitted env n)) = commitIndex n"
    "NodeID (snd (applyCommitted env n)) = NodeID n" "lastApplied (snd (applyCommitted env n)) = apply_target n"
    "lastLogIndex (snd (applyCommitted env n)) = lastLogIndex n"
    "lastLogTerm (snd (applyCommitted env n)) = lastLogTerm n"
  using applyCommitted_law [OF assms, of env] apply_loop_effect [OF assms, of env True]
    lastLog_cong [of "apply_loop env True n" n]
  by (simp_all add: same_tail_def raft_frame del: upt_Suc)

subsection \<open>AppendEntries and InstallSnapshot\<close>

text \<open>Entries of a message are numbered from \<open>PrevLogIndex + 1\<close> on (0 asks to be numbered).\<close>

definition entries_wf :: "append_entries_args \<Rightarrow> bool" where
  "entries_wf args =
     (\<forall>k < length (ae_Entries args). le_Index (ae_Entries args ! k) \<in> {0, ae_PrevLogIndex args + 1 + k})"

lemma entriesFromArgs_index:
  assumes "entries_wf args"
  shows "map le_Index (entriesFromArgs args) =
    [Suc (ae_PrevLogIndex args) ..< Suc (ae_PrevLogIndex args) + length (ae_Entries args)]"
proof (rule nth_equalityI)
  show "length (map le_Index (entriesFromArgs args)) =
      length [Suc (ae_PrevLogIndex args) ..< Suc (ae_PrevLogIndex args) + length (ae_Entries args)]"
    by (simp add: entriesFromArgs_def del: upt_Suc)
next
  fix k assume "k < length (map le_Index (entriesFromArgs args))"
  then have "k < length (ae_Entries args)" by (simp add: entriesFromArgs_def)
  with assms show "map le_Index (entriesFromArgs args) ! k =
      [Suc (ae_PrevLogIndex args) ..< Suc (ae_PrevLogIndex args) + length (ae_Entries args)] ! k"
    by (auto simp: entriesFromArgs_def entries_wf_def simp del: upt_Suc)
qed

lemma accept_leader_frame [raft_frame]:
  "raft_log (accept_leader t l n) = raft_log n" "snapshotIndex (accept_leader t l n) = snapshotIndex n"
  "snapshotTerm (accept_leader t l n) = snapshotTerm n" "lastApplied (accept_leader t l n) = lastApplied n"
  "commitIndex (accept_leader t l n) = commitIndex n" "MatchFSM (accept_leader t l n) = MatchFSM n"
  "CurrentTerm (accept_leader t l n) = t" "VotedFor (accept_leader t l n) = []"
  "NodeID (accept_leader t l n) = NodeID n" "knownLeaderID (accept_leader t l n) = l"
  "State (accept_leader t l n) = StateFollower" "storage (accept_leader t l n) = storage n"
  by (simp_all add: accept_leader_def becomeFollower_def Let_def)

lemma notify_frame [raft_frame]:
  "raft_log (notifyHeartbeat n) = raft_log n" "snapshotIndex (notifyHeartbeat n) = snapshotIndex n"
  "snapshotTerm (notifyHeartbeat n) = snapshotTerm n" "lastApplied (notifyHeartbeat n) = lastApplied n"
  "commitIndex (notifyHeartbeat n) = commitIndex n" "MatchFSM (notifyHeartbeat n) = MatchFSM n"
  "CurrentTerm (notifyHeartbeat n) = CurrentTerm n" "VotedFor (notifyHeartbeat n) = VotedFor n"
  "NodeID (notifyHeartbeat n) = NodeID n" "State (notifyHeartbeat n) = State n"
  by (simp_all add: notifyHeartbeat_def)

lemma append_log_wf:
  assumes wf: "log_wf n" and args: "entries_wf args" and prev: "entry_at n (ae_PrevLogIndex args) = Some prev"
  shows "log_wf (append_log args n)"
proof (cases "ae_Entries args = []")
  case True
  with wf show ?thesis by (simp add: append_log_def Let_def)
next
  case False
  let ?p = "ae_PrevLogIndex args" and ?s = "snapshotIndex n"
  have p: "?s \<le> ?p" "?p - ?s < length (raft_log n)" using prev by (auto simp: entry_at_nat split: if_splits)
  have off: "nat (logOffsetForIndex n ?p) = ?p - ?s" using p by (simp add: logOffsetForIndex_def)
  have log: "raft_log (append_log args n) = take (Suc (?p - ?s)) (raft_log n) @ entriesFromArgs args"
    using False by (simp add: append_log_def off)
  have "map le_Index (raft_log n) = [?s ..< ?s + length (raft_log n)]" using wf by (simp add: log_wf_def)
  then have "map le_Index (take (Suc (?p - ?s)) (raft_log n)) = [?s ..< Suc ?p]"
    using p by (simp add: take_map [symmetric] take_upt)
  moreover have "length (raft_log (append_log args n)) = Suc (?p - ?s) + length (ae_Entries args)"
    using p by (simp add: log entriesFromArgs_def)
  moreover have "[?s ..< Suc ?p + length (ae_Entries args)]
      = [?s ..< Suc ?p] @ [Suc ?p ..< Suc ?p + length (ae_Entries args)]"
    using p by (intro upt_add_eq_append) simp
  moreover have "?s + (Suc (?p - ?s) + length (ae_Entries args)) = Suc ?p + length (ae_Entries args)"
    using p by simp
  ultimately have "map le_Index (raft_log (append_log args n)) = [?s ..< ?s + length (raft_log (append_log args n))]"
    using entriesFromArgs_index [OF args] by (simp only: log map_append)
  moreover have "raft_log (append_log args n) \<noteq> []" "hd (raft_log (append_log args n)) = hd (raft_log n)"
    using wf by (auto simp: log log_wf_def hd_append take_Suc)
  moreover have "snapshotIndex (append_log args n) = ?s" "snapshotTerm (append_log args n) = snapshotTerm n"
    "lastApplied (append_log args n) = lastApplied n"
    by (simp_all add: append_log_def Let_def)
  ultimately show ?thesis using wf by (simp add: log_wf_def)
qed

lemma append_log_frame [raft_frame]:
  "snapshotIndex (append_log args n) = snapshotIndex n" "snapshotTerm (append_log args n) = snapshotTerm n"
  "lastApplied (append_log args n) = lastApplied n" "commitIndex (append_log args n) = commitIndex n"
  "MatchFSM (append_log args n) = MatchFSM n" "CurrentTerm (append_log args n) = CurrentTerm n"
  "VotedFor (append_log args n) = VotedFor n" "State (append_log args n) = State n"
  "NodeID (append_log args n) = NodeID n"
  by (simp_all add: append_log_def Let_def)

lemma adopt_commit_frame [raft_frame]:
  "raft_log (adopt_commit args n) = raft_log n" "snapshotIndex (adopt_commit args n) = snapshotIndex n"
  "snapshotTerm (adopt_commit args n) = snapshotTerm n" "lastApplied (adopt_commit args n) = lastApplied n"
  "MatchFSM (adopt_commit args n) = MatchFSM n" "CurrentTerm (adopt_commit args n) = CurrentTerm n"
  "VotedFor (adopt_commit args n) = VotedFor n" "State (adopt_commit args n) = State n"
  "NodeID (adopt_commit args n) = NodeID n"
  by (simp_all add: adopt_commit_def)

text \<open>What a call of \<open>AppendEntries\<close> can do.\<close>

lemma AppendEntries_cases:
  obtains (stale) "ae_Term args < CurrentTerm n"
      "AppendEntries env args n = (Inr \<lparr>aer_Term = CurrentTerm n, aer_Success = False\<rparr>, n)"
  | (refused) "\<not> ae_Term args < CurrentTerm n"
      "AppendEntries env args n = (Inr \<lparr>aer_Term = ae_Term args, aer_Success = False\<rparr>,
         notifyHeartbeat (accept_leader (ae_Term args) (ae_LeaderID args) n))"
  | (accepted) prev n1 n3 p n4 where "\<not> ae_Term args < CurrentTerm n"
      "n1 = accept_leader (ae_Term args) (ae_LeaderID args) n"
      "entry_at n1 (ae_PrevLogIndex args) = Some prev" "le_Term prev = ae_PrevLogTerm args"
      "n3 = adopt_commit args (append_log args n1)" "applyCommitted env n3 = (p, n4)"
      "AppendEntries env args n =
         (case p of Some e \<Rightarrow> (Inl e, notifyHeartbeat n4)
          | None \<Rightarrow> (Inr \<lparr>aer_Term = CurrentTerm n4, aer_Success = True\<rparr>,
                     notifyHeartbeat (snd (persistDurableState env n4))))"
proof -
  let ?n1 = "accept_leader (ae_Term args) (ae_LeaderID args) n"
  consider "ae_Term args < CurrentTerm n"
    | "\<not> ae_Term args < CurrentTerm n" "ae_PrevLogIndex args < snapshotIndex ?n1"
    | "\<not> ae_Term args < CurrentTerm n" "\<not> ae_PrevLogIndex args < snapshotIndex ?n1"
      "entry_at ?n1 (ae_PrevLogIndex args) = None"
    | prev where "\<not> ae_Term args < CurrentTerm n" "\<not> ae_PrevLogIndex args < snapshotIndex ?n1"
      "entry_at ?n1 (ae_PrevLogIndex args) = Some prev" by fastforce
  then show ?thesis
  proof cases
    case 1
    then show ?thesis by (intro stale) (simp_all add: AppendEntries_def)
  next
    case 2
    then show ?thesis by (intro refused) (simp_all add: AppendEntries_def Let_def raft_frame)
  next
    case 3
    then show ?thesis by (intro refused) (simp_all add: AppendEntries_def Let_def raft_frame)
  next
    case (4 prev)
    obtain p n4 where a: "applyCommitted env (adopt_commit args (append_log args ?n1)) = (p, n4)" by force
    show ?thesis
    proof (cases "le_Term prev = ae_PrevLogTerm args")
      case True
      with 4 a show ?thesis
        by (intro accepted [OF _ refl 4(3) True refl a])
          (simp_all add: AppendEntries_def Let_def case_prod_unfold raft_frame split: option.split)
    next
      case False
      with 4 show ?thesis by (intro refused) (simp_all add: AppendEntries_def Let_def raft_frame)
    qed
  qed
qed

text \<open>
  The common law of the node's operations: the log keeps its shape, and neither the term
  nor the snapshot index goes back.
\<close>

definition advances :: "('s, 'd) raft_node \<Rightarrow> ('s, 'd) raft_node \<Rightarrow> bool" where
  "advances n m = (log_wf m \<and> CurrentTerm n \<le> CurrentTerm m \<and> snapshotIndex n \<le> snapshotIndex m)"

lemma advances_frame:
  "log_wf n \<Longrightarrow> raft_log m = raft_log n \<Longrightarrow> snapshotIndex m = snapshotIndex n \<Longrightarrow> snapshotTerm m = snapshotTerm n \<Longrightarrow>
     lastApplied m = lastApplied n \<Longrightarrow> CurrentTerm n \<le> CurrentTerm m \<Longrightarrow> advances n m"
  by (simp add: advances_def log_wf_def)

lemma advances_trans: "advances n m \<Longrightarrow> advances m k \<Longrightarrow> advances n k"
  by (auto simp: advances_def)

lemma becomeFollower_frame [raft_frame]:
  "raft_log (becomeFollower t n) = raft_log n" "snapshotIndex (becomeFollower t n) = snapshotIndex n"
  "snapshotTerm (becomeFollower t n) = snapshotTerm n" "lastApplied (becomeFollower t n) = lastApplied n"
  "commitIndex (becomeFollower t n) = commitIndex n" "CurrentTerm (becomeFollower t n) = t"
  "VotedFor (becomeFollower t n) = []" "State (becomeFollower t n) = StateFollower"
  "NodeID (becomeFollower t n) = NodeID n" "MatchFSM (becomeFollower t n) = MatchFSM n"
  "PeerAddresses (becomeFollower t n) = PeerAddresses n" "joint (becomeFollower t n) = joint n"
  by (simp_all add: becomeFollower_def)

lemma applyCommitted_advances: "log_wf n \<Longrightarrow> advances n (snd (applyCommitted env n))"
  using applyCommitted_law [of n env]
  by (simp add: advances_def same_tail_def raft_frame)

lemma AppendEntries_advances:
  assumes wf: "log_wf n" and args: "entries_wf args"
  shows "advances n (snd (AppendEntries env args n))"
proof (cases rule: AppendEntries_cases [of args n env])
  case stale
  with wf show ?thesis by (simp add: advances_def)
next
  case refused
  with wf show ?thesis by (intro advances_frame) (simp_all add: raft_frame)
next
  case (accepted prev n1 n3 p n4)
  have n1: "advances n n1" using accepted(1,2) wf by (intro advances_frame) (simp_all add: raft_frame)
  then have "log_wf (append_log args n1)"
    using accepted(3) args by (intro append_log_wf) (simp_all add: advances_def)
  then have n3: "advances n1 n3"
    using accepted(5) by (simp add: advances_def raft_frame log_wf_def)
  have n4: "advances n3 n4"
    using n3 applyCommitted_advances [of n3 env] accepted(6) by (simp add: advances_def)
  have "advances n4 (snd (AppendEntries env args n))"
    using n4 by (intro advances_frame) (simp_all add: accepted(7) raft_frame advances_def split: option.split)
  with n1 n3 n4 show ?thesis by (blast intro: advances_trans)
qed

lemma InstallSnapshot_advances:
  assumes wf: "log_wf n"
  shows "advances n (snd (snd (InstallSnapshot env args n)))"
proof (cases "is_Term args < CurrentTerm n")
  case True
  with wf show ?thesis by (simp add: InstallSnapshot_def advances_def)
next
  case False
  let ?n1 = "accept_leader (is_Term args) (is_LeaderID args) n"
  have n1: "advances n ?n1" using False wf by (intro advances_frame) (simp_all add: raft_frame)
  obtain r s1 where res: "fsm_Restore env (is_Data args) (MatchFSM ?n1) = (r, s1)" by force
  show ?thesis
  proof (cases "is_LastIncludedIndex args \<le> snapshotIndex ?n1 \<or> (\<exists>e. r = Inl e)")
    case True
    then have "advances ?n1 (snd (snd (InstallSnapshot env args n)))"
      using False res n1 by (intro advances_frame) (auto simp: InstallSnapshot_def Let_def raft_frame advances_def)
    with n1 show ?thesis by (rule advances_trans)
  next
    case False': False
    let ?i = "is_LastIncludedIndex args" and ?t = "is_LastIncludedTerm args"
    let ?n2 = "?n1\<lparr>MatchFSM := s1, snapshotIndex := ?i, snapshotTerm := ?t, lastSnapshot := is_Data args,
        lastApplied := ?i, raft_log := compacted_log ?i ?t ?n1,
        commitIndex := (if ?i < commitIndex ?n1 then ?i else commitIndex ?n1)\<rparr>"
    have lo: "snapshotIndex ?n1 \<le> ?i" using False' by simp
    have "log_wf ?n2" by (rule compacted_wf [OF _ lo]) (use n1 in \<open>simp_all add: advances_def\<close>)
    then have n2: "advances ?n1 ?n2" using lo by (simp add: advances_def)
    obtain e3 n3 where p3: "persistSnapshot env ?i ?t (is_Data args) ?n2 = (e3, n3)" by force
    obtain e4 n4 where p4: "persistDurableState env n3 = (e4, n4)" by force
    have n3: "n3 = snd (persistSnapshot env ?i ?t (is_Data args) ?n2)" and n4: "n4 = snd (persistDurableState env n3)"
      using p3 p4 by simp_all
    have out: "snd (snd (InstallSnapshot env args n)) = notifyHeartbeat (if e3 = None then n4 else n3)"
      using False False' res p3 p4
      by (cases r; cases e3; cases e4) (simp_all add: InstallSnapshot_def Let_def)
    have "advances ?n2 (snd (snd (InstallSnapshot env args n)))"
      unfolding out using n2 by (intro advances_frame) (simp_all add: raft_frame n3 n4 advances_def)
    with n1 n2 show ?thesis by (blast intro: advances_trans)
  qed
qed

lemma RequestVote_advances:
  assumes "log_wf n"
  shows "advances n (snd (RequestVote args n))"
  by (rule advances_frame [OF assms]) (simp_all add: RequestVote_def Let_def raft_frame)

lemma startElection_advances: "log_wf n \<Longrightarrow> advances n (snd (startElection n))"
  by (rule advances_frame) (simp_all add: startElection_def Let_def)

lemma handleVoteReply_advances: "log_wf n \<Longrightarrow> advances n (snd (handleVoteReply t r n))"
  by (rule advances_frame) (simp_all add: handleVoteReply_def raft_frame)

lemma promoteToLeader_advances: "log_wf n \<Longrightarrow> advances n (promoteToLeader t n)"
  by (rule advances_frame) (simp_all add: promoteToLeader_def initLeaderReplication_def Let_def)

lemma advance_loop_advances: "log_wf n \<Longrightarrow> advances n (snd (advance_loop env k n))"
proof (induction k)
  case 0
  then show ?case by (simp add: advances_def)
next
  case (Suc k)
  have "log_wf (n\<lparr>commitIndex := Suc k\<rparr>)" using Suc.prems by (simp add: log_wf_def)
  from applyCommitted_advances [OF this, of env]
  have "advances n (snd (applyCommitted env (n\<lparr>commitIndex := Suc k\<rparr>)))" by (simp add: advances_def)
  with Suc show ?case by (simp add: advances_def split: option.split)
qed

lemma handleAppendEntriesReply_advances:
  assumes "log_wf n"
  shows "advances n (snd (handleAppendEntriesReply env t p args r n))"
proof -
  have commit: "advances n (snd (advanceCommitIndex env m))"
    if "raft_log m = raft_log n" "snapshotIndex m = snapshotIndex n" "snapshotTerm m = snapshotTerm n"
      "lastApplied m = lastApplied n" "CurrentTerm m = CurrentTerm n" for m
  proof -
    have "advances n m" by (rule advances_frame [OF assms that(1-4)]) (simp add: that)
    moreover from this have "advances m (snd (advanceCommitIndex env m))"
      unfolding advanceCommitIndex_def by (intro advance_loop_advances) (simp add: advances_def)
    ultimately show ?thesis by (rule advances_trans)
  qed
  have same: "advances n m"
    if "raft_log m = raft_log n" "snapshotIndex m = snapshotIndex n" "snapshotTerm m = snapshotTerm n"
      "lastApplied m = lastApplied n" "CurrentTerm n \<le> CurrentTerm m" for m
    by (rule advances_frame [OF assms that])
  show ?thesis
    by (auto simp: handleAppendEntriesReply_def Let_def case_prod_unfold raft_frame
        intro!: same commit split: option.split)
qed

lemma Propose_advances:
  assumes wf: "log_wf n"
  shows "advances n (snd (Propose env cmd n))"
proof (cases "State n = StateLeader")
  case True
  let ?n1 = "n\<lparr>raft_log := raft_log n @ [\<lparr>le_Index = lastLogIndex n + 1, le_Term = CurrentTerm n, le_Command = cmd\<rparr>]\<rparr>"
  have "length (raft_log n) = Suc (length (raft_log n) - 1)" using wf by (simp add: log_wf_def)
  then have "lastLogIndex n + 1 = snapshotIndex n + length (raft_log n)" using log_wf_last [OF wf] by simp
  with wf have "log_wf ?n1" by (simp add: log_wf_def)
  then have n1: "advances n ?n1" by (simp add: advances_def)
  have "advances ?n1 (snd (Propose env cmd n))"
    using True n1 by (intro advances_frame) (simp_all add: Propose_def Let_def case_prod_unfold raft_frame advances_def)
  with n1 show ?thesis by (rule advances_trans)
next
  case False
  with wf show ?thesis by (simp add: Propose_def advances_def split: option.split)
qed

lemma confirm_loop_advances: "log_wf n \<Longrightarrow> advances n (snd (confirm_loop t rs c n))"
proof (induction t rs c n rule: confirm_loop.induct)
  case (1 t c n)
  then show ?case by (simp add: advances_def)
next
  case (2 t rs c n)
  then show ?case by simp
next
  case (3 t r rs c n)
  let ?m = "if aer_Term r > CurrentTerm n then becomeFollower (aer_Term r) n else n"
  have m: "advances n ?m" using 3(4) by (intro advances_frame) (simp_all add: raft_frame)
  show ?case
  proof (cases "aer_Term r > t")
    case True
    from 3(1) [OF True] m have "advances ?m (snd (confirm_loop t rs c ?m))" by (simp add: advances_def)
    with m True show ?thesis by (simp add: advances_trans [OF m])
  next
    case False
    with 3 show ?thesis by simp
  qed
qed

end
