(* ===== verification/Raft_Props.thy ===== *)
theory Raft_Props
  imports Raft_Laws
begin

section \<open>Properties of the Raft node\<close>

text \<open>
  The theorems about one node of \<open>pkg/consensus/raft_node.go\<close>: the invariant of every
  reachable state, the meaning of applying, committing, appending and compacting, and
  the places where the code departs from the protocol.
\<close>

subsection \<open>Environments for the examples\<close>

text \<open>The local state machine without storage, and a log of no-ops.\<close>

definition demo_env :: "(local_fsm, unit) raft_env" where
  "demo_env = \<lparr>fsm_Apply = LocalApply, fsm_CreateSnapshot = (\<lambda>f. Inr [1]), fsm_Restore = (\<lambda>b f. (Inr (), f)),
     st_PersistSnapshot = (\<lambda>i t b d. (None, d)), st_TruncateLog = (\<lambda>es m d. (None, d)),
     st_LoadSnapshot = (\<lambda>d. Inr None), st_LoadLog = (\<lambda>d. Inr ([], None))\<rparr>"

definition noop :: jtext where
  "noop = Some (EncodeDebugNoopCommand ''n'')"

definition demo_entry :: "nat \<Rightarrow> nat \<Rightarrow> log_entry" where
  "demo_entry i t = \<lparr>le_Index = i, le_Term = t, le_Command = noop\<rparr>"

definition demo_peers :: peer_map where
  "demo_peers = [(''A'', ''a''), (''B'', ''b''), (''C'', ''c'')]"

text \<open>A follower of term 1 with two entries, none committed.\<close>

definition demo_node :: "string \<Rightarrow> (local_fsm, unit) raft_node" where
  "demo_node i = (NewRaftNode i demo_peers Map.empty)\<lparr>CurrentTerm := 1,
     raft_log := [\<lparr>le_Index = 0, le_Term = 0, le_Command = None\<rparr>, demo_entry 1 1, demo_entry 2 1]\<rparr>"

lemmas demo_raft_defs = demo_node_def demo_entry_def demo_peers_def NewRaftNode_def

lemma demo_node_wf: "log_wf (demo_node i)"
  by (simp add: log_wf_def demo_raft_defs)

subsection \<open>Reachable nodes\<close>

text \<open>
  \<open>raft_reach env n\<close>: a node created by \<open>NewRaftNode\<close> and driven by any sequence of
  calls, replies and ticks. Only the numbering of incoming entries is assumed.
\<close>

inductive raft_reach :: "('s, 'd) raft_env \<Rightarrow> ('s, 'd) raft_node \<Rightarrow> bool" for env where
  new: "raft_reach env ((NewRaftNode i ps s)\<lparr>storage := d\<rparr>)"
| threshold: "raft_reach env n \<Longrightarrow> raft_reach env (SetCompactThreshold t n)"
| notifier: "raft_reach env n \<Longrightarrow> raft_reach env (SetApplyNotifier b n)"
| vote: "raft_reach env n \<Longrightarrow> raft_reach env (snd (RequestVote rv n))"
| append: "raft_reach env n \<Longrightarrow> entries_wf ae \<Longrightarrow> raft_reach env (snd (AppendEntries env ae n))"
| install: "raft_reach env n \<Longrightarrow> raft_reach env (snd (snd (InstallSnapshot env ins n)))"
| election: "raft_reach env n \<Longrightarrow> raft_reach env (snd (startElection n))"
| vote_reply: "raft_reach env n \<Longrightarrow> raft_reach env (snd (handleVoteReply t r n))"
| promote: "raft_reach env n \<Longrightarrow> raft_reach env (promoteToLeader t n)"
| heartbeat: "raft_reach env n \<Longrightarrow> raft_reach env (startHeartbeatTicker n)"
| append_reply: "raft_reach env n \<Longrightarrow> raft_reach env (snd (handleAppendEntriesReply env t p ae ar n))"
| propose: "raft_reach env n \<Longrightarrow> raft_reach env (snd (Propose env cmd n))"
| wait: "raft_reach env n \<Longrightarrow> raft_reach env (snd (waitForApply i w n))"
| confirm: "raft_reach env n \<Longrightarrow> raft_reach env (snd (confirmLeadershipForRead t rs n))"
| flush: "raft_reach env n \<Longrightarrow> raft_reach env (snd (persistDurableState env n))"

lemma confirm_advances: "log_wf n \<Longrightarrow> advances n (snd (confirmLeadershipForRead t rs n))"
  using confirm_loop_advances [of n t rs 1]
  by (simp add: confirmLeadershipForRead_def Let_def case_prod_unfold advances_def)

text \<open>
  C13: The log of a node is always well formed: in every reachable state it starts with
  the sentinel of the snapshot, its indices are consecutive from the snapshot index on,
  so the offset arithmetic finds the entry of an index, and nothing beyond the applied
  index has been compacted away.
\<close>

theorem raft_log_always_well_formed:
  assumes "raft_reach env n"
  shows "raft_log n \<noteq> [] \<and> map le_Index (raft_log n) = [snapshotIndex n ..< snapshotIndex n + length (raft_log n)]
    \<and> le_Term (hd (raft_log n)) = snapshotTerm n \<and> snapshotIndex n \<le> lastApplied n
    \<and> (\<forall>i e. entry_at n i = Some e \<longrightarrow> le_Index e = i)"
proof -
  have "log_wf n"
    using assms
  proof induction
    case (new i ps s d)
    then show ?case by (simp add: log_wf_def NewRaftNode_def)
  next
    case (vote n rv)
    then show ?case using RequestVote_advances [of n rv] by (simp add: advances_def)
  next
    case (append n ae)
    then show ?case using AppendEntries_advances [of n ae env] by (simp add: advances_def)
  next
    case (install n ins)
    then show ?case using InstallSnapshot_advances [of n env ins] by (simp add: advances_def)
  next
    case (append_reply n t p ae ar)
    then show ?case using handleAppendEntriesReply_advances [of n env t p ae ar] by (simp add: advances_def)
  next
    case (propose n cmd)
    then show ?case using Propose_advances [of n env cmd] by (simp add: advances_def)
  next
    case (confirm n t rs)
    then show ?case using confirm_advances [of n t rs] by (simp add: advances_def)
  next
    case (flush n)
    then show ?case by (simp add: log_wf_def raft_frame)
  qed (simp_all add: log_wf_def SetCompactThreshold_def SetApplyNotifier_def startElection_def handleVoteReply_def
      promoteToLeader_def initLeaderReplication_def startHeartbeatTicker_def waitForApply_def raft_frame Let_def
      split: option.split)
  then show ?thesis using entry_at_index [of n] by (auto simp: log_wf_def)
qed

lemma raft_log_always_well_formed_witness:
  "raft_log (snd (startElection ((NewRaftNode ''A'' demo_peers (Map.empty :: local_fsm))\<lparr>storage := Some ()\<rparr>))) \<noteq> []"
  using raft_log_always_well_formed
    [OF raft_reach.election [OF raft_reach.new [where env = demo_env and i = "''A''" and ps = demo_peers and s = Map.empty and d = "Some ()"]]] by blast

subsection \<open>Applying\<close>

text \<open>
  C9: Entries are applied in order, once, and never past the commit index or the log: on
  a well-formed node the loop moves \<open>lastApplied\<close> to the smaller of the commit index and
  the last index (never back), the state machine goes exactly through the entries in
  between in index order (membership changes and undecodable entries leave it alone), and
  a result is recorded for each of them.
\<close>

theorem entries_applied_in_order:
  assumes "log_wf n"
  shows "lastApplied (apply_loop env b n) = max (lastApplied n) (min (commitIndex n) (lastLogIndex n))
    \<and> MatchFSM (apply_loop env b n) = foldl (\<lambda>s i. fsm_effect env (raft_log n ! (i - snapshotIndex n)) s) (MatchFSM n)
        [Suc (lastApplied n) ..< Suc (lastApplied (apply_loop env b n))]
    \<and> dom (applyResults (apply_loop env b n)) =
        dom (applyResults n) \<union> {lastApplied n <.. lastApplied (apply_loop env b n)}"
  using apply_loop_effect [OF assms, of env b] by (simp add: apply_effect_def apply_target_def del: upt_Suc)

lemma entries_applied_in_order_witness:
  "lastApplied (apply_loop demo_env True ((demo_node ''A'')\<lparr>commitIndex := 1\<rparr>)) = 1"
proof -
  have "log_wf ((demo_node ''A'')\<lparr>commitIndex := 1\<rparr>)" using demo_node_wf [of "''A''"] by (simp add: log_wf_def)
  from entries_applied_in_order [OF this, of demo_env True] show ?thesis
    by (simp add: lastLogIndex_def demo_raft_defs)
qed

subsection \<open>Committing\<close>






subsection \<open>Appending\<close>

text \<open>
  C7: A successful AppendEntries leaves the follower with the leader's entries: directly
  behind the previous entry, whose term was checked, every index of the message holds the
  message's entry and the log ends with the last of them, or is kept when the message has
  none. A log compaction on the way may have hidden the entries it covers.
\<close>

theorem append_entries_copies_log:
  assumes "log_wf n" "entries_wf args" "AppendEntries env args n = (Inr r, n')" "aer_Success r"
  shows "(\<exists>prev. entry_at n (ae_PrevLogIndex args) = Some prev \<and> le_Term prev = ae_PrevLogTerm args)
    \<and> lastLogIndex n' = (if ae_Entries args = [] then lastLogIndex n
         else ae_PrevLogIndex args + length (ae_Entries args))
    \<and> (\<forall>k < length (ae_Entries args). ae_PrevLogIndex args + 1 + k > snapshotIndex n' \<longrightarrow>
         entry_at n' (ae_PrevLogIndex args + 1 + k) = Some (entriesFromArgs args ! k))"
proof (cases rule: AppendEntries_cases [of args n env])
  case stale
  with assms(3,4) show ?thesis by auto
next
  case refused
  with assms(3,4) show ?thesis by auto
next
  case (accepted prev n1 n3 p n4)
  let ?p = "ae_PrevLogIndex args"
  have n1: "log_wf n1" "snapshotIndex n1 = snapshotIndex n" "raft_log n1 = raft_log n"
    using accepted(2) assms(1) by (simp_all add: log_wf_def raft_frame)
  have wf2: "log_wf (append_log args n1)" by (rule append_log_wf [OF n1(1) assms(2) accepted(3)])
  then have wf3: "log_wf n3" using accepted(5) by (simp add: log_wf_def raft_frame)
  have prev: "entry_at n ?p = Some prev" using accepted(3) entry_at_cong [of n1 n ?p] n1 by simp
  then have p: "snapshotIndex n \<le> ?p" "?p - snapshotIndex n < length (raft_log n)"
    by (auto simp: entry_at_nat split: if_splits)
  have len: "length (entriesFromArgs args) = length (ae_Entries args)" by (simp add: entriesFromArgs_def)
  have off: "nat (logOffsetForIndex n1 ?p) = ?p - snapshotIndex n"
    using p n1 by (simp add: logOffsetForIndex_def del: of_nat_diff)
  have log: "raft_log n3 = (if ae_Entries args = [] then raft_log n
      else take (Suc (?p - snapshotIndex n)) (raft_log n) @ entriesFromArgs args)"
    using accepted(5) n1 off by (simp add: append_log_def raft_frame)
  have snap3: "snapshotIndex n3 = snapshotIndex n" using accepted(5) n1 by (simp add: raft_frame)
  have last: "lastLogIndex n3 = (if ae_Entries args = [] then lastLogIndex n else ?p + length (ae_Entries args))"
    using log_wf_last [OF wf3] log_wf_last [OF assms(1)] p len by (simp add: log snap3)
  have entry3: "entry_at n3 (?p + 1 + k) = Some (entriesFromArgs args ! k)" if "k < length (ae_Entries args)" for k
  proof -
    have "?p + 1 + k - snapshotIndex n = Suc (?p - snapshotIndex n) + k" using p by simp
    moreover have "length (take (Suc (?p - snapshotIndex n)) (raft_log n)) = Suc (?p - snapshotIndex n)"
      using p by simp
    ultimately show ?thesis using that p len by (auto simp: entry_at_nat snap3 log nth_append simp del: length_take)
  qed
  have out: "n' = notifyHeartbeat (snd (persistDurableState env n4))" and pnone: "p = None"
    using accepted(7) assms(3) by (auto split: option.splits)
  have n4: "n4 = snd (applyCommitted env n3)" using accepted(6) by simp
  from applyCommitted_law [OF wf3, of env] have st: "same_tail (apply_loop env True n3) n4" by (simp add: n4)
  have same': "entry_at n' i = entry_at n4 i" "lastLogIndex n' = lastLogIndex n4" "snapshotIndex n' = snapshotIndex n4" for i
    unfolding out by (rule entry_at_cong lastLogIndex_cong; simp add: raft_frame)+ (simp add: raft_frame)
  have l4: "lastLogIndex n4 = lastLogIndex n3"
    using applyCommitted_fields(7) [OF wf3, of env] by (simp add: n4)
  have e4: "entry_at n4 i = entry_at n3 i" if "snapshotIndex n4 < i" for i
    using st that entry_at_cong [of "apply_loop env True n3" n3 i] by (simp add: same_tail_def raft_frame)
  show ?thesis using prev accepted(4) same' l4 last e4 entry3 by simp
qed

definition demo_append :: append_entries_args where
  "demo_append = \<lparr>ae_Term = 2, ae_LeaderID = ''C'', ae_PrevLogIndex = 1, ae_PrevLogTerm = 1,
     ae_Entries = [demo_entry 2 2], ae_LeaderCommit = 0\<rparr>"

lemma demo_append_run:
  "\<exists>r n'. AppendEntries demo_env demo_append (demo_node ''B'') = (Inr r, n') \<and> aer_Success r"
  by (simp add: AppendEntries_def demo_append_def demo_raft_defs accept_leader_def becomeFollower_def entry_at_nat
      append_log_def adopt_commit_def logOffsetForIndex_def applyCommitted_def apply_loop.simps maybeCompact_def
      uncompactedLogEntries_def lastLogIndex_def entriesFromArgs_def defaultCompactThreshold_def
      persistDurableState_def Let_def)

lemma append_entries_copies_log_witness:
  "\<exists>n'. lastLogIndex n' = 2 \<and> snd (AppendEntries demo_env demo_append (demo_node ''B'')) = n'"
proof -
  obtain r n' where run: "AppendEntries demo_env demo_append (demo_node ''B'') = (Inr r, n')" "aer_Success r"
    using demo_append_run by blast
  have "entries_wf demo_append" by (simp add: entries_wf_def demo_append_def demo_entry_def)
  from append_entries_copies_log [OF demo_node_wf this run] run show ?thesis by (simp add: demo_append_def)
qed

subsection \<open>Compaction\<close>

text \<open>
  C14: Compacting the log is invisible to the protocol: whether the snapshot is taken,
  fails or cannot be saved, the last index and term, every entry after the snapshot
  index, the state machine and the commit and applied indices are what they were, the log
  stays well formed, and the snapshot never covers an entry that was not applied.
\<close>

theorem compaction_preserves_log:
  assumes "log_wf n" "n' = snd (maybeCompact env n)"
  shows "log_wf n' \<and> lastLogIndex n' = lastLogIndex n \<and> lastLogTerm n' = lastLogTerm n
    \<and> (\<forall>i > snapshotIndex n'. entry_at n' i = entry_at n i)
    \<and> (\<forall>e. entry_at n (snapshotIndex n') = Some e \<longrightarrow> snapshotTerm n' = le_Term e)
    \<and> snapshotIndex n' \<le> lastApplied n' \<and> MatchFSM n' = MatchFSM n
    \<and> commitIndex n' = commitIndex n \<and> lastApplied n' = lastApplied n"
  using maybeCompact_same_tail [OF assms(1), of env] assms
  by (auto simp: same_tail_def log_wf_def)

lemma compaction_preserves_log_witness:
  "lastLogIndex (snd (maybeCompact demo_env
     ((demo_node ''A'')\<lparr>commitIndex := 1, lastApplied := 1, compactThreshold := 1\<rparr>))) = 2"
proof -
  let ?n = "(demo_node ''A'')\<lparr>commitIndex := 1, lastApplied := 1, compactThreshold := 1\<rparr>"
  have "log_wf ?n" using demo_node_wf [of "''A''"] by (simp add: log_wf_def demo_raft_defs)
  from compaction_preserves_log [OF this refl, of demo_env] show ?thesis
    by (simp add: lastLogIndex_def demo_raft_defs)
qed

subsection \<open>Departures from the protocol\<close>

definition fresh :: "string \<Rightarrow> (local_fsm, unit) raft_node" where
  "fresh i = NewRaftNode i demo_peers Map.empty"

definition vote_args :: "string \<Rightarrow> request_vote_args" where
  "vote_args i = \<lparr>rv_Term = 1, rv_CandidateID = i, rv_LastLogIndex = 0, rv_LastLogTerm = 0\<rparr>"

lemma vote_args_sent: "map_option fst (fst (startElection (fresh i))) = Some (vote_args i)"
  by (simp add: startElection_def fresh_def vote_args_def NewRaftNode_def lastLogIndex_def lastLogTerm_def Let_def)

text \<open>
  Two leaders in one term. In a cluster of three new nodes, A is elected in term 1 by
  the vote of B and sends B its heartbeat; the heartbeat clears B's vote, so B votes
  again, for C, which becomes a second leader of term 1.
\<close>

theorem two_leaders_in_one_term:
  "\<exists>vA B1 A ts hb B2 vC B3 C.
     RequestVote (vote_args ''A'') (fresh ''B'') = (vA, B1) \<and> runElection [Some vA, None] (fresh ''A'') = A \<and>
     collectReplicationTasks 1 A = Inr (Some (ts, ''A'')) \<and> hb \<in> append_args_of 1 ''A'' ` set ts \<and>
     AppendEntries demo_env hb B1 = (Inr \<lparr>aer_Term = 1, aer_Success = True\<rparr>, B2) \<and>
     RequestVote (vote_args ''C'') B2 = (vC, B3) \<and> runElection [None, Some vC] (fresh ''C'') = C \<and>
     State A = StateLeader \<and> State C = StateLeader \<and> CurrentTerm A = 1 \<and> CurrentTerm C = 1"
proof -
  let ?vote = "\<lparr>rvr_Term = 1, rvr_VoteGranted = True\<rparr>"
  let ?B1 = "(fresh ''B'')\<lparr>CurrentTerm := 1, VotedFor := ''A''\<rparr>"
  let ?hb = "\<lparr>ae_Term = 1, ae_LeaderID = ''A'', ae_PrevLogIndex = 0, ae_PrevLogTerm = 0, ae_Entries = [],
     ae_LeaderCommit = 0\<rparr>"
  let ?B2 = "(fresh ''B'')\<lparr>CurrentTerm := 1, knownLeaderID := ''A'', knownLeaderTerm := 1, electionReset := True\<rparr>"
  let ?A = "runElection [Some ?vote, None] (fresh ''A'')"
  let ?C = "runElection [None, Some ?vote] (fresh ''C'')"
  have v1: "RequestVote (vote_args ''A'') (fresh ''B'') = (?vote, ?B1)"
    by (simp add: RequestVote_def becomeFollower_def vote_args_def fresh_def NewRaftNode_def logIsUpToDate_def
        lastLogIndex_def lastLogTerm_def Let_def)
  have v2: "fst (RequestVote (vote_args ''C'') ?B2) = ?vote"
    by (simp add: RequestVote_def vote_args_def fresh_def NewRaftNode_def logIsUpToDate_def lastLogIndex_def
        lastLogTerm_def Let_def)
  have ae: "AppendEntries demo_env ?hb ?B1 = (Inr \<lparr>aer_Term = 1, aer_Success = True\<rparr>, ?B2)"
    by (simp add: AppendEntries_def fresh_def NewRaftNode_def accept_leader_def entry_at_nat append_log_def
        adopt_commit_def applyCommitted_def apply_loop.simps maybeCompact_def uncompactedLogEntries_def
        lastLogIndex_def defaultCompactThreshold_def persistDurableState_def notifyHeartbeat_def Let_def)
  have lead: "State ?A = StateLeader" "CurrentTerm ?A = 1" "State ?C = StateLeader" "CurrentTerm ?C = 1"
    by (simp_all add: runElection_def startElection_def electionMajority_def handleVoteReply_def promoteToLeader_def
        initLeaderReplication_def fresh_def NewRaftNode_def demo_peers_def Let_def)
  have ts: "\<exists>ts. collectReplicationTasks 1 ?A = Inr (Some (ts, ''A'')) \<and> ?hb \<in> append_args_of 1 ''A'' ` set ts"
    by (simp add: collectReplicationTasks_def replication_task_for_def runElection_def startElection_def
        electionMajority_def handleVoteReply_def promoteToLeader_def initLeaderReplication_def fresh_def
        NewRaftNode_def demo_peers_def remotePeers_def idx_get_def entry_at_nat lastLogIndex_def
        logOffsetForIndex_def append_args_of_def Let_def)
  obtain ts where ts': "collectReplicationTasks 1 ?A = Inr (Some (ts, ''A''))" "?hb \<in> append_args_of 1 ''A'' ` set ts"
    using ts by blast
  obtain vC B3 where vC: "RequestVote (vote_args ''C'') ?B2 = (vC, B3)" by force
  with v2 have "vC = ?vote" by simp
  with v1 ae lead ts' vC show ?thesis by blast
qed

text \<open>
  An AppendEntries message that arrives late deletes committed entries: a follower
  that already has the entries of the message, and has committed entries behind them,
  either panics in the compaction that follows or reports success with its log cut behind
  the message, so that its commit index points past the end of its log.
\<close>

theorem stale_append_drops_committed:
  assumes "log_wf n" "entries_wf args" "\<not> ae_Term args < CurrentTerm n" "ae_Entries args \<noteq> []"
    and "entry_at n (ae_PrevLogIndex args) = Some prev" "le_Term prev = ae_PrevLogTerm args"
    and "\<forall>k < length (ae_Entries args). entry_at n (ae_PrevLogIndex args + 1 + k) = Some (entriesFromArgs args ! k)"
    and "ae_PrevLogIndex args + length (ae_Entries args) < commitIndex n" "ae_LeaderCommit args \<le> commitIndex n"
  shows "(\<exists>e. fst (AppendEntries env args n) = Inl e) \<or>
    (\<exists>r n'. AppendEntries env args n = (Inr r, n') \<and> aer_Success r \<and> lastLogIndex n' < commitIndex n')"
proof (cases rule: AppendEntries_cases [of args n env])
  case stale
  with assms(3) show ?thesis by simp
next
  case refused
  let ?n1 = "accept_leader (ae_Term args) (ae_LeaderID args) n"
  have "entry_at ?n1 (ae_PrevLogIndex args) = Some prev" "\<not> ae_PrevLogIndex args < snapshotIndex ?n1"
    using assms(5) entry_at_cong [of ?n1 n] by (auto simp: raft_frame entry_at_nat split: if_splits)
  then have "fst (AppendEntries env args n) \<noteq> Inr \<lparr>aer_Term = ae_Term args, aer_Success = False\<rparr>"
    using assms(3,6) by (simp add: AppendEntries_def Let_def case_prod_unfold raft_frame split: option.split)
  with refused show ?thesis by simp
next
  case (accepted prev' n1 n3 p n4)
  show ?thesis
  proof (cases p)
    case (Some e)
    with accepted(7) show ?thesis by simp
  next
    case None
    let ?n' = "notifyHeartbeat (snd (persistDurableState env n4))"
    have run: "AppendEntries env args n = (Inr \<lparr>aer_Term = CurrentTerm n4, aer_Success = True\<rparr>, ?n')"
      using accepted(7) None by simp
    have last: "lastLogIndex ?n' = ae_PrevLogIndex args + length (ae_Entries args)"
      using append_entries_copies_log [OF assms(1,2) run] assms(4) by simp
    have "log_wf n1" using accepted(2) assms(1) by (simp add: log_wf_def raft_frame)
    then have wf3: "log_wf n3"
      using append_log_wf [OF _ assms(2) accepted(3)] accepted(5) by (simp add: log_wf_def raft_frame)
    have "commitIndex n4 = commitIndex n3" using applyCommitted_fields(4) [OF wf3, of env] accepted(6) by simp
    moreover have "commitIndex n3 = commitIndex n"
      using accepted(2,5) assms(9) by (simp add: adopt_commit_def raft_frame)
    ultimately have "commitIndex ?n' = commitIndex n" by (simp add: raft_frame)
    with run last assms(8) show ?thesis by auto
  qed
qed

definition late_append :: append_entries_args where
  "late_append = \<lparr>ae_Term = 1, ae_LeaderID = ''A'', ae_PrevLogIndex = 0, ae_PrevLogTerm = 0,
     ae_Entries = [demo_entry 1 1], ae_LeaderCommit = 0\<rparr>"

definition committed_node :: "(local_fsm, unit) raft_node" where
  "committed_node = (demo_node ''B'')\<lparr>commitIndex := 2, lastApplied := 2\<rparr>"

lemma stale_append_drops_committed_witness:
  "(\<exists>e. fst (AppendEntries demo_env late_append committed_node) = Inl e) \<or>
   (\<exists>r n'. AppendEntries demo_env late_append committed_node = (Inr r, n') \<and> lastLogIndex n' < commitIndex n')"
proof -
  have "log_wf committed_node" "entries_wf late_append"
    by (simp_all add: log_wf_def entries_wf_def committed_node_def late_append_def demo_raft_defs)
  from stale_append_drops_committed [OF this, of "\<lparr>le_Index = 0, le_Term = 0, le_Command = None\<rparr>" demo_env]
  show ?thesis
    by (auto simp: committed_node_def late_append_def demo_raft_defs entry_at_nat entriesFromArgs_def)
qed

text \<open>With a compaction due, the same message makes the node panic.\<close>

lemma late_append_panics:
  "fst (AppendEntries demo_env late_append (committed_node\<lparr>compactThreshold := 1\<rparr>)) = Inl panic_index"
  by (simp add: AppendEntries_def late_append_def committed_node_def demo_raft_defs accept_leader_def entry_at_nat
      append_log_def adopt_commit_def logOffsetForIndex_def applyCommitted_def apply_loop.simps maybeCompact_def
      uncompactedLogEntries_def lastLogIndex_def entriesFromArgs_def demo_env_def panic_index_def is_panic_def Let_def)

text \<open>
  Installing a snapshot sets the applied index to the snapshot's but leaves the commit
  index at the smaller of the two: a follower that lags, for which snapshots exist, ends
  with entries applied that it does not count as committed, and one that is ahead takes
  back its commit index.
\<close>

theorem install_snapshot_commit_behind:
  assumes "\<not> is_Term args < CurrentTerm n" "snapshotIndex n < is_LastIncludedIndex args"
    and "fst (fsm_Restore env (is_Data args) (MatchFSM n)) = Inr ()"
  shows "lastApplied (snd (snd (InstallSnapshot env args n))) = is_LastIncludedIndex args
    \<and> commitIndex (snd (snd (InstallSnapshot env args n))) = min (commitIndex n) (is_LastIncludedIndex args)
    \<and> snapshotIndex (snd (snd (InstallSnapshot env args n))) = is_LastIncludedIndex args"
proof -
  obtain s1 where "fsm_Restore env (is_Data args) (MatchFSM n) = (Inr (), s1)"
    using assms(3) by (metis prod.collapse)
  with assms(1,2) show ?thesis
    by (simp add: InstallSnapshot_def Let_def case_prod_unfold raft_frame min_def split: option.split)
qed

definition demo_install :: install_snapshot_args where
  "demo_install = \<lparr>is_Term = 1, is_LeaderID = ''A'', is_LastIncludedIndex = 9, is_LastIncludedTerm = 1, is_Data = [1]\<rparr>"

lemma install_snapshot_commit_behind_witness:
  "commitIndex (snd (snd (InstallSnapshot demo_env demo_install (demo_node ''B''))))
     < lastApplied (snd (snd (InstallSnapshot demo_env demo_install (demo_node ''B''))))"
  using install_snapshot_commit_behind [of demo_install "demo_node ''B''" demo_env]
  by (simp add: demo_install_def demo_env_def demo_raft_defs)

text \<open>
  A cluster of one node accepts proposals and never commits them: the entry is in the
  log and the quorum rule is met for it, but the commit index is only advanced on a reply
  of a peer, and there is no peer to send anything to.
\<close>

theorem single_node_never_commits:
  assumes "State n = StateLeader" "PeerAddresses n = [(NodeID n, a)]" "joint n = None"
    and "log_wf n" "commitIndex n \<le> lastLogIndex n" "Propose env cmd n = (r, n')"
  shows "r = Inr (lastLogIndex n') \<and> quorumMetForIndex n' (lastLogIndex n') \<and> commitIndex n' < lastLogIndex n'
    \<and> collectReplicationTasks (CurrentTerm n) n' = Inr (Some ([], NodeID n))"
proof -
  let ?e = "\<lparr>le_Index = lastLogIndex n + 1, le_Term = CurrentTerm n, le_Command = cmd\<rparr>"
  have n': "n' = snd (persistDurableState env (n\<lparr>raft_log := raft_log n @ [?e]\<rparr>))" and r: "r = Inr (lastLogIndex n + 1)"
    using assms(1,6) by (auto simp: Propose_def Let_def case_prod_unfold)
  have f: "raft_log n' = raft_log n @ [?e]" "commitIndex n' = commitIndex n" "State n' = State n" "NodeID n' = NodeID n"
    "CurrentTerm n' = CurrentTerm n"
    by (simp_all add: n' raft_frame)
  have g: "PeerAddresses n' = PeerAddresses n" "joint n' = joint n"
    by (simp_all add: n' persistDurableState_def Let_def case_prod_unfold split: option.split)
  have last: "lastLogIndex n' = lastLogIndex n + 1" using f by (simp add: lastLogIndex_def)
  show ?thesis
    using assms f g last r
    by (simp add: quorumMetForIndex_def quorumMetInConfig_def activeVotersInConfig_def replicationCountInConfig_def
        isPendingNewPeer_def collectReplicationTasks_def remotePeers_def)
qed

lemma single_node_never_commits_witness:
  "commitIndex (snd (Propose demo_env noop ((NewRaftNode ''A'' [(''A'', ''a'')] Map.empty)\<lparr>State := StateLeader\<rparr>))) < 1"
proof -
  let ?n = "(NewRaftNode ''A'' [(''A'', ''a'')] Map.empty)\<lparr>State := StateLeader\<rparr>"
  have "log_wf ?n" by (simp add: log_wf_def NewRaftNode_def)
  from single_node_never_commits [OF _ _ _ this, of "''a''" demo_env noop] show ?thesis
    by (cases "Propose demo_env noop ?n") (auto simp: NewRaftNode_def lastLogIndex_def Propose_def persistDurableState_def)
qed

definition joint_node :: "string \<Rightarrow> (local_fsm, unit) raft_node" where
  "joint_node i = (fresh i)\<lparr>PeerAddresses := demo_peers @ [(''D'', ''d'')],
     joint := Some \<lparr>joint_old = demo_peers, joint_new = demo_peers @ [(''D'', ''d'')]\<rparr>\<rparr>"

text \<open>
  During a membership change an election counts votes of the new configuration
  against the majority of the old one: with C and D each voting once, A (elected by D)
  and B (elected by C) both become leaders of term 1 while the node D is being added.
\<close>

theorem joint_election_splits:
  "\<exists>vD D' vC C'. RequestVote (vote_args ''A'') (joint_node ''D'') = (vD, D') \<and>
     RequestVote (vote_args ''B'') (joint_node ''C'') = (vC, C') \<and>
     (let A = runElection [None, None, Some vD] (joint_node ''A''); B = runElection [None, Some vC, None] (joint_node ''B'')
      in State A = StateLeader \<and> State B = StateLeader \<and> CurrentTerm A = 1 \<and> CurrentTerm B = 1)"
proof -
  let ?vote = "\<lparr>rvr_Term = 1, rvr_VoteGranted = True\<rparr>"
  have v: "fst (RequestVote (vote_args i) (joint_node j)) = ?vote" for i j
    by (simp add: RequestVote_def becomeFollower_def vote_args_def joint_node_def fresh_def NewRaftNode_def
        logIsUpToDate_def lastLogIndex_def lastLogTerm_def Let_def)
  have "State (runElection [None, None, Some ?vote] (joint_node ''A'')) = StateLeader"
    "CurrentTerm (runElection [None, None, Some ?vote] (joint_node ''A'')) = 1"
    "State (runElection [None, Some ?vote, None] (joint_node ''B'')) = StateLeader"
    "CurrentTerm (runElection [None, Some ?vote, None] (joint_node ''B'')) = 1"
    by (simp_all add: runElection_def startElection_def electionMajority_def handleVoteReply_def promoteToLeader_def
        initLeaderReplication_def joint_node_def fresh_def NewRaftNode_def demo_peers_def Let_def)
  then show ?thesis
    using v [of "''A''" "''D''"] v [of "''B''" "''C''"]
    by (cases "RequestVote (vote_args ''A'') (joint_node ''D'')"; cases "RequestVote (vote_args ''B'') (joint_node ''C'')")
      (simp add: Let_def)
qed

end
