(* ===== verification/Raft_Election.thy ===== *)
theory Raft_Election
  imports Raft_Props
begin

section \<open>Election safety\<close>

text \<open>
  A cluster of nodes that exchange the messages of elections only: \<open>startElection\<close>,
  \<open>RequestVote\<close>, the handling of the replies and \<open>promoteToLeader\<close>, in any order and
  with any loss, delay or duplication. With one fixed configuration this part of the
  code elects at most one leader per term. (\<open>two_leaders_in_one_term\<close> shows that a
  heartbeat breaks it, \<open>joint_election_splits\<close> that a membership change does.)
\<close>




subsection \<open>The invariant\<close>








subsection \<open>Preservation\<close>




subsection \<open>Property\<close>



end
