(* ===== verification/Raft_Live.thy ===== *)
theory Raft_Live
  imports Raft_Ops
begin

section \<open>A node with its goroutines\<close>

text \<open>
  The parts of \<open>pkg/consensus/raft_node.go\<close> that wait: replication rounds, whose calls
  to the peers are under way while other sections run, and the callers that poll the node
  until an entry is committed (\<open>waitForCommit\<close>), applied (\<open>waitForApply\<close>) or a read
  index is reached (\<open>waitForReadIndex\<close>). A goroutine that has been started and not run yet
  is an element of one of the lists of \<open>live\<close>; an event runs one lock section of it. What
  else happens while a caller sleeps or waits is a list of events in the caller's script,
  together with the readings of the clock (in nanoseconds). When the script of a caller
  is used up it is still waiting: its result is \<open>None\<close>.
\<close>

subsection \<open>Goroutines\<close>

text \<open>
  \<open>lv_rounds\<close>: rounds of \<open>broadcastHeartbeats\<close> not begun, by term; \<open>lv_tasks\<close>: goroutines
  of a round, one per peer; \<open>lv_calls\<close>: AppendEntries calls on the wire; \<open>lv_snapshots\<close>:
  goroutines of \<open>sendInstallSnapshot\<close>; \<open>lv_installs\<close>: InstallSnapshot calls sent, whose
  replies are ignored. Waiter channels are numbered. A panic of any goroutine ends the process.
\<close>

record ('s, 'd) live =
  lv_node :: "('s, 'd) raft_node"
  lv_rounds :: "nat list"
  lv_tasks :: "(nat \<times> string \<times> replication_task) list"
  lv_calls :: "(nat \<times> string \<times> append_entries_args) list"
  lv_snapshots :: "(nat \<times> string) list"
  lv_installs :: "(string \<times> install_snapshot_args) list"
  lv_next :: nat
  lv_crashed :: "go_error option"

definition started :: "('s, 'd) raft_node \<Rightarrow> ('s, 'd) live" where
  "started n = \<lparr>lv_node = n, lv_rounds = [], lv_tasks = [], lv_calls = [], lv_snapshots = [], lv_installs = [],
     lv_next = 0, lv_crashed = None\<rparr>"

definition broadcastHeartbeats :: "nat \<Rightarrow> ('s, 'd) live \<Rightarrow> ('s, 'd) live" where
  "broadcastHeartbeats trm l = l\<lparr>lv_rounds := lv_rounds l @ [trm]\<rparr>"

text \<open>
  \<open>replicateAndCommit\<close> up to the start of its goroutines. It then waits for them or for
  its context; both callers drop the error.
\<close>

definition replicateAndCommit :: "nat \<Rightarrow> ('s, 'd) live \<Rightarrow> ('s, 'd) live" where
  "replicateAndCommit trm l =
     (case collectReplicationTasks trm (lv_node l) of
        Inl p \<Rightarrow> l\<lparr>lv_crashed := Some p\<rparr>
      | Inr None \<Rightarrow> l
      | Inr (Some (tasks, leaderID)) \<Rightarrow>
          l\<lparr>lv_tasks := lv_tasks l @ map (\<lambda>task. (trm, leaderID, task)) tasks\<rparr>)"

definition sendInstallSnapshot :: "nat \<Rightarrow> string \<Rightarrow> ('s, 'd) live \<Rightarrow> ('s, 'd) live" where
  "sendInstallSnapshot trm peerID l =
     (case install_args_of trm (lv_node l) of
        None \<Rightarrow> l
      | Some args \<Rightarrow> l\<lparr>lv_installs := lv_installs l @ [(peerID, args)]\<rparr>)"

text \<open>\<open>replicateToPeer\<close> up to its call, when its context is done or not.\<close>

definition replicateToPeer :: "bool \<Rightarrow> nat \<times> string \<times> replication_task \<Rightarrow> ('s, 'd) live \<Rightarrow> ('s, 'd) live" where
  "replicateToPeer ctxDone job l =
     (case job of (trm, leaderID, task) \<Rightarrow>
        if ctxDone then l
        else if rt_installSnap task then sendInstallSnapshot trm (rt_peerID task) l
        else l\<lparr>lv_calls := lv_calls l @ [(trm, rt_peerID task, append_args_of trm leaderID task)]\<rparr>)"

text \<open>The rest of \<open>replicateToPeer\<close>: the call failed, or a reply came.\<close>

definition call_returns ::
  "('s, 'd) raft_env \<Rightarrow> append_entries_reply option \<Rightarrow> nat \<times> string \<times> append_entries_args \<Rightarrow> ('s, 'd) live \<Rightarrow> ('s, 'd) live" where
  "call_returns env ro job l =
     (case ro of
        None \<Rightarrow> l
      | Some reply \<Rightarrow>
          (case job of (trm, peerID, args) \<Rightarrow>
             (case handleAppendEntriesReply env trm peerID args reply (lv_node l) of
                (Inl p, n) \<Rightarrow> l\<lparr>lv_node := n, lv_crashed := Some p\<rparr>
              | (Inr sendSnap, n) \<Rightarrow>
                  l\<lparr>lv_node := n,
                    lv_snapshots := (if sendSnap then lv_snapshots l @ [(trm, peerID)] else lv_snapshots l)\<rparr>)))"

text \<open>\<open>Propose\<close> with the round it starts.\<close>

definition propose_live :: "('s, 'd) raft_env \<Rightarrow> jtext \<Rightarrow> ('s, 'd) live \<Rightarrow> nat result \<times> ('s, 'd) live" where
  "propose_live env cmd l =
     (case Propose env cmd (lv_node l) of
        (Inl e, n) \<Rightarrow> (Inl e, l\<lparr>lv_node := n\<rparr>)
      | (Inr i, n) \<Rightarrow> (Inr i, broadcastHeartbeats (CurrentTerm n) (l\<lparr>lv_node := n\<rparr>)))"

text \<open>\<open>waitForApply\<close> up to its \<open>select\<close>, with a new channel.\<close>

definition register_waiter :: "nat \<Rightarrow> ('s, 'd) live \<Rightarrow> apply_outcome option \<times> ('s, 'd) live" where
  "register_waiter i l =
     (case waitForApply i (lv_next l) (lv_node l) of
        (r, n) \<Rightarrow> (r, l\<lparr>lv_node := n, lv_next := lv_next l + 1\<rparr>))"

subsection \<open>Events\<close>

text \<open>
  Incoming calls, the election timer, votes that come back, heartbeat ticks, and the
  goroutines above, by their position in the list.
\<close>

datatype node_event =
    EvVote request_vote_args
  | EvAppend append_entries_args
  | EvInstall install_snapshot_args
  | EvElection
  | EvVoteReply nat request_vote_reply
  | EvPromote nat
  | EvTicker
  | EvTick
  | EvPropose jtext
  | EvWait nat
  | EvConfirm nat append_entries_reply
  | EvFlush
  | EvRound nat
  | EvTask nat bool
  | EvReply nat "append_entries_reply option"
  | EvSnapshot nat

definition on_node :: "(('s, 'd) raft_node \<Rightarrow> ('s, 'd) raft_node) \<Rightarrow> ('s, 'd) live \<Rightarrow> ('s, 'd) live" where
  "on_node f l = l\<lparr>lv_node := f (lv_node l)\<rparr>"

definition heartbeat_tick :: "('s, 'd) live \<Rightarrow> ('s, 'd) live" where
  "heartbeat_tick l = (case heartbeatTick (lv_node l) of None \<Rightarrow> l | Some trm \<Rightarrow> broadcastHeartbeats trm l)"

fun live_event :: "('s, 'd) raft_env \<Rightarrow> node_event \<Rightarrow> ('s, 'd) live \<Rightarrow> ('s, 'd) live" where
  "live_event env (EvVote args) l = on_node (\<lambda>n. snd (RequestVote args n)) l"
| "live_event env (EvAppend args) l =
     (case AppendEntries env args (lv_node l) of
        (Inl p, n) \<Rightarrow> l\<lparr>lv_node := n, lv_crashed := Some p\<rparr>
      | (Inr _, n) \<Rightarrow> l\<lparr>lv_node := n\<rparr>)"
| "live_event env (EvInstall args) l = on_node (\<lambda>n. snd (snd (InstallSnapshot env args n))) l"
| "live_event env EvElection l = on_node (\<lambda>n. snd (startElection n)) l"
| "live_event env (EvVoteReply trm r) l = on_node (\<lambda>n. snd (handleVoteReply trm r n)) l"
| "live_event env (EvPromote trm) l = on_node (promoteToLeader trm) l"
| "live_event env EvTicker l = on_node startHeartbeatTicker l"
| "live_event env EvTick l = heartbeat_tick l"
| "live_event env (EvPropose cmd) l = snd (propose_live env cmd l)"
| "live_event env (EvWait i) l = snd (register_waiter i l)"
| "live_event env (EvConfirm trm r) l = on_node (\<lambda>n. snd (confirm_loop trm [Some r] 0 n)) l"
| "live_event env EvFlush l = on_node (\<lambda>n. snd (persistDurableState env n)) l"
| "live_event env (EvRound k) l =
     (if k < length (lv_rounds l) then
        replicateAndCommit (lv_rounds l ! k) (l\<lparr>lv_rounds := delete_at k (lv_rounds l)\<rparr>) else l)"
| "live_event env (EvTask k ctxDone) l =
     (if k < length (lv_tasks l) then
        replicateToPeer ctxDone (lv_tasks l ! k) (l\<lparr>lv_tasks := delete_at k (lv_tasks l)\<rparr>) else l)"
| "live_event env (EvReply k ro) l =
     (if k < length (lv_calls l) then
        call_returns env ro (lv_calls l ! k) (l\<lparr>lv_calls := delete_at k (lv_calls l)\<rparr>) else l)"
| "live_event env (EvSnapshot k) l =
     (if k < length (lv_snapshots l) then
        (case lv_snapshots l ! k of (trm, peerID) \<Rightarrow>
           sendInstallSnapshot trm peerID (l\<lparr>lv_snapshots := delete_at k (lv_snapshots l)\<rparr>)) else l)"

definition live_step :: "('s, 'd) raft_env \<Rightarrow> node_event \<Rightarrow> ('s, 'd) live \<Rightarrow> ('s, 'd) live" where
  "live_step env ev l = (if lv_crashed l = None then live_event env ev l else l)"

definition live_run :: "('s, 'd) raft_env \<Rightarrow> node_event list \<Rightarrow> ('s, 'd) live \<Rightarrow> ('s, 'd) live" where
  "live_run env evs l = fold (live_step env) evs l"

subsection \<open>Waiting for a commit\<close>

definition second :: int where "second = 1000000000"
definition millisecond :: int where "millisecond = 1000000"
definition defaultProposeTimeout :: int where "defaultProposeTimeout = 2 * second"

text \<open>
  One turn of a polling loop: the time of the loop's test, what happens before the round,
  the time that \<open>time.Until\<close> reads, and what happens during the round and the sleep.
\<close>

record poll =
  pl_now :: int
  pl_until :: int
  pl_before :: "node_event list"
  pl_during :: "node_event list"

definition commit_timeout :: "nat \<Rightarrow> go_error" where
  "commit_timeout i = Errorf (''timed out waiting for commit at index '' @ nat_dec i)"

fun waitForCommit ::
  "('s, 'd) raft_env \<Rightarrow> nat \<Rightarrow> int \<Rightarrow> poll list \<Rightarrow> ('s, 'd) live \<Rightarrow> unit result option \<times> ('s, 'd) live" where
  "waitForCommit env i deadline [] l = (None, l)"
| "waitForCommit env i deadline (p # ps) l =
     (if lv_crashed l \<noteq> None then (None, l)
      else if \<not> pl_now p < deadline then (Some (Inl (commit_timeout i)), l)
      else if i \<le> commitIndex (lv_node l) then (Some (Inr ()), l)
      else if deadline - pl_until p \<le> 0 then (Some (Inl (commit_timeout i)), l)
      else waitForCommit env i deadline ps
             (live_run env (pl_during p)
               (replicateAndCommit (CurrentTerm (lv_node l)) (live_run env (pl_before p) l))))"

subsection \<open>Waiting for the result\<close>

definition apply_timeout :: "nat \<Rightarrow> go_error" where
  "apply_timeout i = Errorf (''timed out waiting for replicated apply at index '' @ nat_dec i)"

text \<open>
  The \<open>select\<close> of \<open>waitForApply\<close> comes after what happens in \<open>during\<close>. With a value in the
  channel and the timer expired too, Go takes either (\<open>expired\<close>); without a value the
  timer decides.
\<close>

definition awaitApply ::
  "('s, 'd) raft_env \<Rightarrow> nat \<Rightarrow> node_event list \<Rightarrow> bool \<Rightarrow> ('s, 'd) live \<Rightarrow> apply_outcome result option \<times> ('s, 'd) live" where
  "awaitApply env i during expired l =
     (case register_waiter i l of
        (Some r, l1) \<Rightarrow> (Some (Inr r), l1)
      | (None, l1) \<Rightarrow>
          let l2 = live_run env during l1 in
          if lv_crashed l2 \<noteq> None then (None, l2)
          else (case map_of (waiterSent (lv_node l2)) (lv_next l) of
                  Some r \<Rightarrow> (Some (if expired then Inl (apply_timeout i) else Inr r), l2)
                | None \<Rightarrow> (Some (Inl (apply_timeout i)), l2)))"

text \<open>What happens around a call of \<open>ProposeAndWaitTimeout\<close>.\<close>

record script =
  sc_start :: int
  sc_proposed :: "node_event list"
  sc_polls :: "poll list"
  sc_committed :: "node_event list"
  sc_during :: "node_event list"
  sc_expired :: bool

definition ProposeAndWaitTimeout ::
  "('s, 'd) raft_env \<Rightarrow> jtext \<Rightarrow> int \<Rightarrow> script \<Rightarrow> ('s, 'd) live \<Rightarrow> apply_outcome result option \<times> ('s, 'd) live" where
  "ProposeAndWaitTimeout env cmd timeout sc l =
     (case propose_live env cmd l of
        (Inl e, l1) \<Rightarrow> (Some (Inl e), l1)
      | (Inr i, l1) \<Rightarrow>
          (case waitForCommit env i (sc_start sc + timeout) (sc_polls sc) (live_run env (sc_proposed sc) l1) of
             (None, l2) \<Rightarrow> (None, l2)
           | (Some (Inl e), l2) \<Rightarrow> (Some (Inl e), l2)
           | (Some (Inr _), l2) \<Rightarrow>
               let l3 = live_run env (sc_committed sc) l2 in
               if lv_crashed l3 \<noteq> None then (None, l3)
               else awaitApply env i (sc_during sc) (sc_expired sc) l3))"

definition ProposeAndWait ::
  "('s, 'd) raft_env \<Rightarrow> jtext \<Rightarrow> script \<Rightarrow> ('s, 'd) live \<Rightarrow> apply_outcome result option \<times> ('s, 'd) live" where
  "ProposeAndWait env cmd sc l = ProposeAndWaitTimeout env cmd defaultProposeTimeout sc l"

subsection \<open>Membership changes\<close>

text \<open>A change and then its commit; an apply result of any kind, an error too, lets it go on.\<close>

definition propose_both ::
  "('s, 'd) raft_env \<Rightarrow> json \<Rightarrow> script \<times> script \<Rightarrow> ('s, 'd) live \<Rightarrow> unit result option \<times> ('s, 'd) live" where
  "propose_both env cmd scs l =
     (case ProposeAndWait env (Some cmd) (fst scs) l of
        (None, l1) \<Rightarrow> (None, l1)
      | (Some (Inl e), l1) \<Rightarrow> (Some (Inl e), l1)
      | (Some (Inr _), l1) \<Rightarrow>
          (case ProposeAndWait env (Some EncodeCommitConfigCommand) (snd scs) l1 of
             (None, l2) \<Rightarrow> (None, l2)
           | (Some (Inl e), l2) \<Rightarrow> (Some (Inl e), l2)
           | (Some (Inr _), l2) \<Rightarrow> (Some (Inr ()), l2)))"

definition ProposeAddNode ::
  "('s, 'd) raft_env \<Rightarrow> string \<Rightarrow> string \<Rightarrow> script \<times> script \<Rightarrow> ('s, 'd) live \<Rightarrow> unit result option \<times> ('s, 'd) live" where
  "ProposeAddNode env nodeID address scs l = propose_both env (EncodeAddNodeCommand nodeID address) scs l"

definition ProposeRemoveNode ::
  "('s, 'd) raft_env \<Rightarrow> string \<Rightarrow> script \<times> script \<Rightarrow> ('s, 'd) live \<Rightarrow> unit result option \<times> ('s, 'd) live" where
  "ProposeRemoveNode env nodeID scs l = propose_both env (EncodeRemoveNodeCommand nodeID) scs l"

definition IsInJointConsensus :: "('s, 'd) raft_node \<Rightarrow> bool" where
  "IsInJointConsensus n = (joint n \<noteq> None)"

subsection \<open>Linearizable reads\<close>

text \<open>
  \<open>confirmLeadershipForRead\<close> with what happens before each reply: a goroutine that finds
  the leadership lost, or whose call fails, has none.
\<close>

fun confirm_replies ::
  "('s, 'd) raft_env \<Rightarrow> nat \<Rightarrow> (node_event list \<times> append_entries_reply option) list \<Rightarrow> nat \<Rightarrow> ('s, 'd) live
     \<Rightarrow> nat \<times> ('s, 'd) live" where
  "confirm_replies env trm [] c l = (c, l)"
| "confirm_replies env trm ((evs, ro) # rs) c l =
     (let l1 = live_run env evs l in
      case confirm_loop trm [ro] c (lv_node l1) of
        (c1, n) \<Rightarrow> confirm_replies env trm rs c1 (l1\<lparr>lv_node := n\<rparr>))"

definition leads :: "nat \<Rightarrow> ('s, 'd) raft_node \<Rightarrow> bool" where
  "leads trm n = (State n = StateLeader \<and> CurrentTerm n = trm)"

definition confirmLeadership ::
  "('s, 'd) raft_env \<Rightarrow> nat \<Rightarrow> (node_event list \<times> append_entries_reply option) list \<Rightarrow> node_event list \<Rightarrow> ('s, 'd) live
     \<Rightarrow> unit result \<times> ('s, 'd) live" where
  "confirmLeadership env trm rs after l =
     (if \<not> leads trm (lv_node l) then (Inl (Errorf ''leadership lost''), l)
      else
        let majority = electionMajority (lv_node l) in
        if remotePeers (lv_node l) = [] then
          (let l1 = live_run env after l in
           (if \<not> leads trm (lv_node l1) then Inl (Errorf ''leadership lost'') else Inr (), l1))
        else
          (case confirm_replies env trm rs 1 l of
             (c, l1) \<Rightarrow>
               let l2 = live_run env after l1 in
               if \<not> leads trm (lv_node l2) then (Inl (Errorf ''leadership lost during verification''), l2)
               else if c \<ge> majority then (Inr (), l2)
               else (Inl (Errorf ''failed to confirm leadership with quorum''), l2)))"

definition read_timeout :: "nat \<Rightarrow> go_error" where
  "read_timeout i = Errorf (''timed out waiting for read index '' @ nat_dec i)"

fun waitForReadIndex ::
  "('s, 'd) raft_env \<Rightarrow> nat \<Rightarrow> int \<Rightarrow> poll list \<Rightarrow> ('s, 'd) live \<Rightarrow> unit result option \<times> ('s, 'd) live" where
  "waitForReadIndex env i deadline [] l = (None, l)"
| "waitForReadIndex env i deadline (p # ps) l =
     (if lv_crashed l \<noteq> None then (None, l)
      else if \<not> pl_now p < deadline then (Some (Inl (read_timeout i)), l)
      else if i \<le> lastApplied (lv_node l) then (Some (Inr ()), l)
      else waitForReadIndex env i deadline ps (live_run env (pl_during p) l))"

text \<open>What happens around a read: the replies of the peers, events, and the polls of the wait.\<close>

record read_script =
  rs_begun :: "node_event list"
  rs_replies :: "(node_event list \<times> append_entries_reply option) list"
  rs_after :: "node_event list"
  rs_start :: int
  rs_polls :: "poll list"

definition VerifyLeader ::
  "('s, 'd) raft_env \<Rightarrow> read_script \<Rightarrow> ('s, 'd) live \<Rightarrow> unit result \<times> ('s, 'd) live" where
  "VerifyLeader env sc l =
     (case beginReadIndex (lv_node l) of
        Inl e \<Rightarrow> (Inl e, l)
      | Inr (_, trm) \<Rightarrow> confirmLeadership env trm (rs_replies sc) (rs_after sc) (live_run env (rs_begun sc) l))"

definition EnsureLinearizableRead ::
  "('s, 'd) raft_env \<Rightarrow> int \<Rightarrow> read_script \<Rightarrow> ('s, 'd) live \<Rightarrow> unit result option \<times> ('s, 'd) live" where
  "EnsureLinearizableRead env timeout0 sc l =
     (let timeout = (if timeout0 \<le> 0 then defaultProposeTimeout else timeout0) in
      case beginReadIndex (lv_node l) of
        Inl e \<Rightarrow> (Some (Inl e), l)
      | Inr (readIndex, trm) \<Rightarrow>
          (case confirmLeadership env trm (rs_replies sc) (rs_after sc) (live_run env (rs_begun sc) l) of
             (Inl e, l1) \<Rightarrow> (Some (Inl e), l1)
           | (Inr _, l1) \<Rightarrow> waitForReadIndex env readIndex (rs_start sc + timeout) (rs_polls sc) l1))"

text \<open>\<open>asLocal\<close> is the type assertion to \<open>LocalGameFSM\<close>.\<close>

definition ReadLinearizableState ::
  "('s, 'd) raft_env \<Rightarrow> ('s \<Rightarrow> local_fsm option) \<Rightarrow> read_script \<Rightarrow> ('s, 'd) live \<Rightarrow> local_fsm result option \<times> ('s, 'd) live" where
  "ReadLinearizableState env asLocal sc l =
     (case EnsureLinearizableRead env defaultProposeTimeout sc l of
        (None, l1) \<Rightarrow> (None, l1)
      | (Some (Inl e), l1) \<Rightarrow> (Some (Inl e), l1)
      | (Some (Inr _), l1) \<Rightarrow>
          (Some (case asLocal (MatchFSM (lv_node l1)) of
                   None \<Rightarrow> Inl (Errorf ''MatchFSM is not LocalGameFSM'')
                 | Some f \<Rightarrow> Inr f), l1))"

end
