(* ===== verification/Raft_Answers.thy ===== *)
theory Raft_Answers
  imports Raft_Live Raft_Props
begin

section \<open>What a proposal is answered\<close>

text \<open>
  The waiting callers of \<open>pkg/consensus/raft_node.go\<close> (theory \<open>Raft_Live\<close>): an invariant
  of the leader's entry at one index and of the results recorded for it, kept by every
  event as long as the node leads; the polling loops come to an end; and the two places
  where the answer is not what the caller takes it for: a proposal whose leader was
  deposed, and a read of a new leader.
\<close>

subsection \<open>The result of an entry\<close>


text \<open>Results, waiters and what was sent to them.\<close>

named_theorems answer_frame \<open>operations that leave the results and waiters alone\<close>

lemma membership_answers [answer_frame]:
  "applyResults (snd (applyMembership cmd n)) = applyResults n"
  "applyWaiters (snd (applyMembership cmd n)) = applyWaiters n"
  "waiterSent (snd (applyMembership cmd n)) = waiterSent n"
  by (simp_all add: applyMembership_def trackNewPeer_def dropPeer_def pruneReplicationState_def Let_def
      split: sum.split option.split)

lemma persist_answers [answer_frame]:
  "applyResults (snd (persistDurableState env n)) = applyResults n"
  "applyWaiters (snd (persistDurableState env n)) = applyWaiters n"
  "waiterSent (snd (persistDurableState env n)) = waiterSent n"
  "applyResults (snd (persistSnapshot env i t d n)) = applyResults n"
  "applyWaiters (snd (persistSnapshot env i t d n)) = applyWaiters n"
  "waiterSent (snd (persistSnapshot env i t d n)) = waiterSent n"
  by (simp_all add: persistDurableState_def persistSnapshot_def Let_def case_prod_unfold split: option.split)

lemma compact_answers [answer_frame]:
  "applyResults (snd (maybeCompact env n)) = applyResults n"
  "applyWaiters (snd (maybeCompact env n)) = applyWaiters n"
  "waiterSent (snd (maybeCompact env n)) = waiterSent n"
  by (cases rule: maybeCompact_cases [of env n]; simp add: answer_frame)+


subsection \<open>The invariant of one index\<close>







subsection \<open>Leading and losing the lead\<close>

text \<open>A node that has lost the lead of a term never leads that term again.\<close>

definition lost :: "nat \<Rightarrow> ('s, 'd) raft_node \<Rightarrow> bool" where
  "lost t n \<longleftrightarrow> t < CurrentTerm n \<or> (CurrentTerm n = t \<and> State n = StateFollower)"




lemma lost_becomeFollower: "t \<le> u \<Longrightarrow> lost t (becomeFollower u n)"
  by (auto simp: lost_def raft_frame)

lemma applyCommitted_role [raft_frame]:
  "CurrentTerm (snd (applyCommitted env n)) = CurrentTerm n" "State (snd (applyCommitted env n)) = State n"
  unfolding applyCommitted_node
  by (cases rule: maybeCompact_cases [of env "apply_loop env True n"]; simp add: raft_frame)+


lemma append_log_role [raft_frame]:
  "CurrentTerm (adopt_commit args (append_log args n)) = CurrentTerm n"
  "State (adopt_commit args (append_log args n)) = State n"
  by (simp_all add: append_log_def adopt_commit_def Let_def)

lemma notify_role [raft_frame]:
  "CurrentTerm (notifyHeartbeat n) = CurrentTerm n" "State (notifyHeartbeat n) = State n"
  by (simp_all add: notifyHeartbeat_def)



subsection \<open>Events keep the invariant\<close>






















subsection \<open>Waiter channels are new\<close>

definition waiters :: "('s, 'd) raft_node \<Rightarrow> nat set" where
  "waiters n = (\<Union>j. set (applyWaiters n j)) \<union> fst ` set (waiterSent n)"






lemma simple_answers [answer_frame]:
  "applyWaiters (becomeFollower u n) = applyWaiters n" "waiterSent (becomeFollower u n) = waiterSent n"
  "applyWaiters (accept_leader u l n) = applyWaiters n" "waiterSent (accept_leader u l n) = waiterSent n"
  "applyWaiters (append_log args n) = applyWaiters n" "waiterSent (append_log args n) = waiterSent n"
  "applyWaiters (adopt_commit args n) = applyWaiters n" "waiterSent (adopt_commit args n) = waiterSent n"
  "applyWaiters (notifyHeartbeat n) = applyWaiters n" "waiterSent (notifyHeartbeat n) = waiterSent n"
  "applyWaiters (startHeartbeatTicker n) = applyWaiters n" "waiterSent (startHeartbeatTicker n) = waiterSent n"
  "applyWaiters (promoteToLeader u n) = applyWaiters n" "waiterSent (promoteToLeader u n) = waiterSent n"
  by (simp_all add: becomeFollower_def accept_leader_def append_log_def adopt_commit_def notifyHeartbeat_def
      startHeartbeatTicker_def promoteToLeader_def initLeaderReplication_def Let_def)

lemma waiters_persist [simp]:
  "waiters (snd (persistDurableState env n)) = waiters n" "waiters (snd (persistSnapshot env i t d n)) = waiters n"
  "waiters (notifyHeartbeat n) = waiters n" "waiters (accept_leader u l n) = waiters n"
  "waiters (adopt_commit args (append_log args n)) = waiters n" "waiters (becomeFollower u n) = waiters n"
  "waiters (promoteToLeader u n) = waiters n" "waiters (startHeartbeatTicker n) = waiters n"
  by (simp_all add: waiters_def answer_frame)






subsection \<open>The life of a node\<close>




lemma on_node_fields [simp]:
  "lv_node (on_node f l) = f (lv_node l)" "lv_next (on_node f l) = lv_next l" "lv_crashed (on_node f l) = lv_crashed l"
  by (simp_all add: on_node_def)









subsection \<open>The answer of a leader\<close>





text \<open>
  A leader of three nodes proposes a no-op; its round reaches the first follower, which
  confirms the entry.
\<close>

definition demo_leader :: "(local_fsm, unit) live" where
  "demo_leader = started (initLeaderReplication ((NewRaftNode ''A'' demo_peers Map.empty)
     \<lparr>CurrentTerm := 1, State := StateLeader\<rparr>))"

definition confirmed :: append_entries_reply where
  "confirmed = \<lparr>aer_Term = 1, aer_Success = True\<rparr>"

definition demo_script :: "node_event list \<Rightarrow> node_event list \<Rightarrow> script" where
  "demo_script proposed committed =
     \<lparr>sc_start = 0, sc_proposed = proposed, sc_polls = [\<lparr>pl_now = 5, pl_until = 6, pl_before = [], pl_during = []\<rparr>],
      sc_committed = committed, sc_during = [], sc_expired = False\<rparr>"

definition start_cmd :: "string \<Rightarrow> jtext" where
  "start_cmd g = Some (EncodeCommandWithPayload OpStartMatch g NoPayload)"

text \<open>The match that a successful answer is about.\<close>

definition answered_match :: "apply_outcome result option \<Rightarrow> string option" where
  "answered_match x = (case x of Some (Inr (ApplyOK ar)) \<Rightarrow> Some (ar_MatchID ar) | _ \<Rightarrow> None)"


definition demo_confirmed :: script where
  "demo_confirmed = demo_script [EvRound 0, EvTask 0 False, EvReply 0 (Some confirmed)] []"




text \<open>
  A leader that was deposed while it waited: another leader of term 2 puts its own entry at
  the index and commits it. The caller gets the result of that command, of another match,
  as the success of its own, which is in no log any more. (\<open>waitForCommit\<close> looks at the
  index only.)
\<close>

definition other_append :: append_entries_args where
  "other_append = \<lparr>ae_Term = 2, ae_LeaderID = ''B'', ae_PrevLogIndex = 0, ae_PrevLogTerm = 0,
     ae_Entries = [\<lparr>le_Index = 1, le_Term = 2, le_Command = start_cmd ''theirs''\<rparr>], ae_LeaderCommit = 1\<rparr>"

lemma deposed_leader_answers_for_other:
  "answered_match (fst (ProposeAndWaitTimeout demo_env (start_cmd ''mine'') defaultProposeTimeout
      (demo_script [EvAppend other_append] []) demo_leader)) = Some ''theirs''"
  by code_simp

subsection \<open>Reads\<close>

lemma waitForReadIndex_applied:
  "waitForReadIndex env i d ps l = (Some (Inr ()), l') \<Longrightarrow> i \<le> lastApplied (lv_node l')"
  by (induction env i d ps l rule: waitForReadIndex.induct) (auto split: if_splits)

lemma confirm_replies_count:
  "fst (confirm_replies env t rs c l) \<le> c + length (filter (\<lambda>(evs, ro). \<exists>r. ro = Some r \<and> aer_Success r \<and> aer_Term r = t) rs)"
proof (induction env t rs c l rule: confirm_replies.induct)
  case (2 env t evs ro rs c l)
  let ?l1 = "live_run env evs l"
  obtain c1 n where c1: "confirm_loop t [ro] c (lv_node ?l1) = (c1, n)" by force
  have "c1 \<le> c + (if \<exists>r. ro = Some r \<and> aer_Success r \<and> aer_Term r = t then 1 else 0)"
    using c1 by (cases ro) (auto split: if_splits)
  with 2 [OF refl c1 [symmetric]] c1 show ?case
    by (cases "\<exists>r. ro = Some r \<and> aer_Success r \<and> aer_Term r = t") (simp_all add: Let_def)
qed simp

text \<open>
  C11: What the read barrier guarantees. When \<open>EnsureLinearizableRead\<close> succeeds, the node
  was leader when it was called, afterwards enough peers confirmed that term to form a
  majority with the node itself (or it has no peers), and on return everything that was
  committed on this node at the time of the call has been applied.
\<close>

theorem read_barrier_holds:
  assumes "EnsureLinearizableRead env timeout sc l = (Some (Inr ()), l')"
  shows "let n = lv_node (live_run env (rs_begun sc) l) in
    IsLeader (lv_node l) \<and> leads (CurrentTerm (lv_node l)) n \<and>
    (remotePeers n = [] \<or> electionMajority n \<le> 1 + length (filter
       (\<lambda>(evs, ro). \<exists>r. ro = Some r \<and> aer_Success r \<and> aer_Term r = CurrentTerm (lv_node l)) (rs_replies sc))) \<and>
    commitIndex (lv_node l) \<le> lastApplied (lv_node l')"
proof -
  let ?t = "CurrentTerm (lv_node l)" and ?l0 = "live_run env (rs_begun sc) l"
  have bri: "beginReadIndex (lv_node l) = Inr (commitIndex (lv_node l), ?t)" and lead: "IsLeader (lv_node l)"
    using assms by (auto simp: EnsureLinearizableRead_def Let_def beginReadIndex_def IsLeader_def
        split: sum.splits option.splits if_splits)
  let ?c = "confirmLeadership env ?t (rs_replies sc) (rs_after sc) ?l0"
  have c: "fst ?c = Inr ()"
    and w: "waitForReadIndex env (commitIndex (lv_node l))
      (rs_start sc + (if timeout \<le> 0 then defaultProposeTimeout else timeout)) (rs_polls sc) (snd ?c) = (Some (Inr ()), l')"
    using assms bri by (cases ?c; auto simp: EnsureLinearizableRead_def Let_def split: sum.splits)+
  have "leads ?t (lv_node ?l0) \<and> (remotePeers (lv_node ?l0) = [] \<or>
      electionMajority (lv_node ?l0) \<le> fst (confirm_replies env ?t (rs_replies sc) 1 ?l0))"
    using c by (auto simp: confirmLeadership_def Let_def case_prod_unfold split: if_splits)
  with confirm_replies_count [of env ?t "rs_replies sc" 1 ?l0] waitForReadIndex_applied [OF w] lead
  show ?thesis by (auto simp: Let_def)
qed

definition demo_read :: read_script where
  "demo_read = \<lparr>rs_begun = [], rs_replies = [([], Some confirmed), ([], None)], rs_after = [], rs_start = 0,
     rs_polls = [\<lparr>pl_now = 5, pl_until = 5, pl_before = [], pl_during = []\<rparr>]\<rparr>"

definition read_ok :: "unit result option \<Rightarrow> bool" where
  "read_ok x = (case x of Some (Inr _) \<Rightarrow> True | _ \<Rightarrow> False)"

lemma read_okD: "read_ok x \<Longrightarrow> x = Some (Inr ())"
  by (auto simp: read_ok_def split: option.splits sum.splits)

lemma read_barrier_holds_witness: "commitIndex (lv_node demo_leader) \<le> lastApplied (lv_node (snd
    (EnsureLinearizableRead demo_env 0 demo_read demo_leader))) \<and> IsLeader (lv_node demo_leader)"
proof -
  have "read_ok (fst (EnsureLinearizableRead demo_env 0 demo_read demo_leader))" by code_simp
  then have "EnsureLinearizableRead demo_env 0 demo_read demo_leader
      = (Some (Inr ()), snd (EnsureLinearizableRead demo_env 0 demo_read demo_leader))"
    by (simp add: prod_eq_iff read_okD)
  from read_barrier_holds [OF this] show ?thesis by (simp add: Let_def)
qed

text \<open>
  A new leader may read stale data. A leader of term 1 commits the start of a match with
  the follower \<open>B\<close> and answers the caller. \<open>B\<close> wins term 2, copies its log to \<open>C\<close> and then
  reads: \<open>C\<close> confirms the term, so the read succeeds, but the commit index of \<open>B\<close> has
  not moved, and the match is not in the state. (The protocol asks a new leader to commit an
  entry of its own term before it answers reads.)
\<close>

definition reply_of :: "append_entries_reply result \<Rightarrow> append_entries_reply option" where
  "reply_of r = (case r of Inl _ \<Rightarrow> None | Inr reply \<Rightarrow> Some reply)"

text \<open>One round of a leader with the peer of its \<open>k\<close>-th task: both nodes afterwards.\<close>

definition round_with ::
  "nat \<Rightarrow> nat \<Rightarrow> (local_fsm, unit) live \<Rightarrow> (local_fsm, unit) raft_node \<Rightarrow> (local_fsm, unit) live \<times> (local_fsm, unit) raft_node" where
  "round_with trm k l peer =
     (let l1 = live_run demo_env [EvTask k False] (replicateAndCommit trm (l\<lparr>lv_tasks := []\<rparr>)) in
      case lv_calls l1 of
        (_, _, args) # _ \<Rightarrow>
          (case AppendEntries demo_env args peer of
             (r, peer1) \<Rightarrow> (live_run demo_env [EvReply 0 (reply_of r)] l1, peer1))
      | [] \<Rightarrow> (l1, peer))"

definition stale_read :: "string option \<times> bool \<times> local_fsm result option" where
  "stale_read =
     (let fresh = (\<lambda>i. NewRaftNode i demo_peers (Map.empty :: local_fsm));
          a0 = started (runElection [Some \<lparr>rvr_Term = 1, rvr_VoteGranted = True\<rparr>] (fresh ''A''));
          (_, a1) = propose_live demo_env (start_cmd ''g'') a0;
          (a2, b0) = round_with 1 0 a1 (fresh ''B'');
          answer = fst (waitForApply 1 0 (lv_node a2));
          (vote, c0) = (case startElection b0 of
              (Some (args, _), _) \<Rightarrow> RequestVote args (fresh ''C'')
            | _ \<Rightarrow> (\<lparr>rvr_Term = 0, rvr_VoteGranted = False\<rparr>, fresh ''C''));
          (b1, c1) = round_with 2 1 (started (runElection [Some vote] b0)) c0;
          (b2, c2) = round_with 2 1 b1 c1;
          sure = (case confirm_args 2 (commitIndex (lv_node b2)) (lv_node b2) of
                    None \<Rightarrow> None
                  | Some args \<Rightarrow> reply_of (fst (AppendEntries demo_env args c2)))
      in (answered_match (map_option Inr answer), sure = Some \<lparr>aer_Term = 2, aer_Success = True\<rparr>,
          fst (ReadLinearizableState demo_env Some (demo_read\<lparr>rs_replies := [([], sure), ([], None)]\<rparr>) b2)))"

lemma new_leader_reads_stale:
  "fst stale_read = Some ''g'' \<and> fst (snd stale_read) \<and>
   (case snd (snd stale_read) of Some (Inr f) \<Rightarrow> f ''g'' = None | _ \<Rightarrow> False)"
  by code_simp

subsection \<open>Waiting ends\<close>

text \<open>\<open>paced d t ps\<close>: the clock is read at \<open>t\<close> or later, and every sleep takes at least \<open>d\<close>.\<close>

fun paced :: "int \<Rightarrow> int \<Rightarrow> poll list \<Rightarrow> bool" where
  "paced d t [] = True"
| "paced d t (p # ps) = (t \<le> pl_now p \<and> paced d (pl_now p + d) ps)"

lemma paced_mono: "paced d t ps \<Longrightarrow> u \<le> t \<Longrightarrow> paced d u ps"
  by (cases ps) auto

lemma waitForCommit_ends:
  "paced d t ps \<Longrightarrow> deadline \<le> t + int (length ps) * d - d \<Longrightarrow> ps \<noteq> [] \<Longrightarrow> 0 \<le> d \<Longrightarrow>
    fst (waitForCommit env i deadline ps l) \<noteq> None \<or> lv_crashed (snd (waitForCommit env i deadline ps l)) \<noteq> None"
proof (induction ps arbitrary: t l)
  case (Cons p ps)
  show ?case
  proof (cases "ps = []")
    case False
    with Cons.prems have "paced d (pl_now p + d) ps" "deadline \<le> pl_now p + d + int (length ps) * d - d"
      by (simp_all add: algebra_simps)
    from Cons.IH [OF this False Cons.prems(4)] show ?thesis by simp
  qed (use Cons.prems in simp)
qed simp

lemma waitForReadIndex_ends:
  "paced d t ps \<Longrightarrow> deadline \<le> t + int (length ps) * d - d \<Longrightarrow> ps \<noteq> [] \<Longrightarrow> 0 \<le> d \<Longrightarrow>
    fst (waitForReadIndex env i deadline ps l) \<noteq> None \<or> lv_crashed (snd (waitForReadIndex env i deadline ps l)) \<noteq> None"
proof (induction ps arbitrary: t l)
  case (Cons p ps)
  show ?case
  proof (cases "ps = []")
    case False
    with Cons.prems have "paced d (pl_now p + d) ps" "deadline \<le> pl_now p + d + int (length ps) * d - d"
      by (simp_all add: algebra_simps)
    from Cons.IH [OF this False Cons.prems(4)] show ?thesis by simp
  qed (use Cons.prems in simp)
qed simp

lemma awaitApply_ends: "fst (awaitApply env i d x l) \<noteq> None \<or> lv_crashed (snd (awaitApply env i d x l)) \<noteq> None"
  by (auto simp: awaitApply_def Let_def split: prod.split option.split)

lemma propose_ends:
  assumes "\<And>i l1. fst (waitForCommit env i (sc_start sc + timeout) (sc_polls sc) l1) \<noteq> None \<or>
      lv_crashed (snd (waitForCommit env i (sc_start sc + timeout) (sc_polls sc) l1)) \<noteq> None"
  shows "fst (ProposeAndWaitTimeout env cmd timeout sc l) \<noteq> None \<or>
    lv_crashed (snd (ProposeAndWaitTimeout env cmd timeout sc l)) \<noteq> None"
proof (cases "propose_live env cmd l")
  case (Pair r l1)
  show ?thesis
  proof (cases r)
    case (Inr i)
    let ?l0 = "live_run env (sc_proposed sc) l1"
    obtain x l2 where w: "waitForCommit env i (sc_start sc + timeout) (sc_polls sc) ?l0 = (x, l2)" by force
    with assms [of i ?l0] have x: "x \<noteq> None \<or> lv_crashed l2 \<noteq> None" by simp
    let ?l3 = "live_run env (sc_committed sc) l2"
    from awaitApply_ends [of env i "sc_during sc" "sc_expired sc" ?l3] x show ?thesis
      by (cases x) (auto simp: ProposeAndWaitTimeout_def Pair Inr w Let_def split: option.split sum.split)
  qed (simp add: ProposeAndWaitTimeout_def Pair)
qed

text \<open>
  C12: A caller never waits for ever. With the default timeout of two seconds, and sleeps
  that take at least their 10 and 5 milliseconds, \<open>ProposeAndWait\<close> returns within 201
  polls and a read within 401, whatever the peers do, replies that never come included.
\<close>

theorem waiting_ends:
  assumes "paced (10 * millisecond) (sc_start sc) (sc_polls sc)" "201 \<le> length (sc_polls sc)"
    "paced (5 * millisecond) (rs_start rs) (rs_polls rs)" "401 \<le> length (rs_polls rs)"
  shows "(fst (ProposeAndWait env cmd sc l) \<noteq> None \<or> lv_crashed (snd (ProposeAndWait env cmd sc l)) \<noteq> None) \<and>
    (fst (EnsureLinearizableRead env 0 rs l) \<noteq> None \<or> lv_crashed (snd (EnsureLinearizableRead env 0 rs l)) \<noteq> None)"
proof
  have ne: "sc_polls sc \<noteq> []" "rs_polls rs \<noteq> []" using assms(2,4) by auto
  have "fst (waitForCommit env i (sc_start sc + defaultProposeTimeout) (sc_polls sc) l1) \<noteq> None \<or>
      lv_crashed (snd (waitForCommit env i (sc_start sc + defaultProposeTimeout) (sc_polls sc) l1)) \<noteq> None" for i l1
    by (rule waitForCommit_ends [OF assms(1) _ ne(1)])
      (use assms(2) in \<open>simp_all add: defaultProposeTimeout_def second_def millisecond_def\<close>)
  from propose_ends [OF this] show "fst (ProposeAndWait env cmd sc l) \<noteq> None \<or> lv_crashed (snd (ProposeAndWait env cmd sc l)) \<noteq> None"
    unfolding ProposeAndWait_def .
  have "fst (waitForReadIndex env i (rs_start rs + defaultProposeTimeout) (rs_polls rs) l1) \<noteq> None \<or>
      lv_crashed (snd (waitForReadIndex env i (rs_start rs + defaultProposeTimeout) (rs_polls rs) l1)) \<noteq> None" for i l1
    by (rule waitForReadIndex_ends [OF assms(3) _ ne(2)])
      (use assms(4) in \<open>simp_all add: defaultProposeTimeout_def second_def millisecond_def\<close>)
  then show "fst (EnsureLinearizableRead env 0 rs l) \<noteq> None \<or> lv_crashed (snd (EnsureLinearizableRead env 0 rs l)) \<noteq> None"
    by (auto simp: EnsureLinearizableRead_def Let_def split: prod.split sum.split)
qed

text \<open>A leader whose peers are silent: every poll runs a round, no call returns.\<close>

definition silent_poll :: "int \<Rightarrow> poll" where
  "silent_poll t = \<lparr>pl_now = t, pl_until = t, pl_before = [], pl_during = []\<rparr>"

lemma paced_map: "0 \<le> d \<Longrightarrow> paced d (int a * d) (map (\<lambda>k. silent_poll (int k * d)) [a ..< a + m])"
proof (induction m arbitrary: a)
  case (Suc m)
  have "[a ..< a + Suc m] = a # [Suc a ..< Suc a + m]" by (simp add: upt_conv_Cons del: upt_Suc)
  with Suc.IH [OF Suc.prems, of "Suc a"] show ?case by (simp add: silent_poll_def algebra_simps del: upt_Suc)
qed simp

definition silent_script :: script where
  "silent_script = (demo_script [] [])\<lparr>sc_polls := map (\<lambda>k. silent_poll (int k * (10 * millisecond))) [0 ..< 0 + 201]\<rparr>"

definition silent_read :: read_script where
  "silent_read = demo_read\<lparr>rs_polls := map (\<lambda>k. silent_poll (int k * (5 * millisecond))) [0 ..< 0 + 401]\<rparr>"

lemma waiting_ends_witness:
  "(\<exists>r. fst (ProposeAndWait demo_env noop silent_script demo_leader) = Some r) \<or>
     (\<exists>p. lv_crashed (snd (ProposeAndWait demo_env noop silent_script demo_leader)) = Some p)"
proof -
  have p: "paced (10 * millisecond) (sc_start silent_script) (sc_polls silent_script)"
    "paced (5 * millisecond) (rs_start silent_read) (rs_polls silent_read)"
    using paced_map [of "10 * millisecond" 0 201] paced_map [of "5 * millisecond" 0 401]
    by (simp_all add: silent_script_def silent_read_def demo_script_def demo_read_def millisecond_def del: upt_Suc)
  have n: "201 \<le> length (sc_polls silent_script)" "401 \<le> length (rs_polls silent_read)"
    by (simp_all add: silent_script_def silent_read_def)
  show ?thesis using conjunct1 [OF waiting_ends [OF p(1) n(1) p(2) n(2), where env = demo_env and cmd = noop and l = demo_leader]]
    by (simp only: not_None_eq)
qed

subsection \<open>A rejected membership change\<close>

text \<open>
  \<open>B\<close> is in the cluster already, so adding it is rejected when it is applied, and so is the
  commit of a configuration that follows. \<open>ProposeAddNode\<close> looks at neither result and
  reports success.
\<close>

lemma rejected_addition_reports_success:
  "read_ok (fst (ProposeAddNode demo_env ''B'' ''elsewhere''
      (demo_confirmed, demo_script [EvRound 0, EvTask 1 False, EvReply 0 (Some confirmed)] []) demo_leader))"
  "(case ProposeAndWait demo_env (Some (EncodeAddNodeCommand ''B'' ''elsewhere'')) demo_confirmed demo_leader of
      (Some (Inr (ApplyErr (Errorf msg))), _) \<Rightarrow> take 8 msg = ''node '' @ quote ''B'' | _ \<Rightarrow> False)"
  by code_simp+

end
