(* ===== verification/Storage.thy ===== *)
theory Storage
  imports Raft_Props
begin

section \<open>Raft storage\<close>

text \<open>
  Models \<open>pkg/database/storage.go\<close>: the snapshot file with its binary header, the log
  and metadata files in JSON, and \<open>writeFileAtomic\<close>. What a Raft node relies on is the
  locale \<open>raft_storage\<close>, interpreted on the files; inside it a node that was written to
  disk is shown to come back.

  A file holds bytes or a JSON text. The operating system is the argument \<open>os\<close>: the
  error, if any, of the \<open>k\<close>-th call with an operation and a path. A failed write leaves
  the temporary file alone here; nothing ever reads that file.
\<close>

unbundle bit_operations_syntax

subsection \<open>Files\<close>

datatype file_content = FileBytes bytes | FileText jtext

record disk =
  files :: "string \<rightharpoonup> file_content"
  os_clock :: nat
  dataDir :: string

type_synonym os_faults = "nat \<Rightarrow> string \<Rightarrow> string \<Rightarrow> go_error option"

definition os_call :: "os_faults \<Rightarrow> string \<Rightarrow> string \<Rightarrow> disk \<Rightarrow> go_error option \<times> disk" where
  "os_call os oper path d = (os (os_clock d) oper path, d\<lparr>os_clock := os_clock d + 1\<rparr>)"

definition NewRaftStorage :: "os_faults \<Rightarrow> string \<Rightarrow> disk \<Rightarrow> disk result" where
  "NewRaftStorage os dir d =
     (if dir = [] then Inl (Errorf ''raft storage data directory is required'')
      else case os_call os ''mkdir'' dir d of
        (Some e, _) \<Rightarrow> Inl (Wrapf ''create raft storage directory: '' e)
      | (None, d1) \<Rightarrow> Inr (d1\<lparr>dataDir := dir\<rparr>))"

definition snapshotPath :: "disk \<Rightarrow> string" where "snapshotPath d = dataDir d @ ''/raft.snapshot''"
definition logPath :: "disk \<Rightarrow> string" where "logPath d = dataDir d @ ''/raft.log''"
definition metaPath :: "disk \<Rightarrow> string" where "metaPath d = dataDir d @ ''/raft.meta''"

definition writeFileAtomic ::
  "os_faults \<Rightarrow> string \<Rightarrow> string \<Rightarrow> file_content \<Rightarrow> disk \<Rightarrow> go_error option \<times> disk" where
  "writeFileAtomic os tmp final payload d =
     (case os_call os ''write'' tmp d of
        (Some e, d1) \<Rightarrow> (Some (Wrapf ''write temp file: '' e), d1)
      | (None, d1) \<Rightarrow>
          let d2 = d1\<lparr>files := (files d1)(tmp \<mapsto> payload)\<rparr> in
          (case os_call os ''rename'' tmp d2 of
             (Some e, d3) \<Rightarrow>
               (Some (Wrapf ''rename temp file: '' e),
                (case os_call os ''remove'' tmp d3 of
                   (Some _, d4) \<Rightarrow> d4
                 | (None, d4) \<Rightarrow> d4\<lparr>files := (files d4)(tmp := None)\<rparr>))
           | (None, d3) \<Rightarrow> (None, d3\<lparr>files := (files d3)(tmp := None, final \<mapsto> payload)\<rparr>)))"

text \<open>Reading: \<open>Inr None\<close> is a file that does not exist.\<close>

definition read_file :: "os_faults \<Rightarrow> string \<Rightarrow> disk \<Rightarrow> file_content option result" where
  "read_file os path d =
     (case os (os_clock d) ''read'' path of
        Some e \<Rightarrow> Inl e
      | None \<Rightarrow> Inr (files d path))"

definition HasSnapshot :: "os_faults \<Rightarrow> disk \<Rightarrow> bool result" where
  "HasSnapshot os d =
     (case os (os_clock d) ''stat'' (snapshotPath d) of
        Some e \<Rightarrow> Inl e
      | None \<Rightarrow> Inr (files d (snapshotPath d) \<noteq> None))"

subsection \<open>The snapshot file\<close>

definition snapshotFileMagic :: "32 word" where "snapshotFileMagic = 0x474D534E"
definition snapshotFileVersion :: "8 word" where "snapshotFileVersion = 1"

definition be64 :: "64 word \<Rightarrow> bytes" where
  "be64 w = be32 (ucast (drop_bit 32 w)) @ be32 (ucast w)"

definition un_be64 :: "bytes \<Rightarrow> 64 word" where
  "un_be64 bs = foldl (\<lambda>a b. push_bit 8 a OR ucast b) 0 bs"

definition encodeSnapshotFile :: "nat \<Rightarrow> nat \<Rightarrow> bytes \<Rightarrow> bytes result" where
  "encodeSnapshotFile i t data =
     (if length data > 2 ^ 32 - 1 then Inl (Errorf ''snapshot payload exceeds maximum size'')
      else Inr (be32 snapshotFileMagic @ [snapshotFileVersion] @ be64 (of_nat i) @ be64 (of_nat t)
                @ be32 (of_nat (length data)) @ data))"

text \<open>\<open>io.ReadFull\<close> of \<open>n\<close> bytes, with its two errors.\<close>

definition read_full :: "nat \<Rightarrow> bytes \<Rightarrow> (bytes \<times> bytes) result" where
  "read_full n bs = (case read_n n bs of None \<Rightarrow> Inl (short_read bs) | Some p \<Rightarrow> Inr p)"

definition decodeSnapshotFile :: "bytes \<Rightarrow> snapshot_record result" where
  "decodeSnapshotFile bs =
     (case read_full 25 bs of
        Inl e \<Rightarrow> Inl (Wrapf ''read snapshot header: '' e)
      | Inr (header, rest) \<Rightarrow>
          if un_be32 (take 4 header) \<noteq> snapshotFileMagic then Inl (Errorf ''invalid snapshot magic'')
          else if header ! 4 \<noteq> snapshotFileVersion then
            Inl (Errorf (''unsupported snapshot version '' @ nat_dec (unat (header ! 4))))
          else
            let i = unat (un_be64 (take 8 (drop 5 header)));
                t = unat (un_be64 (take 8 (drop 13 header)));
                n = unat (un_be32 (take 4 (drop 21 header))) in
            if n = 0 then Inr \<lparr>sr_LastIncludedIndex = i, sr_LastIncludedTerm = t, sr_Data = []\<rparr>
            else (case read_full n rest of
                    Inl e \<Rightarrow> Inl (Wrapf ''read snapshot payload: '' e)
                  | Inr (data, _) \<Rightarrow>
                      Inr \<lparr>sr_LastIncludedIndex = i, sr_LastIncludedTerm = t, sr_Data = data\<rparr>))"

definition PersistSnapshot :: "os_faults \<Rightarrow> nat \<Rightarrow> nat \<Rightarrow> bytes \<Rightarrow> disk \<Rightarrow> go_error option \<times> disk" where
  "PersistSnapshot os i t data d =
     (case encodeSnapshotFile i t data of
        Inl e \<Rightarrow> (Some e, d)
      | Inr payload \<Rightarrow>
          (case writeFileAtomic os (snapshotPath d @ ''.tmp'') (snapshotPath d) (FileBytes payload) d of
             (Some e, d1) \<Rightarrow> (Some (Wrapf ''persist snapshot: '' e), d1)
           | (None, d1) \<Rightarrow> (None, d1)))"

text \<open>The snapshot file only ever holds bytes; a text there is not a header.\<close>

definition LoadSnapshot :: "os_faults \<Rightarrow> disk \<Rightarrow> snapshot_record option result" where
  "LoadSnapshot os d =
     (case read_file os (snapshotPath d) d of
        Inl e \<Rightarrow> Inl (Wrapf ''open snapshot: '' e)
      | Inr None \<Rightarrow> Inr None
      | Inr (Some c) \<Rightarrow>
          (case decodeSnapshotFile (case c of FileBytes bs \<Rightarrow> bs | FileText _ \<Rightarrow> []) of
             Inl e \<Rightarrow> Inl (Wrapf ''decode snapshot: '' e)
           | Inr r \<Rightarrow> Inr (Some r)))"

subsection \<open>The log and metadata files\<close>

definition bytes_json :: "jtext \<Rightarrow> json" where
  "bytes_json t = (case t of None \<Rightarrow> JNull | Some j \<Rightarrow> JB64 j)"

definition entry_json :: "log_entry \<Rightarrow> json" where
  "entry_json e =
     JObj [(''index'', JInt (int (le_Index e))), (''term'', JInt (int (le_Term e))),
           (''command'', bytes_json (le_Command e))]"

definition entry_field :: "string \<Rightarrow> json \<Rightarrow> log_entry \<Rightarrow> log_entry option" where
  "entry_field k j e =
     (if key_is ''index'' k then map_option (\<lambda>v. e\<lparr>le_Index := v\<rparr>) (un_uint j (le_Index e))
      else if key_is ''term'' k then map_option (\<lambda>v. e\<lparr>le_Term := v\<rparr>) (un_uint j (le_Term e))
      else if key_is ''command'' k then map_option (\<lambda>v. e\<lparr>le_Command := v\<rparr>) (un_bytes j (le_Command e))
      else Some e)"

definition zero_entry :: log_entry where
  "zero_entry = \<lparr>le_Index = 0, le_Term = 0, le_Command = None\<rparr>"

definition meta_json :: "raft_meta \<Rightarrow> json" where
  "meta_json m =
     JObj [(''snapshot_index'', JInt (int (rm_SnapshotIndex m))), (''snapshot_term'', JInt (int (rm_SnapshotTerm m))),
           (''commit_index'', JInt (int (rm_CommitIndex m))), (''last_applied'', JInt (int (rm_LastApplied m))),
           (''current_term'', JInt (int (rm_CurrentTerm m))), (''voted_for'', JStr (rm_VotedFor m))]"

definition meta_field :: "string \<Rightarrow> json \<Rightarrow> raft_meta \<Rightarrow> raft_meta option" where
  "meta_field k j m =
     (if key_is ''snapshot_index'' k then map_option (\<lambda>v. m\<lparr>rm_SnapshotIndex := v\<rparr>) (un_uint j (rm_SnapshotIndex m))
      else if key_is ''snapshot_term'' k then map_option (\<lambda>v. m\<lparr>rm_SnapshotTerm := v\<rparr>) (un_uint j (rm_SnapshotTerm m))
      else if key_is ''commit_index'' k then map_option (\<lambda>v. m\<lparr>rm_CommitIndex := v\<rparr>) (un_uint j (rm_CommitIndex m))
      else if key_is ''last_applied'' k then map_option (\<lambda>v. m\<lparr>rm_LastApplied := v\<rparr>) (un_uint j (rm_LastApplied m))
      else if key_is ''current_term'' k then map_option (\<lambda>v. m\<lparr>rm_CurrentTerm := v\<rparr>) (un_uint j (rm_CurrentTerm m))
      else if key_is ''voted_for'' k then map_option (\<lambda>v. m\<lparr>rm_VotedFor := v\<rparr>) (un_string j (rm_VotedFor m))
      else Some m)"

definition zero_meta :: raft_meta where
  "zero_meta = \<lparr>rm_SnapshotIndex = 0, rm_SnapshotTerm = 0, rm_CommitIndex = 0, rm_LastApplied = 0,
     rm_CurrentTerm = 0, rm_VotedFor = []\<rparr>"

definition PersistLog :: "os_faults \<Rightarrow> log_entry list \<Rightarrow> raft_meta \<Rightarrow> disk \<Rightarrow> go_error option \<times> disk" where
  "PersistLog os entries meta d =
     (case writeFileAtomic os (logPath d @ ''.tmp'') (logPath d) (FileText (Some (JArr (map entry_json entries)))) d of
        (Some e, d1) \<Rightarrow> (Some (Wrapf ''persist log: '' e), d1)
      | (None, d1) \<Rightarrow>
          (case writeFileAtomic os (metaPath d1 @ ''.tmp'') (metaPath d1) (FileText (Some (meta_json meta))) d1 of
             (Some e, d2) \<Rightarrow> (Some (Wrapf ''persist raft meta: '' e), d2)
           | (None, d2) \<Rightarrow> (None, d2)))"

definition TruncateLog :: "os_faults \<Rightarrow> log_entry list \<Rightarrow> raft_meta \<Rightarrow> disk \<Rightarrow> go_error option \<times> disk" where
  "TruncateLog os entries meta d = PersistLog os entries meta d"

text \<open>A file of bytes is no JSON text; an empty file is treated as a missing one.\<close>

definition text_of :: "file_content \<Rightarrow> jtext" where
  "text_of c = (case c of FileText t \<Rightarrow> t | FileBytes bs \<Rightarrow> (if bs = [] then None else Some JBad))"

definition loadLogLocked :: "os_faults \<Rightarrow> disk \<Rightarrow> log_entry list result" where
  "loadLogLocked os d =
     (case read_file os (logPath d) d of
        Inl e \<Rightarrow> Inl (Wrapf ''read log: '' e)
      | Inr None \<Rightarrow> Inr []
      | Inr (Some c) \<Rightarrow>
          (case text_of c of
             None \<Rightarrow> Inr []
           | Some j \<Rightarrow>
               (case un_list (un_struct entry_field) zero_entry j [] of
                  None \<Rightarrow> Inl (Wrapf ''decode log: '' ErrJson)
                | Some es \<Rightarrow> Inr es)))"

definition loadMetaLocked :: "os_faults \<Rightarrow> disk \<Rightarrow> raft_meta option result" where
  "loadMetaLocked os d =
     (case read_file os (metaPath d) d of
        Inl e \<Rightarrow> Inl (Wrapf ''read raft meta: '' e)
      | Inr None \<Rightarrow> Inr None
      | Inr (Some c) \<Rightarrow>
          (case text_of c of
             None \<Rightarrow> Inr None
           | Some j \<Rightarrow>
               (case un_struct meta_field j zero_meta of
                  None \<Rightarrow> Inl (Wrapf ''decode raft meta: '' ErrJson)
                | Some m \<Rightarrow> Inr (Some m))))"

definition LoadLog :: "os_faults \<Rightarrow> disk \<Rightarrow> (log_entry list \<times> raft_meta option) result" where
  "LoadLog os d =
     (case loadLogLocked os d of
        Inl e \<Rightarrow> Inl e
      | Inr es \<Rightarrow> (case loadMetaLocked os d of Inl e \<Rightarrow> Inl e | Inr mo \<Rightarrow> Inr (es, mo)))"

subsection \<open>Codec round trips\<close>

lemma un_be64_be64 [simp]: "un_be64 (be64 w) = w"
proof (rule bit_word_eqI)
  fix n assume "n < LENGTH(64)"
  then consider "n < 8" | "8 \<le> n" "n < 16" | "16 \<le> n" "n < 24" | "24 \<le> n" "n < 32"
    | "32 \<le> n" "n < 40" | "40 \<le> n" "n < 48" | "48 \<le> n" "n < 56" | "56 \<le> n" "n < 64" by fastforce
  then show "bit (un_be64 (be64 w)) n = bit w n"
    by cases (auto simp: un_be64_def be64_def be32_def bit_simps)
qed

lemma length_be64 [simp]: "length (be64 w) = 8"
  by (simp add: be64_def)

lemma unat_64: "n < 2 ^ 64 \<Longrightarrow> unat (of_nat n :: 64 word) = n"
  by (simp add: unat_of_nat)

lemma unat_32: "n < 2 ^ 32 \<Longrightarrow> unat (of_nat n :: 32 word) = n"
  by (simp add: unat_of_nat)

lemma snapshot_file_round_trip:
  assumes "encodeSnapshotFile i t data = Inr bs" "i < 2 ^ 64" "t < 2 ^ 64"
  shows "decodeSnapshotFile bs = Inr \<lparr>sr_LastIncludedIndex = i, sr_LastIncludedTerm = t, sr_Data = data\<rparr>"
proof -
  let ?h = "be32 snapshotFileMagic @ [snapshotFileVersion] @ be64 (of_nat i) @ be64 (of_nat t) @ be32 (of_nat (length data))"
  from assms(1) have bs: "bs = ?h @ data" and len: "length data < 2 ^ 32"
    by (auto simp: encodeSnapshotFile_def split: if_splits)
  have "read_full 25 bs = Inr (?h, data)"
    unfolding bs read_full_def by (subst read_n_append) simp_all
  moreover have "take 4 ?h = be32 snapshotFileMagic" "?h ! 4 = snapshotFileVersion"
    "take 8 (drop 5 ?h) = be64 (of_nat i)" "take 8 (drop 13 ?h) = be64 (of_nat t)"
    "take 4 (drop 21 ?h) = be32 (of_nat (length data))"
    by (simp_all add: nth_append)
  moreover have "read_full (length data) data = Inr (data, [])"
    by (simp add: read_full_def read_n_all)
  ultimately show ?thesis
    using len by (simp add: decodeSnapshotFile_def Let_def unat_64 [OF assms(2)] unat_64 [OF assms(3)] unat_32 [OF len])
qed

definition entry_fits :: "log_entry \<Rightarrow> bool" where
  "entry_fits e = (le_Index e < 2 ^ 64 \<and> le_Term e < 2 ^ 64)"

definition meta_fits :: "raft_meta \<Rightarrow> bool" where
  "meta_fits m = (rm_SnapshotIndex m < 2 ^ 64 \<and> rm_SnapshotTerm m < 2 ^ 64 \<and> rm_CommitIndex m < 2 ^ 64
     \<and> rm_LastApplied m < 2 ^ 64 \<and> rm_CurrentTerm m < 2 ^ 64)"

lemma un_uint_int: "n < 2 ^ 64 \<Longrightarrow> un_uint (JInt (int n)) old = Some n"
  by (simp add: un_uint_def)

lemma un_bytes_json: "un_bytes (bytes_json t) old = Some t"
  by (cases t) (simp_all add: un_bytes_def bytes_json_def)

lemma storage_keys:
  "\<not> key_is ''index'' ''term''" "\<not> key_is ''index'' ''command''" "\<not> key_is ''term'' ''command''"
  "\<not> key_is ''snapshot_index'' ''snapshot_term''" "\<not> key_is ''snapshot_index'' ''commit_index''"
  "\<not> key_is ''snapshot_index'' ''last_applied''" "\<not> key_is ''snapshot_index'' ''current_term''"
  "\<not> key_is ''snapshot_index'' ''voted_for''" "\<not> key_is ''snapshot_term'' ''commit_index''"
  "\<not> key_is ''snapshot_term'' ''last_applied''" "\<not> key_is ''snapshot_term'' ''current_term''"
  "\<not> key_is ''snapshot_term'' ''voted_for''" "\<not> key_is ''commit_index'' ''last_applied''"
  "\<not> key_is ''commit_index'' ''current_term''" "\<not> key_is ''commit_index'' ''voted_for''"
  "\<not> key_is ''last_applied'' ''current_term''" "\<not> key_is ''last_applied'' ''voted_for''"
  "\<not> key_is ''current_term'' ''voted_for''"
  by (simp_all add: key_is_def lower_char_def)

lemma un_entry_json: "entry_fits e \<Longrightarrow> un_struct entry_field (entry_json e) zero_entry = Some e"
  by (cases e) (simp add: un_struct_def entry_json_def entry_field_def storage_keys un_uint_int un_bytes_json
    entry_fits_def zero_entry_def)

lemma un_log_json:
  "\<forall>e \<in> set es. entry_fits e \<Longrightarrow> un_list (un_struct entry_field) zero_entry (JArr (map entry_json es)) [] = Some es"
  by (simp add: un_list_def un_elems_map un_entry_json)

lemma un_meta_json: "meta_fits m \<Longrightarrow> un_struct meta_field (meta_json m) zero_meta = Some m"
  by (cases m) (simp add: un_struct_def meta_json_def meta_field_def storage_keys un_uint_int un_string_def
    meta_fits_def zero_meta_def)

subsection \<open>What a write does to the files\<close>

lemma os_call_files [simp]:
  "files (snd (os_call os oper p d)) = files d" "dataDir (snd (os_call os oper p d)) = dataDir d"
  by (simp_all add: os_call_def)

lemma writeFileAtomic_files:
  assumes "writeFileAtomic os tmp final c d = (eo, d')" "tmp \<noteq> final"
  shows "dataDir d' = dataDir d" "files d' final = (if eo = None then Some c else files d final)"
    "p \<noteq> tmp \<Longrightarrow> p \<noteq> final \<Longrightarrow> files d' p = files d p"
  using assms by (auto simp: writeFileAtomic_def os_call_def Let_def split: option.splits)

lemma paths_distinct:
  "snapshotPath d \<noteq> snapshotPath d @ ''.tmp''" "logPath d \<noteq> logPath d @ ''.tmp''" "metaPath d \<noteq> metaPath d @ ''.tmp''"
  "logPath d \<noteq> snapshotPath d" "metaPath d \<noteq> snapshotPath d" "logPath d \<noteq> metaPath d"
  "logPath d \<noteq> snapshotPath d @ ''.tmp''" "metaPath d \<noteq> snapshotPath d @ ''.tmp''"
  "snapshotPath d \<noteq> logPath d @ ''.tmp''" "metaPath d \<noteq> logPath d @ ''.tmp''"
  "snapshotPath d \<noteq> metaPath d @ ''.tmp''" "logPath d \<noteq> metaPath d @ ''.tmp''"
  by (simp_all add: snapshotPath_def logPath_def metaPath_def)

lemma paths_cong: "dataDir d' = dataDir d \<Longrightarrow> snapshotPath d' = snapshotPath d \<and> logPath d' = logPath d \<and> metaPath d' = metaPath d"
  by (simp add: snapshotPath_def logPath_def metaPath_def)

lemma PersistSnapshot_files:
  assumes "PersistSnapshot os i t data d = (eo, d')"
  shows "dataDir d' = dataDir d" "files d' (logPath d) = files d (logPath d)" "files d' (metaPath d) = files d (metaPath d)"
    "eo \<noteq> None \<Longrightarrow> files d' (snapshotPath d) = files d (snapshotPath d)"
    "eo = None \<Longrightarrow> \<exists>bs. encodeSnapshotFile i t data = Inr bs \<and> files d' (snapshotPath d) = Some (FileBytes bs)"
  using assms writeFileAtomic_files [OF _ paths_distinct(1) [THEN not_sym], of os d _ d] paths_distinct
  by (auto simp: PersistSnapshot_def split: sum.splits prod.splits option.splits)

lemma PersistLog_files:
  assumes "PersistLog os es m d = (eo, d')"
  shows "dataDir d' = dataDir d" "files d' (snapshotPath d) = files d (snapshotPath d)"
    "eo = None \<Longrightarrow> files d' (logPath d) = Some (FileText (Some (JArr (map entry_json es))))
      \<and> files d' (metaPath d) = Some (FileText (Some (meta_json m)))"
proof -
  let ?l = "FileText (Some (JArr (map entry_json es)))" and ?m = "FileText (Some (meta_json m))"
  obtain e1 d1 where w1: "writeFileAtomic os (logPath d @ ''.tmp'') (logPath d) ?l d = (e1, d1)" by fastforce
  note f1 = writeFileAtomic_files [OF w1 paths_distinct(2) [THEN not_sym]]
  obtain e2 d2 where w2: "writeFileAtomic os (metaPath d @ ''.tmp'') (metaPath d) ?m d1 = (e2, d2)" by fastforce
  note f2 = writeFileAtomic_files [OF w2 paths_distinct(3) [THEN not_sym]]
  note p = paths_cong [OF f1(1)] and ne = paths_distinct [of d] paths_distinct [of d, THEN not_sym]
  have run: "PersistLog os es m d = (case e1 of Some e \<Rightarrow> (Some (Wrapf ''persist log: '' e), d1)
      | None \<Rightarrow> (case e2 of Some e \<Rightarrow> (Some (Wrapf ''persist raft meta: '' e), d2) | None \<Rightarrow> (None, d2)))"
    using w1 w2 p by (simp add: PersistLog_def split: option.split)
  show "dataDir d' = dataDir d" using run assms f1(1) f2(1) by (auto split: option.splits)
  show "files d' (snapshotPath d) = files d (snapshotPath d)"
    using run assms f1(3) [of "snapshotPath d"] f2(3) [of "snapshotPath d"] ne by (auto split: option.splits)
  assume "eo = None"
  with run assms have "e1 = None" "e2 = None" "d' = d2" by (auto split: option.splits)
  then show "files d' (logPath d) = Some ?l \<and> files d' (metaPath d) = Some ?m"
    using f1(2) f2(2) f2(3) [of "logPath d"] ne by auto
qed

subsection \<open>The contract of a storage\<close>

text \<open>
  \<open>readable d\<close>: reading does not fail now. A saved snapshot and a saved log are what is
  loaded next, a failed save of the snapshot leaves the old one, and neither save touches
  the other file.
\<close>

locale raft_storage =
  fixes env :: "('s, 'd) raft_env" and readable :: "'d \<Rightarrow> bool"
  assumes snap_saved: "st_PersistSnapshot env i t b d = (None, d') \<Longrightarrow> readable d' \<Longrightarrow> i < 2 ^ 64 \<Longrightarrow> t < 2 ^ 64 \<Longrightarrow>
      st_LoadSnapshot env d' = Inr (Some \<lparr>sr_LastIncludedIndex = i, sr_LastIncludedTerm = t, sr_Data = b\<rparr>)"
    and snap_failed: "st_PersistSnapshot env i t b d = (Some e, d') \<Longrightarrow> readable d \<Longrightarrow> readable d' \<Longrightarrow>
      st_LoadSnapshot env d' = st_LoadSnapshot env d"
    and snap_keeps_log: "st_PersistSnapshot env i t b d = (eo, d') \<Longrightarrow> readable d \<Longrightarrow> readable d' \<Longrightarrow>
      st_LoadLog env d' = st_LoadLog env d"
    and log_saved: "st_TruncateLog env es m d = (None, d') \<Longrightarrow> readable d' \<Longrightarrow> (\<forall>e \<in> set es. entry_fits e) \<Longrightarrow>
      meta_fits m \<Longrightarrow> st_LoadLog env d' = Inr (es, Some m)"
    and log_keeps_snap: "st_TruncateLog env es m d = (eo, d') \<Longrightarrow> readable d \<Longrightarrow> readable d' \<Longrightarrow>
      st_LoadSnapshot env d' = st_LoadSnapshot env d"

text \<open>The node's numbers fit the 64 bits of the source, and the snapshot on disk is the node's.\<close>

definition node_fits :: "('s, 'd) raft_node \<Rightarrow> bool" where
  "node_fits n =
     ((\<forall>e \<in> set (raft_log n). entry_fits e) \<and> snapshotIndex n < 2 ^ 64 \<and> snapshotTerm n < 2 ^ 64
      \<and> commitIndex n < 2 ^ 64 \<and> lastApplied n < 2 ^ 64 \<and> CurrentTerm n < 2 ^ 64)"

definition snapshot_of :: "('s, 'd) raft_node \<Rightarrow> snapshot_record option" where
  "snapshot_of n =
     (if snapshotIndex n = 0 then None
      else Some \<lparr>sr_LastIncludedIndex = snapshotIndex n, sr_LastIncludedTerm = snapshotTerm n,
                 sr_Data = lastSnapshot n\<rparr>)"

text \<open>The state machine a node starts from: new, or restored from the snapshot.\<close>

definition boot_fsm :: "('s, 'd) raft_env \<Rightarrow> ('s, 'd) raft_node \<Rightarrow> 's \<Rightarrow> unit result \<times> 's" where
  "boot_fsm env n s0 = (case snapshot_of n of None \<Rightarrow> (Inr (), s0) | Some r \<Rightarrow> fsm_Restore env (sr_Data r) s0)"

lemma persisted_entries:
  assumes "log_wf n"
  shows "filter (\<lambda>e. \<not> le_Index e \<le> snapshotIndex n) (drop 1 (raft_log n)) = drop 1 (raft_log n)"
proof (rule filter_True, rule ballI)
  fix e assume "e \<in> set (drop 1 (raft_log n))"
  then obtain k where "k < length (raft_log n) - 1" "e = raft_log n ! Suc k" by (auto simp: in_set_conv_nth)
  with log_wf_nth [OF assms, of "Suc k"] show "\<not> le_Index e \<le> snapshotIndex n" by simp
qed

lemma log_tail:
  assumes "log_wf n"
  shows "map (\<lambda>i. raft_log n ! (i - snapshotIndex n)) [Suc (snapshotIndex n) ..< Suc (lastLogIndex n)] = drop 1 (raft_log n)"
    (is "map ?f ?is = _")
proof (rule nth_equalityI)
  have len: "raft_log n \<noteq> []" using assms by (simp add: log_wf_def)
  then show l: "length (map ?f ?is) = length (drop 1 (raft_log n))"
    by (simp add: log_wf_last [OF assms] del: upt_Suc)
  fix k assume "k < length (map ?f ?is)"
  with l show "map ?f ?is ! k = drop 1 (raft_log n) ! k"
    by (simp add: nth_upt del: upt_Suc)
qed

lemma apply_effect_entries:
  assumes "log_wf n"
  shows "apply_effect env n [Suc (snapshotIndex n) ..< Suc (lastLogIndex n)] s =
    foldl (\<lambda>s e. fsm_effect env e s) s (drop 1 (raft_log n))"
  unfolding apply_effect_def log_tail [OF assms, symmetric] foldl_map ..

text \<open>Replaying the log of a node that was rebuilt from the log of \<open>n\<close>.\<close>

lemma boot_replay:
  assumes wf: "log_wf n"
    and b: "raft_log b = \<lparr>le_Index = snapshotIndex n, le_Term = snapshotTerm n, le_Command = None\<rparr> # drop 1 (raft_log n)"
      "snapshotIndex b = snapshotIndex n" "snapshotTerm b = snapshotTerm n" "lastApplied b = snapshotIndex n"
      "commitIndex b = max (commitIndex n) (lastLogIndex n)"
  shows "log_wf (apply_loop env False b)" "lastApplied (apply_loop env False b) = lastLogIndex n"
    "MatchFSM (apply_loop env False b) = foldl (\<lambda>s e. fsm_effect env e s) (MatchFSM b) (drop 1 (raft_log n))"
proof -
  obtain x xs where n: "raft_log n = x # xs" using wf by (cases "raft_log n") (simp_all add: log_wf_def)
  with wf have idx: "map le_Index xs = [Suc (snapshotIndex n) ..< Suc (snapshotIndex n) + length xs]"
    by (simp add: log_wf_def upt_conv_Cons del: upt_Suc)
  have wfb: "log_wf b" using b n idx by (simp add: log_wf_def upt_conv_Cons del: upt_Suc)
  have len: "length (raft_log b) = length (raft_log n)" using b n by simp
  have last: "lastLogIndex b = lastLogIndex n"
    using log_wf_last [OF wfb] log_wf_last [OF wf] len b by simp
  have ge: "snapshotIndex n \<le> lastLogIndex n" using log_wf_last [OF wf] by simp
  have tgt: "apply_target b = lastLogIndex n" using b last ge by (simp add: apply_target_def)
  show "log_wf (apply_loop env False b)" by (rule apply_loop_wf [OF wfb])
  show "lastApplied (apply_loop env False b) = lastLogIndex n"
    using apply_loop_effect [OF wfb, of env False] tgt by simp
  have "MatchFSM (apply_loop env False b) = apply_effect env b [Suc (snapshotIndex b) ..< Suc (lastLogIndex b)] (MatchFSM b)"
    using apply_loop_effect [OF wfb, of env False] tgt b last by (simp del: upt_Suc)
  also have "\<dots> = foldl (\<lambda>s e. fsm_effect env e s) (MatchFSM b) (drop 1 (raft_log b))"
    by (rule apply_effect_entries [OF wfb])
  finally show "MatchFSM (apply_loop env False b) = foldl (\<lambda>s e. fsm_effect env e s) (MatchFSM b) (drop 1 (raft_log n))"
    using b by simp
qed

context raft_storage
begin

lemma restart:
  assumes wf: "log_wf n" and st: "storage n = Some d" "storage n' = Some d'"
    and saved: "persistDurableState env n = (None, n')" and fits: "node_fits n"
    and rd: "readable d" "readable d'" and snap: "st_LoadSnapshot env d = Inr (snapshot_of n)"
    and boot: "boot_fsm env n s0 = (Inr (), s1)" and zero: "snapshotIndex n = 0 \<Longrightarrow> snapshotTerm n = 0"
  shows "\<exists>r. NewRaftNodeWithStorage env nid peers s0 (Some d') = Inr r
    \<and> snapshotIndex r = snapshotIndex n \<and> snapshotTerm r = snapshotTerm n
    \<and> drop 1 (raft_log r) = drop 1 (raft_log n) \<and> CurrentTerm r = CurrentTerm n \<and> VotedFor r = VotedFor n
    \<and> commitIndex r = max (commitIndex n) (lastLogIndex n) \<and> lastApplied r = lastLogIndex n
    \<and> MatchFSM r = foldl (\<lambda>s e. fsm_effect env e s) s1 (drop 1 (raft_log n)) \<and> log_wf r"
proof -
  let ?m = "\<lparr>rm_SnapshotIndex = snapshotIndex n, rm_SnapshotTerm = snapshotTerm n, rm_CommitIndex = commitIndex n,
    rm_LastApplied = lastApplied n, rm_CurrentTerm = CurrentTerm n, rm_VotedFor = VotedFor n\<rparr>"
  have tr: "st_TruncateLog env (drop 1 (raft_log n)) ?m d = (None, d')"
    using saved st unfolding persistDurableState_def Let_def persisted_entries [OF wf]
    by (auto split: prod.splits)
  have log: "st_LoadLog env d' = Inr (drop 1 (raft_log n), Some ?m)"
    using fits by (intro log_saved [OF tr rd(2)]) (auto simp: node_fits_def meta_fits_def dest: in_set_dropD)
  have sn: "st_LoadSnapshot env d' = Inr (snapshot_of n)"
    using log_keeps_snap [OF tr rd] snap by simp
  have es: "load_entries (snapshotIndex n) (drop 1 (raft_log n)) = drop 1 (raft_log n)"
    using persisted_entries [OF wf] by (simp add: load_entries_def)
  define n1 where "n1 = ((NewRaftNode nid peers s1)\<lparr>storage := Some d', snapshotIndex := snapshotIndex n,
    snapshotTerm := snapshotTerm n, lastApplied := snapshotIndex n,
    lastSnapshot := (case snapshot_of n of None \<Rightarrow> [] | Some r \<Rightarrow> sr_Data r)\<rparr> :: ('s, 'd) raft_node)"
  define b where "b = settle_indices (load_meta (Some ?m)
    (n1\<lparr>raft_log := \<lparr>le_Index = snapshotIndex n, le_Term = snapshotTerm n, le_Command = None\<rparr> # drop 1 (raft_log n)\<rparr>))"
  have run: "NewRaftNodeWithStorage env nid peers s0 (Some d') = Inr (apply_loop env False b)"
  proof (cases "snapshotIndex n = 0")
    case True
    with sn log es boot zero show ?thesis
      by (simp add: NewRaftNodeWithStorage_def bootstrapFromStorage_def snapshot_of_def boot_fsm_def n1_def b_def
        NewRaftNode_def Let_def)
  next
    case False
    with sn log es boot show ?thesis
      by (simp add: NewRaftNodeWithStorage_def bootstrapFromStorage_def snapshot_of_def boot_fsm_def n1_def b_def
        NewRaftNode_def Let_def)
  qed
  have ge: "snapshotIndex n \<le> lastLogIndex n" using log_wf_last [OF wf] by simp
  have lb: "lastLogIndex (n1\<lparr>raft_log := \<lparr>le_Index = snapshotIndex n, le_Term = snapshotTerm n, le_Command = None\<rparr>
      # drop 1 (raft_log n)\<rparr>) = lastLogIndex n"
    using wf by (cases "raft_log n") (auto simp: lastLogIndex_def log_wf_def upt_conv_Cons)
  have b: "raft_log b = \<lparr>le_Index = snapshotIndex n, le_Term = snapshotTerm n, le_Command = None\<rparr> # drop 1 (raft_log n)"
    "snapshotIndex b = snapshotIndex n" "snapshotTerm b = snapshotTerm n" "lastApplied b = snapshotIndex n"
    "commitIndex b = max (commitIndex n) (lastLogIndex n)" "MatchFSM b = s1"
    "CurrentTerm b = CurrentTerm n" "VotedFor b = VotedFor n"
    using ge lb by (auto simp: b_def settle_indices_def load_meta_def n1_def NewRaftNode_def Let_def lastLogIndex_def)
  note r = boot_replay [OF wf b(1-5), of env]
  show ?thesis
    unfolding run using r b by (simp add: raft_frame)
qed

end

subsection \<open>The files keep the contract\<close>

definition disk_env :: "os_faults \<Rightarrow> ('s, disk) raft_env \<Rightarrow> ('s, disk) raft_env" where
  "disk_env os base = base\<lparr>st_PersistSnapshot := PersistSnapshot os, st_TruncateLog := TruncateLog os,
     st_LoadSnapshot := LoadSnapshot os, st_LoadLog := LoadLog os\<rparr>"

definition disk_readable :: "os_faults \<Rightarrow> disk \<Rightarrow> bool" where
  "disk_readable os d = (\<forall>p \<in> {snapshotPath d, logPath d, metaPath d}. os (os_clock d) ''read'' p = None)"

lemma read_readable:
  assumes "disk_readable os d" "p \<in> {snapshotPath d, logPath d, metaPath d}"
  shows "read_file os p d = Inr (files d p)"
  using assms by (auto simp: read_file_def disk_readable_def)

lemma LoadSnapshot_readable:
  "disk_readable os d \<Longrightarrow> disk_readable os d' \<Longrightarrow> dataDir d' = dataDir d \<Longrightarrow>
     files d' (snapshotPath d) = files d (snapshotPath d) \<Longrightarrow> LoadSnapshot os d' = LoadSnapshot os d"
  using paths_cong [of d' d] by (simp add: LoadSnapshot_def read_readable)

lemma LoadLog_readable:
  "disk_readable os d \<Longrightarrow> disk_readable os d' \<Longrightarrow> dataDir d' = dataDir d \<Longrightarrow>
     files d' (logPath d) = files d (logPath d) \<Longrightarrow> files d' (metaPath d) = files d (metaPath d) \<Longrightarrow>
     LoadLog os d' = LoadLog os d"
proof -
  assume h: "disk_readable os d" "disk_readable os d'" "dataDir d' = dataDir d"
    "files d' (logPath d) = files d (logPath d)" "files d' (metaPath d) = files d (metaPath d)"
  note p = paths_cong [OF h(3)]
  have "loadLogLocked os d' = loadLogLocked os d" using h p by (simp add: loadLogLocked_def read_readable)
  moreover have "loadMetaLocked os d' = loadMetaLocked os d" using h p by (simp add: loadMetaLocked_def read_readable)
  ultimately show ?thesis by (simp add: LoadLog_def split: sum.split)
qed

interpretation disk: raft_storage "disk_env os base" "disk_readable os" for os base
proof (unfold_locales, simp_all add: disk_env_def TruncateLog_def)
  fix i t b d d' assume h: "PersistSnapshot os i t b d = (None, d')" "disk_readable os d'" "i < 18446744073709551616" "t < 18446744073709551616"
  from PersistSnapshot_files(5) [OF h(1)] obtain bs where "encodeSnapshotFile i t b = Inr bs"
    "files d' (snapshotPath d') = Some (FileBytes bs)"
    using paths_cong [OF PersistSnapshot_files(1) [OF h(1)]] by auto
  with snapshot_file_round_trip [of i t b bs] h show "LoadSnapshot os d' =
      Inr (Some \<lparr>sr_LastIncludedIndex = i, sr_LastIncludedTerm = t, sr_Data = b\<rparr>)"
    by (simp add: LoadSnapshot_def read_readable)
next
  fix i t b d e d' assume h: "PersistSnapshot os i t b d = (Some e, d')" "disk_readable os d" "disk_readable os d'"
  show "LoadSnapshot os d' = LoadSnapshot os d"
    using PersistSnapshot_files [OF h(1)] by (intro LoadSnapshot_readable [OF h(2,3)]) simp_all
next
  fix i t b d eo d' assume h: "PersistSnapshot os i t b d = (eo, d')" "disk_readable os d" "disk_readable os d'"
  show "LoadLog os d' = LoadLog os d"
    using PersistSnapshot_files [OF h(1)] by (intro LoadLog_readable [OF h(2,3)]) simp_all
next
  fix es m d d' assume h: "PersistLog os es m d = (None, d')" "disk_readable os d'" "\<forall>e \<in> set es. entry_fits e" "meta_fits m"
  note f = PersistLog_files [OF h(1)] and p = paths_cong [OF PersistLog_files(1) [OF h(1)]]
  show "LoadLog os d' = Inr (es, Some m)"
    using f p un_log_json [OF h(3)] un_meta_json [OF h(4)]
    by (simp add: LoadLog_def loadLogLocked_def loadMetaLocked_def read_readable [OF h(2)] text_of_def)
next
  fix es m d eo d' assume h: "PersistLog os es m d = (eo, d')" "disk_readable os d" "disk_readable os d'"
  show "LoadSnapshot os d' = LoadSnapshot os d"
    using PersistLog_files [OF h(1)] by (intro LoadSnapshot_readable [OF h(2,3)]) simp_all
qed

lemma files_restart:
  assumes "log_wf n" "storage n = Some d" "storage n' = Some d'" "node_fits n"
    and "persistDurableState (disk_env os base) n = (None, n')" "disk_readable os d" "disk_readable os d'"
    and "LoadSnapshot os d = Inr (snapshot_of n)" "snapshotIndex n = 0 \<longrightarrow> snapshotTerm n = 0"
    and "boot_fsm base n s0 = (Inr (), s1)"
  shows "\<exists>r. NewRaftNodeWithStorage (disk_env os base) nid peers s0 (Some d') = Inr r
    \<and> snapshotIndex r = snapshotIndex n \<and> snapshotTerm r = snapshotTerm n
    \<and> drop 1 (raft_log r) = drop 1 (raft_log n) \<and> CurrentTerm r = CurrentTerm n \<and> VotedFor r = VotedFor n
    \<and> commitIndex r = max (commitIndex n) (lastLogIndex n) \<and> lastApplied r = lastLogIndex n
    \<and> MatchFSM r = foldl (\<lambda>s e. fsm_effect base e s) s1 (drop 1 (raft_log n)) \<and> log_wf r"
proof -
  have ap: "fsm_Apply (disk_env os base) = fsm_Apply base" by (simp add: disk_env_def)
  have eff: "fsm_effect (disk_env os base) = fsm_effect base"
    by (intro ext) (simp only: fsm_effect_def ap)
  have boot: "boot_fsm (disk_env os base) n s0 = (Inr (), s1)"
    using assms(10) by (simp add: boot_fsm_def disk_env_def split: option.splits)
  have snap: "st_LoadSnapshot (disk_env os base) d = Inr (snapshot_of n)"
    using assms(8) by (simp add: disk_env_def)
  show ?thesis
    using disk.restart [OF assms(1-3,5,4,6,7) snap boot, of nid peers] assms(9) unfolding eff by simp
qed

subsection \<open>Properties\<close>

text \<open>
  C15: Restart: a node whose state was persisted and whose snapshot is the one on disk comes
  back from the files with the same snapshot position, log, term and vote, and its state
  machine is the snapshot with every entry of the log applied. That includes the entries
  that were never committed: the restarted node counts its whole log as committed.
\<close>

theorem restart_recovers_log:
  assumes "log_wf n" "storage n = Some d" "storage n' = Some d'" "node_fits n"
    and "persistDurableState (disk_env os base) n = (None, n')" "disk_readable os d" "disk_readable os d'"
    and "LoadSnapshot os d = Inr (snapshot_of n)" "snapshotIndex n = 0 \<longrightarrow> snapshotTerm n = 0"
    and "boot_fsm base n s0 = (Inr (), s1)"
  shows "\<exists>r. NewRaftNodeWithStorage (disk_env os base) nid peers s0 (Some d') = Inr r
    \<and> snapshotIndex r = snapshotIndex n \<and> snapshotTerm r = snapshotTerm n
    \<and> drop 1 (raft_log r) = drop 1 (raft_log n) \<and> CurrentTerm r = CurrentTerm n \<and> VotedFor r = VotedFor n
    \<and> commitIndex r = max (commitIndex n) (lastLogIndex n) \<and> lastApplied r = lastLogIndex n
    \<and> MatchFSM r = foldl (\<lambda>s e. fsm_effect base e s) s1 (drop 1 (raft_log n)) \<and> log_wf r"
  using assms by (rule files_restart)

definition no_faults :: os_faults where "no_faults k oper path = None"

definition empty_disk :: disk where
  "empty_disk = \<lparr>files = Map.empty, os_clock = 0, dataDir = ''raft''\<rparr>"

definition local_env :: "(local_fsm, disk) raft_env" where
  "local_env = disk_env no_faults
     \<lparr>fsm_Apply = LocalApply, fsm_CreateSnapshot = (\<lambda>s. Inl eof), fsm_Restore = Restore,
      st_PersistSnapshot = PersistSnapshot no_faults, st_TruncateLog = TruncateLog no_faults,
      st_LoadSnapshot = LoadSnapshot no_faults, st_LoadLog = LoadLog no_faults\<rparr>"

definition uncommitted_node :: "(local_fsm, disk) raft_node" where
  "uncommitted_node = (NewRaftNode ''A'' demo_peers Map.empty)\<lparr>storage := Some empty_disk, CurrentTerm := 1,
     raft_log := [zero_entry, demo_entry 1 1]\<rparr>"

lemma restart_recovers_log_witness:
  "\<exists>d r. NewRaftNodeWithStorage (disk_env no_faults local_env) ''A'' demo_peers Map.empty (Some d) = Inr r
     \<and> commitIndex uncommitted_node = 0 \<and> commitIndex r = 1 \<and> lastApplied r = 1"
proof -
  let ?e = "disk_env no_faults local_env" and ?n = "uncommitted_node"
  obtain n' where p: "persistDurableState ?e ?n = (None, n')" and "\<exists>d'. storage n' = Some d'"
    by (simp add: persistDurableState_def uncommitted_node_def disk_env_def TruncateLog_def PersistLog_def
      writeFileAtomic_def os_call_def no_faults_def Let_def)
  then obtain d' where d': "storage n' = Some d'" by blast
  have st: "storage ?n = Some empty_disk" by (simp add: uncommitted_node_def)
  have wf: "log_wf ?n" by (simp add: log_wf_def uncommitted_node_def NewRaftNode_def zero_entry_def demo_entry_def upt_rec)
  have fits: "node_fits ?n"
    by (simp add: node_fits_def entry_fits_def uncommitted_node_def NewRaftNode_def zero_entry_def demo_entry_def)
  have rd: "disk_readable no_faults d" for d by (simp add: disk_readable_def no_faults_def)
  have snap: "LoadSnapshot no_faults empty_disk = Inr (snapshot_of ?n)"
    by (simp add: LoadSnapshot_def read_file_def no_faults_def empty_disk_def snapshot_of_def uncommitted_node_def NewRaftNode_def)
  have zero: "snapshotIndex ?n = 0 \<longrightarrow> snapshotTerm ?n = 0" by (simp add: uncommitted_node_def NewRaftNode_def)
  have boot: "boot_fsm local_env ?n Map.empty = (Inr (), Map.empty)"
    by (simp add: boot_fsm_def snapshot_of_def uncommitted_node_def NewRaftNode_def)
  have "lastLogIndex ?n = 1" "commitIndex ?n = 0"
    by (simp_all add: lastLogIndex_def uncommitted_node_def demo_entry_def NewRaftNode_def)
  with restart_recovers_log [OF wf st d' fits p rd rd snap zero boot, of "''A''" demo_peers] show ?thesis by fastforce
qed



text \<open>A failure between the two files of a log save leaves the new log beside the old metadata.\<close>

lemma log_save_is_torn:
  "\<exists>os e d' m m'. TruncateLog os [demo_entry 1 1] m empty_disk = (Some e, d') \<and> m = zero_meta\<lparr>rm_CurrentTerm := 1\<rparr>
     \<and> LoadLog os d' = Inr ([demo_entry 1 1], m') \<and> m' \<noteq> Some m"
proof -
  let ?os = "(\<lambda>k oper p. if k = 2 then Some (ErrExternal ''disk full'') else None) :: os_faults"
  have fits: "\<forall>e \<in> set [demo_entry 1 1]. entry_fits e" by (simp add: demo_entry_def entry_fits_def)
  show ?thesis
    using un_log_json [OF fits]
    by (intro exI [of _ ?os])
      (simp add: TruncateLog_def PersistLog_def writeFileAtomic_def os_call_def Let_def LoadLog_def loadLogLocked_def
        loadMetaLocked_def read_file_def empty_disk_def logPath_def metaPath_def text_of_def)
qed

end
