(* ===== verification/View.thy ===== *)
theory View
  imports Session_Laws
begin

section \<open>The player-scoped view of a session\<close>

text \<open>
  Models \<open>pkg/models/view.go\<close>. \<open>ViewForPlayer\<close> hides what a player must not see: the
  tiles in the other hands and, while the match runs, those in the boneyard. The theorem
  at the end characterises exactly what a view depends on.
\<close>

definition view_hand :: "string \<Rightarrow> player_hand \<Rightarrow> player_hand" where
  "view_hand viewer h =
     (let base = \<lparr>hand_UID = [], hand_PlayerID = hand_PlayerID h, Tiles = [], RedactedTileCount = 0,
                  HasPassed = HasPassed h, IsReady = IsReady h, IsAbandoned = IsAbandoned h\<rparr> in
      if hand_PlayerID h = viewer then base\<lparr>Tiles := Tiles h\<rparr>
      else base\<lparr>RedactedTileCount := int (length (Tiles h))\<rparr>)"

text \<open>The nil receiver returns nil.\<close>

definition ViewForPlayer :: "string \<Rightarrow> game_session option \<Rightarrow> game_session option" where
  "ViewForPlayer viewer so =
     (case so of None \<Rightarrow> None | Some s \<Rightarrow>
        let v1 = s\<lparr>Hands := map (view_hand viewer) (Hands s)\<rparr>;
            v2 = (if Status s = SessionStatusCompleted then v1\<lparr>Boneyard := Boneyard s\<rparr>
                  else v1\<lparr>BoneyardCount := int (length (Boneyard s)), Boneyard := []\<rparr>)
        in Some (v2\<lparr>GameBoard := GameBoard s, Players := Players s, BoneyardRaw := None,
                    GameBoardRaw := None\<rparr>))"

text \<open>
  Two hands look alike to a viewer when they belong to the same player with the same
  flags and, the viewer's own hand apart, only their sizes agree.
\<close>

definition hand_alike :: "string \<Rightarrow> player_hand \<Rightarrow> player_hand \<Rightarrow> bool" where
  "hand_alike viewer h h' =
     (hand_PlayerID h = hand_PlayerID h' \<and> HasPassed h = HasPassed h' \<and> IsReady h = IsReady h' \<and>
      IsAbandoned h = IsAbandoned h' \<and>
      (if hand_PlayerID h = viewer then Tiles h = Tiles h' else length (Tiles h) = length (Tiles h')))"

definition session_alike :: "string \<Rightarrow> game_session \<Rightarrow> game_session \<Rightarrow> bool" where
  "session_alike viewer s s' =
     (sess_UID s = sess_UID s' \<and> SessionID s = SessionID s' \<and> Status s = Status s' \<and>
      Players s = Players s' \<and> GameBoard s = GameBoard s' \<and> LeftOpenValue s = LeftOpenValue s' \<and>
      RightOpenValue s = RightOpenValue s' \<and> CurrentTurn s = CurrentTurn s' \<and>
      MutationsLocked s = MutationsLocked s' \<and> list_all2 (hand_alike viewer) (Hands s) (Hands s') \<and>
      (if Status s = SessionStatusCompleted
       then Boneyard s = Boneyard s' \<and> BoneyardCount s = BoneyardCount s'
       else length (Boneyard s) = length (Boneyard s')))"

lemma view_hand_eq: "view_hand v h = view_hand v h' \<longleftrightarrow> hand_alike v h h'"
  by (auto simp: view_hand_def hand_alike_def Let_def)

lemma view_hands_eq:
  "map (view_hand v) hs = map (view_hand v) hs' \<longleftrightarrow> list_all2 (hand_alike v) hs hs'"
proof (induction hs arbitrary: hs')
  case Nil
  then show ?case by simp
next
  case (Cons h hs)
  then show ?case by (cases hs') (simp_all add: view_hand_eq)
qed

lemma view_fields:
  assumes "ViewForPlayer v (Some s) = Some w"
  shows "Hands w = map (view_hand v) (Hands s)" "Players w = Players s" "GameBoard w = GameBoard s"
    "Boneyard w = (if Status s = SessionStatusCompleted then Boneyard s else [])"
    "BoneyardRaw w = None" "GameBoardRaw w = None"
  using assms by (auto simp: ViewForPlayer_def Let_def split: if_splits)

text \<open>A viewer's own tiles are in the view, and no other hand shows one.\<close>

lemma view_own_hand: "hand_PlayerID h = v \<Longrightarrow> Tiles (view_hand v h) = Tiles h"
  by (simp add: view_hand_def Let_def)

lemma view_other_hand:
  "hand_PlayerID h \<noteq> v \<Longrightarrow>
     Tiles (view_hand v h) = [] \<and> RedactedTileCount (view_hand v h) = int (length (Tiles h))"
  by (simp add: view_hand_def Let_def)

text \<open>
  C29: A view is cheat-proof and complete. Two sessions produce the same view for a
  player exactly when they agree on everything public (identity, status, seats, board,
  open ends, turn, lock, flags), on that player's own tiles, on the sizes of the other
  hands, and on the boneyard's size while the match runs (on the boneyard itself once it
  is completed). So no view depends on the hidden tiles of an opponent or of the
  boneyard, and nothing else is hidden.
\<close>

theorem view_reveals_exactly:
  "ViewForPlayer v (Some s) = ViewForPlayer v (Some s') \<longleftrightarrow> session_alike v s s'"
proof -
  have "ViewForPlayer v (Some s) = ViewForPlayer v (Some s') \<longleftrightarrow>
      sess_UID s = sess_UID s' \<and> SessionID s = SessionID s' \<and> Status s = Status s' \<and>
      Players s = Players s' \<and> GameBoard s = GameBoard s' \<and> LeftOpenValue s = LeftOpenValue s' \<and>
      RightOpenValue s = RightOpenValue s' \<and> CurrentTurn s = CurrentTurn s' \<and>
      MutationsLocked s = MutationsLocked s' \<and>
      map (view_hand v) (Hands s) = map (view_hand v) (Hands s') \<and>
      (if Status s = SessionStatusCompleted
       then Boneyard s = Boneyard s' \<and> BoneyardCount s = BoneyardCount s'
       else length (Boneyard s) = length (Boneyard s'))"
    by (cases s; cases s') (auto simp: ViewForPlayer_def Let_def)
  then show ?thesis by (simp add: view_hands_eq session_alike_def)
qed

end
