(* ===== verification/Ledger.thy ===== *)
theory Ledger
  imports Prelude
begin

section \<open>The ledger worker\<close>

text \<open>
  Models \<open>pkg/resilience/retry.go\<close>, \<open>pkg/resilience/spool.go\<close> and
  \<open>pkg/engine/ledger_worker.go\<close>: match records taken from a bounded queue, written with
  retries behind an optional circuit breaker, and kept in a bounded spool when that
  fails. The record type is a parameter. The repository, the rating processor, the clock
  and the third-party breaker are the functions of \<open>ledger_env\<close> over a world \<open>'w\<close>.
\<close>

subsection \<open>Retry\<close>

text \<open>Durations are in nanoseconds.\<close>

record retry_config =
  MaxAttempts :: int
  BaseDelay :: int
  MaxDelay :: int

definition DefaultRetryConfig :: retry_config where
  "DefaultRetryConfig = \<lparr>MaxAttempts = 5, BaseDelay = 100000000, MaxDelay = 5000000000\<rparr>"

definition fill_config :: "retry_config \<Rightarrow> retry_config" where
  "fill_config cfg = \<lparr>MaxAttempts = (if MaxAttempts cfg \<le> 0 then 1 else MaxAttempts cfg),
     BaseDelay = (if BaseDelay cfg \<le> 0 then 100000000 else BaseDelay cfg),
     MaxDelay = (if MaxDelay cfg \<le> 0 then 5000000000 else MaxDelay cfg)\<rparr>"

text \<open>
  \<open>backoffDelay\<close>: \<open>rnd m\<close> is \<open>rand.Int63n(m)\<close>, which panics unless \<open>m\<close> is positive; the
  shift and the product are those of 64-bit integers (a shift by 64 or more gives 0).
\<close>

definition backoffDelay :: "(int \<Rightarrow> int) \<Rightarrow> retry_config \<Rightarrow> nat \<Rightarrow> int result" where
  "backoffDelay rnd cfg attempt =
     (let exp0 = wrap64 (BaseDelay cfg * wrap64 (2 ^ (attempt - 1)));
          exp = (if exp0 > MaxDelay cfg then MaxDelay cfg else exp0);
          half = (if exp < 0 then - (- exp div 2) else exp div 2) in
      if half \<le> 0 then Inl (GoPanic ''invalid argument to Int63n'')
      else Inr (half + rnd half))"

text \<open>
  \<open>ctxErr\<close> is the error of the context, \<open>wait d\<close> waits for a delay and gives the error of a
  context cancelled meanwhile.
\<close>

record 'w retry_env =
  ctxErr :: "'w \<Rightarrow> go_error option"
  wait :: "int \<Rightarrow> 'w \<Rightarrow> go_error option \<times> 'w"
  jitter :: "'w \<Rightarrow> int \<Rightarrow> int"

text \<open>The loop from attempt \<open>attempt\<close> on, with \<open>left\<close> attempts to go.\<close>

fun retry_loop ::
  "'w retry_env \<Rightarrow> retry_config \<Rightarrow> ('w \<Rightarrow> go_error option \<times> 'w) \<Rightarrow> nat \<Rightarrow> nat \<Rightarrow> go_error option \<Rightarrow> 'w
     \<Rightarrow> go_error option \<times> 'w" where
  "retry_loop env cfg fn attempt 0 lastErr w = (lastErr, w)"
| "retry_loop env cfg fn attempt (Suc left) lastErr w =
     (case ctxErr env w of
        Some e \<Rightarrow> (Some e, w)
      | None \<Rightarrow>
          (case fn w of
             (None, w1) \<Rightarrow> (None, w1)
           | (Some e, w1) \<Rightarrow>
               if left = 0 then (Some e, w1)
               else (case backoffDelay (jitter env w1) cfg attempt of
                       Inl p \<Rightarrow> (Some p, w1)
                     | Inr d \<Rightarrow>
                         (case wait env d w1 of
                            (Some c, w2) \<Rightarrow> (Some c, w2)
                          | (None, w2) \<Rightarrow> retry_loop env cfg fn (attempt + 1) left (Some e) w2))))"

definition Retry ::
  "'w retry_env \<Rightarrow> retry_config \<Rightarrow> ('w \<Rightarrow> go_error option \<times> 'w) \<Rightarrow> 'w \<Rightarrow> go_error option \<times> 'w" where
  "Retry env cfg0 fn w =
     (let cfg = fill_config cfg0 in retry_loop env cfg fn 1 (nat (MaxAttempts cfg)) None w)"

subsection \<open>Spool\<close>

record 'm spool =
  sp_events :: "'m list"
  sp_cap :: nat

definition NewDeadLetterSpool :: "int \<Rightarrow> 'm spool" where
  "NewDeadLetterSpool capacity = \<lparr>sp_events = [], sp_cap = (if capacity \<le> 0 then 1024 else nat capacity)\<rparr>"

text \<open>\<open>copy(events, events[1:])\<close> and the last element overwritten.\<close>

definition Spool :: "'m \<Rightarrow> 'm spool \<Rightarrow> 'm spool" where
  "Spool r s =
     (if length (sp_events s) \<ge> sp_cap s then s\<lparr>sp_events := tl (sp_events s) @ [r]\<rparr>
      else s\<lparr>sp_events := sp_events s @ [r]\<rparr>)"

definition Drain :: "'m spool \<Rightarrow> 'm list \<times> 'm spool" where
  "Drain s = (sp_events s, s\<lparr>sp_events := []\<rparr>)"

definition SpoolLen :: "'m spool \<Rightarrow> nat" where "SpoolLen s = length (sp_events s)"

subsection \<open>Worker\<close>

text \<open>
  \<open>lw_Execute\<close> is the breaker's \<open>Execute\<close>, run over the world and the variable that the
  closure assigns; \<open>None\<close> is no breaker. \<open>lw_Open\<close> is whether its state is open.
\<close>

type_synonym ('w, 'a) action = "'w \<Rightarrow> 'a \<times> 'w"

record ('m, 'w) ledger_env =
  lw_Save :: "'m \<Rightarrow> ('w, go_error option) action"
  lw_Ratings :: "('m \<Rightarrow> ('w, go_error option) action) option"
  lw_Execute :: "(('w \<times> go_error option, go_error option) action \<Rightarrow> ('w \<times> go_error option, go_error option) action) option"
  lw_Open :: "'w \<Rightarrow> bool"
  lw_Retry :: "'w retry_env"
  lw_Config :: retry_config

record ('m, 'w) ledger_worker =
  lw_jobs :: "'m list"
  lw_queueSize :: nat
  lw_spool :: "'m spool option"
  lw_world :: 'w

definition NewLedgerWorker :: "int \<Rightarrow> 'w \<Rightarrow> ('m, 'w) ledger_worker" where
  "NewLedgerWorker queueSize w =
     \<lparr>lw_jobs = [], lw_queueSize = (if queueSize \<le> 0 then 256 else nat queueSize),
      lw_spool = Some (NewDeadLetterSpool 1024), lw_world = w\<rparr>"

definition WithDeadLetterSpool :: "'m spool option \<Rightarrow> ('m, 'w) ledger_worker \<Rightarrow> ('m, 'w) ledger_worker" where
  "WithDeadLetterSpool so l = l\<lparr>lw_spool := so\<rparr>"

definition persistWithResilience :: "('m, 'w) ledger_env \<Rightarrow> 'm \<Rightarrow> ('w, go_error option) action" where
  "persistWithResilience env r w =
     (let attempts = Retry (lw_Retry env) (lw_Config env) (lw_Save env r) in
      case lw_Execute env of
        None \<Rightarrow> attempts w
      | Some execute \<Rightarrow>
          (case execute (\<lambda>(w, _). case attempts w of (err, w1) \<Rightarrow> (err, (w1, err))) (w, None) of
             (Some e, (w1, _)) \<Rightarrow> (Some e, w1)
           | (None, (w1, err)) \<Rightarrow> (err, w1)))"

definition spool_record :: "'m \<Rightarrow> ('m, 'w) ledger_worker \<Rightarrow> ('m, 'w) ledger_worker" where
  "spool_record r l = l\<lparr>lw_spool := map_option (Spool r) (lw_spool l)\<rparr>"

text \<open>
  A record that could not be written is spooled. A panic of the delay computation ends the
  process instead, and nothing more happens to the spool.
\<close>

definition failed_record :: "go_error \<Rightarrow> 'm \<Rightarrow> ('m, 'w) ledger_worker \<Rightarrow> ('m, 'w) ledger_worker" where
  "failed_record e r l = (if is_panic e then l else spool_record r l)"

text \<open>Errors of the rating processor are only logged.\<close>

definition rate :: "('m, 'w) ledger_env \<Rightarrow> 'm \<Rightarrow> 'w \<Rightarrow> 'w" where
  "rate env r w = (case lw_Ratings env of None \<Rightarrow> w | Some f \<Rightarrow> snd (f r w))"

fun replay_records :: "('m, 'w) ledger_env \<Rightarrow> 'm list \<Rightarrow> ('m, 'w) ledger_worker \<Rightarrow> ('m, 'w) ledger_worker" where
  "replay_records env [] l = l"
| "replay_records env (r # rs) l =
     (case persistWithResilience env r (lw_world l) of
        (Some e, w) \<Rightarrow> failed_record e r (l\<lparr>lw_world := w\<rparr>)
      | (None, w) \<Rightarrow> replay_records env rs (l\<lparr>lw_world := rate env r w\<rparr>))"

definition replaySpool :: "('m, 'w) ledger_env \<Rightarrow> ('m, 'w) ledger_worker \<Rightarrow> ('m, 'w) ledger_worker" where
  "replaySpool env l =
     (case lw_spool l of
        None \<Rightarrow> l
      | Some s \<Rightarrow>
          if lw_Execute env \<noteq> None \<and> lw_Open env (lw_world l) then l
          else (case Drain s of (rs, s1) \<Rightarrow> replay_records env rs (l\<lparr>lw_spool := Some s1\<rparr>)))"

definition processRecord :: "('m, 'w) ledger_env \<Rightarrow> 'm \<Rightarrow> ('m, 'w) ledger_worker \<Rightarrow> ('m, 'w) ledger_worker" where
  "processRecord env r l =
     (case persistWithResilience env r (lw_world l) of
        (Some e, w) \<Rightarrow> failed_record e r (l\<lparr>lw_world := w\<rparr>)
      | (None, w) \<Rightarrow> replaySpool env (l\<lparr>lw_world := rate env r w\<rparr>))"

text \<open>One turn of the loop of \<open>Run\<close>: the next job, if the queue has one.\<close>

definition run_step :: "('m, 'w) ledger_env \<Rightarrow> ('m, 'w) ledger_worker \<Rightarrow> ('m, 'w) ledger_worker" where
  "run_step env l = (case lw_jobs l of [] \<Rightarrow> l | r # rs \<Rightarrow> processRecord env r (l\<lparr>lw_jobs := rs\<rparr>))"

definition Enqueue :: "'m \<Rightarrow> ('m, 'w) ledger_worker \<Rightarrow> ('m, 'w) ledger_worker" where
  "Enqueue r l =
     (if length (lw_jobs l) < lw_queueSize l then l\<lparr>lw_jobs := lw_jobs l @ [r]\<rparr> else spool_record r l)"

subsection \<open>Retrying\<close>

text \<open>The worlds in which the attempts run while the context lives.\<close>

fun attempt_world ::
  "'w retry_env \<Rightarrow> retry_config \<Rightarrow> ('w \<Rightarrow> go_error option \<times> 'w) \<Rightarrow> nat \<Rightarrow> 'w \<Rightarrow> nat \<Rightarrow> 'w" where
  "attempt_world env cfg fn a w 0 = w"
| "attempt_world env cfg fn a w (Suc k) =
     (let w1 = snd (fn w) in
      attempt_world env cfg fn (a + 1)
        (snd (wait env (case backoffDelay (jitter env w1) cfg a of Inl _ \<Rightarrow> 0 | Inr d \<Rightarrow> d) w1)) k)"

definition alive :: "'w retry_env \<Rightarrow> bool" where
  "alive env = (\<forall>w d. ctxErr env w = None \<and> fst (wait env d w) = None)"

lemma retry_loop_result:
  assumes "alive env" "\<And>w k. a \<le> k \<Longrightarrow> k < a + left \<Longrightarrow> isOk (backoffDelay (jitter env w) cfg k)" "0 < left"
  shows "(\<exists>k < left. (\<forall>j < k. fst (fn (attempt_world env cfg fn a w j)) \<noteq> None) \<and>
      fst (fn (attempt_world env cfg fn a w k)) = None \<and>
      retry_loop env cfg fn a left le w = fn (attempt_world env cfg fn a w k)) \<or>
    ((\<forall>j < left. fst (fn (attempt_world env cfg fn a w j)) \<noteq> None) \<and>
      retry_loop env cfg fn a left le w = fn (attempt_world env cfg fn a w (left - 1)))"
  using assms(2,3)
proof (induction left arbitrary: a le w)
  case 0
  then show ?case by simp
next
  case (Suc n)
  obtain r w1 where fn: "fn w = (r, w1)" by fastforce
  have ctx: "ctxErr env w = None" for w using assms(1) by (simp add: alive_def)
  show ?case
  proof (cases r)
    case None
    with fn ctx show ?thesis by (intro disjI1 exI [of _ 0]) simp
  next
    case (Some e)
    show ?thesis
    proof (cases "n = 0")
      case True
      with Some fn ctx show ?thesis by (intro disjI2) simp
    next
      case False
      obtain d where d: "backoffDelay (jitter env w1) cfg a = Inr d"
        using Suc.prems(1) [of a w1] by (auto simp: isOk_iff)
      obtain w2 where wt: "wait env d w1 = (None, w2)"
        using assms(1) by (metis alive_def prod.collapse)
      have shift: "attempt_world env cfg fn a w (Suc j) = attempt_world env cfg fn (a + 1) w2 j" for j
        using fn d wt by simp
      have run: "retry_loop env cfg fn a (Suc n) le w = retry_loop env cfg fn (a + 1) n (Some e) w2"
        using fn Some ctx d wt False by simp
      have "isOk (backoffDelay (jitter env w) cfg k)" if "a + 1 \<le> k" "k < a + 1 + n" for w k
        using Suc.prems(1) [of k w] that by simp
      from Suc.IH [OF this, where le = "Some e" and w = w2] False
      consider (ok) k where "k < n" "\<forall>j < k. fst (fn (attempt_world env cfg fn (a + 1) w2 j)) \<noteq> None"
          "fst (fn (attempt_world env cfg fn (a + 1) w2 k)) = None"
          "retry_loop env cfg fn (a + 1) n (Some e) w2 = fn (attempt_world env cfg fn (a + 1) w2 k)"
        | (bad) "\<forall>j < n. fst (fn (attempt_world env cfg fn (a + 1) w2 j)) \<noteq> None"
          "retry_loop env cfg fn (a + 1) n (Some e) w2 = fn (attempt_world env cfg fn (a + 1) w2 (n - 1))"
        by blast
      then show ?thesis
      proof cases
        case ok
        have "fst (fn (attempt_world env cfg fn a w j)) \<noteq> None" if "j < Suc k" for j
          using that ok(2) fn Some by (cases j) (simp_all add: shift del: attempt_world.simps(2))
        with ok run show ?thesis
          by (intro disjI1 exI [of _ "Suc k"]) (simp add: shift del: attempt_world.simps(2) retry_loop.simps)
      next
        case bad
        have "fst (fn (attempt_world env cfg fn a w j)) \<noteq> None" if "j < Suc n" for j
          using that bad(1) fn Some by (cases j) (simp_all add: shift del: attempt_world.simps(2))
        moreover have "attempt_world env cfg fn a w n = attempt_world env cfg fn (a + 1) w2 (n - 1)"
          using False shift [of "n - 1"] by simp
        ultimately show ?thesis
          using bad run by (intro disjI2) (simp del: attempt_world.simps(2) retry_loop.simps)
      qed
    qed
  qed
qed

text \<open>With the default configuration no delay panics: the product stays far below the maximum.\<close>

lemma default_delays:
  assumes "1 \<le> k" "k < 6"
  shows "isOk (backoffDelay rnd DefaultRetryConfig k)"
proof -
  from assms have "k - 1 \<in> {0, 1, 2, 3, 4}" by (auto simp: numeral_eq_Suc)
  then have pow: "(1::int) \<le> 2 ^ (k - 1) \<and> (2::int) ^ (k - 1) \<le> 16"
    by (elim insertE emptyE) (simp_all only: power_0 power_one_right, simp_all)
  have small: "wrap64 p = p \<and> wrap64 (100000000 * p) = 100000000 * p" if "1 \<le> p" "p \<le> 16" for p
    using that by (auto intro!: wrap64_id)
  from pow have "wrap64 (2 ^ (k - 1)) = 2 ^ (k - 1)" "wrap64 (100000000 * 2 ^ (k - 1)) = 100000000 * 2 ^ (k - 1)"
    using small [of "2 ^ (k - 1)"] by blast+
  with pow show ?thesis
    by (simp add: backoffDelay_def DefaultRetryConfig_def Let_def)
qed

lemma takeWhile_upt_first:
  assumes "k < n" "\<forall>j < k. P j" "\<not> P k"
  shows "takeWhile P [0..<n] = [0..<k]"
proof -
  from assms(1) have "[0..<n] = [0..<k] @ k # [Suc k..<n]"
    using upt_add_eq_append [of 0 k "n - k"] by (simp add: upt_conv_Cons)
  moreover have "takeWhile P ([0..<k] @ k # [Suc k..<n]) = [0..<k] @ takeWhile P (k # [Suc k..<n])"
    using assms(2) by (intro takeWhile_append2) simp
  ultimately show ?thesis using assms(3) by simp
qed

text \<open>
  A ledger write stops after at most five attempts. While the context lives, \<open>Retry\<close>
  with the default configuration, and so \<open>persistWithResilience\<close> without a breaker,
  returns with no error at the first attempt that succeeds and otherwise with the error of
  the fifth one; no delay between two attempts panics.
\<close>

theorem ledger_write_five_attempts:
  assumes "alive (lw_Retry env)" "lw_Execute env = None" "lw_Config env = DefaultRetryConfig"
  shows "let after = attempt_world (lw_Retry env) DefaultRetryConfig (lw_Save env r) 1 w;
             failed = (\<lambda>j. fst (lw_Save env r (after j)) \<noteq> None);
             n = length (takeWhile failed [0..<5]) in
           persistWithResilience env r w = lw_Save env r (after (min n 4)) \<and>
           (fst (persistWithResilience env r w) = None \<longleftrightarrow> n < 5)"
proof -
  define after where "after = attempt_world (lw_Retry env) DefaultRetryConfig (lw_Save env r) 1 w"
  define failed where "failed = (\<lambda>j. fst (lw_Save env r (after j)) \<noteq> None)"
  have run: "persistWithResilience env r w = retry_loop (lw_Retry env) DefaultRetryConfig (lw_Save env r) 1 5 None w"
    using assms by (simp add: persistWithResilience_def Retry_def fill_config_def DefaultRetryConfig_def Let_def)
  have "isOk (backoffDelay rnd DefaultRetryConfig k)" if "1 \<le> k" "k < 1 + 5" for rnd k
    using that by (intro default_delays) auto
  note res = retry_loop_result [where a = 1 and cfg = DefaultRetryConfig, OF assms(1) this]
  from res [where left = 5 and le = None and fn = "lw_Save env r" and w = w]
  consider (ok) k where "k < 5" "\<forall>j < k. failed j" "\<not> failed k" "persistWithResilience env r w = lw_Save env r (after k)"
    | (bad) "\<forall>j < 5. failed j" "persistWithResilience env r w = lw_Save env r (after 4)"
    by (auto simp: failed_def after_def run)
  then have "persistWithResilience env r w = lw_Save env r (after (min (length (takeWhile failed [0..<5])) 4)) \<and>
      (fst (persistWithResilience env r w) = None \<longleftrightarrow> length (takeWhile failed [0..<5]) < 5)"
  proof cases
    case ok
    then have "takeWhile failed [0..<5] = [0..<k]" by (intro takeWhile_upt_first)
    then have "length (takeWhile failed [0..<5]) = k" by simp
    with ok show ?thesis by (simp only:) (simp add: failed_def)
  next
    case bad
    then have "takeWhile failed [0..<5] = [0..<5]" by (simp only: takeWhile_eq_all_conv) simp
    then have "length (takeWhile failed [0..<5]) = 5" by (simp only: length_upt)
    moreover from bad have "failed 4" by simp
    ultimately show ?thesis using bad(2) by (simp only:) (simp add: failed_def)
  qed
  then show ?thesis unfolding Let_def after_def failed_def .
qed

text \<open>A repository that fails its first calls, counted in the world.\<close>

definition flaky :: "int \<Rightarrow> int \<Rightarrow> int \<Rightarrow> (string, int) ledger_env" where
  "flaky n bad late = \<lparr>lw_Save = (\<lambda>r w. (if w < bad \<or> late \<le> w then Some (ErrExternal ''dgraph'') else None, w + 1)),
     lw_Ratings = None, lw_Execute = None, lw_Open = (\<lambda>_. False),
     lw_Retry = \<lparr>ctxErr = (\<lambda>_. None), wait = (\<lambda>_ w. (None, w)), jitter = (\<lambda>_ _. 0)\<rparr>,
     lw_Config = DefaultRetryConfig\<lparr>MaxAttempts := n\<rparr>\<rparr>"

lemma alive_flaky: "alive (lw_Retry (flaky 5 a b))" "lw_Execute (flaky 5 a b) = None"
  "lw_Config (flaky 5 a b) = DefaultRetryConfig"
  by (simp_all add: flaky_def alive_def DefaultRetryConfig_def)

lemma ledger_write_five_attempts_witness:
  "persistWithResilience (flaky 5 2 9) ''m1'' 0 = (None, 3)"
proof -
  have run: "attempt_world (lw_Retry (flaky 5 2 9)) DefaultRetryConfig (lw_Save (flaky 5 2 9) ''m1'') 1 0 k = int k" for k
  proof -
    have "attempt_world (lw_Retry (flaky 5 2 9)) DefaultRetryConfig (lw_Save (flaky 5 2 9) ''m1'') a w k = w + int k" for a w
      by (induction k arbitrary: a w) (simp_all add: flaky_def)
    then show ?thesis by simp
  qed
  have "[0..<5] = [0::nat, 1, 2, 3, 4]" by (simp add: upt_rec)
  with ledger_write_five_attempts [OF alive_flaky, of 2 9 "''m1''" 0] show ?thesis
    by (simp only: Let_def run) (simp add: flaky_def)
qed

subsection \<open>Replaying the spool\<close>

text \<open>The world after a list of records has been written and rated.\<close>

definition written :: "('m, 'w) ledger_env \<Rightarrow> 'm list \<Rightarrow> 'w \<Rightarrow> 'w" where
  "written env rs w = foldl (\<lambda>w r. rate env r (snd (persistWithResilience env r w))) w rs"

lemma written_Cons: "written env (r # rs) w = written env rs (rate env r (snd (persistWithResilience env r w)))"
  by (simp add: written_def)

lemma replay_records_outcome:
  assumes "lw_spool l = Some \<lparr>sp_events = [], sp_cap = c\<rparr>" "0 < c"
    "\<And>r w. pred_option (\<lambda>e. \<not> is_panic e) (fst (persistWithResilience env r w))"
  shows "\<exists>k \<le> length rs.
      (\<forall>j < k. fst (persistWithResilience env (rs ! j) (written env (take j rs) (lw_world l))) = None) \<and>
      (k < length rs \<longrightarrow> fst (persistWithResilience env (rs ! k) (written env (take k rs) (lw_world l))) \<noteq> None) \<and>
      lw_spool (replay_records env rs l) = Some \<lparr>sp_events = take 1 (drop k rs), sp_cap = c\<rparr>"
  using assms(1)
proof (induction rs arbitrary: l)
  case Nil
  then show ?case by simp
next
  case (Cons r rs)
  obtain e w where p: "persistWithResilience env r (lw_world l) = (e, w)" by fastforce
  show ?case
  proof (cases e)
    case (Some err)
    with p assms(3) [of r "lw_world l"] have "\<not> is_panic err" by simp
    with Some p Cons.prems assms(2) show ?thesis
      by (intro exI [of _ 0]) (simp add: failed_record_def spool_record_def Spool_def written_def)
  next
    case None
    let ?l = "l\<lparr>lw_world := rate env r w\<rparr>"
    have step: "written env (take (Suc j) (r # rs)) (lw_world l) = written env (take j rs) (lw_world ?l)" for j
      using p by (simp add: written_Cons)
    from Cons.IH [of ?l] Cons.prems obtain k where
      k: "k \<le> length rs"
        "\<forall>j < k. fst (persistWithResilience env (rs ! j) (written env (take j rs) (lw_world ?l))) = None"
        "k < length rs \<longrightarrow> fst (persistWithResilience env (rs ! k) (written env (take k rs) (lw_world ?l))) \<noteq> None"
        "lw_spool (replay_records env rs ?l) = Some \<lparr>sp_events = take 1 (drop k rs), sp_cap = c\<rparr>"
      by auto
    have "fst (persistWithResilience env ((r # rs) ! j) (written env (take j (r # rs)) (lw_world l))) = None"
      if "j < Suc k" for j
      using that p None k(2) step by (cases j) (auto simp: written_def)
    with k p None step show ?thesis by (intro exI [of _ "Suc k"]) (auto simp del: take_Suc_Cons)
  qed
qed

text \<open>
  What a replay of the dead-letter spool does. With the circuit closed, \<open>replaySpool\<close>
  writes the spooled records in order up to the first that fails and keeps only that one:
  the records behind it are in the spool no more, and nothing has tried to write them.
\<close>

theorem replay_keeps_only_first_failure:
  assumes "lw_spool l = Some s" "0 < sp_cap s"
    "lw_Execute env = None \<or> \<not> lw_Open env (lw_world l)"
    "\<And>r w. pred_option (\<lambda>e. \<not> is_panic e) (fst (persistWithResilience env r w))"
  shows "\<exists>k \<le> SpoolLen s. let rs = sp_events s; now = (\<lambda>j. written env (take j rs) (lw_world l)) in
    (\<forall>j < k. fst (persistWithResilience env (rs ! j) (now j)) = None) \<and>
    (k < SpoolLen s \<longrightarrow> fst (persistWithResilience env (rs ! k) (now k)) \<noteq> None) \<and>
    lw_spool (replaySpool env l) = Some (s\<lparr>sp_events := take 1 (drop k rs)\<rparr>)"
proof -
  let ?l = "l\<lparr>lw_spool := Some (s\<lparr>sp_events := []\<rparr>)\<rparr>"
  have run: "replaySpool env l = replay_records env (sp_events s) ?l"
    using assms(1,3) by (auto simp: replaySpool_def Drain_def)
  have "lw_spool ?l = Some \<lparr>sp_events = [], sp_cap = sp_cap s\<rparr>" by (cases s) simp
  from replay_records_outcome [where rs = "sp_events s", OF this assms(2,4)]
  show ?thesis by (cases s) (simp add: run SpoolLen_def Let_def)
qed

lemma replay_keeps_only_first_failure_witness:
  "map_option sp_events (lw_spool (replaySpool (flaky 1 0 1)
      ((NewLedgerWorker 4 (0::int))\<lparr>lw_spool := Some \<lparr>sp_events = [''m1'', ''m2'', ''m3''], sp_cap = 8\<rparr>\<rparr>))) =
    Some [''m2'']"
proof -
  let ?l = "(NewLedgerWorker 4 (0::int))\<lparr>lw_spool := Some \<lparr>sp_events = [''m1'', ''m2'', ''m3''], sp_cap = 8\<rparr>\<rparr>"
  have once: "persistWithResilience (flaky 1 0 1) r w = (if w = 0 then None else Some (ErrExternal ''dgraph''), w + 1)" for r w
    by (simp add: persistWithResilience_def Retry_def fill_config_def flaky_def DefaultRetryConfig_def Let_def)
  then have nopanic: "pred_option (\<lambda>e. \<not> is_panic e) (fst (persistWithResilience (flaky 1 0 1) r w))" for r w
    by (simp add: is_panic_def)
  have start: "lw_spool ?l = Some \<lparr>sp_events = [''m1'', ''m2'', ''m3''], sp_cap = 8\<rparr>" "0 < sp_cap \<lparr>sp_events = [''m1'', ''m2'', ''m3''], sp_cap = 8\<rparr>"
    "lw_Execute (flaky 1 0 1) = None \<or> \<not> lw_Open (flaky 1 0 1) (lw_world ?l)" "lw_world ?l = 0"
    by (simp_all add: flaky_def NewLedgerWorker_def)
  have three: "length [''m1'', ''m2'', ''m3''] = 3" by simp
  from replay_keeps_only_first_failure [OF start(1-3) nopanic]
  obtain k where k: "k \<le> 3"
    "\<forall>j < k. fst (persistWithResilience (flaky 1 0 1) ([''m1'', ''m2'', ''m3''] ! j)
       (written (flaky 1 0 1) (take j [''m1'', ''m2'', ''m3'']) 0)) = None"
    "k < 3 \<longrightarrow> fst (persistWithResilience (flaky 1 0 1) ([''m1'', ''m2'', ''m3''] ! k)
       (written (flaky 1 0 1) (take k [''m1'', ''m2'', ''m3'']) 0)) \<noteq> None"
    "lw_spool (replaySpool (flaky 1 0 1) ?l) = Some \<lparr>sp_events = take 1 (drop k [''m1'', ''m2'', ''m3'']), sp_cap = 8\<rparr>"
    unfolding start(4) SpoolLen_def Let_def spool.simps three by (elim exE conjE) rule
  have "rate (flaky 1 0 1) r w = w" for r w by (simp add: rate_def flaky_def)
  then have worlds: "written (flaky 1 0 1) [] 0 = 0" "written (flaky 1 0 1) [''m1''] 0 = 1"
    by (simp_all add: written_def once)
  have "\<not> 1 < k" using k(2) by (auto simp: once worlds dest!: spec [of _ 1])
  moreover have "k \<noteq> 0" using k(3) by (cases k) (auto simp: once worlds)
  ultimately have "k = 1" by simp
  with k(4) show ?thesis by simp
qed

end
