(* ===== verification/Channels.thy ===== *)
theory Channels
  imports Prelude
begin

section \<open>Go channels and maps\<close>

text \<open>
  Buffered channels, as the broker and the WebSocket hub use them: a queue with a capacity
  and a flag. Maps that the code iterates over are association lists with one entry per
  key; Go leaves the order of the iteration open, here it is the order of the list.
\<close>

subsection \<open>Channels\<close>

record 'a channel =
  ch_buf :: "'a list"
  ch_cap :: nat
  ch_closed :: bool

text \<open>A send that would block is \<open>None\<close>; on a closed channel it panics.\<close>

definition chan_send :: "'a \<Rightarrow> 'a channel \<Rightarrow> 'a channel result option" where
  "chan_send x c =
     (if ch_closed c then Some (Inl (GoPanic ''send on closed channel''))
      else if length (ch_buf c) < ch_cap c then Some (Inr (c\<lparr>ch_buf := ch_buf c @ [x]\<rparr>))
      else None)"

definition chan_close :: "'a channel \<Rightarrow> 'a channel result" where
  "chan_close c = (if ch_closed c then Inl (GoPanic ''close of closed channel'') else Inr (c\<lparr>ch_closed := True\<rparr>))"

lemma chan_send_open:
  "\<not> ch_closed c \<Longrightarrow> chan_send x c =
     (if length (ch_buf c) < ch_cap c then Some (Inr (c\<lparr>ch_buf := ch_buf c @ [x]\<rparr>)) else None)"
  by (simp add: chan_send_def)

definition new_channel :: "nat \<Rightarrow> 'a channel" where
  "new_channel n = \<lparr>ch_buf = [], ch_cap = n, ch_closed = False\<rparr>"

text \<open>A \<open>select\<close> with a \<open>default\<close> on a channel nobody closes: the value is dropped when it is full.\<close>

definition try_send :: "'a \<Rightarrow> 'a channel \<Rightarrow> 'a channel" where
  "try_send x c = (if length (ch_buf c) < ch_cap c then c\<lparr>ch_buf := ch_buf c @ [x]\<rparr> else c)"

subsection \<open>Maps\<close>

text \<open>\<open>m[k] = v\<close> and \<open>delete(m, k)\<close>.\<close>

fun map_put :: "'k \<Rightarrow> 'v \<Rightarrow> ('k \<times> 'v) list \<Rightarrow> ('k \<times> 'v) list" where
  "map_put k v [] = [(k, v)]"
| "map_put k v ((k', v') # m) = (if k' = k then (k, v) # m else (k', v') # map_put k v m)"

definition map_delete :: "'k \<Rightarrow> ('k \<times> 'v) list \<Rightarrow> ('k \<times> 'v) list" where
  "map_delete k m = filter (\<lambda>(k', _). k' \<noteq> k) m"

lemma in_map_put: "p \<in> set (map_put k v m) \<Longrightarrow> p = (k, v) \<or> p \<in> set m"
  by (induction m) (auto split: if_splits)

lemma map_of_map_put: "map_of (map_put k v m) = (map_of m)(k \<mapsto> v)"
  by (induction m) (auto simp: fun_eq_iff)

lemma map_of_map_delete: "map_of (map_delete k m) = (map_of m)(k := None)"
  by (induction m) (auto simp: map_delete_def fun_eq_iff)

lemma keys_map_put: "set (map fst (map_put k v m)) = insert k (set (map fst m))"
proof (induction m)
  case (Cons p m)
  then show ?case by (cases p) auto
qed simp

lemma distinct_map_put: "distinct (map fst m) \<Longrightarrow> distinct (map fst (map_put k v m))"
proof (induction m)
  case (Cons p m)
  then show ?case using keys_map_put [of k v m] by (cases p) auto
qed simp

lemma distinct_map_delete: "distinct (map fst m) \<Longrightarrow> distinct (map fst (map_delete k m))"
  by (simp add: map_delete_def distinct_map_filter)

lemma in_set_update: "x \<in> set (xs[k := y]) \<Longrightarrow> x = y \<or> x \<in> set xs"
  using set_update_subset_insert by fastforce

end
