(* ===== verification/Broker.thy ===== *)
theory Broker
  imports Game_Engine Channels
begin

section \<open>The in-memory event broker\<close>

text \<open>
  Models \<open>pkg/broker/event_broker.go\<close> and \<open>pkg/broker/drop_retention.go\<close>. A subscriber is a
  buffered channel; subscribers are numbered in the order of \<open>Subscribe\<close>, which stands for
  their pointers. \<open>Publish\<close> holds no lock while it sends and every subscription has a
  goroutine of its own, so the operations are also given as the steps between which others
  may run: \<open>broker_step\<close> is one such step of a system of publishers, subscriptions,
  receivers and at most one call of \<open>Close\<close> at a time.

  The operations of a broker say how many events are waiting and which were dropped; that
  these account for every event sent, in order, is the subject of the lemmas below.
\<close>

subsection \<open>Events, drop records and the retention buffer\<close>

record 'p event =
  ev_Topic :: string
  ev_Payload :: 'p
  ev_Timestamp :: int

definition DropReasonSubscriberBufferFull :: string where
  "DropReasonSubscriberBufferFull = ''SUBSCRIBER_BUFFER_FULL''"

text \<open>\<open>DroppedAt\<close> and \<open>DroppedAtUnixNano\<close> are one instant.\<close>

record 'p drop_record =
  dr_Event :: "'p event"
  dr_Reason :: string
  dr_DroppedAt :: int

text \<open>\<open>drop_file\<close> holds the records whose lines have been written, \<open>None\<close> without a file.\<close>

record 'p retention_buffer =
  records :: "'p drop_record list"
  drop_file :: "'p drop_record list option"

definition NewDroppedEventRetentionBuffer :: "'p retention_buffer" where
  "NewDroppedEventRetentionBuffer = \<lparr>records = [], drop_file = None\<rparr>"

text \<open>\<open>opened\<close> is the result of \<open>os.OpenFile\<close>: an error, or the lines already there.\<close>

definition NewFileBackedRetentionBuffer :: "'p drop_record list result \<Rightarrow> 'p retention_buffer result" where
  "NewFileBackedRetentionBuffer opened =
     (case opened of Inl e \<Rightarrow> Inl e | Inr ls \<Rightarrow> Inr \<lparr>records = [], drop_file = Some ls\<rparr>)"

text \<open>\<open>written\<close>: the payload can be marshalled and the write succeeds; a failure is ignored.\<close>

definition Append :: "bool \<Rightarrow> 'p drop_record \<Rightarrow> 'p retention_buffer option \<Rightarrow> 'p retention_buffer option" where
  "Append written r = map_option (\<lambda>b. b\<lparr>records := records b @ [r],
     drop_file := (if written then map_option (\<lambda>ls. ls @ [r]) (drop_file b) else drop_file b)\<rparr>)"

definition Len :: "'p retention_buffer option \<Rightarrow> nat" where
  "Len bo = (case bo of None \<Rightarrow> 0 | Some b \<Rightarrow> length (records b))"

definition Records :: "'p retention_buffer option \<Rightarrow> 'p drop_record list" where
  "Records bo = (case bo of None \<Rightarrow> [] | Some b \<Rightarrow> records b)"

subsection \<open>Broker\<close>

text \<open>
  The map \<open>subscribers\<close> is an association list without empty entries, iterated in its
  order; \<open>logged\<close> collects the calls of the drop logger.
\<close>

record 'p broker =
  subscribers :: "(string \<times> nat list) list"
  channels :: "'p event channel list"
  bufferSize :: nat
  retention :: "'p retention_buffer option"
  dropLogger :: bool
  logged :: "'p drop_record list"
  bk_closed :: bool

definition defaultSubscriberBuffer :: nat where "defaultSubscriberBuffer = 64"

definition ErrEmptyTopic :: go_error where "ErrEmptyTopic = Errorf ''broker: topic is required''"

definition WithSubscriberBuffer :: "int \<Rightarrow> 'p broker \<Rightarrow> 'p broker" where
  "WithSubscriberBuffer n b = (if n > 0 then b\<lparr>bufferSize := nat n\<rparr> else b)"

definition WithDroppedEventRetention :: "'p retention_buffer option \<Rightarrow> 'p broker \<Rightarrow> 'p broker" where
  "WithDroppedEventRetention buf b = b\<lparr>retention := buf\<rparr>"

definition WithDroppedEventsLogger :: "bool \<Rightarrow> 'p broker \<Rightarrow> 'p broker" where
  "WithDroppedEventsLogger logger b = b\<lparr>dropLogger := logger\<rparr>"

definition NewInMemoryBroker :: "('p broker \<Rightarrow> 'p broker) list \<Rightarrow> 'p broker" where
  "NewInMemoryBroker opts = fold (\<lambda>opt b. opt b) opts
     \<lparr>subscribers = [], channels = [], bufferSize = defaultSubscriberBuffer,
      retention = Some NewDroppedEventRetentionBuffer, dropLogger = False, logged = [], bk_closed = False\<rparr>"

definition DroppedRetentionRecords :: "'p broker \<Rightarrow> 'p drop_record list" where
  "DroppedRetentionRecords b = Records (retention b)"

definition subs_of :: "string \<Rightarrow> 'p broker \<Rightarrow> nat list" where
  "subs_of topic b = (case map_of (subscribers b) topic of None \<Rightarrow> [] | Some ss \<Rightarrow> ss)"

fun close_all :: "nat list \<Rightarrow> 'p event channel list \<Rightarrow> go_error option \<times> 'p event channel list" where
  "close_all [] cs = (None, cs)"
| "close_all (i # is) cs =
     (case chan_close (cs ! i) of
        Inl e \<Rightarrow> (Some e, cs)
      | Inr c \<Rightarrow> close_all is (cs[i := c]))"

text \<open>\<open>Close\<close>: \<open>closeOnce\<close> has run exactly when \<open>bk_closed\<close> is set.\<close>

definition Close :: "'p broker \<Rightarrow> go_error option \<times> 'p broker" where
  "Close b =
     (if bk_closed b then (None, b)
      else (case close_all (concat (map snd (subscribers b))) (channels b) of
              (e, cs) \<Rightarrow> (e, b\<lparr>bk_closed := True, channels := cs, subscribers := []\<rparr>)))"

definition logDroppedEvent :: "bool \<Rightarrow> int \<Rightarrow> 'p event \<Rightarrow> string \<Rightarrow> 'p broker \<Rightarrow> 'p broker" where
  "logDroppedEvent written now e reason b =
     (let r = \<lparr>dr_Event = e, dr_Reason = reason, dr_DroppedAt = now\<rparr> in
      b\<lparr>retention := Append written r (retention b),
        logged := (if dropLogger b then logged b @ [r] else logged b)\<rparr>)"

text \<open>
  The first lock section of \<open>Publish\<close> with the time stamp, then the copy of the
  subscribers, then one \<open>select\<close> per subscriber. When the context is done and the send
  could go on too, Go takes either case; \<open>fst\<close> of the \<open>moment\<close> is the error of the
  context if that case is taken.
\<close>

definition publish_check :: "int \<Rightarrow> 'p event \<Rightarrow> 'p broker \<Rightarrow> 'p event result" where
  "publish_check now e b =
     (if ev_Topic e = [] then Inl ErrEmptyTopic
      else if bk_closed b then Inl (Errorf ''broker: closed'')
      else Inr (if ev_Timestamp e = 0 then e\<lparr>ev_Timestamp := now\<rparr> else e))"

definition publish_targets :: "'p event \<Rightarrow> 'p broker \<Rightarrow> nat list" where
  "publish_targets e b = subs_of (ev_Topic e) b"

type_synonym moment = "go_error option \<times> bool \<times> int"

definition publish_send :: "moment \<Rightarrow> 'p event \<Rightarrow> nat \<Rightarrow> 'p broker \<Rightarrow> go_error option \<times> 'p broker" where
  "publish_send m e i b =
     (case m of (ctxErr, written, now) \<Rightarrow>
      (case ctxErr of
         Some err \<Rightarrow> (Some err, b)
       | None \<Rightarrow>
           (case chan_send e (channels b ! i) of
              Some (Inl p) \<Rightarrow> (Some p, b)
            | Some (Inr c) \<Rightarrow> (None, b\<lparr>channels := (channels b)[i := c]\<rparr>)
            | None \<Rightarrow> (None, logDroppedEvent written now e DropReasonSubscriberBufferFull b))))"

fun publish_loop :: "(nat \<Rightarrow> moment) \<Rightarrow> 'p event \<Rightarrow> nat list \<Rightarrow> 'p broker \<Rightarrow> go_error option \<times> 'p broker" where
  "publish_loop ms e [] b = (None, b)"
| "publish_loop ms e (i # is) b =
     (case publish_send (ms i) e i b of
        (Some err, b1) \<Rightarrow> (Some err, b1)
      | (None, b1) \<Rightarrow> publish_loop ms e is b1)"

definition Publish :: "int \<Rightarrow> (nat \<Rightarrow> moment) \<Rightarrow> 'p event \<Rightarrow> 'p broker \<Rightarrow> go_error option \<times> 'p broker" where
  "Publish now ms e b =
     (case publish_check now e b of
        Inl err \<Rightarrow> (Some err, b)
      | Inr e1 \<Rightarrow> publish_loop ms e1 (publish_targets e1 b) b)"

text \<open>
  \<open>Subscribe\<close>: the goroutine it starts waits for its context, then runs \<open>removeSubscriber\<close>
  and closes the channel; these are steps of their own below.
\<close>

definition Subscribe :: "string \<Rightarrow> 'p broker \<Rightarrow> nat result \<times> 'p broker" where
  "Subscribe topic b =
     (if topic = [] then (Inl ErrEmptyTopic, b)
      else (Inr (length (channels b)),
            b\<lparr>channels := channels b @ [\<lparr>ch_buf = [], ch_cap = bufferSize b, ch_closed = False\<rparr>],
              subscribers := map_put topic (subs_of topic b @ [length (channels b)]) (subscribers b)\<rparr>))"

definition removeSubscriber :: "string \<Rightarrow> nat \<Rightarrow> 'p broker \<Rightarrow> 'p broker" where
  "removeSubscriber topic i b =
     (let ss = remove1 i (subs_of topic b) in
      b\<lparr>subscribers := (if ss = [] then map_delete topic (subscribers b) else map_put topic ss (subscribers b))\<rparr>)"

text \<open>\<open>close(sub.ch)\<close> of the goroutine.\<close>

definition close_subscriber :: "nat \<Rightarrow> 'p broker \<Rightarrow> go_error option \<times> 'p broker" where
  "close_subscriber i b =
     (case chan_close (channels b ! i) of
        Inl p \<Rightarrow> (Some p, b)
      | Inr c \<Rightarrow> (None, b\<lparr>channels := (channels b)[i := c]\<rparr>))"

subsection \<open>Interleavings\<close>

text \<open>
  A publisher has passed the first check, or has copied the subscribers and still has the
  listed ones to serve. The goroutine of a subscription waits, has removed the subscriber,
  or has closed the channel. \<open>sy_sent\<close> and \<open>sy_received\<close> only record what happened: the
  sends whose \<open>select\<close> did not take the context's case, and the receives.
\<close>

datatype 'p publishing = Checked "'p event" | Sending "'p event" "nat list"

datatype watch = Waiting | Removed | Gone

record 'p system =
  sy_broker :: "'p broker"
  sy_publishers :: "'p publishing list"
  sy_watch :: "(string \<times> watch) list"
  sy_sent :: "(nat \<times> 'p event) list"
  sy_received :: "(nat \<times> 'p event) list"
  sy_crashed :: "go_error option"

definition start_system :: "'p broker \<Rightarrow> 'p system" where
  "start_system b = \<lparr>sy_broker = b, sy_publishers = [], sy_watch = [], sy_sent = [], sy_received = [], sy_crashed = None\<rparr>"

datatype 'p broker_action =
    ASubscribe string
  | APublish int "'p event"
  | ACopy nat
  | ASend nat moment
  | AReceive nat
  | ACancel nat
  | AFinish nat
  | AClose

definition do_subscribe :: "string \<Rightarrow> 'p system \<Rightarrow> 'p system" where
  "do_subscribe topic s =
     (case Subscribe topic (sy_broker s) of
        (Inl _, _) \<Rightarrow> s
      | (Inr _, b) \<Rightarrow> s\<lparr>sy_broker := b, sy_watch := sy_watch s @ [(topic, Waiting)]\<rparr>)"

definition do_publish :: "int \<Rightarrow> 'p event \<Rightarrow> 'p system \<Rightarrow> 'p system" where
  "do_publish now e s =
     (case publish_check now e (sy_broker s) of
        Inl _ \<Rightarrow> s
      | Inr e1 \<Rightarrow> s\<lparr>sy_publishers := sy_publishers s @ [Checked e1]\<rparr>)"

definition do_copy :: "nat \<Rightarrow> 'p system \<Rightarrow> 'p system" where
  "do_copy k s =
     (if k < length (sy_publishers s) then
        (case sy_publishers s ! k of
           Checked e \<Rightarrow> s\<lparr>sy_publishers := (sy_publishers s)[k := Sending e (publish_targets e (sy_broker s))]\<rparr>
         | Sending _ _ \<Rightarrow> s)
      else s)"

definition do_send :: "nat \<Rightarrow> moment \<Rightarrow> 'p system \<Rightarrow> 'p system" where
  "do_send k m s =
     (if k < length (sy_publishers s) then
        (case sy_publishers s ! k of
           Sending e (i # is) \<Rightarrow>
             (case publish_send m e i (sy_broker s) of
                (Some err, b) \<Rightarrow>
                  if is_panic err then s\<lparr>sy_crashed := Some err\<rparr>
                  else s\<lparr>sy_publishers := (sy_publishers s)[k := Sending e []]\<rparr>
              | (None, b) \<Rightarrow> s\<lparr>sy_broker := b, sy_publishers := (sy_publishers s)[k := Sending e is],
                               sy_sent := sy_sent s @ [(i, e)]\<rparr>)
         | _ \<Rightarrow> s)
      else s)"

definition do_receive :: "nat \<Rightarrow> 'p system \<Rightarrow> 'p system" where
  "do_receive i s =
     (let cs = channels (sy_broker s) in
      if i < length cs then
        (case ch_buf (cs ! i) of
           [] \<Rightarrow> s
         | e # es \<Rightarrow> s\<lparr>sy_broker := (sy_broker s)\<lparr>channels := cs[i := (cs ! i)\<lparr>ch_buf := es\<rparr>]\<rparr>,
                       sy_received := sy_received s @ [(i, e)]\<rparr>)
      else s)"

definition do_cancel :: "nat \<Rightarrow> 'p system \<Rightarrow> 'p system" where
  "do_cancel i s =
     (if i < length (sy_watch s) then
        (case sy_watch s ! i of
           (topic, Waiting) \<Rightarrow> s\<lparr>sy_broker := removeSubscriber topic i (sy_broker s),
                                  sy_watch := (sy_watch s)[i := (topic, Removed)]\<rparr>
         | _ \<Rightarrow> s)
      else s)"

definition do_finish :: "nat \<Rightarrow> 'p system \<Rightarrow> 'p system" where
  "do_finish i s =
     (if i < length (sy_watch s) then
        (case sy_watch s ! i of
           (topic, Removed) \<Rightarrow>
             (case close_subscriber i (sy_broker s) of
                (Some p, b) \<Rightarrow> s\<lparr>sy_crashed := Some p\<rparr>
              | (None, b) \<Rightarrow> s\<lparr>sy_broker := b, sy_watch := (sy_watch s)[i := (topic, Gone)]\<rparr>)
         | _ \<Rightarrow> s)
      else s)"

definition do_close :: "'p system \<Rightarrow> 'p system" where
  "do_close s =
     (case Close (sy_broker s) of (e, b) \<Rightarrow> s\<lparr>sy_broker := b, sy_crashed := e\<rparr>)"

text \<open>A panic ends the process: nothing moves any more.\<close>

fun broker_step :: "'p broker_action \<Rightarrow> 'p system \<Rightarrow> 'p system" where
  "broker_step a s =
     (if sy_crashed s \<noteq> None then s
      else (case a of
          ASubscribe topic \<Rightarrow> do_subscribe topic s
        | APublish now e \<Rightarrow> do_publish now e s
        | ACopy k \<Rightarrow> do_copy k s
        | ASend k m \<Rightarrow> do_send k m s
        | AReceive i \<Rightarrow> do_receive i s
        | ACancel i \<Rightarrow> do_cancel i s
        | AFinish i \<Rightarrow> do_finish i s
        | AClose \<Rightarrow> do_close s))"

definition broker_run :: "'p broker_action list \<Rightarrow> 'p system \<Rightarrow> 'p system" where
  "broker_run as s = fold broker_step as s"

end
