(* ===== verification/Broker_Laws.thy ===== *)
theory Broker_Laws
  imports Broker "HOL-Library.Sublist"
begin

section \<open>Laws of the event broker\<close>

text \<open>
  What each operation of \<open>Broker\<close> does to the waiting events and the drop records; the
  invariant of every interleaving of publishers, subscribers and \<open>Close\<close>; and the
  interface \<open>event_sink\<close> through which the game engine uses a broker.
\<close>

subsection \<open>Waiting events\<close>

definition bufs :: "'p broker \<Rightarrow> 'p event list list" where
  "bufs b = map ch_buf (channels b)"

definition dropped :: "'p broker \<Rightarrow> 'p event list" where
  "dropped b = map dr_Event (DroppedRetentionRecords b)"

lemma length_bufs [simp]: "length (bufs b) = length (channels b)"
  by (simp add: bufs_def)

lemma bufs_nth [simp]: "i < length (channels b) \<Longrightarrow> bufs b ! i = ch_buf (channels b ! i)"
  by (simp add: bufs_def)

lemma close_all_bufs:
  "close_all is cs = (e, cs') \<Longrightarrow> map ch_buf cs' = map ch_buf cs \<and> map ch_cap cs' = map ch_cap cs"
proof (induction "is" arbitrary: cs)
  case (Cons i "is")
  show ?case
  proof (cases "chan_close (cs ! i)")
    case (Inr c)
    then have c: "ch_buf c = ch_buf (cs ! i)" "ch_cap c = ch_cap (cs ! i)"
      by (auto simp: chan_close_def split: if_splits)
    from Inr Cons.prems have "close_all is (cs[i := c]) = (e, cs')" by simp
    from Cons.IH [OF this] c show ?thesis
      by (cases "i < length cs") (simp_all add: map_update list_update_same_conv list_update_beyond)
  qed (use Cons.prems in auto)
qed simp

lemma Close_bufs:
  assumes "Close b = (e, b')"
  shows "bufs b' = bufs b" "map ch_cap (channels b') = map ch_cap (channels b)"
    "retention b' = retention b" "length (channels b') = length (channels b)"
    "subscribers b' = subscribers b \<or> subscribers b' = []"
  using assms close_all_bufs [of "concat (map snd (subscribers b))" "channels b"]
  by (auto simp: Close_def bufs_def split: if_splits prod.splits dest: map_eq_imp_length_eq)

lemma close_subscriber_bufs:
  assumes "close_subscriber i b = (e, b')"
  shows "bufs b' = bufs b" "map ch_cap (channels b') = map ch_cap (channels b)"
    "retention b' = retention b" "subscribers b' = subscribers b"
    "length (channels b') = length (channels b)"
proof -
  have "close_all [i] (channels b) = (e, channels b') \<and> retention b' = retention b \<and> subscribers b' = subscribers b"
    using assms by (auto simp: close_subscriber_def split: sum.splits)
  with close_all_bufs [of "[i]" "channels b" e "channels b'"]
  show "bufs b' = bufs b" "map ch_cap (channels b') = map ch_cap (channels b)"
    "retention b' = retention b" "subscribers b' = subscribers b"
    "length (channels b') = length (channels b)"
    by (auto simp: bufs_def dest: map_eq_imp_length_eq)
qed

lemma removeSubscriber_channels [simp]:
  "channels (removeSubscriber t i b) = channels b" "retention (removeSubscriber t i b) = retention b"
  by (simp_all add: removeSubscriber_def Let_def)

text \<open>A send either delivers or drops, and a drop happens only at a full buffer.\<close>

inductive sent_one :: "'p event \<Rightarrow> nat \<Rightarrow> 'p broker \<Rightarrow> 'p broker \<Rightarrow> bool" for e i b where
  delivered: "length (ch_buf (channels b ! i)) < ch_cap (channels b ! i) \<Longrightarrow>
    sent_one e i b (b\<lparr>channels := (channels b)[i := (channels b ! i)\<lparr>ch_buf := ch_buf (channels b ! i) @ [e]\<rparr>]\<rparr>)"
| shed: "ch_cap (channels b ! i) \<le> length (ch_buf (channels b ! i)) \<Longrightarrow>
    sent_one e i b (logDroppedEvent written now e DropReasonSubscriberBufferFull b)"

lemma publish_send_cases:
  assumes "publish_send m e i b = (None, b')"
  shows "sent_one e i b b'" "\<not> ch_closed (channels b ! i)"
proof -
  obtain ce w now where m: "m = (ce, w, now)" by (cases m)
  have step: "sent_one e i b b' \<and> \<not> ch_closed (channels b ! i)"
  proof (cases "length (ch_buf (channels b ! i)) < ch_cap (channels b ! i)")
    case True
    with assms m have "b' = b\<lparr>channels := (channels b)[i := (channels b ! i)\<lparr>ch_buf := ch_buf (channels b ! i) @ [e]\<rparr>]\<rparr>"
      "\<not> ch_closed (channels b ! i)"
      by (auto simp: publish_send_def chan_send_def split: option.splits if_splits)
    with True show ?thesis by (simp add: sent_one.delivered)
  next
    case False
    with assms m have "b' = logDroppedEvent w now e DropReasonSubscriberBufferFull b" "\<not> ch_closed (channels b ! i)"
      by (auto simp: publish_send_def chan_send_def split: option.splits if_splits)
    with False show ?thesis by (simp add: sent_one.shed)
  qed
  then show "sent_one e i b b'" "\<not> ch_closed (channels b ! i)" by blast+
qed

lemma logDroppedEvent_effect:
  "channels (logDroppedEvent written now e r b) = channels b"
  "subscribers (logDroppedEvent written now e r b) = subscribers b"
  "bk_closed (logDroppedEvent written now e r b) = bk_closed b"
  "(retention (logDroppedEvent written now e r b) = None) = (retention b = None)"
  "retention b \<noteq> None \<Longrightarrow> dropped (logDroppedEvent written now e r b) = dropped b @ [e]"
  by (auto simp: logDroppedEvent_def Let_def Append_def dropped_def DroppedRetentionRecords_def Records_def)

lemma mset_concat_update:
  "i < length xss \<Longrightarrow> mset (concat (xss[i := ys])) + mset (xss ! i) = mset (concat xss) + mset ys"
proof (induction xss arbitrary: i)
  case (Cons xs xss)
  then show ?case by (cases i) auto
qed simp

lemma sent_one_effect:
  assumes "sent_one e i b b'" "i < length (channels b)" "retention b \<noteq> None"
  shows "length (channels b') = length (channels b)" "map ch_cap (channels b') = map ch_cap (channels b)"
    "retention b' \<noteq> None" "subscribers b' = subscribers b" "bk_closed b' = bk_closed b"
    "map ch_closed (channels b') = map ch_closed (channels b)"
    "mset (concat (bufs b')) + mset (dropped b') = mset (concat (bufs b)) + mset (dropped b) + {#e#}"
    "bufs b' = bufs b \<or> bufs b' = (bufs b)[i := bufs b ! i @ [e]] \<and> length (bufs b ! i) < map ch_cap (channels b) ! i"
    "e \<in> set (bufs b' ! i) \<or> e \<in> set (dropped b')"
proof -
  let ?grow = "\<lambda>b'. mset (concat (bufs b')) + mset (dropped b') = mset (concat (bufs b)) + mset (dropped b) + {#e#}"
  let ?kept = "\<lambda>b'. length (channels b') = length (channels b) \<and> map ch_cap (channels b') = map ch_cap (channels b) \<and>
    retention b' \<noteq> None \<and> subscribers b' = subscribers b \<and> bk_closed b' = bk_closed b \<and>
    map ch_closed (channels b') = map ch_closed (channels b)"
  let ?where = "\<lambda>b'. (bufs b' = bufs b \<or> bufs b' = (bufs b)[i := bufs b ! i @ [e]] \<and> length (bufs b ! i) < map ch_cap (channels b) ! i) \<and>
    (e \<in> set (bufs b' ! i) \<or> e \<in> set (dropped b'))"
  from assms(1) have "?grow b' \<and> ?kept b' \<and> ?where b'"
  proof cases
    case delivered
    have b: "bufs b' = (bufs b)[i := bufs b ! i @ [e]]" "dropped b' = dropped b"
      using delivered assms(2) by (simp_all add: bufs_def map_update dropped_def DroppedRetentionRecords_def)
    then have "?grow b'" using mset_concat_update [of i "bufs b" "bufs b ! i @ [e]"] assms(2) by simp
    moreover have "?where b'" using b delivered(2) assms(2) by simp
    moreover have "?kept b'" using delivered assms(2,3) by (simp add: map_update list_update_same_conv)
    ultimately show ?thesis by blast
  next
    case shed
    then have "bufs b' = bufs b" by (simp add: bufs_def logDroppedEvent_effect)
    with shed assms(3) show ?thesis by (simp add: logDroppedEvent_effect)
  qed
  then show "length (channels b') = length (channels b)" "map ch_cap (channels b') = map ch_cap (channels b)"
    "retention b' \<noteq> None" "subscribers b' = subscribers b" "bk_closed b' = bk_closed b"
    "map ch_closed (channels b') = map ch_closed (channels b)" "?grow b'"
    "bufs b' = bufs b \<or> bufs b' = (bufs b)[i := bufs b ! i @ [e]] \<and> length (bufs b ! i) < map ch_cap (channels b) ! i"
    "e \<in> set (bufs b' ! i) \<or> e \<in> set (dropped b')"
    by blast+
qed

subsection \<open>The invariant of every interleaving\<close>

definition of_sub :: "nat \<Rightarrow> (nat \<times> 'p event) list \<Rightarrow> 'p event list" where
  "of_sub i xs = map snd (filter (\<lambda>p. fst p = i) xs)"

lemma of_sub_append [simp]: "of_sub i (xs @ ys) = of_sub i xs @ of_sub i ys"
  by (simp add: of_sub_def)

lemma of_sub_single [simp]: "of_sub i [(j, e)] = (if j = i then [e] else [])"
  by (simp add: of_sub_def)

definition broker_ok :: "'p broker \<Rightarrow> bool" where
  "broker_ok b \<longleftrightarrow> retention b \<noteq> None \<and>
     (\<forall>i < length (channels b). length (bufs b ! i) \<le> map ch_cap (channels b) ! i) \<and>
     (\<forall>p \<in> set (subscribers b). \<forall>i \<in> set (snd p). i < length (channels b))"

lemma broker_ok_sent:
  assumes "sent_one e i b b'" "i < length (channels b)" "broker_ok b"
  shows "broker_ok b'"
proof -
  from assms(3) have "retention b \<noteq> None" by (simp add: broker_ok_def)
  note eff = sent_one_effect [OF assms(1,2) this]
  have "length (bufs b' ! j) \<le> map ch_cap (channels b') ! j" if "j < length (channels b)" for j
    using eff(2,8) that assms(2,3) by (cases "i = j") (auto simp: broker_ok_def simp del: bufs_nth)
  with eff assms(3) show ?thesis by (simp add: broker_ok_def)
qed

definition targets_ok :: "nat \<Rightarrow> 'p publishing \<Rightarrow> bool" where
  "targets_ok n p = (case p of Checked _ \<Rightarrow> True | Sending _ is \<Rightarrow> (\<forall>i \<in> set is. i < n))"

lemma targets_ok_simps [simp]:
  "targets_ok n (Checked e)" "targets_ok n (Sending e is) = (\<forall>i \<in> set is. i < n)"
  by (simp_all add: targets_ok_def)

lemma targets_ok_mono: "targets_ok n p \<Longrightarrow> n \<le> m \<Longrightarrow> targets_ok m p"
  by (auto simp: targets_ok_def split: publishing.splits)

definition accounted :: "'p system \<Rightarrow> bool" where
  "accounted s \<longleftrightarrow> mset (map snd (sy_sent s)) =
     mset (map snd (sy_received s)) + mset (concat (bufs (sy_broker s))) + mset (dropped (sy_broker s))"

definition in_order :: "'p system \<Rightarrow> bool" where
  "in_order s \<longleftrightarrow> (\<forall>i < length (channels (sy_broker s)).
     subseq (of_sub i (sy_received s) @ bufs (sy_broker s) ! i) (of_sub i (sy_sent s)))"

definition system_ok :: "'p system \<Rightarrow> bool" where
  "system_ok s \<longleftrightarrow> broker_ok (sy_broker s) \<and>
     (\<forall>p \<in> set (sy_publishers s). targets_ok (length (channels (sy_broker s))) p) \<and>
     length (sy_watch s) = length (channels (sy_broker s)) \<and>
     (\<forall>p \<in> set (sy_received s) \<union> set (sy_sent s). fst p < length (channels (sy_broker s))) \<and>
     accounted s \<and> in_order s"

lemmas system_defs = system_ok_def broker_ok_def accounted_def in_order_def

text \<open>A step that leaves the buffers and the drop records alone.\<close>

lemma system_ok_same:
  assumes "system_ok s" "bufs (sy_broker s') = bufs (sy_broker s)"
    "map ch_cap (channels (sy_broker s')) = map ch_cap (channels (sy_broker s))"
    "retention (sy_broker s') = retention (sy_broker s)"
    "\<forall>p \<in> set (subscribers (sy_broker s')). \<forall>i \<in> set (snd p). i < length (channels (sy_broker s))"
    "\<forall>p \<in> set (sy_publishers s'). targets_ok (length (channels (sy_broker s))) p"
    "length (sy_watch s') = length (sy_watch s)" "sy_sent s' = sy_sent s" "sy_received s' = sy_received s"
  shows "system_ok s'"
proof -
  have "length (channels (sy_broker s')) = length (channels (sy_broker s))"
    using assms(3) by (rule map_eq_imp_length_eq)
  with assms show ?thesis
    by (simp add: system_defs dropped_def DroppedRetentionRecords_def)
qed

lemma subs_of_bound:
  assumes "\<forall>p \<in> set (subscribers b). \<forall>i \<in> set (snd p). i < n" "i \<in> set (subs_of t b)"
  shows "i < n"
proof (cases "map_of (subscribers b) t")
  case (Some ss)
  then have "(t, ss) \<in> set (subscribers b)" by (rule map_of_SomeD)
  with assms Some show ?thesis by (auto simp: subs_of_def)
qed (use assms in \<open>simp add: subs_of_def\<close>)

lemma removeSubscriber_bound:
  assumes "\<forall>p \<in> set (subscribers b). \<forall>i \<in> set (snd p). i < n"
  shows "\<forall>p \<in> set (subscribers (removeSubscriber t j b)). \<forall>i \<in> set (snd p). i < n"
proof -
  have "i < n" if "i \<in> set (remove1 j (subs_of t b))" for i
    using that subs_of_bound [OF assms] by (meson notin_set_remove1)
  with assms show ?thesis
    by (auto simp: removeSubscriber_def Let_def map_delete_def dest!: in_map_put)
qed

lemma do_subscribe_ok: "system_ok s \<Longrightarrow> system_ok (do_subscribe t s)"
proof -
  assume ok: "system_ok s"
  show ?thesis
  proof (cases "t = []")
    case False
    let ?n = "length (channels (sy_broker s))"
    from ok have "\<forall>p \<in> set (subscribers (sy_broker s)). \<forall>i \<in> set (snd p). i < ?n"
      by (simp add: system_ok_def broker_ok_def)
    then have subs: "\<forall>p \<in> set (map_put t (subs_of t (sy_broker s) @ [?n]) (subscribers (sy_broker s))).
        \<forall>i \<in> set (snd p). i < Suc ?n"
      using subs_of_bound [of "sy_broker s" ?n _ t] by (auto dest!: in_map_put simp: less_Suc_eq)
    have "of_sub ?n xs = []" if "\<forall>p \<in> set xs. fst p < ?n" for xs :: "(nat \<times> 'a event) list"
      using that by (auto simp: of_sub_def filter_empty_conv)
    with ok False subs show ?thesis
      by (auto simp: do_subscribe_def Subscribe_def system_defs bufs_def nth_append less_Suc_eq
          dropped_def DroppedRetentionRecords_def intro: targets_ok_mono less_SucI)
  qed (use ok in \<open>simp add: do_subscribe_def Subscribe_def\<close>)
qed

lemma system_ok_bound:
  assumes "system_ok s"
  shows "\<forall>p \<in> set (subscribers (sy_broker s)). \<forall>i \<in> set (snd p). i < length (channels (sy_broker s))"
    "\<forall>p \<in> set (sy_publishers s). targets_ok (length (channels (sy_broker s))) p"
    "length (sy_watch s) = length (channels (sy_broker s))" "retention (sy_broker s) \<noteq> None"
  using assms by (simp_all add: system_ok_def broker_ok_def)

lemma do_publish_ok:
  assumes "system_ok s" shows "system_ok (do_publish now e s)"
  using assms system_ok_bound [OF assms]
  by (auto simp: do_publish_def split: sum.splits intro!: system_ok_same [OF assms])

lemma do_copy_ok:
  assumes "system_ok s" shows "system_ok (do_copy k s)"
proof -
  note b = system_ok_bound [OF assms]
  have "i < length (channels (sy_broker s))" if "i \<in> set (publish_targets e (sy_broker s))" for e i
    using that subs_of_bound [OF b(1)] by (simp add: publish_targets_def)
  with assms b show ?thesis
    by (auto simp: do_copy_def split: publishing.splits intro!: system_ok_same [OF assms] dest!: in_set_update)
qed

lemma do_cancel_ok:
  assumes "system_ok s" shows "system_ok (do_cancel i s)"
  using assms system_ok_bound [OF assms] removeSubscriber_bound [OF system_ok_bound(1) [OF assms]]
  by (auto simp: do_cancel_def bufs_def split: prod.splits watch.splits intro!: system_ok_same [OF assms])

lemma do_finish_ok:
  assumes "system_ok s" shows "system_ok (do_finish i s)"
proof -
  obtain e b where c: "close_subscriber i (sy_broker s) = (e, b)" by fastforce
  note close_subscriber_bufs [OF c] system_ok_bound [OF assms]
  then show ?thesis using assms c
    by (auto simp: do_finish_def split: prod.splits watch.splits option.splits intro!: system_ok_same [OF assms])
qed

lemma do_close_ok:
  assumes "system_ok s" shows "system_ok (do_close s)"
proof -
  obtain e b where c: "Close (sy_broker s) = (e, b)" by fastforce
  note Close_bufs [OF c] system_ok_bound [OF assms]
  then show ?thesis using c by (auto simp: do_close_def intro!: system_ok_same [OF assms])
qed

lemma do_receive_ok:
  assumes "system_ok s" shows "system_ok (do_receive i s)"
proof (cases "i < length (channels (sy_broker s)) \<and> ch_buf (channels (sy_broker s) ! i) \<noteq> []")
  case True
  let ?b = "sy_broker s"
  from True obtain e es where es: "ch_buf (channels ?b ! i) = e # es" by (cases "ch_buf (channels ?b ! i)") auto
  let ?s = "do_receive i s"
  have s: "bufs (sy_broker ?s) = (bufs ?b)[i := es]" "sy_received ?s = sy_received s @ [(i, e)]"
    "map ch_cap (channels (sy_broker ?s)) = map ch_cap (channels ?b)" "retention (sy_broker ?s) = retention ?b"
    "subscribers (sy_broker ?s) = subscribers ?b" "sy_sent ?s = sy_sent s" "sy_publishers ?s = sy_publishers s"
    "sy_watch ?s = sy_watch s" "length (channels (sy_broker ?s)) = length (channels ?b)"
    using True es by (simp_all add: do_receive_def Let_def bufs_def map_update list_update_same_conv)
  have "mset (concat ((bufs ?b)[i := es])) + {#e#} = mset (concat (bufs ?b))"
    using mset_concat_update [of i "bufs ?b" es] True es by simp
  moreover have "mset (concat (bufs ?b)) = {#e#} + mset (concat ((bufs ?b)[i := es]))"
    using calculation by simp
  moreover have "length es \<le> map ch_cap (channels ?b) ! i" if "length (bufs ?b ! i) \<le> map ch_cap (channels ?b) ! i"
    using that True es by simp
  ultimately show ?thesis using assms True es
    by (auto simp: system_defs s dropped_def DroppedRetentionRecords_def nth_list_update)
next
  case False
  then have "do_receive i s = s" by (auto simp: do_receive_def Let_def split: list.splits)
  with assms show ?thesis by simp
qed

lemma do_send_ok:
  assumes "system_ok s" shows "system_ok (do_send k m s)"
proof -
  let ?b = "sy_broker s"
  note bd = system_ok_bound [OF assms]
  have same: "system_ok (s\<lparr>sy_publishers := (sy_publishers s)[k := Sending e []]\<rparr>)" "system_ok (s\<lparr>sy_crashed := c\<rparr>)" for e c
    using bd by (auto intro!: system_ok_same [OF assms] dest!: in_set_update)
  have go: "system_ok (s\<lparr>sy_broker := b, sy_publishers := (sy_publishers s)[k := Sending e is], sy_sent := sy_sent s @ [(i, e)]\<rparr>)"
    if p: "k < length (sy_publishers s)" "sy_publishers s ! k = Sending e (i # is)"
      and send: "publish_send m e i ?b = (None, b)" for e i "is" b
  proof -
    from bd(2) p have t: "targets_ok (length (channels ?b)) (Sending e (i # is))" by (metis nth_mem)
    then have i: "i < length (channels ?b)" and ts: "targets_ok (length (channels ?b)) (Sending e is)"
      by (simp_all add: targets_ok_def)
    note eff = sent_one_effect [OF publish_send_cases(1) [OF send] i bd(4)]
    have acc: "mset (concat (bufs b)) + mset (dropped b) = mset (concat (bufs ?b)) + mset (dropped ?b) + {#e#}"
      by (rule eff(7))
    have pubs: "\<forall>q \<in> set ((sy_publishers s)[k := Sending e is]). targets_ok (length (channels ?b)) q"
      using bd(2) ts by (auto dest!: in_set_update)
    from assms have ord: "subseq (of_sub j (sy_received s) @ bufs ?b ! j) (of_sub j (sy_sent s))"
      if "j < length (channels ?b)" for j using that by (simp add: system_defs)
    have ord': "subseq (of_sub j (sy_received s) @ bufs b ! j) (of_sub j (sy_sent s @ [(i, e)]))"
      if "j < length (channels ?b)" for j
    proof (cases "bufs b ! j = bufs ?b ! j")
      case True
      with ord [OF that] show ?thesis by (simp add: list_emb_prefix)
    next
      case False
      with eff(8) that i have "j = i" "bufs b ! j = bufs ?b ! j @ [e]"
        by (cases "i = j"; auto)+
      with list_emb_append_mono [OF ord [OF that], of "[e]" "[e]"] show ?thesis by simp
    qed
    have "broker_ok b"
      using broker_ok_sent [OF publish_send_cases(1) [OF send] i] assms by (simp add: system_ok_def)
    moreover from assms have "mset (map snd (sy_sent s)) =
        mset (map snd (sy_received s)) + (mset (concat (bufs ?b)) + mset (dropped ?b))"
      by (simp add: system_ok_def accounted_def union_assoc)
    then have "mset (map snd (sy_sent s @ [(i, e)])) =
        mset (map snd (sy_received s)) + (mset (concat (bufs b)) + mset (dropped b))"
      unfolding acc by simp
    moreover have "length (sy_watch s) = length (channels b)"
      "\<forall>p \<in> set (sy_received s) \<union> set (sy_sent s @ [(i, e)]). fst p < length (channels b)"
      using assms eff(1) i by (auto simp: system_ok_def)
    ultimately show ?thesis using pubs ord' eff(1)
      by (simp add: system_ok_def accounted_def in_order_def union_assoc)
  qed
  show ?thesis using assms same go
    by (auto simp: do_send_def split: publishing.splits list.splits prod.splits option.splits)
qed

lemma broker_step_ok: "system_ok s \<Longrightarrow> system_ok (broker_step a s)"
  by (cases a) (simp_all add: do_subscribe_ok do_publish_ok do_copy_ok do_send_ok do_receive_ok do_cancel_ok
      do_finish_ok do_close_ok)

lemma broker_run_ok: "system_ok s \<Longrightarrow> system_ok (broker_run as s)"
  unfolding broker_run_def by (induction as arbitrary: s) (simp_all add: broker_step_ok del: broker_step.simps)

lemma fold_options:
  "(\<And>opt b. opt \<in> set opts \<Longrightarrow> P b \<Longrightarrow> P (opt b)) \<Longrightarrow> P b \<Longrightarrow> P (fold (\<lambda>opt b. opt b) opts b)"
  by (induction opts arbitrary: b) auto

definition fresh :: "'p broker \<Rightarrow> bool" where
  "fresh b \<longleftrightarrow> subscribers b = [] \<and> channels b = [] \<and> (\<exists>r. retention b = Some r \<and> records r = []) \<and> \<not> bk_closed b"

lemma fresh_new: "fresh (NewInMemoryBroker [WithSubscriberBuffer n, WithDroppedEventsLogger l])"
  by (simp add: fresh_def NewInMemoryBroker_def WithSubscriberBuffer_def WithDroppedEventsLogger_def
      NewDroppedEventRetentionBuffer_def)

lemma start_system_ok: "fresh b \<Longrightarrow> system_ok (start_system b)"
  by (auto simp: fresh_def start_system_def system_defs bufs_def dropped_def DroppedRetentionRecords_def Records_def)

text \<open>
  C22: The broker loses no event without a record. In every interleaving of publishers,
  subscribers, cancellations and \<open>Close\<close>, starting from a new broker with a retention
  buffer, the events sent to subscribers are exactly those received, those waiting in a
  subscriber's buffer, and those in the retention records, counted with repetition; no
  buffer grows past its capacity.
\<close>

theorem broker_accounts_for_every_event:
  assumes "fresh b"
  shows "let s = broker_run as (start_system b) in
    mset (map snd (sy_sent s)) =
      mset (map snd (sy_received s)) + mset (concat (map ch_buf (channels (sy_broker s)))) +
      mset (map dr_Event (DroppedRetentionRecords (sy_broker s))) \<and>
    (\<forall>c \<in> set (channels (sy_broker s)). length (ch_buf c) \<le> ch_cap c)"
proof -
  have "system_ok (broker_run as (start_system b))"
    by (intro broker_run_ok start_system_ok assms)
  then show ?thesis
    by (auto simp: Let_def system_defs bufs_def dropped_def in_set_conv_nth)
qed

definition demo_event :: "nat \<Rightarrow> nat event" where
  "demo_event n = \<lparr>ev_Topic = ''match.ended'', ev_Payload = n, ev_Timestamp = 0\<rparr>"

definition demo_broker_run :: "nat system" where
  "demo_broker_run = broker_run
     [ASubscribe ''match.ended'', APublish 7 (demo_event 1), ACopy 0, APublish 7 (demo_event 2), ACopy 1,
      ASend 1 (None, True, 8), ASend 0 (None, True, 9), AReceive 0]
     (start_system (NewInMemoryBroker [WithSubscriberBuffer 1]))"

lemmas broker_run_defs = broker_run_def broker_step.simps do_subscribe_def do_publish_def do_copy_def do_send_def
  do_receive_def do_cancel_def do_finish_def do_close_def Subscribe_def subs_of_def publish_check_def
  publish_targets_def publish_send_def chan_send_def logDroppedEvent_def Append_def start_system_def
  NewInMemoryBroker_def WithSubscriberBuffer_def NewDroppedEventRetentionBuffer_def Let_def

lemma demo_broker_run_value:
  "map ev_Payload (map snd (sy_sent demo_broker_run)) = [2, 1]"
  "map ev_Payload (map snd (sy_received demo_broker_run)) = [2]"
  "map (ev_Payload \<circ> dr_Event) (DroppedRetentionRecords (sy_broker demo_broker_run)) = [1]"
  by (simp_all add: demo_broker_run_def demo_event_def broker_run_defs DroppedRetentionRecords_def Records_def)

lemma broker_accounts_for_every_event_witness:
  "mset (map snd (sy_sent demo_broker_run)) =
     mset (map snd (sy_received demo_broker_run)) + mset (concat (map ch_buf (channels (sy_broker demo_broker_run)))) +
     mset (map dr_Event (DroppedRetentionRecords (sy_broker demo_broker_run))) \<and>
   map (ev_Payload \<circ> dr_Event) (DroppedRetentionRecords (sy_broker demo_broker_run)) = [1]"
proof -
  have "fresh (NewInMemoryBroker [WithSubscriberBuffer 1] :: nat broker)"
    by (simp add: fresh_def NewInMemoryBroker_def WithSubscriberBuffer_def NewDroppedEventRetentionBuffer_def)
  from broker_accounts_for_every_event [OF this] show ?thesis
    unfolding demo_broker_run_def [symmetric] Let_def by (metis demo_broker_run_def demo_broker_run_value(3))
qed

text \<open>
  Subscribers see events in order. In every interleaving, what one subscriber has
  received followed by what waits in its buffer is a subsequence of what was sent to it:
  nothing is reordered, repeated or made up, and what is missing was dropped.
\<close>

theorem subscribers_receive_in_order:
  assumes "fresh b" "i < length (channels (sy_broker (broker_run as (start_system b))))"
  shows "let s = broker_run as (start_system b) in
    subseq (of_sub i (sy_received s) @ ch_buf (channels (sy_broker s) ! i)) (of_sub i (sy_sent s))"
proof -
  have "system_ok (broker_run as (start_system b))"
    by (intro broker_run_ok start_system_ok assms(1))
  with assms(2) show ?thesis by (simp add: Let_def system_defs)
qed

lemma subscribers_receive_in_order_witness:
  "subseq (of_sub 0 (sy_received demo_broker_run) @ ch_buf (channels (sy_broker demo_broker_run) ! 0))
     (of_sub 0 (sy_sent demo_broker_run)) \<and>
   map ev_Payload (map snd (sy_received demo_broker_run)) = [2]"
proof -
  have f: "fresh (NewInMemoryBroker [WithSubscriberBuffer 1] :: nat broker)"
    by (simp add: fresh_def NewInMemoryBroker_def WithSubscriberBuffer_def NewDroppedEventRetentionBuffer_def)
  have "0 < length (channels (sy_broker demo_broker_run))"
    by (simp add: demo_broker_run_def demo_event_def broker_run_defs)
  with subscribers_receive_in_order [OF f] show ?thesis
    unfolding demo_broker_run_def Let_def by (metis demo_broker_run_def demo_broker_run_value(2))
qed

subsection \<open>Panics\<close>

text \<open>
  Channels are closed without regard to publishers and to \<open>Close\<close>: cancelling a
  subscription while a publisher is between its copy of the subscribers and its send, and
  cancelling one after \<open>Close\<close>, both end the process.
\<close>

lemma cancel_during_publish_panics:
  "sy_crashed (broker_run [ASubscribe ''match.ended'', APublish 7 (demo_event 1), ACopy 0, ACancel 0, AFinish 0,
      ASend 0 (None, True, 8)] (start_system (NewInMemoryBroker []))) =
    Some (GoPanic ''send on closed channel'')"
  by (simp add: demo_event_def broker_run_defs close_subscriber_def chan_close_def removeSubscriber_def
      map_delete_def is_panic_def)

lemma cancel_after_close_panics:
  "sy_crashed (broker_run [ASubscribe ''match.ended'', AClose, ACancel 0, AFinish 0]
      (start_system (NewInMemoryBroker []))) = Some (GoPanic ''close of closed channel'')"
  by (simp add: broker_run_defs close_subscriber_def Close_def chan_close_def removeSubscriber_def map_delete_def)

end
