(* ===== verification/Engine_Events.thy ===== *)
theory Engine_Events
  imports Broker_Laws
begin

section \<open>The game engine over the broker\<close>

text \<open>
  The game engine of \<open>pkg/game/loop.go\<close> publishes through a \<open>Broker\<close>. The interface it
  relies on is the locale \<open>event_sink\<close>: a sink that is ready takes every event, stays
  ready, and keeps what it has taken. The in-memory broker is one; what a \<open>Tick\<close> hands
  over to it is therefore with each subscriber or in the retention records, however slow
  the subscribers are.
\<close>

subsection \<open>The interface\<close>

locale event_sink =
  fixes sink :: "'w publisher"
    and ready :: "'w \<Rightarrow> bool"
    and kept :: "game_event \<Rightarrow> 'w \<Rightarrow> bool"
  assumes accepts: "ready w \<Longrightarrow> fst (sink e w) = None"
    and stays_ready: "ready w \<Longrightarrow> ready (snd (sink e w))"
    and takes: "ready w \<Longrightarrow> kept e (snd (sink e w))"
    and keeps: "ready w \<Longrightarrow> kept e w \<Longrightarrow> kept e (snd (sink e' w))"
begin

lemma publish_taken:
  assumes "ready w"
  shows "\<exists>w'. publish_event sink t p w = (None, w') \<and> ready w' \<and> kept \<lparr>Topic = t, Payload = p\<rparr> w' \<and>
    (\<forall>e. kept e w \<longrightarrow> kept e w')"
  using accepts stays_ready takes keeps assms
  by (intro exI [of _ "snd (publish_event sink t p w)"]) (simp add: publish_event_def prod_eq_iff)

text \<open>The events of \<open>EndMatch\<close> and \<open>Tick\<close>, as the logging publisher records them.\<close>

lemma EndMatch_taken:
  assumes "ready w"
  shows "\<exists>w'. EndMatch sink sid (Some oc) so w = (None, w') \<and> ready w' \<and>
    (\<forall>e. kept e w \<longrightarrow> kept e w') \<and>
    (\<forall>e \<in> set (snd (EndMatch log_publisher sid (Some oc) so [])). kept e w')"
proof -
  let ?ended = "MatchEndedPayload sid oc (case so of None \<Rightarrow> [] | Some s \<Rightarrow> Players s) so"
  let ?won = "PlayerNotificationPayload sid (WinnerID oc) ''match_won''
    (''player '' @ WinnerID oc @ '' won match '' @ sid)"
  obtain w1 where w1: "publish_event sink TopicMatchEnded ?ended w = (None, w1)" "ready w1"
    "kept \<lparr>Topic = TopicMatchEnded, Payload = ?ended\<rparr> w1" "\<And>e. kept e w \<Longrightarrow> kept e w1"
    using publish_taken [OF assms, where t = TopicMatchEnded and p = ?ended] by blast
  show ?thesis
  proof (cases "WinnerID oc = []")
    case True
    with w1 show ?thesis by (simp add: EndMatch_def publish_event_def [of log_publisher] log_publisher_def Let_def)
  next
    case False
    obtain w2 where w2: "publish_event sink TopicPlayerNotification ?won w1 = (None, w2)" "ready w2"
      "kept \<lparr>Topic = TopicPlayerNotification, Payload = ?won\<rparr> w2" "\<And>e. kept e w1 \<Longrightarrow> kept e w2"
      using publish_taken [OF w1(2), where t = TopicPlayerNotification and p = ?won] by blast
    with w1 False show ?thesis
      by (auto simp: EndMatch_def publish_event_def [of log_publisher] log_publisher_def Let_def)
  qed
qed

lemma Tick_taken:
  assumes "ready w" "\<And>r. res = Some r \<Longrightarrow> MatchEnded r \<Longrightarrow> Outcome r \<noteq> None"
  shows "\<exists>w'. Tick sink s res w = (None, w') \<and> ready w' \<and>
    (\<forall>e \<in> set (snd (Tick log_publisher s res [])). kept e w')"
proof -
  let ?roster = "MatchmakingUpdatePayload (SessionID s) (Status s) (Players s) (CurrentTurn s)"
  let ?turn = "PlayerNotificationPayload (SessionID s) (CurrentTurn s) ''turn_changed''
    (''it is now '' @ CurrentTurn s @ CHR 0x27 # ''s turn'')"
  obtain w1 where w1: "publish_event sink TopicMatchmakingUpdate ?roster w = (None, w1)" "ready w1"
    "kept \<lparr>Topic = TopicMatchmakingUpdate, Payload = ?roster\<rparr> w1"
    using publish_taken [OF assms(1), where t = TopicMatchmakingUpdate and p = ?roster] by blast
  define evs where "evs = (if CurrentTurn s \<noteq> [] then [\<lparr>Topic = TopicPlayerNotification, Payload = ?turn\<rparr>] else [])"
  obtain w2 where w2: "(if CurrentTurn s \<noteq> [] then publish_event sink TopicPlayerNotification ?turn w1 else (None, w1)) =
      (None, w2)" "ready w2" "\<And>e. kept e w1 \<Longrightarrow> kept e w2" "\<And>e. e \<in> set evs \<Longrightarrow> kept e w2"
  proof (cases "CurrentTurn s = []")
    case False
    from publish_taken [OF w1(2), where t = TopicPlayerNotification and p = ?turn]
    obtain w2 where "publish_event sink TopicPlayerNotification ?turn w1 = (None, w2)" "ready w2"
      "kept \<lparr>Topic = TopicPlayerNotification, Payload = ?turn\<rparr> w2" "\<forall>e. kept e w1 \<longrightarrow> kept e w2"
      by blast
    with False show ?thesis by (intro that [of w2]) (auto simp: evs_def)
  qed (use w1(2) that [of w1] in \<open>simp add: evs_def\<close>)
  let ?pre = "\<lparr>Topic = TopicMatchmakingUpdate, Payload = ?roster\<rparr> # evs"
  have pre: "kept e w2" if "e \<in> set ?pre" for e
    using that w1(3) w2(3,4) by auto
  show ?thesis
  proof (cases "\<exists>r oc. res = Some r \<and> MatchEnded r \<and> Outcome r = Some oc")
    case True
    then obtain r oc where r: "res = Some r" "MatchEnded r" "Outcome r = Some oc" by blast
    obtain w3 where w3: "EndMatch sink (SessionID s) (Some oc) (Some s) w2 = (None, w3)" "ready w3"
      "\<forall>e. kept e w2 \<longrightarrow> kept e w3" "\<forall>e \<in> set (snd (EndMatch log_publisher (SessionID s) (Some oc) (Some s) [])). kept e w3"
      using EndMatch_taken [OF w2(2)] by blast
    have "set (snd (Tick log_publisher s res [])) =
        set ?pre \<union> set (snd (EndMatch log_publisher (SessionID s) (Some oc) (Some s) []))"
      using r by (auto simp: evs_def Tick_def EndMatch_def publish_event_def log_publisher_def Let_def)
    with w1 w2 w3 r pre show ?thesis by (auto simp: Tick_def)
  next
    case False
    with assms(2) have run: "\<not> (\<exists>r. res = Some r \<and> MatchEnded r)" by fastforce
    then have "snd (Tick log_publisher s res []) = ?pre"
      by (cases res) (auto simp: evs_def Tick_def publish_event_def log_publisher_def)
    with w1 w2 run pre show ?thesis by (cases res) (auto simp: Tick_def)
  qed
qed

end

subsection \<open>The broker as a sink\<close>

definition topic_name :: "topic \<Rightarrow> string" where
  "topic_name t = (case t of TopicMatchEnded \<Rightarrow> ''match.ended''
     | TopicMatchmakingUpdate \<Rightarrow> ''matchmaking.update''
     | TopicPlayerNotification \<Rightarrow> ''player.notification'')"

text \<open>
  \<open>GameEngine.publish\<close> on an in-memory broker; \<open>clock\<close> gives the milliseconds of the event
  and the nanoseconds of its drops, and the context of the engine is never cancelled.
\<close>

definition broker_event :: "int \<Rightarrow> game_event \<Rightarrow> game_payload event" where
  "broker_event ts e = \<lparr>ev_Topic = topic_name (Topic e), ev_Payload = Payload e, ev_Timestamp = ts\<rparr>"

definition engine_publish :: "int \<times> int \<Rightarrow> game_payload broker publisher" where
  "engine_publish clock e b = Publish (fst clock) (\<lambda>_. (None, True, snd clock)) (broker_event 0 e) b"

definition open_broker :: "'p broker \<Rightarrow> bool" where
  "open_broker b \<longleftrightarrow> \<not> bk_closed b \<and> broker_ok b \<and>
     (\<forall>p \<in> set (subscribers b). \<forall>i \<in> set (snd p). \<not> map ch_closed (channels b) ! i)"

text \<open>With every subscriber of the topic, or among the drop records.\<close>

definition with_all :: "int \<Rightarrow> game_event \<Rightarrow> game_payload broker \<Rightarrow> bool" where
  "with_all ts e b \<longleftrightarrow> (\<forall>i \<in> set (subs_of (topic_name (Topic e)) b).
     broker_event ts e \<in> set (bufs b ! i) \<or> broker_event ts e \<in> set (dropped b))"

lemma open_send:
  assumes "open_broker b" "i \<in> set (subs_of t b)"
  obtains b' where "publish_send (None, w, now) e i b = (None, b')" "open_broker b'"
    "subscribers b' = subscribers b" "e \<in> set (bufs b' ! i) \<or> e \<in> set (dropped b')"
    "\<And>j x. x \<in> set (bufs b ! j) \<Longrightarrow> j < length (channels b) \<Longrightarrow> x \<in> set (bufs b' ! j)"
    "set (dropped b) \<subseteq> set (dropped b')" "length (channels b') = length (channels b)"
proof -
  obtain ss where ss: "(t, ss) \<in> set (subscribers b)" "i \<in> set ss"
    using assms(2) by (cases "map_of (subscribers b) t") (auto simp: subs_of_def dest: map_of_SomeD)
  with assms(1) have i: "i < length (channels b)" by (fastforce simp: open_broker_def broker_ok_def)
  moreover from assms(1) ss have "\<not> map ch_closed (channels b) ! i" by (fastforce simp: open_broker_def)
  ultimately have "\<not> ch_closed (channels b ! i)" by simp
  then have "\<exists>b'. publish_send (None, w, now) e i b = (None, b')"
    by (cases "length (ch_buf (channels b ! i)) < ch_cap (channels b ! i)")
      (simp_all add: publish_send_def chan_send_def)
  then obtain b' where b': "publish_send (None, w, now) e i b = (None, b')" ..
  have ret: "retention b \<noteq> None" using assms(1) by (simp add: open_broker_def broker_ok_def)
  note so = publish_send_cases(1) [OF b']
  note eff = sent_one_effect [OF so i ret]
  have "broker_ok b'" using broker_ok_sent [OF so i] assms(1) by (simp add: open_broker_def)
  with assms(1) eff have "open_broker b'" by (simp add: open_broker_def)
  moreover have "x \<in> set (bufs b' ! j)" if "x \<in> set (bufs b ! j)" "j < length (channels b)" for j x
    using eff(8) that i by (cases "i = j") auto
  moreover have "set (dropped b) \<subseteq> set (dropped b')"
    using so ret by cases (auto simp: logDroppedEvent_effect, simp add: dropped_def DroppedRetentionRecords_def)
  ultimately show ?thesis using that [OF b'] eff by blast
qed

lemma open_loop:
  assumes "open_broker b" "set is \<subseteq> set (subs_of t b)"
  shows "\<exists>b'. publish_loop (\<lambda>_. (None, True, now)) e is b = (None, b') \<and> open_broker b' \<and>
    subscribers b' = subscribers b \<and> length (channels b') = length (channels b) \<and>
    (\<forall>i \<in> set is. e \<in> set (bufs b' ! i) \<or> e \<in> set (dropped b')) \<and>
    (\<forall>j x. x \<in> set (bufs b ! j) \<longrightarrow> j < length (channels b) \<longrightarrow> x \<in> set (bufs b' ! j)) \<and>
    set (dropped b) \<subseteq> set (dropped b')"
  using assms
proof (induction "is" arbitrary: b)
  case (Cons i "is")
  then have "i \<in> set (subs_of t b)" by simp
  from open_send [OF Cons.prems(1) this, where w = True and now = now and e = e]
  obtain b1 where b1: "publish_send (None, True, now) e i b = (None, b1)" "open_broker b1"
    "subscribers b1 = subscribers b" "e \<in> set (bufs b1 ! i) \<or> e \<in> set (dropped b1)"
    "\<And>j x. x \<in> set (bufs b ! j) \<Longrightarrow> j < length (channels b) \<Longrightarrow> x \<in> set (bufs b1 ! j)"
    "set (dropped b) \<subseteq> set (dropped b1)" "length (channels b1) = length (channels b)"
    by blast
  have "set is \<subseteq> set (subs_of t b1)" using Cons.prems(2) b1(3) by (simp add: subs_of_def)
  from Cons.IH [OF b1(2) this] obtain b2 where b2:
    "publish_loop (\<lambda>_. (None, True, now)) e is b1 = (None, b2)" "open_broker b2"
    "subscribers b2 = subscribers b1" "length (channels b2) = length (channels b1)"
    "\<forall>i \<in> set is. e \<in> set (bufs b2 ! i) \<or> e \<in> set (dropped b2)"
    "\<forall>j x. x \<in> set (bufs b1 ! j) \<longrightarrow> j < length (channels b1) \<longrightarrow> x \<in> set (bufs b2 ! j)"
    "set (dropped b1) \<subseteq> set (dropped b2)"
    by blast
  have "i < length (channels b)"
    using subs_of_bound [OF _ \<open>i \<in> set (subs_of t b)\<close>] Cons.prems(1) by (simp add: open_broker_def broker_ok_def)
  with b1 b2 show ?case by (intro exI [of _ b2]) auto
qed auto

lemma open_publish:
  assumes "open_broker b"
  shows "\<exists>b'. engine_publish clock e b = (None, b') \<and> open_broker b' \<and> subscribers b' = subscribers b \<and>
    length (channels b') = length (channels b) \<and>
    (\<forall>i \<in> set (subs_of (topic_name (Topic e)) b).
       broker_event (fst clock) e \<in> set (bufs b' ! i) \<union> set (dropped b')) \<and>
    (\<forall>j x. x \<in> set (bufs b ! j) \<longrightarrow> j < length (channels b) \<longrightarrow> x \<in> set (bufs b' ! j)) \<and>
    set (dropped b) \<subseteq> set (dropped b')"
proof -
  let ?e = "(broker_event 0 e)\<lparr>ev_Timestamp := fst clock\<rparr>"
  have "topic_name (Topic e) \<noteq> []" by (cases "Topic e") (simp_all add: topic_name_def)
  then have "engine_publish clock e b =
      publish_loop (\<lambda>_. (None, True, snd clock)) ?e (subs_of (topic_name (Topic e)) b) b"
    using assms by (simp add: engine_publish_def Publish_def publish_check_def publish_targets_def
        broker_event_def open_broker_def)
  moreover have "?e = broker_event (fst clock) e" by (simp add: broker_event_def)
  ultimately show ?thesis
    using open_loop [OF assms subset_refl, where t = "topic_name (Topic e)" and now = "snd clock" and e = ?e] by auto
qed

lemma with_all_mono:
  assumes "with_all ts e b" "open_broker b" "subscribers b' = subscribers b"
    "\<forall>j x. x \<in> set (bufs b ! j) \<longrightarrow> j < length (channels b) \<longrightarrow> x \<in> set (bufs b' ! j)"
    "set (dropped b) \<subseteq> set (dropped b')"
  shows "with_all ts e b'"
proof -
  have "i < length (channels b)" if "i \<in> set (subs_of t b)" for i t
    using subs_of_bound [OF _ that] assms(2) by (simp add: open_broker_def broker_ok_def)
  moreover have "subs_of t b' = subs_of t b" for t using assms(3) by (simp add: subs_of_def)
  ultimately show ?thesis using assms(1,4,5) by (auto simp: with_all_def)
qed

interpretation broker_sink: event_sink "engine_publish clock" open_broker "with_all (fst clock)" for clock
proof
  fix b :: "game_payload broker" and e e' :: game_event
  assume b: "open_broker b"
  from open_publish [OF b, of clock e] obtain b' where b': "engine_publish clock e b = (None, b')" "open_broker b'"
    "subscribers b' = subscribers b"
    "\<forall>i \<in> set (subs_of (topic_name (Topic e)) b). broker_event (fst clock) e \<in> set (bufs b' ! i) \<union> set (dropped b')"
    by auto
  then show "fst (engine_publish clock e b) = None" "open_broker (snd (engine_publish clock e b))"
    "with_all (fst clock) e (snd (engine_publish clock e b))"
    by (simp_all add: with_all_def subs_of_def)
  assume "with_all (fst clock) e b"
  with open_publish [OF b, of clock e'] with_all_mono [OF _ b, of "fst clock" e]
  show "with_all (fst clock) e (snd (engine_publish clock e' b))" by fastforce
qed

text \<open>
  A turn never waits for a consumer and loses no event silently. On a broker that is
  not closed, \<open>Tick\<close> returns without an error however full the buffers of the subscribers
  are, and each of its events is afterwards in the buffer of each subscriber of its topic
  or in the retention records.
\<close>

theorem tick_reaches_subscribers:
  assumes "open_broker b" "\<And>r. res = Some r \<Longrightarrow> MatchEnded r \<Longrightarrow> Outcome r \<noteq> None"
  shows "\<exists>b'. Tick (engine_publish clock) s res b = (None, b') \<and>
    (\<forall>e \<in> set (snd (Tick log_publisher s res [])). \<forall>i \<in> set (subs_of (topic_name (Topic e)) b').
       broker_event (fst clock) e \<in> set (ch_buf (channels b' ! i)) \<union> set (map dr_Event (DroppedRetentionRecords b')))"
proof -
  from broker_sink.Tick_taken [OF assms, where clock = clock and s = s]
  obtain b' where b': "Tick (engine_publish clock) s res b = (None, b')" "open_broker b'"
    "\<forall>e \<in> set (snd (Tick log_publisher s res [])). with_all (fst clock) e b'" by blast
  have "i < length (channels b')" if "i \<in> set (subs_of t b')" for i t
    using subs_of_bound [OF _ that] b'(2) by (simp add: open_broker_def broker_ok_def)
  with b' show ?thesis by (auto simp: with_all_def dropped_def)
qed

definition listening :: "game_payload broker" where
  "listening = snd (Subscribe ''matchmaking.update'' (NewInMemoryBroker [WithSubscriberBuffer 1]))"

lemma open_listening: "open_broker listening"
  by (auto simp: listening_def open_broker_def broker_ok_def bufs_def broker_run_defs)

lemma tick_reaches_subscribers_witness:
  "\<exists>b'. Tick (engine_publish (7, 8)) (NewGameSession ''g1'' [''p1'']) None listening = (None, b') \<and>
    (\<forall>e \<in> set (snd (Tick log_publisher (NewGameSession ''g1'' [''p1'']) None [])).
       \<forall>i \<in> set (subs_of (topic_name (Topic e)) b').
       broker_event (fst (7, 8 :: int)) e \<in> set (ch_buf (channels b' ! i)) \<union> set (map dr_Event (DroppedRetentionRecords b')))"
  by (rule tick_reaches_subscribers [OF open_listening]) simp

end
