(* ===== verification/Ws_Events.thy ===== *)
theory Ws_Events
  imports Commands View
begin

section \<open>WebSocket messages\<close>

text \<open>
  Models \<open>pkg/ws/events.go\<close>: the inbound messages of a client with their decoding, the
  outbound frames, and the errors of the game action handler. A frame is the value that is
  marshalled: the JSON text of a session, say, is represented by the session. Every field
  of \<open>GameSession\<close> and \<open>TurnResult\<close> has a JSON name, so decoding such a text gives the
  value back.
\<close>

subsection \<open>Names on the wire\<close>

definition EventTypePlayerMove :: string where "EventTypePlayerMove = ''PLAYER_MOVE''"
definition EventTypePlayTile :: string where "EventTypePlayTile = ''PLAY_TILE''"
definition EventTypeDrawFromBoneyard :: string where "EventTypeDrawFromBoneyard = ''DRAW_FROM_BONEYARD''"
definition EventTypePassTurn :: string where "EventTypePassTurn = ''PASS_TURN''"
definition EventTypeJoin :: string where "EventTypeJoin = ''JOIN''"
definition EventTypeLeave :: string where "EventTypeLeave = ''LEAVE''"
definition EventTypeStateSnapshot :: string where "EventTypeStateSnapshot = ''STATE_SNAPSHOT''"
definition EventTypeMatchEnd :: string where "EventTypeMatchEnd = ''MATCH_END''"
definition EventTypePlayerStatsUpdated :: string where "EventTypePlayerStatsUpdated = ''PLAYER_STATS_UPDATED''"
definition EventTypeSessionDelta :: string where "EventTypeSessionDelta = ''SESSION_DELTA''"
definition EventTypeError :: string where "EventTypeError = ''ERROR''"

lemmas event_type_defs = EventTypePlayerMove_def EventTypePlayTile_def EventTypeDrawFromBoneyard_def
  EventTypePassTurn_def EventTypeJoin_def EventTypeLeave_def EventTypeStateSnapshot_def EventTypeMatchEnd_def
  EventTypePlayerStatsUpdated_def EventTypeSessionDelta_def EventTypeError_def

datatype connection_status =
    ConnectionStatusConnected
  | ConnectionStatusDisconnected
  | ConnectionStatusAbandoned

datatype ws_code =
    ErrCodeInvalidJSON
  | ErrCodeInvalidEnvelope
  | ErrCodeUnknownEventType
  | ErrCodeInvalidPayload
  | ErrCodeSessionNotFound
  | ErrCodeSessionMismatch
  | ErrCodePlayerMismatch
  | ErrCodeMoveRejected
  | ErrCodeSessionLocked
  | ErrCodeNotImplemented
  | ErrCodeLeaderRedirect
  | ErrCodeEvaluationFailed

subsection \<open>Outbound frames\<close>

text \<open>
  \<open>EventEnvelope\<close> has type, time and payload, \<open>ErrorEnvelope\<close> time, code, message and,
  for a redirect, the ID and address of the leader; its type is always \<open>ERROR\<close>.
\<close>

datatype out_payload =
    StateSnapshotPayload "game_session option"
  | MatchEndPayload string string end_reason scores session_status
  | PlayerStatsUpdatedPayload stats_update
  | SessionDeltaPayload string string string bool "game_session option" "turn_result option"

datatype frame =
    EventEnvelope string int out_payload
  | ErrorEnvelope int ws_code string "(string \<times> string) option"

definition newErrorEnvelope :: "int \<Rightarrow> ws_code \<Rightarrow> string \<Rightarrow> frame" where
  "newErrorEnvelope now code message = ErrorEnvelope now code message None"

definition newRedirectEnvelope :: "int \<Rightarrow> string \<times> string \<Rightarrow> string \<Rightarrow> frame" where
  "newRedirectEnvelope now redirect message = ErrorEnvelope now ErrCodeLeaderRedirect message (Some redirect)"

text \<open>\<open>SessionDelta\<close> of the hub: \<open>None\<close> is an empty \<open>json.RawMessage\<close>.\<close>

record session_delta =
  sd_MatchID :: string
  sd_Op :: string
  sd_Applied :: bool
  sd_Session :: "game_session option"
  sd_Turn :: "turn_result option"

subsection \<open>Inbound messages\<close>

record inbound_envelope =
  ie_Type :: string
  ie_Timestamp :: int
  ie_Payload :: jtext

definition zero_envelope :: inbound_envelope where
  "zero_envelope = \<lparr>ie_Type = [], ie_Timestamp = 0, ie_Payload = None\<rparr>"

definition envelope_field :: "string \<Rightarrow> json \<Rightarrow> inbound_envelope \<Rightarrow> inbound_envelope option" where
  "envelope_field k j e =
     (if key_is ''type'' k then map_option (\<lambda>v. e\<lparr>ie_Type := v\<rparr>) (un_string j (ie_Type e))
      else if key_is ''timestamp'' k then map_option (\<lambda>v. e\<lparr>ie_Timestamp := v\<rparr>) (un_int j (ie_Timestamp e))
      else if key_is ''payload'' k then Some (e\<lparr>ie_Payload := Some j\<rparr>)
      else Some e)"

text \<open>
  The session and player that every payload names; \<open>DrawPayload\<close>, \<open>PassPayload\<close>,
  \<open>JoinPayload\<close> and \<open>LeavePayload\<close> have these two fields only.
\<close>

record actor_payload =
  ap_SessionID :: string
  ap_PlayerID :: string

definition zero_actor :: actor_payload where
  "zero_actor = \<lparr>ap_SessionID = [], ap_PlayerID = []\<rparr>"

definition actor_field :: "string \<Rightarrow> json \<Rightarrow> 'a actor_payload_scheme \<Rightarrow> 'a actor_payload_scheme option" where
  "actor_field k j p =
     (if key_is ''session_id'' k then map_option (\<lambda>v. p\<lparr>ap_SessionID := v\<rparr>) (un_string j (ap_SessionID p))
      else if key_is ''player_id'' k then map_option (\<lambda>v. p\<lparr>ap_PlayerID := v\<rparr>) (un_string j (ap_PlayerID p))
      else Some p)"

record move_payload = actor_payload +
  mp_TileID :: string
  mp_PlayAtLeft :: bool
  mp_X :: "int option"
  mp_Y :: "int option"

definition zero_move :: move_payload where
  "zero_move = \<lparr>ap_SessionID = [], ap_PlayerID = [], mp_TileID = [], mp_PlayAtLeft = False, mp_X = None, mp_Y = None\<rparr>"

text \<open>A pointer target: \<open>null\<close> makes it nil, another value is decoded into a new or the old integer.\<close>

definition un_int_ptr :: "json \<Rightarrow> int option \<Rightarrow> int option option" where
  "un_int_ptr j old =
     (if j = JNull then Some None
      else map_option Some (un_int j (case old of None \<Rightarrow> 0 | Some i \<Rightarrow> i)))"

definition move_field :: "string \<Rightarrow> json \<Rightarrow> move_payload \<Rightarrow> move_payload option" where
  "move_field k j p =
     (if key_is ''tile_id'' k then map_option (\<lambda>v. p\<lparr>mp_TileID := v\<rparr>) (un_string j (mp_TileID p))
      else if key_is ''play_at_left'' k then map_option (\<lambda>v. p\<lparr>mp_PlayAtLeft := v\<rparr>) (un_bool j (mp_PlayAtLeft p))
      else if key_is ''x'' k then map_option (\<lambda>v. p\<lparr>mp_X := v\<rparr>) (un_int_ptr j (mp_X p))
      else if key_is ''y'' k then map_option (\<lambda>v. p\<lparr>mp_Y := v\<rparr>) (un_int_ptr j (mp_Y p))
      else actor_field k j p)"

record play_tile_payload = actor_payload +
  pp_Tile :: domino_tile
  pp_PlayAtLeft :: bool

definition zero_play :: play_tile_payload where
  "zero_play = \<lparr>ap_SessionID = [], ap_PlayerID = [], pp_Tile = zero_tile, pp_PlayAtLeft = False\<rparr>"

definition play_tile_field :: "string \<Rightarrow> json \<Rightarrow> play_tile_payload \<Rightarrow> play_tile_payload option" where
  "play_tile_field k j p =
     (if key_is ''tile'' k then map_option (\<lambda>v. p\<lparr>pp_Tile := v\<rparr>) (un_struct tile_field j (pp_Tile p))
      else if key_is ''play_at_left'' k then map_option (\<lambda>v. p\<lparr>pp_PlayAtLeft := v\<rparr>) (un_bool j (pp_PlayAtLeft p))
      else actor_field k j p)"

subsection \<open>The game action handler\<close>

text \<open>
  An error of the handler: \<open>RedirectableError\<close> carries leader ID, address and message, or
  it is an error of the model. \<open>error_text\<close> is \<open>Error()\<close>.
\<close>

datatype handler_error = RedirectableError string string string | PlainError go_error

definition redirectable_text :: "string \<Rightarrow> string" where
  "redirectable_text message = (if message \<noteq> [] then message else ''leader redirect required'')"

definition AsLeaderRedirect :: "handler_error option \<Rightarrow> (string \<times> string) option" where
  "AsLeaderRedirect eo =
     (case eo of
        Some (RedirectableError leaderID address _) \<Rightarrow>
          if leaderID = [] \<or> address = [] then None else Some (leaderID, address)
      | _ \<Rightarrow> None)"

record 'w game_actions =
  ga_PlayTile :: "string \<Rightarrow> string \<Rightarrow> domino_tile \<Rightarrow> bool \<Rightarrow> 'w \<Rightarrow> (handler_error + bool) \<times> 'w"
  ga_Draw :: "string \<Rightarrow> string \<Rightarrow> 'w \<Rightarrow> (handler_error + domino_tile option) \<times> 'w"
  ga_Pass :: "string \<Rightarrow> string \<Rightarrow> 'w \<Rightarrow> handler_error option \<times> 'w"
  ga_Abandoned :: "string \<Rightarrow> string \<Rightarrow> 'w \<Rightarrow> handler_error option \<times> 'w"
  ga_GetSession :: "string \<Rightarrow> 'w \<Rightarrow> game_session option \<times> 'w"

end
