(* ===== verification/Hub.thy ===== *)
theory Hub
  imports Ws_Events Channels
begin

section \<open>The WebSocket hub\<close>

text \<open>
  Models \<open>pkg/ws/hub.go\<close> and the pumps of \<open>pkg/ws/client.go\<close>. A client is a number,
  which stands for its pointer; its send channel is in \<open>hb_sockets\<close>. The reconnect timers
  of \<open>time.AfterFunc\<close> are numbered in the same way, \<open>hb_timers\<close> says which of them have
  neither fired nor been stopped. The functions below are the handlers that \<open>Run\<close> calls
  on its single goroutine and the methods that other goroutines call under the lock of the
  hub; none of them blocks. A panic is kept in \<open>hb_crashed\<close>: it ends the process, and what
  the state says afterwards means nothing.
\<close>

subsection \<open>State\<close>

record socket =
  so_SessionID :: string
  so_PlayerID :: string
  so_send :: "frame channel"

definition sendBufferSize :: nat where "sendBufferSize = 256"

definition newClient :: "string \<Rightarrow> string \<Rightarrow> socket" where
  "newClient sid pid = \<lparr>so_SessionID = sid, so_PlayerID = pid, so_send = new_channel sendBufferSize\<rparr>"

record player_connection =
  cn_status :: connection_status
  cn_timer :: "nat option"

record inbound_message =
  in_SessionID :: string
  in_PlayerID :: string
  in_Payload :: json

text \<open>\<open>clients\<close> is iterated over and so a list of entries; the other nested maps are functions.\<close>

record hub =
  hb_clients :: "(string \<times> (string \<times> nat) list) list"
  hb_states :: "string \<Rightarrow> string \<Rightarrow> player_connection option"
  hb_pending :: "string \<Rightarrow> string \<Rightarrow> frame list option"
  hb_inbound :: "inbound_message channel"
  hb_abandon :: "(string \<times> string) channel"
  hb_stats :: "(string \<times> stats_update list) channel"
  hb_broadcast :: "session_delta channel"
  hb_actions :: bool
  hb_sockets :: "socket list"
  hb_timers :: "(string \<times> string \<times> bool) list"
  hb_records :: "(string \<times> match_outcome \<times> string list) list"
  hb_ledger :: bool
  hb_crashed :: "go_error option"

text \<open>
  \<open>hb_actions\<close> and \<open>hb_ledger\<close>: whether the handler and the ledger are set; \<open>hb_records\<close> is
  what the ledger has been given, by match ID, outcome and players.
\<close>

definition NewHub :: "bool \<Rightarrow> bool \<Rightarrow> hub" where
  "NewHub actions ledger =
     \<lparr>hb_clients = [], hb_states = (\<lambda>_ _. None), hb_pending = (\<lambda>_ _. None), hb_inbound = new_channel 256,
      hb_abandon = new_channel 64, hb_stats = new_channel 256, hb_broadcast = new_channel 256,
      hb_actions = actions, hb_sockets = [], hb_timers = [], hb_records = [], hb_ledger = ledger, hb_crashed = None\<rparr>"

definition players_of :: "string \<Rightarrow> hub \<Rightarrow> (string \<times> nat) list" where
  "players_of sid h = (case map_of (hb_clients h) sid of None \<Rightarrow> [] | Some ps \<Rightarrow> ps)"

definition client_of :: "string \<Rightarrow> string \<Rightarrow> hub \<Rightarrow> nat option" where
  "client_of sid pid h = map_of (players_of sid h) pid"

subsection \<open>Sending and closing\<close>

text \<open>A non-blocking send to a socket: whether the frame was queued.\<close>

definition send_frame :: "nat \<Rightarrow> frame \<Rightarrow> hub \<Rightarrow> bool \<times> hub" where
  "send_frame i f h =
     (let so = hb_sockets h ! i in
      case chan_send f (so_send so) of
        None \<Rightarrow> (False, h)
      | Some (Inl p) \<Rightarrow> (False, h\<lparr>hb_crashed := Some p\<rparr>)
      | Some (Inr c) \<Rightarrow> (True, h\<lparr>hb_sockets := (hb_sockets h)[i := so\<lparr>so_send := c\<rparr>]\<rparr>))"

definition close_socket :: "nat \<Rightarrow> hub \<Rightarrow> hub" where
  "close_socket i h =
     (let so = hb_sockets h ! i in
      case chan_close (so_send so) of
        Inl p \<Rightarrow> h\<lparr>hb_crashed := Some p\<rparr>
      | Inr c \<Rightarrow> h\<lparr>hb_sockets := (hb_sockets h)[i := so\<lparr>so_send := c\<rparr>]\<rparr>)"

definition sendToPlayer :: "string \<Rightarrow> string \<Rightarrow> frame \<Rightarrow> hub \<Rightarrow> hub" where
  "sendToPlayer sid pid f h = (case client_of sid pid h of None \<Rightarrow> h | Some i \<Rightarrow> snd (send_frame i f h))"

subsection \<open>Connection lifecycle\<close>

definition set_state :: "string \<Rightarrow> string \<Rightarrow> player_connection \<Rightarrow> hub \<Rightarrow> hub" where
  "set_state sid pid st h = h\<lparr>hb_states := (hb_states h)(sid := (hb_states h sid)(pid \<mapsto> st))\<rparr>"

definition ensurePlayerState :: "string \<Rightarrow> string \<Rightarrow> hub \<Rightarrow> player_connection \<times> hub" where
  "ensurePlayerState sid pid h =
     (case hb_states h sid pid of
        Some st \<Rightarrow> (st, h)
      | None \<Rightarrow> let st = \<lparr>cn_status = ConnectionStatusConnected, cn_timer = None\<rparr> in (st, set_state sid pid st h))"

definition stop_timer :: "nat \<Rightarrow> hub \<Rightarrow> hub" where
  "stop_timer t h = h\<lparr>hb_timers := (hb_timers h)[t := (case hb_timers h ! t of (s, p, _) \<Rightarrow> (s, p, False))]\<rparr>"

definition cancelReconnectTimer :: "player_connection \<Rightarrow> hub \<Rightarrow> player_connection \<times> hub" where
  "cancelReconnectTimer st h =
     (case cn_timer st of None \<Rightarrow> (st, h) | Some t \<Rightarrow> (st\<lparr>cn_timer := None\<rparr>, stop_timer t h))"

definition scheduleReconnectTimer :: "string \<Rightarrow> string \<Rightarrow> player_connection \<Rightarrow> hub \<Rightarrow> player_connection \<times> hub" where
  "scheduleReconnectTimer sid pid st h =
     (case cancelReconnectTimer st h of
        (st1, h1) \<Rightarrow> (st1\<lparr>cn_timer := Some (length (hb_timers h1))\<rparr>,
                       h1\<lparr>hb_timers := hb_timers h1 @ [(sid, pid, True)]\<rparr>))"

text \<open>The function of the timer: it fires once, unless stopped before.\<close>

definition timer_fires :: "nat \<Rightarrow> hub \<Rightarrow> hub" where
  "timer_fires t h =
     (if t < length (hb_timers h) then
        (case hb_timers h ! t of
           (sid, pid, True) \<Rightarrow> (stop_timer t h)\<lparr>hb_abandon := try_send (sid, pid) (hb_abandon h)\<rparr>
         | _ \<Rightarrow> h)
      else h)"

definition send_snapshot :: "int \<Rightarrow> string \<Rightarrow> string \<Rightarrow> game_session \<Rightarrow> hub \<Rightarrow> hub" where
  "send_snapshot now sid pid s h =
     sendToPlayer sid pid (EventEnvelope EventTypeStateSnapshot now (StateSnapshotPayload (ViewForPlayer pid (Some s)))) h"

definition sendStateSnapshot :: "'w game_actions \<Rightarrow> int \<Rightarrow> string \<Rightarrow> string \<Rightarrow> hub \<times> 'w \<Rightarrow> hub \<times> 'w" where
  "sendStateSnapshot acts now sid pid hw =
     (case hw of (h, w) \<Rightarrow>
      (case ga_GetSession acts sid w of
         (None, w1) \<Rightarrow> (h, w1)
       | (Some s, w1) \<Rightarrow> (send_snapshot now sid pid s h, w1)))"

text \<open>Frames go out in order until the buffer is full; then all of them stay pending.\<close>

fun flush_frames :: "nat \<Rightarrow> frame list \<Rightarrow> hub \<Rightarrow> bool \<times> hub" where
  "flush_frames i [] h = (True, h)"
| "flush_frames i (f # fs) h =
     (case send_frame i f h of
        (True, h1) \<Rightarrow> flush_frames i fs h1
      | (False, h1) \<Rightarrow> (False, h1))"

definition flushPendingStats :: "string \<Rightarrow> string \<Rightarrow> hub \<Rightarrow> hub" where
  "flushPendingStats sid pid h =
     (case hb_pending h sid pid of
        None \<Rightarrow> h
      | Some pending \<Rightarrow>
          if pending = [] then h
          else (case client_of sid pid h of
                  None \<Rightarrow> h
                | Some i \<Rightarrow>
                    (case flush_frames i pending h of
                       (True, h1) \<Rightarrow> h1\<lparr>hb_pending := (hb_pending h1)(sid := (hb_pending h1 sid)(pid := None))\<rparr>
                     | (False, h1) \<Rightarrow> h1)))"

definition put_client :: "string \<Rightarrow> string \<Rightarrow> nat \<Rightarrow> hub \<Rightarrow> hub" where
  "put_client sid pid i h = h\<lparr>hb_clients := map_put sid (map_put pid i (players_of sid h)) (hb_clients h)\<rparr>"

definition registerClient :: "'w game_actions \<Rightarrow> int \<Rightarrow> nat \<Rightarrow> hub \<times> 'w \<Rightarrow> hub \<times> 'w" where
  "registerClient acts now i hw =
     (case hw of (h, w) \<Rightarrow>
      let sid = so_SessionID (hb_sockets h ! i); pid = so_PlayerID (hb_sockets h ! i);
          h1 = (case client_of sid pid h of None \<Rightarrow> h | Some old \<Rightarrow> close_socket old h);
          h2 = put_client sid pid i h1;
          (st, h3) = ensurePlayerState sid pid h2;
          (st1, h4) = (if cn_status st = ConnectionStatusDisconnected then cancelReconnectTimer st h3 else (st, h3));
          h5 = set_state sid pid (st1\<lparr>cn_status := ConnectionStatusConnected\<rparr>) h4;
          h6 = flushPendingStats sid pid h5 in
      if hb_actions h6 then sendStateSnapshot acts now sid pid (h6, w) else (h6, w))"

definition unregisterClient :: "nat \<Rightarrow> hub \<Rightarrow> hub" where
  "unregisterClient i h =
     (let sid = so_SessionID (hb_sockets h ! i); pid = so_PlayerID (hb_sockets h ! i) in
      if client_of sid pid h \<noteq> Some i then h
      else
        let ps = map_delete pid (players_of sid h);
            h1 = h\<lparr>hb_clients := (if ps = [] then map_delete sid (hb_clients h) else map_put sid ps (hb_clients h))\<rparr>;
            h2 = close_socket i h1;
            (st, h3) = ensurePlayerState sid pid h2 in
        if cn_status st = ConnectionStatusAbandoned then h3
        else
          let (st1, h4) = scheduleReconnectTimer sid pid (st\<lparr>cn_status := ConnectionStatusDisconnected\<rparr>) h3 in
          set_state sid pid st1 h4)"

definition handleAbandonment :: "'w game_actions \<Rightarrow> string \<times> string \<Rightarrow> hub \<times> 'w \<Rightarrow> hub \<times> 'w" where
  "handleAbandonment acts evt hw =
     (case hw of (h, w) \<Rightarrow> (case evt of (sid, pid) \<Rightarrow>
      (case hb_states h sid pid of
         None \<Rightarrow> (h, w)
       | Some st \<Rightarrow>
           if cn_status st \<noteq> ConnectionStatusDisconnected then (h, w)
           else
             let h1 = set_state sid pid (st\<lparr>cn_status := ConnectionStatusAbandoned, cn_timer := None\<rparr>) h in
             if hb_actions h1 then (h1, snd (ga_Abandoned acts sid pid w)) else (h1, w))))"

subsection \<open>Broadcasts\<close>

definition NotifySessionDelta :: "session_delta \<Rightarrow> hub \<Rightarrow> hub" where
  "NotifySessionDelta d h = (if sd_MatchID d = [] then h else h\<lparr>hb_broadcast := try_send d (hb_broadcast h)\<rparr>)"

text \<open>A session without an ID is passed on as it came.\<close>

definition sessionDeltaEnvelope :: "int \<Rightarrow> session_delta \<Rightarrow> string \<Rightarrow> frame" where
  "sessionDeltaEnvelope now d pid =
     (let raw = (case sd_Session d of
                   None \<Rightarrow> None
                 | Some s \<Rightarrow> if SessionID s \<noteq> [] then ViewForPlayer pid (Some s) else Some s) in
      EventEnvelope EventTypeSessionDelta now
        (SessionDeltaPayload (sd_MatchID d) (sd_MatchID d) (sd_Op d) (sd_Applied d) raw (sd_Turn d)))"

definition handleSessionBroadcast :: "int \<Rightarrow> session_delta \<Rightarrow> hub \<Rightarrow> hub" where
  "handleSessionBroadcast now d h =
     fold (\<lambda>(pid, _) h. sendToPlayer (sd_MatchID d) pid (sessionDeltaEnvelope now d pid) h) (players_of (sd_MatchID d) h) h"

definition match_end_frame :: "int \<Rightarrow> string \<Rightarrow> match_outcome \<Rightarrow> game_session \<Rightarrow> frame" where
  "match_end_frame now sid oc s = EventEnvelope EventTypeMatchEnd now
     (MatchEndPayload sid (WinnerID oc) (Reason oc) (Scores oc) (Status s))"

definition TerminateMatch :: "int \<Rightarrow> string \<Rightarrow> match_outcome option \<Rightarrow> game_session option \<Rightarrow> hub \<Rightarrow> hub" where
  "TerminateMatch now sid oc so h =
     (case (oc, so) of
        (Some out, Some s) \<Rightarrow>
          let h1 = fold (\<lambda>(pid, _) h. send_snapshot now sid pid s (sendToPlayer sid pid (match_end_frame now sid out s) h))
                     (players_of sid h) h in
          if hb_ledger h1 then h1\<lparr>hb_records := hb_records h1 @ [(MatchID out, out, Players s)]\<rparr> else h1
      | _ \<Rightarrow> h)"

definition BroadcastPlayerStatsUpdate :: "string \<Rightarrow> stats_update list \<Rightarrow> hub \<Rightarrow> hub" where
  "BroadcastPlayerStatsUpdate sid us h =
     (if sid = [] \<or> us = [] then h else h\<lparr>hb_stats := try_send (sid, us) (hb_stats h)\<rparr>)"

definition add_pending :: "string \<Rightarrow> string \<Rightarrow> frame \<Rightarrow> hub \<Rightarrow> hub" where
  "add_pending sid pid f h =
     h\<lparr>hb_pending := (hb_pending h)(sid := (hb_pending h sid)(pid \<mapsto>
         (case hb_pending h sid pid of None \<Rightarrow> [] | Some fs \<Rightarrow> fs) @ [f]))\<rparr>"

definition deliverOrBufferStats :: "string \<Rightarrow> string \<Rightarrow> frame \<Rightarrow> hub \<Rightarrow> bool \<times> hub" where
  "deliverOrBufferStats sid pid f h =
     (case client_of sid pid h of
        None \<Rightarrow> (False, add_pending sid pid f h)
      | Some i \<Rightarrow>
          (case send_frame i f h of
             (True, h1) \<Rightarrow> (True, h1)
           | (False, h1) \<Rightarrow> (False, add_pending sid pid f h1)))"

definition stats_frame :: "int \<Rightarrow> stats_update \<Rightarrow> frame" where
  "stats_frame now u = EventEnvelope EventTypePlayerStatsUpdated now (PlayerStatsUpdatedPayload u)"

definition handleStatsBroadcast :: "int \<Rightarrow> string \<times> stats_update list \<Rightarrow> hub \<Rightarrow> hub" where
  "handleStatsBroadcast now evt h =
     fold (\<lambda>u h. snd (deliverOrBufferStats (fst evt) (su_PlayerID u) (stats_frame now u) h)) (snd evt) h"

subsection \<open>Observers\<close>

definition ClientCount :: "hub \<Rightarrow> nat" where
  "ClientCount h = sum_list (map (\<lambda>p. length (snd p)) (hb_clients h))"

definition PlayerConnectionStatus :: "string \<Rightarrow> string \<Rightarrow> hub \<Rightarrow> connection_status option" where
  "PlayerConnectionStatus sid pid h = map_option cn_status (hb_states h sid pid)"

definition PendingStatsCount :: "string \<Rightarrow> string \<Rightarrow> hub \<Rightarrow> nat" where
  "PendingStatsCount sid pid h = (case hb_pending h sid pid of None \<Rightarrow> 0 | Some fs \<Rightarrow> length fs)"

subsection \<open>The pumps of a client\<close>

text \<open>
  \<open>readPump\<close> on one message: text that is not JSON (\<open>JBad\<close>) is answered at once, without the
  lock; other text waits for room in the inbound channel, which is what the result says.
  \<open>writePump\<close> takes the next frame; \<open>None\<close> is a wait, \<open>Some None\<close> the closed channel.
\<close>

definition client_sendError :: "int \<Rightarrow> nat \<Rightarrow> ws_code \<Rightarrow> string \<Rightarrow> hub \<Rightarrow> hub" where
  "client_sendError now i code message h = snd (send_frame i (newErrorEnvelope now code message) h)"

definition read_message :: "int \<Rightarrow> nat \<Rightarrow> json \<Rightarrow> hub \<Rightarrow> bool \<times> hub" where
  "read_message now i text h =
     (if text = JBad then (True, client_sendError now i ErrCodeInvalidJSON ''message is not valid JSON'' h)
      else if length (ch_buf (hb_inbound h)) < ch_cap (hb_inbound h) then
        (True, h\<lparr>hb_inbound := try_send \<lparr>in_SessionID = so_SessionID (hb_sockets h ! i),
                  in_PlayerID = so_PlayerID (hb_sockets h ! i), in_Payload = text\<rparr> (hb_inbound h)\<rparr>)
      else (False, h))"

definition write_next :: "nat \<Rightarrow> hub \<Rightarrow> frame option option \<times> hub" where
  "write_next i h =
     (let so = hb_sockets h ! i in
      case ch_buf (so_send so) of
        f # fs \<Rightarrow> (Some (Some f), h\<lparr>hb_sockets := (hb_sockets h)[i := so\<lparr>so_send := (so_send so)\<lparr>ch_buf := fs\<rparr>\<rparr>]\<rparr>)
      | [] \<Rightarrow> (if ch_closed (so_send so) then Some None else None, h))"

end
