(* ===== verification/Router.thy ===== *)
theory Router
  imports Hub
begin

section \<open>The event router\<close>

text \<open>
  Models \<open>pkg/ws/router.go\<close>. \<open>Route\<close> decodes one inbound message, checks that it speaks for
  the session and player of its connection, calls the game action handler and answers
  errors with a frame to the sender. The hub and the handler's world are passed along.
  \<open>js\<close> is the text of an error of \<open>encoding/json\<close>, which the model does not know.
\<close>

subsection \<open>Errors\<close>

definition leader_redirect_text :: "string \<Rightarrow> string \<Rightarrow> string \<Rightarrow> string" where
  "leader_redirect_text leaderID address reason =
     (if reason \<noteq> [] then reason else ''redirect to leader '' @ leaderID @ '' at '' @ address)"

fun err_text :: "string \<Rightarrow> go_error \<Rightarrow> string" where
  "err_text js (Errorf m) = m"
| "err_text js (Wrapf p e) = p @ err_text js e"
| "err_text js ErrMutationsLocked = ''session mutations are locked''"
| "err_text js ErrNotLeader = ''not leader''"
| "err_text js (LeaderRedirectError leaderID address reason) = leader_redirect_text leaderID address reason"
| "err_text js ErrJson = js"
| "err_text js (ErrExternal m) = m"
| "err_text js (GoPanic m) = m"

fun is_locked_error :: "go_error \<Rightarrow> bool" where
  "is_locked_error (Wrapf _ e) = is_locked_error e"
| "is_locked_error e = (e = ErrMutationsLocked)"

fun contains :: "string \<Rightarrow> string \<Rightarrow> bool" where
  "contains s [] = (s = [])"
| "contains s (c # cs) = (take (length s) (c # cs) = s \<or> contains s cs)"

definition handler_error_text :: "string \<Rightarrow> handler_error \<Rightarrow> string" where
  "handler_error_text js e =
     (case e of RedirectableError _ _ message \<Rightarrow> redirectable_text message | PlainError g \<Rightarrow> err_text js g)"

definition isSessionNotFound :: "string \<Rightarrow> handler_error \<Rightarrow> bool" where
  "isSessionNotFound js e = contains ''not found'' (handler_error_text js e)"

definition mapActionError :: "string \<Rightarrow> handler_error \<Rightarrow> ws_code \<times> string" where
  "mapActionError js e =
     (let code =
        (if AsLeaderRedirect (Some e) \<noteq> None then ErrCodeLeaderRedirect
         else if (case e of PlainError g \<Rightarrow> is_locked_error g | _ \<Rightarrow> False) then ErrCodeSessionLocked
         else if isSessionNotFound js e then ErrCodeSessionNotFound
         else if contains ''timed out waiting for replicated apply'' (handler_error_text js e)
         then ErrCodeEvaluationFailed
         else ErrCodeMoveRejected) in
      (code, handler_error_text js e))"

text \<open>\<open>routeError\<close>; an error that is not one never reaches \<open>sendRouteError\<close>.\<close>

type_synonym route_error = "ws_code \<times> string"

definition sendActionError ::
  "int \<Rightarrow> inbound_message \<Rightarrow> ws_code \<Rightarrow> string \<Rightarrow> handler_error option \<Rightarrow> hub \<Rightarrow> hub" where
  "sendActionError now msg code message eo h =
     sendToPlayer (in_SessionID msg) (in_PlayerID msg)
       (case AsLeaderRedirect eo of
          Some redirect \<Rightarrow> newRedirectEnvelope now redirect message
        | None \<Rightarrow> newErrorEnvelope now code message) h"

definition sendError :: "int \<Rightarrow> inbound_message \<Rightarrow> ws_code \<Rightarrow> string \<Rightarrow> hub \<Rightarrow> hub" where
  "sendError now msg code message h = sendActionError now msg code message None h"

definition sendRouteError :: "int \<Rightarrow> inbound_message \<Rightarrow> route_error \<Rightarrow> hub \<Rightarrow> hub" where
  "sendRouteError now msg re h = sendError now msg (fst re) (snd re) h"

definition action_failed :: "string \<Rightarrow> int \<Rightarrow> inbound_message \<Rightarrow> handler_error \<Rightarrow> hub \<Rightarrow> hub" where
  "action_failed js now msg e h =
     (case mapActionError js e of (code, message) \<Rightarrow> sendActionError now msg code message (Some e) h)"

subsection \<open>Checks\<close>

definition validateActor :: "inbound_message \<Rightarrow> string \<Rightarrow> string \<Rightarrow> route_error option" where
  "validateActor msg sid pid =
     (if sid = [] then Some (ErrCodeInvalidPayload, ''session_id is required in payload'')
      else if pid = [] then Some (ErrCodeInvalidPayload, ''player_id is required in payload'')
      else if sid \<noteq> in_SessionID msg then Some (ErrCodeSessionMismatch, ''payload session_id does not match connection'')
      else if pid \<noteq> in_PlayerID msg then Some (ErrCodePlayerMismatch, ''payload player_id does not match connection'')
      else None)"

text \<open>The tile in the first hand of the player, if there is one.\<close>

definition tile_in_hand :: "game_session \<Rightarrow> string \<Rightarrow> string \<Rightarrow> domino_tile option" where
  "tile_in_hand s pid tileID =
     (case find (\<lambda>hn. hand_PlayerID hn = pid) (Hands s) of
        None \<Rightarrow> None
      | Some hn \<Rightarrow> find (\<lambda>t. tile_ID t = tileID) (Tiles hn))"

definition resolveTileFromHand ::
  "'w game_actions \<Rightarrow> string \<Rightarrow> string \<Rightarrow> string \<Rightarrow> 'w \<Rightarrow> (route_error + domino_tile) \<times> 'w" where
  "resolveTileFromHand acts sid pid tileID w =
     (case ga_GetSession acts sid w of
        (None, w1) \<Rightarrow> (Inl (ErrCodeSessionNotFound, ''session '' @ quote sid @ '' not found''), w1)
      | (Some s, w1) \<Rightarrow>
          (case tile_in_hand s pid tileID of
             Some t \<Rightarrow> (Inr t, w1)
           | None \<Rightarrow> (Inl (ErrCodeInvalidPayload, ''tile '' @ quote tileID @ '' is not in player hand''), w1)))"

subsection \<open>Handlers\<close>

text \<open>
  What the handlers share: the payload is decoded and its actor checked before anything
  else happens.
\<close>

definition with_payload ::
  "(string \<Rightarrow> json \<Rightarrow> 'p \<Rightarrow> 'p option) \<Rightarrow> 'p \<Rightarrow> ('p \<Rightarrow> string \<times> string) \<Rightarrow> string \<Rightarrow> int \<Rightarrow> inbound_message \<Rightarrow> jtext \<Rightarrow>
     ('p \<Rightarrow> hub \<times> 'w \<Rightarrow> hub \<times> 'w) \<Rightarrow> hub \<times> 'w \<Rightarrow> hub \<times> 'w" where
  "with_payload asg zero actor name now msg raw k hw =
     (case hw of (h, w) \<Rightarrow>
      (case un_text asg raw zero of
         None \<Rightarrow> (sendError now msg ErrCodeInvalidPayload (name @ '' payload is malformed'') h, w)
       | Some p \<Rightarrow>
           (case validateActor msg (fst (actor p)) (snd (actor p)) of
              Some re \<Rightarrow> (sendRouteError now msg re h, w)
            | None \<Rightarrow> k p (h, w))))"

definition actor_of :: "'a actor_payload_scheme \<Rightarrow> string \<times> string" where
  "actor_of p = (ap_SessionID p, ap_PlayerID p)"

definition play_for ::
  "'w game_actions \<Rightarrow> string \<Rightarrow> int \<Rightarrow> inbound_message \<Rightarrow> string \<Rightarrow> string \<Rightarrow> domino_tile \<Rightarrow> bool \<Rightarrow> hub \<times> 'w \<Rightarrow> hub \<times> 'w" where
  "play_for acts js now msg sid pid t atLeft hw =
     (case hw of (h, w) \<Rightarrow>
      (case ga_PlayTile acts sid pid t atLeft w of
         (Inl e, w1) \<Rightarrow> (action_failed js now msg e h, w1)
       | (Inr _, w1) \<Rightarrow> (h, w1)))"

definition handlePlayerMove ::
  "'w game_actions \<Rightarrow> string \<Rightarrow> int \<Rightarrow> inbound_message \<Rightarrow> jtext \<Rightarrow> hub \<times> 'w \<Rightarrow> hub \<times> 'w" where
  "handlePlayerMove acts js now msg raw hw =
     with_payload move_field zero_move actor_of EventTypePlayerMove now msg raw
       (\<lambda>p (h, w).
          if mp_TileID p = [] then
            (sendError now msg ErrCodeInvalidPayload ''tile_id is required for PLAYER_MOVE'' h, w)
          else (case resolveTileFromHand acts (ap_SessionID p) (ap_PlayerID p) (mp_TileID p) w of
              (Inl re, w1) \<Rightarrow> (sendRouteError now msg re h, w1)
            | (Inr t, w1) \<Rightarrow> play_for acts js now msg (ap_SessionID p) (ap_PlayerID p) t (mp_PlayAtLeft p) (h, w1)))
       hw"

definition handlePlayTile ::
  "'w game_actions \<Rightarrow> string \<Rightarrow> int \<Rightarrow> inbound_message \<Rightarrow> jtext \<Rightarrow> hub \<times> 'w \<Rightarrow> hub \<times> 'w" where
  "handlePlayTile acts js now msg raw hw =
     with_payload play_tile_field zero_play actor_of EventTypePlayTile now msg raw
       (\<lambda>p (h, w).
          if tile_ID (pp_Tile p) = [] then
            (sendError now msg ErrCodeInvalidPayload ''tile_id is required for PLAY_TILE'' h, w)
          else play_for acts js now msg (ap_SessionID p) (ap_PlayerID p) (pp_Tile p) (pp_PlayAtLeft p) (h, w))
       hw"

definition handleDrawFromBoneyard ::
  "'w game_actions \<Rightarrow> string \<Rightarrow> int \<Rightarrow> inbound_message \<Rightarrow> jtext \<Rightarrow> hub \<times> 'w \<Rightarrow> hub \<times> 'w" where
  "handleDrawFromBoneyard acts js now msg raw hw =
     with_payload actor_field zero_actor actor_of EventTypeDrawFromBoneyard now msg raw
       (\<lambda>p (h, w).
          case ga_Draw acts (ap_SessionID p) (ap_PlayerID p) w of
            (Inl e, w1) \<Rightarrow> (action_failed js now msg e h, w1)
          | (Inr _, w1) \<Rightarrow> (h, w1))
       hw"

definition handlePassTurn ::
  "'w game_actions \<Rightarrow> string \<Rightarrow> int \<Rightarrow> inbound_message \<Rightarrow> jtext \<Rightarrow> hub \<times> 'w \<Rightarrow> hub \<times> 'w" where
  "handlePassTurn acts js now msg raw hw =
     with_payload actor_field zero_actor actor_of EventTypePassTurn now msg raw
       (\<lambda>p (h, w).
          case ga_Pass acts (ap_SessionID p) (ap_PlayerID p) w of
            (Some e, w1) \<Rightarrow> (action_failed js now msg e h, w1)
          | (None, w1) \<Rightarrow> (h, w1))
       hw"

definition handleJoin ::
  "'w game_actions \<Rightarrow> int \<Rightarrow> inbound_message \<Rightarrow> jtext \<Rightarrow> hub \<times> 'w \<Rightarrow> hub \<times> 'w" where
  "handleJoin acts now msg raw hw =
     with_payload actor_field zero_actor actor_of EventTypeJoin now msg raw
       (\<lambda>p (h, w).
          case ga_GetSession acts (ap_SessionID p) w of
            (None, w1) \<Rightarrow> (sendError now msg ErrCodeSessionNotFound
                              (''session '' @ quote (ap_SessionID p) @ '' not found'') h, w1)
          | (Some _, w1) \<Rightarrow> (h, w1))
       hw"

definition handleLeave :: "int \<Rightarrow> inbound_message \<Rightarrow> jtext \<Rightarrow> hub \<times> 'w \<Rightarrow> hub \<times> 'w" where
  "handleLeave now msg raw hw =
     with_payload actor_field zero_actor actor_of EventTypeLeave now msg raw (\<lambda>p hw. hw) hw"

text \<open>\<open>Route\<close>, on a router with an action handler.\<close>

definition Route ::
  "'w game_actions \<Rightarrow> string \<Rightarrow> int \<Rightarrow> inbound_message \<Rightarrow> hub \<times> 'w \<Rightarrow> hub \<times> 'w" where
  "Route acts js now msg hw =
     (case hw of (h, w) \<Rightarrow>
      (case un_struct envelope_field (in_Payload msg) zero_envelope of
         None \<Rightarrow> (sendError now msg ErrCodeInvalidEnvelope ''message is not a valid event envelope'' h, w)
       | Some env \<Rightarrow>
           if ie_Type env = [] then (sendError now msg ErrCodeInvalidEnvelope ''event type is required'' h, w)
           else if ie_Type env = EventTypePlayerMove then handlePlayerMove acts js now msg (ie_Payload env) (h, w)
           else if ie_Type env = EventTypePlayTile then handlePlayTile acts js now msg (ie_Payload env) (h, w)
           else if ie_Type env = EventTypeDrawFromBoneyard then handleDrawFromBoneyard acts js now msg (ie_Payload env) (h, w)
           else if ie_Type env = EventTypePassTurn then handlePassTurn acts js now msg (ie_Payload env) (h, w)
           else if ie_Type env = EventTypeJoin then handleJoin acts now msg (ie_Payload env) (h, w)
           else if ie_Type env = EventTypeLeave then handleLeave now msg (ie_Payload env) (h, w)
           else (sendError now msg ErrCodeUnknownEventType (''unsupported event type '' @ quote (ie_Type env)) h, w)))"

text \<open>\<open>handleInbound\<close> of the hub: without a handler there is no router.\<close>

definition handleInbound ::
  "'w game_actions \<Rightarrow> string \<Rightarrow> int \<Rightarrow> inbound_message \<Rightarrow> hub \<times> 'w \<Rightarrow> hub \<times> 'w" where
  "handleInbound acts js now msg hw = (if hb_actions (fst hw) then Route acts js now msg hw else hw)"

end
