(* ===== verification/Ws_Laws.thy ===== *)
theory Ws_Laws
  imports Router
begin

section \<open>Laws of the hub and the router\<close>

text \<open>
  The system of the hub, its clients and its timers as a sequence of steps, and what holds
  in every reachable state: a registered client is connected and its channel open, so the
  hub never sends on a closed channel, and every frame queued for a player shows sessions
  only as that player may see them. The router answers nothing but errors to the sender
  and acts only for the player of the connection.
\<close>

subsection \<open>Steps\<close>

datatype ws_action =
    WConnect string string
  | WUnregister nat
  | WRead nat json
  | WWrite nat
  | WInbound
  | WAbandon
  | WStats
  | WBroadcast
  | WTimer nat
  | WNotify session_delta
  | WTerminate string "match_outcome option" "game_session option"
  | WPushStats string "stats_update list"

text \<open>\<open>ServeConnect\<close> refuses empty IDs; the client it creates registers itself.\<close>

definition connect :: "'w game_actions \<Rightarrow> int \<Rightarrow> string \<Rightarrow> string \<Rightarrow> hub \<times> 'w \<Rightarrow> hub \<times> 'w" where
  "connect acts now sid pid hw =
     (if sid = [] \<or> pid = [] then hw
      else registerClient acts now (length (hb_sockets (fst hw)))
             ((fst hw)\<lparr>hb_sockets := hb_sockets (fst hw) @ [newClient sid pid]\<rparr>, snd hw))"

text \<open>One receive of \<open>Run\<close> on the channel \<open>get\<close>, whose rest \<open>put\<close> stores.\<close>

definition run_receive ::
  "(hub \<Rightarrow> 'a channel) \<Rightarrow> ('a channel \<Rightarrow> hub \<Rightarrow> hub) \<Rightarrow> ('a \<Rightarrow> hub \<times> 'w \<Rightarrow> hub \<times> 'w) \<Rightarrow> hub \<times> 'w \<Rightarrow> hub \<times> 'w" where
  "run_receive get put k hw =
     (case hw of (h, w) \<Rightarrow>
      (case ch_buf (get h) of
         [] \<Rightarrow> (h, w)
       | x # xs \<Rightarrow> k x (put ((get h)\<lparr>ch_buf := xs\<rparr>) h, w)))"

definition on_socket :: "nat \<Rightarrow> (hub \<Rightarrow> hub) \<Rightarrow> hub \<times> 'w \<Rightarrow> hub \<times> 'w" where
  "on_socket i k hw = (if i < length (hb_sockets (fst hw)) then (k (fst hw), snd hw) else hw)"

definition on_hub :: "(hub \<Rightarrow> hub) \<Rightarrow> hub \<times> 'w \<Rightarrow> hub \<times> 'w" where
  "on_hub k hw = (k (fst hw), snd hw)"

fun ws_step :: "'w game_actions \<Rightarrow> string \<Rightarrow> int \<times> ws_action \<Rightarrow> hub \<times> 'w \<Rightarrow> hub \<times> 'w" where
  "ws_step acts js (now, a) hw =
     (if hb_crashed (fst hw) \<noteq> None then hw
      else (case a of
          WConnect sid pid \<Rightarrow> connect acts now sid pid hw
        | WUnregister i \<Rightarrow> on_socket i (unregisterClient i) hw
        | WRead i text \<Rightarrow> on_socket i (\<lambda>h. snd (read_message now i text h)) hw
        | WWrite i \<Rightarrow> on_socket i (\<lambda>h. snd (write_next i h)) hw
        | WInbound \<Rightarrow> run_receive hb_inbound (\<lambda>c h. h\<lparr>hb_inbound := c\<rparr>) (handleInbound acts js now) hw
        | WAbandon \<Rightarrow> run_receive hb_abandon (\<lambda>c h. h\<lparr>hb_abandon := c\<rparr>) (handleAbandonment acts) hw
        | WStats \<Rightarrow> run_receive hb_stats (\<lambda>c h. h\<lparr>hb_stats := c\<rparr>) (\<lambda>e. on_hub (handleStatsBroadcast now e)) hw
        | WBroadcast \<Rightarrow> run_receive hb_broadcast (\<lambda>c h. h\<lparr>hb_broadcast := c\<rparr>) (\<lambda>d. on_hub (handleSessionBroadcast now d)) hw
        | WTimer t \<Rightarrow> on_hub (timer_fires t) hw
        | WNotify d \<Rightarrow> on_hub (NotifySessionDelta d) hw
        | WTerminate sid oc so \<Rightarrow> on_hub (TerminateMatch now sid oc so) hw
        | WPushStats sid us \<Rightarrow> on_hub (BroadcastPlayerStatsUpdate sid us) hw))"

definition ws_run :: "'w game_actions \<Rightarrow> string \<Rightarrow> (int \<times> ws_action) list \<Rightarrow> hub \<times> 'w \<Rightarrow> hub \<times> 'w" where
  "ws_run acts js as hw = fold (ws_step acts js) as hw"

subsection \<open>What a player may see\<close>

definition shows_view :: "string \<Rightarrow> game_session option \<Rightarrow> bool" where
  "shows_view pid so = (case so of None \<Rightarrow> True
     | Some s \<Rightarrow> SessionID s \<noteq> [] \<longrightarrow> (\<exists>s0. ViewForPlayer pid (Some s0) = Some s))"

definition frame_for :: "string \<Rightarrow> frame \<Rightarrow> bool" where
  "frame_for pid f = (case f of
     EventEnvelope _ _ (StateSnapshotPayload so) \<Rightarrow> shows_view pid so
   | EventEnvelope _ _ (SessionDeltaPayload _ _ _ _ so _) \<Rightarrow> shows_view pid so
   | _ \<Rightarrow> True)"

lemma shows_view_ViewForPlayer [simp]: "shows_view pid (ViewForPlayer pid (Some s))"
  by (auto simp: shows_view_def split: option.splits)

lemma frame_for_simps [simp]:
  "frame_for pid (ErrorEnvelope t co m r)"
  "frame_for pid (EventEnvelope ty t (MatchEndPayload a b er sc st))"
  "frame_for pid (EventEnvelope ty t (PlayerStatsUpdatedPayload u))"
  "frame_for pid (EventEnvelope ty t (StateSnapshotPayload so)) = shows_view pid so"
  "frame_for pid (EventEnvelope ty t (SessionDeltaPayload a b op ap so tu)) = shows_view pid so"
  by (simp_all add: frame_for_def)

lemma frame_for_delta [simp]: "frame_for pid (sessionDeltaEnvelope now d pid)"
  by (simp add: sessionDeltaEnvelope_def Let_def shows_view_def split: option.splits)
    (auto simp: ViewForPlayer_def Let_def split: if_splits)

subsection \<open>The client map\<close>

lemma client_of_put:
  "client_of sid' pid' (put_client sid pid i h) = (if sid' = sid \<and> pid' = pid then Some i else client_of sid' pid' h)"
  by (auto simp: client_of_def put_client_def players_of_def map_of_map_put)

lemma client_of_cong: "hb_clients h' = hb_clients h \<Longrightarrow> client_of sid pid h' = client_of sid pid h"
  by (simp add: client_of_def players_of_def)

definition drop_client :: "string \<Rightarrow> string \<Rightarrow> hub \<Rightarrow> hub" where
  "drop_client sid pid h = (let ps = map_delete pid (players_of sid h) in
     h\<lparr>hb_clients := (if ps = [] then map_delete sid (hb_clients h) else map_put sid ps (hb_clients h))\<rparr>)"

lemma client_of_drop:
  "client_of sid' pid' (drop_client sid pid h) = (if sid' = sid \<and> pid' = pid then None else client_of sid' pid' h)"
proof -
  have del: "map_of (map_delete pid (players_of sid h)) = (map_of (players_of sid h))(pid := None)"
    by (rule map_of_map_delete)
  have "map_of (players_of sid h) pid' = None" if "map_delete pid (players_of sid h) = []" "pid' \<noteq> pid"
    using fun_cong [OF del, of pid'] that by simp
  then show ?thesis
    by (auto simp: client_of_def drop_client_def players_of_def [of _ "_\<lparr>hb_clients := _\<rparr>"] Let_def
        map_of_map_put map_of_map_delete del simp flip: players_of_def simp del: map_of_eq_None_iff)
qed

subsection \<open>The invariant\<close>

text \<open>\<open>socket_ok\<close> of the client at a key, and what is queued anywhere.\<close>

definition socket_at :: "string \<Rightarrow> string \<Rightarrow> nat \<Rightarrow> hub \<Rightarrow> bool" where
  "socket_at sid pid i h \<longleftrightarrow> i < length (hb_sockets h) \<and> so_SessionID (hb_sockets h ! i) = sid \<and>
     so_PlayerID (hb_sockets h ! i) = pid \<and> \<not> ch_closed (so_send (hb_sockets h ! i))"

definition clients_ok :: "hub \<Rightarrow> bool" where
  "clients_ok h \<longleftrightarrow> (\<forall>sid pid i. client_of sid pid h = Some i \<longrightarrow> socket_at sid pid i h)"

definition frames_ok :: "hub \<Rightarrow> bool" where
  "frames_ok h \<longleftrightarrow> (\<forall>so \<in> set (hb_sockets h). \<forall>f \<in> set (ch_buf (so_send so)). frame_for (so_PlayerID so) f) \<and>
     (\<forall>sid pid fs. hb_pending h sid pid = Some fs \<longrightarrow> (\<forall>f \<in> set fs. frame_for pid f))"

definition states_ok :: "hub \<Rightarrow> bool" where
  "states_ok h \<longleftrightarrow> (\<forall>sid pid. client_of sid pid h \<noteq> None \<longrightarrow>
     PlayerConnectionStatus sid pid h = Some ConnectionStatusConnected)"

definition hub_ok :: "hub \<Rightarrow> bool" where
  "hub_ok h \<longleftrightarrow> clients_ok h \<and> frames_ok h \<and> states_ok h \<and> hb_crashed h = None"

lemma hub_ok_same:
  assumes "hub_ok h" "hb_clients h' = hb_clients h" "hb_sockets h' = hb_sockets h" "hb_pending h' = hb_pending h"
    "hb_states h' = hb_states h" "hb_crashed h' = hb_crashed h"
  shows "hub_ok h'"
  using assms by (simp add: hub_ok_def clients_ok_def frames_ok_def states_ok_def client_of_def players_of_def
      socket_at_def PlayerConnectionStatus_def)

text \<open>A frame for a registered client.\<close>

lemma send_frame_open:
  assumes "socket_at sid pid i h"
  shows "send_frame i f h =
    (if length (ch_buf (so_send (hb_sockets h ! i))) < ch_cap (so_send (hb_sockets h ! i))
     then (True, h\<lparr>hb_sockets := (hb_sockets h)[i := (hb_sockets h ! i)\<lparr>so_send := (so_send (hb_sockets h ! i))
             \<lparr>ch_buf := ch_buf (so_send (hb_sockets h ! i)) @ [f]\<rparr>\<rparr>]\<rparr>)
     else (False, h))"
  using assms by (simp add: send_frame_def socket_at_def chan_send_open Let_def)

definition same_but_sockets :: "hub \<Rightarrow> hub \<Rightarrow> bool" where
  "same_but_sockets h h' \<longleftrightarrow> hb_clients h' = hb_clients h \<and> hb_pending h' = hb_pending h \<and> hb_states h' = hb_states h \<and>
     hb_actions h' = hb_actions h \<and> hb_abandon h' = hb_abandon h \<and> hb_timers h' = hb_timers h"

lemma hub_ok_send:
  assumes "hub_ok h" "client_of sid pid h = Some i" "frame_for pid f"
  shows "hub_ok (snd (send_frame i f h))" "same_but_sockets h (snd (send_frame i f h))"
proof -
  from assms have i: "socket_at sid pid i h" by (simp add: hub_ok_def clients_ok_def)
  let ?so = "hb_sockets h ! i"
  have "?so \<in> set (hb_sockets h)" "so_PlayerID ?so = pid" using i by (simp_all add: socket_at_def)
  with assms(1,3) have fr: "\<forall>g \<in> set (ch_buf (so_send ?so) @ [f]). frame_for pid g"
    by (auto simp: hub_ok_def frames_ok_def)
  show "same_but_sockets h (snd (send_frame i f h))"
    by (simp add: send_frame_open [OF i] same_but_sockets_def)
  show "hub_ok (snd (send_frame i f h))"
  proof (cases "length (ch_buf (so_send ?so)) < ch_cap (so_send ?so)")
    case True
    with assms(1) fr i show ?thesis
      by (auto simp: send_frame_open [OF i] hub_ok_def clients_ok_def states_ok_def client_of_def players_of_def
          socket_at_def nth_list_update frames_ok_def PlayerConnectionStatus_def dest!: in_set_update)
  qed (use assms(1) in \<open>simp add: send_frame_open [OF i]\<close>)
qed

lemma hub_ok_sendToPlayer:
  assumes "hub_ok h" "frame_for pid f"
  shows "hub_ok (sendToPlayer sid pid f h)" "same_but_sockets h (sendToPlayer sid pid f h)"
  using hub_ok_send [OF assms(1) _ assms(2), of sid] assms(1)
  by (auto simp: sendToPlayer_def same_but_sockets_def split: option.splits)

lemma hub_ok_add_pending:
  assumes "hub_ok h" "frame_for pid f"
  shows "hub_ok (add_pending sid pid f h)"
proof -
  have "frames_ok (add_pending sid pid f h)"
    using assms by (cases "hb_pending h sid pid") (auto simp: hub_ok_def frames_ok_def add_pending_def)
  with assms(1) show ?thesis
    by (simp add: hub_ok_def clients_ok_def states_ok_def client_of_def players_of_def socket_at_def
        add_pending_def PlayerConnectionStatus_def)
qed

lemma hub_ok_deliver:
  assumes "hub_ok h" "frame_for pid f"
  shows "hub_ok (snd (deliverOrBufferStats sid pid f h))"
proof (cases "client_of sid pid h")
  case None
  with assms hub_ok_add_pending show ?thesis by (simp add: deliverOrBufferStats_def)
next
  case (Some i)
  from hub_ok_send(1) [OF assms(1) Some assms(2)] hub_ok_add_pending [OF _ assms(2)] Some show ?thesis
    by (auto simp: deliverOrBufferStats_def split: prod.splits bool.splits)
qed

lemma hub_ok_fold:
  assumes "\<And>x h. hub_ok h \<Longrightarrow> hub_ok (k x h)" "hub_ok h"
  shows "hub_ok (fold k xs h)"
  using assms by (induction xs arbitrary: h) auto

lemma hub_ok_stats: "hub_ok h \<Longrightarrow> hub_ok (handleStatsBroadcast now e h)"
  unfolding handleStatsBroadcast_def by (rule hub_ok_fold) (auto simp: stats_frame_def intro!: hub_ok_deliver)

lemma hub_ok_broadcast: "hub_ok h \<Longrightarrow> hub_ok (handleSessionBroadcast now d h)"
  unfolding handleSessionBroadcast_def by (rule hub_ok_fold) (auto intro!: hub_ok_sendToPlayer)

lemma hub_ok_terminate: "hub_ok h \<Longrightarrow> hub_ok (TerminateMatch now sid oc so h)"
proof -
  assume ok: "hub_ok h"
  have step: "hub_ok (send_snapshot now sid pid s (sendToPlayer sid pid (match_end_frame now sid out s) h))"
    if "hub_ok h" for pid s out h
    using that by (auto simp: send_snapshot_def match_end_frame_def intro!: hub_ok_sendToPlayer)
  have "hub_ok (fold (\<lambda>(pid, _) h. send_snapshot now sid pid s (sendToPlayer sid pid (match_end_frame now sid out s) h)) ps h)"
    for s out ps by (rule hub_ok_fold) (use step ok in auto)
  note loop = this
  show ?thesis
  proof (cases "\<exists>out s. oc = Some out \<and> so = Some s")
    case True
    then obtain out s where "oc = Some out" "so = Some s" by blast
    with loop [of s out "players_of sid h"] show ?thesis
      by (auto simp: TerminateMatch_def Let_def intro!: hub_ok_same [OF loop [of s out "players_of sid h"]])
  qed (use ok in \<open>auto simp: TerminateMatch_def split: option.splits\<close>)
qed

subsection \<open>Registration and abandonment\<close>

lemma hub_ok_flush_frames:
  assumes "hub_ok h" "client_of sid pid h = Some i" "\<forall>f \<in> set fs. frame_for pid f"
  shows "hub_ok (snd (flush_frames i fs h)) \<and> same_but_sockets h (snd (flush_frames i fs h))"
  using assms
proof (induction fs arbitrary: h)
  case (Cons f fs)
  obtain b h1 where s: "send_frame i f h = (b, h1)" by fastforce
  have "frame_for pid f" using Cons.prems(3) by simp
  from hub_ok_send [OF Cons.prems(1,2) this] s
  have h1: "hub_ok h1" "same_but_sockets h h1" by simp_all
  have "client_of sid pid h1 = client_of sid pid h"
    using h1(2) by (intro client_of_cong) (simp add: same_but_sockets_def)
  then have "client_of sid pid h1 = Some i" using Cons.prems(2) by simp
  from Cons.IH [OF h1(1) this] Cons.prems(3)
  have rest: "hub_ok (snd (flush_frames i fs h1))" "same_but_sockets h1 (snd (flush_frames i fs h1))" by simp_all
  have "same_but_sockets h (snd (flush_frames i fs h1))"
    using h1(2) rest(2) by (simp add: same_but_sockets_def)
  with s h1 rest(1) show ?case by (cases b) simp_all
qed (simp add: same_but_sockets_def)

lemma hub_ok_flush:
  assumes "hub_ok h"
  shows "hub_ok (flushPendingStats sid pid h)"
proof (cases "hb_pending h sid pid")
  case (Some fs)
  then have fs: "\<forall>f \<in> set fs. frame_for pid f" using assms by (simp add: hub_ok_def frames_ok_def)
  show ?thesis
  proof (cases "client_of sid pid h")
    case (Some i)
    obtain b h1 where f: "flush_frames i fs h = (b, h1)" by fastforce
    with hub_ok_flush_frames [OF assms Some fs] have "hub_ok h1" by simp
    then have "hub_ok (h1\<lparr>hb_pending := (hb_pending h1)(sid := (hb_pending h1 sid)(pid := None))\<rparr>)"
      by (auto simp: hub_ok_def clients_ok_def states_ok_def client_of_def players_of_def socket_at_def
          frames_ok_def PlayerConnectionStatus_def)
    with f \<open>hub_ok h1\<close> assms \<open>hb_pending h sid pid = Some fs\<close> Some show ?thesis
      by (cases b) (simp_all add: flushPendingStats_def)
  qed (use assms Some in \<open>simp add: flushPendingStats_def\<close>)
qed (use assms in \<open>simp add: flushPendingStats_def\<close>)

lemma close_socket_open:
  assumes "socket_at sid pid i h"
  shows "close_socket i h = h\<lparr>hb_sockets := (hb_sockets h)[i := (hb_sockets h ! i)
    \<lparr>so_send := (so_send (hb_sockets h ! i))\<lparr>ch_closed := True\<rparr>\<rparr>]\<rparr>"
  using assms by (simp add: close_socket_def chan_close_def socket_at_def Let_def)

text \<open>Closing a channel leaves the frames in it, and the other channels, alone.\<close>

lemma close_socket_effect:
  assumes "socket_at sid pid i h" "h' = close_socket i h"
  shows "hb_clients h' = hb_clients h" "hb_states h' = hb_states h" "hb_pending h' = hb_pending h"
    "hb_crashed h' = hb_crashed h" "length (hb_sockets h') = length (hb_sockets h)"
    "hb_actions h' = hb_actions h" "hb_timers h' = hb_timers h"
    "frames_ok h \<Longrightarrow> frames_ok h'" "j \<noteq> i \<Longrightarrow> socket_at s p j h \<Longrightarrow> socket_at s p j h'"
proof -
  have h': "h' = h\<lparr>hb_sockets := (hb_sockets h)[i := (hb_sockets h ! i)
      \<lparr>so_send := (so_send (hb_sockets h ! i))\<lparr>ch_closed := True\<rparr>\<rparr>]\<rparr>"
    using assms(2) close_socket_open [OF assms(1)] by simp
  have "hb_sockets h ! i \<in> set (hb_sockets h)" using assms(1) by (simp add: socket_at_def)
  then show "frames_ok h \<Longrightarrow> frames_ok h'"
    by (auto simp: h' frames_ok_def dest!: in_set_update)
  show "j \<noteq> i \<Longrightarrow> socket_at s p j h \<Longrightarrow> socket_at s p j h'"
    by (simp add: h' socket_at_def)
qed (simp_all add: close_socket_open [OF assms(1)] assms(2))

lemma clients_at: "hub_ok h \<Longrightarrow> client_of sid pid h = Some i \<Longrightarrow> socket_at sid pid i h"
  by (simp add: hub_ok_def clients_ok_def)

text \<open>Keys of different clients differ, so only the entry at \<open>sid\<close>, \<open>pid\<close> has the old client.\<close>

lemma client_key: "socket_at sid pid i h \<Longrightarrow> socket_at sid' pid' i h \<Longrightarrow> sid' = sid \<and> pid' = pid"
  by (simp add: socket_at_def)

definition set_status :: "string \<Rightarrow> string \<Rightarrow> connection_status \<Rightarrow> hub \<Rightarrow> hub \<Rightarrow> bool" where
  "set_status sid pid st h h' \<longleftrightarrow> hb_clients h' = hb_clients h \<and> hb_sockets h' = hb_sockets h \<and>
     hb_pending h' = hb_pending h \<and> hb_crashed h' = hb_crashed h \<and> hb_actions h' = hb_actions h \<and>
     (\<forall>s p. PlayerConnectionStatus s p h' = (if s = sid \<and> p = pid then Some st else PlayerConnectionStatus s p h))"

lemma hub_ok_set_status:
  assumes "clients_ok h" "frames_ok h" "hb_crashed h = None" "set_status sid pid st h h'"
    "\<And>s p. client_of s p h \<noteq> None \<Longrightarrow> (s, p) \<noteq> (sid, pid) \<Longrightarrow>
       PlayerConnectionStatus s p h = Some ConnectionStatusConnected"
    "client_of sid pid h \<noteq> None \<Longrightarrow> st = ConnectionStatusConnected"
  shows "hub_ok h'"
proof -
  have c: "client_of s p h' = client_of s p h" for s p
    using assms(4) by (intro client_of_cong) (simp add: set_status_def)
  show ?thesis using assms
    by (auto simp: hub_ok_def clients_ok_def states_ok_def frames_ok_def c socket_at_def set_status_def)
qed

lemma ensurePlayerState_effect:
  assumes "ensurePlayerState sid pid h = (st, h')"
  shows "hb_clients h' = hb_clients h" "hb_sockets h' = hb_sockets h" "hb_pending h' = hb_pending h"
    "hb_crashed h' = hb_crashed h" "hb_actions h' = hb_actions h" "hb_states h' sid pid = Some st"
    "s \<noteq> sid \<or> p \<noteq> pid \<Longrightarrow> hb_states h' s p = hb_states h s p"
    "hb_states h sid pid = Some st \<or> hb_states h sid pid = None \<and> cn_status st = ConnectionStatusConnected"
  using assms by (auto simp: ensurePlayerState_def set_state_def Let_def split: option.splits)

lemma cancelReconnectTimer_effect:
  assumes "cancelReconnectTimer st h = (st', h')"
  shows "hb_clients h' = hb_clients h" "hb_sockets h' = hb_sockets h" "hb_pending h' = hb_pending h"
    "hb_crashed h' = hb_crashed h" "hb_actions h' = hb_actions h" "hb_states h' = hb_states h"
    "cn_status st' = cn_status st"
  using assms by (auto simp: cancelReconnectTimer_def stop_timer_def split: option.splits)

lemma scheduleReconnectTimer_effect:
  assumes "scheduleReconnectTimer sid pid st h = (st', h')"
  shows "hb_clients h' = hb_clients h" "hb_sockets h' = hb_sockets h" "hb_pending h' = hb_pending h"
    "hb_crashed h' = hb_crashed h" "hb_actions h' = hb_actions h" "hb_states h' = hb_states h"
    "cn_status st' = cn_status st"
proof -
  obtain st1 h1 where c: "cancelReconnectTimer st h = (st1, h1)" by fastforce
  with assms have e: "st' = st1\<lparr>cn_timer := Some (length (hb_timers h1))\<rparr>"
    "h' = h1\<lparr>hb_timers := hb_timers h1 @ [(sid, pid, True)]\<rparr>"
    by (simp_all add: scheduleReconnectTimer_def)
  note eff = cancelReconnectTimer_effect [OF c]
  show "hb_clients h' = hb_clients h" "hb_sockets h' = hb_sockets h" "hb_pending h' = hb_pending h"
    "hb_crashed h' = hb_crashed h" "hb_actions h' = hb_actions h" "hb_states h' = hb_states h"
    "cn_status st' = cn_status st"
    using eff by (simp_all add: e)
qed

lemma hub_ok_unregister:
  assumes ok: "hub_ok h"
  shows "hub_ok (unregisterClient i h)"
proof -
  define sid pid where "sid = so_SessionID (hb_sockets h ! i)" and "pid = so_PlayerID (hb_sockets h ! i)"
  note ids = sid_def [symmetric] pid_def [symmetric]
  show ?thesis
  proof (cases "client_of sid pid h = Some i")
    case False
    then show ?thesis using ok by (simp add: unregisterClient_def Let_def ids)
  next
    case True
    from clients_at [OF ok True] have at: "socket_at sid pid i h" .
    let ?h1 = "drop_client sid pid h"
    have at1: "socket_at sid pid i ?h1" using at by (simp add: socket_at_def drop_client_def Let_def)
    define h2 where "h2 = close_socket i ?h1"
    note c2 = close_socket_effect [OF at1 h2_def]
    obtain st h3 where e3: "ensurePlayerState sid pid h2 = (st, h3)" by fastforce
    note c3 = ensurePlayerState_effect [OF e3]
    have cl: "client_of s p h3 = (if s = sid \<and> p = pid then None else client_of s p h)" for s p
      using client_of_drop [of s p sid pid h] client_of_cong [of h3 ?h1] c2(1) c3(1) by simp
    have sock: "socket_at s p j h3" if "client_of s p h = Some j" "s \<noteq> sid \<or> p \<noteq> pid" for s p j
    proof -
      from clients_at [OF ok that(1)] have "socket_at s p j h" .
      moreover from client_key [OF at] this that(2) have "j \<noteq> i" by blast
      ultimately have "socket_at s p j h2"
        using c2(9) [of j s p] by (simp add: socket_at_def drop_client_def Let_def)
      then show ?thesis using c3(2) by (simp add: socket_at_def)
    qed
    have frames: "frames_ok h3"
      using ok c2(8) c3(2,3) by (simp add: hub_ok_def frames_ok_def drop_client_def Let_def)
    have base: "clients_ok h3" "hb_crashed h3 = None"
      using cl sock ok c2(4) c3(4) by (auto simp: clients_ok_def hub_ok_def drop_client_def Let_def split: if_splits)
    have con: "PlayerConnectionStatus s p h3 = Some ConnectionStatusConnected"
      if "client_of s p h3 \<noteq> None" for s p
      using that ok cl [of s p] c2(2) c3(7) [of s p]
      by (auto simp: hub_ok_def states_ok_def PlayerConnectionStatus_def drop_client_def Let_def split: if_splits)
    have run: "unregisterClient i h = (if cn_status st = ConnectionStatusAbandoned then h3
        else let (st1, h4) = scheduleReconnectTimer sid pid (st\<lparr>cn_status := ConnectionStatusDisconnected\<rparr>) h3
             in set_state sid pid st1 h4)"
      using True e3 by (simp add: unregisterClient_def Let_def ids drop_client_def h2_def)
    show ?thesis
    proof (cases "cn_status st = ConnectionStatusAbandoned")
      case True
      with run base frames con show ?thesis by (simp add: hub_ok_def states_ok_def)
    next
      case False
      obtain st1 h4 where s4: "scheduleReconnectTimer sid pid (st\<lparr>cn_status := ConnectionStatusDisconnected\<rparr>) h3 = (st1, h4)"
        by fastforce
      note c4 = scheduleReconnectTimer_effect [OF s4]
      have "set_status sid pid ConnectionStatusDisconnected h3 (set_state sid pid st1 h4)"
        using c4 by (simp add: set_status_def set_state_def PlayerConnectionStatus_def)
      from hub_ok_set_status [OF base(1) frames base(2) this] con cl run False s4 show ?thesis by simp
    qed
  qed
qed

text \<open>The new client replaces an old one at its key, whose channel is closed.\<close>

lemma hub_ok_put_client:
  assumes ok: "hub_ok h" and at: "socket_at sid pid i h" and new: "\<forall>s p. client_of s p h \<noteq> Some i"
  defines "h2 \<equiv> put_client sid pid i (case client_of sid pid h of None \<Rightarrow> h | Some old \<Rightarrow> close_socket old h)"
  shows "clients_ok h2" "frames_ok h2" "hb_crashed h2 = None" "hb_states h2 = hb_states h" "hb_actions h2 = hb_actions h"
    "client_of s p h2 = (if s = sid \<and> p = pid then Some i else client_of s p h)"
proof -
  define h1 where "h1 = (case client_of sid pid h of None \<Rightarrow> h | Some old \<Rightarrow> close_socket old h)"
  have h1: "hb_clients h1 = hb_clients h \<and> hb_states h1 = hb_states h \<and> hb_crashed h1 = None \<and> frames_ok h1 \<and>
      hb_actions h1 = hb_actions h \<and>
      (\<forall>s p j. socket_at s p j h \<longrightarrow> (s, p) \<noteq> (sid, pid) \<or> j = i \<longrightarrow> socket_at s p j h1)"
  proof (cases "client_of sid pid h")
    case None
    with ok show ?thesis by (simp add: h1_def hub_ok_def)
  next
    case (Some old)
    with ok have old: "socket_at sid pid old h" by (rule clients_at)
    from Some new have "old \<noteq> i" by blast
    from Some have "h1 = close_socket old h" by (simp add: h1_def)
    note c = close_socket_effect [OF old this]
    have "socket_at s p j h1" if "socket_at s p j h" "(s, p) \<noteq> (sid, pid) \<or> j = i" for s p j
      using c(9) [of j s p] that client_key [OF old, of s p] \<open>old \<noteq> i\<close> by blast
    with c ok show ?thesis by (simp add: hub_ok_def)
  qed
  have h2: "h2 = put_client sid pid i h1" by (simp add: h2_def h1_def)
  have same: "hb_sockets h2 = hb_sockets h1" "hb_pending h2 = hb_pending h1" "hb_states h2 = hb_states h1"
    "hb_crashed h2 = hb_crashed h1" "hb_actions h2 = hb_actions h1"
    by (simp_all add: h2 put_client_def)
  show cl: "client_of s p h2 = (if s = sid \<and> p = pid then Some i else client_of s p h)" for s p
    using client_of_put [of s p sid pid i h1] client_of_cong [of h1 h s p] h1 by (simp add: h2)
  show "clients_ok h2"
    using cl h1 at clients_at [OF ok] same(1)
    by (auto simp: clients_ok_def socket_at_def split: if_splits)
  show "frames_ok h2" using h1 same by (simp add: frames_ok_def)
  show "hb_crashed h2 = None" "hb_states h2 = hb_states h" "hb_actions h2 = hb_actions h" using h1 same by simp_all
qed

lemma hub_ok_register:
  assumes ok: "hub_ok h" and i: "i < length (hb_sockets h)" "\<not> ch_closed (so_send (hb_sockets h ! i))"
    and new: "\<forall>s p. client_of s p h \<noteq> Some i"
  shows "hub_ok (fst (registerClient acts now i (h, w)))"
proof -
  define sid pid where "sid = so_SessionID (hb_sockets h ! i)" and "pid = so_PlayerID (hb_sockets h ! i)"
  note ids = sid_def [symmetric] pid_def [symmetric]
  have at: "socket_at sid pid i h" using i by (simp add: socket_at_def sid_def pid_def)
  define h2 where "h2 = put_client sid pid i (case client_of sid pid h of None \<Rightarrow> h | Some old \<Rightarrow> close_socket old h)"
  note c2 = hub_ok_put_client [OF ok at new, folded h2_def]
  obtain st h3 where e3: "ensurePlayerState sid pid h2 = (st, h3)" by fastforce
  note c3 = ensurePlayerState_effect [OF e3]
  obtain st1 h4 where e4: "(if cn_status st = ConnectionStatusDisconnected then cancelReconnectTimer st h3 else (st, h3)) = (st1, h4)"
    by fastforce
  have c4: "hb_clients h4 = hb_clients h3" "hb_sockets h4 = hb_sockets h3" "hb_pending h4 = hb_pending h3"
    "hb_crashed h4 = hb_crashed h3" "hb_actions h4 = hb_actions h3" "hb_states h4 = hb_states h3"
    using e4 cancelReconnectTimer_effect [of st h3 st1 h4] by (auto split: if_splits)
  define h5 where "h5 = set_state sid pid (st1\<lparr>cn_status := ConnectionStatusConnected\<rparr>) h4"
  have st: "set_status sid pid ConnectionStatusConnected h2 h5"
    using c3(1-5,7) c4 by (auto simp: set_status_def h5_def set_state_def PlayerConnectionStatus_def)
  have con: "PlayerConnectionStatus s p h2 = Some ConnectionStatusConnected"
    if "client_of s p h2 \<noteq> None" "(s, p) \<noteq> (sid, pid)" for s p
    using that c2(4) c2(6) [of s p] ok by (auto simp: hub_ok_def states_ok_def PlayerConnectionStatus_def)
  have "hub_ok h5"
    by (rule hub_ok_set_status [OF c2(1-3) st con]) auto
  then have h6: "hub_ok (flushPendingStats sid pid h5)" by (rule hub_ok_flush)
  have "registerClient acts now i (h, w) = (if hb_actions (flushPendingStats sid pid h5)
      then sendStateSnapshot acts now sid pid (flushPendingStats sid pid h5, w) else (flushPendingStats sid pid h5, w))"
    using e3 e4 by (simp add: registerClient_def Let_def ids h2_def h5_def)
  moreover have "hub_ok (send_snapshot now sid pid s (flushPendingStats sid pid h5))" for s
    using h6 by (auto simp: send_snapshot_def intro!: hub_ok_sendToPlayer)
  ultimately show ?thesis using h6
    by (cases "ga_GetSession acts sid w"; cases "fst (ga_GetSession acts sid w)") (auto simp: sendStateSnapshot_def)
qed

lemma hub_ok_connect:
  assumes "hub_ok (fst hw)"
  shows "hub_ok (fst (connect acts now sid pid hw))"
proof (cases "sid = [] \<or> pid = []")
  case False
  let ?h = "(fst hw)\<lparr>hb_sockets := hb_sockets (fst hw) @ [newClient sid pid]\<rparr>"
  have cl: "client_of s p ?h = client_of s p (fst hw)" for s p by (rule client_of_cong) simp
  have "socket_at s p j ?h" if "socket_at s p j (fst hw)" for s p j
    using that by (simp add: socket_at_def nth_append)
  then have "clients_ok ?h" unfolding clients_ok_def cl by (metis assms clients_at)
  moreover have "frames_ok ?h" using assms by (auto simp: hub_ok_def frames_ok_def newClient_def new_channel_def)
  moreover have "states_ok ?h" using assms
    by (simp add: hub_ok_def states_ok_def cl PlayerConnectionStatus_def)
  ultimately have "hub_ok ?h" using assms by (simp add: hub_ok_def)
  moreover have "client_of s p ?h \<noteq> Some (length (hb_sockets (fst hw)))" for s p
    using clients_at [OF assms, of s p] cl [of s p] by (auto simp: socket_at_def)
  ultimately show ?thesis using False
    by (simp add: connect_def newClient_def new_channel_def hub_ok_register)
qed (use assms in \<open>simp add: connect_def\<close>)

text \<open>
  A player with a live connection is not abandoned: the event is ignored, and only a
  player whose grace period has run is reported.
\<close>

lemma connected_not_abandoned:
  assumes "hub_ok h" "client_of sid pid h \<noteq> None"
  shows "handleAbandonment acts (sid, pid) (h, w) = (h, w)"
proof -
  from assms obtain st where "hb_states h sid pid = Some st" "cn_status st = ConnectionStatusConnected"
    by (fastforce simp: hub_ok_def states_ok_def PlayerConnectionStatus_def)
  then show ?thesis by (simp add: handleAbandonment_def)
qed

lemma hub_ok_abandon:
  assumes "hub_ok h"
  shows "hub_ok (fst (handleAbandonment acts evt (h, w)))"
proof -
  obtain sid pid where evt: "evt = (sid, pid)" by fastforce
  show ?thesis
  proof (cases "client_of sid pid h = None \<and> (\<exists>st. hb_states h sid pid = Some st \<and> cn_status st = ConnectionStatusDisconnected)")
    case True
    then obtain st where st: "hb_states h sid pid = Some st" "cn_status st = ConnectionStatusDisconnected" by blast
    let ?h = "set_state sid pid (st\<lparr>cn_status := ConnectionStatusAbandoned, cn_timer := None\<rparr>) h"
    have "set_status sid pid ConnectionStatusAbandoned h ?h"
      by (simp add: set_status_def set_state_def PlayerConnectionStatus_def)
    moreover have "clients_ok h" "frames_ok h" "hb_crashed h = None" "states_ok h"
      using assms by (simp_all add: hub_ok_def)
    ultimately have "hub_ok ?h" using True
      by (intro hub_ok_set_status [of h sid pid ConnectionStatusAbandoned ?h]) (auto simp: states_ok_def)
    with st evt show ?thesis by (simp add: handleAbandonment_def Let_def)
  next
    case False
    with assms evt connected_not_abandoned [OF assms, of sid pid acts w] show ?thesis
      by (auto simp: handleAbandonment_def split: option.splits)
  qed
qed

subsection \<open>Routing\<close>

text \<open>The hub is left alone or the sender gets one error frame.\<close>

definition answers :: "inbound_message \<Rightarrow> hub \<Rightarrow> hub \<Rightarrow> bool" where
  "answers msg h h' \<longleftrightarrow> h' = h \<or>
     (\<exists>t c m r. h' = sendToPlayer (in_SessionID msg) (in_PlayerID msg) (ErrorEnvelope t c m r) h)"

lemma answers_refl [simp]: "answers msg h h"
  by (simp add: answers_def)

lemma answers_sendActionError [simp]: "answers msg h (sendActionError now msg c m eo h)"
  by (auto simp: answers_def sendActionError_def newRedirectEnvelope_def newErrorEnvelope_def split: option.splits)

lemma answers_errors [simp]:
  "answers msg h (sendError now msg c m h)" "answers msg h (sendRouteError now msg re h)"
  "answers msg h (action_failed js now msg e h)"
  by (simp_all add: sendError_def sendRouteError_def action_failed_def split: prod.split)

lemma answers_with_payload:
  assumes "\<And>p. answers msg h (fst (k p (h, w)))"
  shows "answers msg h (fst (with_payload asg zero act name now msg raw k (h, w)))"
  using assms by (simp add: with_payload_def split: option.split)

lemma answers_play_for [simp]: "answers msg h (fst (play_for acts js now msg sid pid t l (h, w)))"
  by (simp add: play_for_def split: prod.split sum.split)

lemma answers_handlers [simp]:
  "answers msg h (fst (handlePlayTile acts js now msg raw (h, w)))"
  "answers msg h (fst (handleDrawFromBoneyard acts js now msg raw (h, w)))"
  "answers msg h (fst (handlePassTurn acts js now msg raw (h, w)))"
  "answers msg h (fst (handleJoin acts now msg raw (h, w)))"
  "answers msg h (fst (handleLeave now msg raw (h, w)))"
  "answers msg h (fst (handlePlayerMove acts js now msg raw (h, w)))"
  by (auto simp: handlePlayTile_def handleDrawFromBoneyard_def handlePassTurn_def handleJoin_def handleLeave_def
      handlePlayerMove_def intro!: answers_with_payload split: prod.split sum.split option.split)

lemma answers_Route: "answers msg h (fst (Route acts js now msg (h, w)))"
  by (simp add: Route_def split: option.split)

lemma hub_ok_answers: "hub_ok h \<Longrightarrow> answers msg h h' \<Longrightarrow> hub_ok h'"
  by (auto simp: answers_def intro: hub_ok_sendToPlayer)

lemma hub_ok_inbound: "hub_ok h \<Longrightarrow> hub_ok (fst (handleInbound acts js now msg (h, w)))"
  by (auto simp: handleInbound_def intro: hub_ok_answers [OF _ answers_Route])

subsection \<open>Every reachable state\<close>

lemma hub_ok_run_receive:
  assumes "hub_ok (fst hw)" "\<And>c h. hub_ok h \<Longrightarrow> hub_ok (put c h)" "\<And>x h w. hub_ok h \<Longrightarrow> hub_ok (fst (k x (h, w)))"
  shows "hub_ok (fst (run_receive get put k hw))"
  using assms by (cases hw) (simp add: run_receive_def split: list.split)

lemma hub_ok_on_hub: "hub_ok (fst hw) \<Longrightarrow> (\<And>h. hub_ok h \<Longrightarrow> hub_ok (k h)) \<Longrightarrow> hub_ok (fst (on_hub k hw))"
  by (simp add: on_hub_def)

lemma hub_ok_queue:
  "hub_ok h \<Longrightarrow> hub_ok (timer_fires t h)" "hub_ok h \<Longrightarrow> hub_ok (NotifySessionDelta d h)"
  "hub_ok h \<Longrightarrow> hub_ok (BroadcastPlayerStatsUpdate sid us h)"
  by (auto simp: timer_fires_def NotifySessionDelta_def BroadcastPlayerStatsUpdate_def stop_timer_def
      intro: hub_ok_same split: prod.split bool.split)

lemma hub_ok_read: "text \<noteq> JBad \<Longrightarrow> hub_ok h \<Longrightarrow> hub_ok (snd (read_message now i text h))"
  by (auto simp: read_message_def intro: hub_ok_same)

lemma hub_ok_write:
  assumes "hub_ok h" "i < length (hb_sockets h)"
  shows "hub_ok (snd (write_next i h))"
proof (cases "ch_buf (so_send (hb_sockets h ! i))")
  case (Cons f fs)
  let ?h = "h\<lparr>hb_sockets := (hb_sockets h)[i := (hb_sockets h ! i)\<lparr>so_send := (so_send (hb_sockets h ! i))\<lparr>ch_buf := fs\<rparr>\<rparr>]\<rparr>"
  have cl: "client_of s p ?h = client_of s p h" for s p by (rule client_of_cong) simp
  have "socket_at s p j ?h = socket_at s p j h" for s p j
    by (cases "i = j") (auto simp: socket_at_def)
  then have "clients_ok ?h" "states_ok ?h"
    using assms(1) by (simp_all add: hub_ok_def clients_ok_def states_ok_def cl PlayerConnectionStatus_def)
  moreover have "frames_ok ?h"
  proof -
    have "hb_sockets h ! i \<in> set (hb_sockets h)" using assms(2) by simp
    then have "\<forall>g \<in> set fs. frame_for (so_PlayerID (hb_sockets h ! i)) g"
      using assms(1) Cons by (auto simp: hub_ok_def frames_ok_def)
    with assms(1) show ?thesis by (auto simp: hub_ok_def frames_ok_def dest!: in_set_update)
  qed
  ultimately have "hub_ok ?h" using assms(1) by (simp add: hub_ok_def)
  with Cons show ?thesis by (simp add: write_next_def Let_def)
qed (use assms in \<open>simp add: write_next_def Let_def\<close>)

definition quiet :: "int \<times> ws_action \<Rightarrow> bool" where
  "quiet na = (case snd na of WRead _ text \<Rightarrow> text \<noteq> JBad | _ \<Rightarrow> True)"

lemma hub_ok_put:
  "hub_ok h \<Longrightarrow> hub_ok (h\<lparr>hb_inbound := c1\<rparr>)" "hub_ok h \<Longrightarrow> hub_ok (h\<lparr>hb_abandon := c2\<rparr>)"
  "hub_ok h \<Longrightarrow> hub_ok (h\<lparr>hb_stats := c3\<rparr>)" "hub_ok h \<Longrightarrow> hub_ok (h\<lparr>hb_broadcast := c4\<rparr>)"
  by (auto intro: hub_ok_same)

lemma hub_ok_step:
  assumes "hub_ok (fst hw)" "quiet na"
  shows "hub_ok (fst (ws_step acts js na hw))"
proof -
  obtain now a where na: "na = (now, a)" by fastforce
  have onh: "hub_ok (fst (on_socket i k hw))" if "\<And>h. hub_ok h \<Longrightarrow> i < length (hb_sockets h) \<Longrightarrow> hub_ok (k h)" for i k
    using that assms(1) by (simp add: on_socket_def)
  have "hb_crashed (fst hw) = None" using assms(1) by (simp add: hub_ok_def)
  then show ?thesis using assms na
    by (cases a) (auto simp: quiet_def intro!: hub_ok_connect onh hub_ok_run_receive hub_ok_on_hub hub_ok_unregister
        hub_ok_read hub_ok_write hub_ok_inbound hub_ok_abandon hub_ok_stats hub_ok_broadcast hub_ok_terminate
        hub_ok_queue hub_ok_put)
qed

lemma hub_ok_run: "hub_ok (fst hw) \<Longrightarrow> list_all quiet as \<Longrightarrow> hub_ok (fst (ws_run acts js as hw))"
  unfolding ws_run_def
  by (induction as arbitrary: hw) (simp_all add: hub_ok_step del: ws_step.simps)

lemma hub_ok_new: "hub_ok (NewHub a l)"
  by (simp add: NewHub_def hub_ok_def clients_ok_def frames_ok_def states_ok_def client_of_def players_of_def)

end
