(* ===== verification/Ws_Props.thy ===== *)
theory Ws_Props
  imports Ws_Laws
begin

section \<open>Properties of the WebSocket layer\<close>

text \<open>
  What holds of the hub in every reachable state, for whom the router acts, and runs that
  show where the layer goes wrong: the abandonment event of an earlier disconnection, the
  statistics that are sent twice, the drawn tile that every player sees.
\<close>

subsection \<open>Safety of the hub\<close>


text \<open>A handler that refuses everything; its world is the list of players it was told are gone.\<close>

definition refusing :: "game_session option \<Rightarrow> (string \<times> string) list game_actions" where
  "refusing so = \<lparr>ga_PlayTile = (\<lambda>_ _ _ _ w. (Inl (PlainError (Errorf ''not your turn'')), w)),
     ga_Draw = (\<lambda>_ _ w. (Inl (PlainError (Errorf ''not your turn'')), w)),
     ga_Pass = (\<lambda>_ _ w. (Some (PlainError (Errorf ''not your turn'')), w)),
     ga_Abandoned = (\<lambda>sid pid w. (None, w @ [(sid, pid)])),
     ga_GetSession = (\<lambda>_ w. (so, w))\<rparr>"



subsection \<open>Abandonment\<close>


text \<open>
  A disconnection, a reconnection after the timer fired but before the hub looked at the
  event, and another disconnection: the old event now abandons the player at once.
\<close>

definition reconnect_run :: "(int \<times> ws_action) list" where
  "reconnect_run = [(1, WConnect ''g'' ''p1''), (2, WUnregister 0), (47, WTimer 0), (47, WConnect ''g'' ''p1'')]"

lemmas ws_eval = ws_run_def connect_def registerClient_def unregisterClient_def newClient_def new_channel_def
  NewHub_def client_of_def players_of_def put_client_def ensurePlayerState_def set_state_def flushPendingStats_def
  close_socket_def chan_close_def scheduleReconnectTimer_def cancelReconnectTimer_def stop_timer_def timer_fires_def
  try_send_def handleAbandonment_def sendStateSnapshot_def refusing_def on_socket_def on_hub_def run_receive_def
  map_delete_def sendBufferSize_def Let_def



lemma stale_timer_abandons:
  "snd (ws_run (refusing None) [] (reconnect_run @ [(48, WUnregister 1), (48, WAbandon)]) (NewHub True False, [])) =
     [(''g'', ''p1'')]"
  by (simp add: reconnect_run_def ws_eval)

subsection \<open>What else the hub gets wrong\<close>

text \<open>The read pump answers bad text on the channel that the hub closed when it replaced the client.\<close>

lemma replaced_client_panics:
  "hb_crashed (fst (ws_run (refusing None) []
      [(1, WConnect ''g'' ''p1''), (2, WConnect ''g'' ''p1''), (3, WRead 0 JBad)] (NewHub True False, []))) =
    Some (GoPanic ''send on closed channel'')"
  by (simp add: ws_eval read_message_def client_sendError_def send_frame_def chan_send_def)

text \<open>A flush that meets a full buffer leaves the frames it has sent pending too.\<close>

lemma flush_sends_twice:
  assumes "client_of sid pid h = Some i" "hb_pending h sid pid = Some [f, g]"
    "i < length (hb_sockets h)" "so_send (hb_sockets h ! i) = \<lparr>ch_buf = [x], ch_cap = 2, ch_closed = False\<rparr>"
  shows "ch_buf (so_send (hb_sockets (flushPendingStats sid pid h) ! i)) = [x, f]"
    "hb_pending (flushPendingStats sid pid h) sid pid = Some [f, g]"
  using assms by (simp_all add: flushPendingStats_def send_frame_def chan_send_def Let_def)

text \<open>The turn of a delta goes to every player as it is, with the tile that was drawn.\<close>

lemma delta_shows_drawn_tile:
  "sd_Turn d = Some r \<Longrightarrow> DrawnTile r = Some t \<Longrightarrow>
     \<exists>so. sessionDeltaEnvelope now d pid = EventEnvelope EventTypeSessionDelta now
       (SessionDeltaPayload (sd_MatchID d) (sd_MatchID d) (sd_Op d) (sd_Applied d) so (Some r))"
  by (simp add: sessionDeltaEnvelope_def Let_def)

subsection \<open>For whom the router acts\<close>

text \<open>Two handlers that do the same for one session and player.\<close>

definition agree_on :: "string \<Rightarrow> string \<Rightarrow> 'w game_actions \<Rightarrow> 'w game_actions \<Rightarrow> bool" where
  "agree_on sid pid acts acts' \<longleftrightarrow> ga_PlayTile acts sid pid = ga_PlayTile acts' sid pid \<and>
     ga_Draw acts sid pid = ga_Draw acts' sid pid \<and> ga_Pass acts sid pid = ga_Pass acts' sid pid \<and>
     ga_GetSession acts sid = ga_GetSession acts' sid"

lemma with_payload_cong:
  assumes "\<And>p hw. validateActor msg (fst (act p)) (snd (act p)) = None \<Longrightarrow> k p hw = k' p hw"
  shows "with_payload asg zero act name now msg raw k hw = with_payload asg zero act name now msg raw k' hw"
  using assms by (simp add: with_payload_def split: prod.split option.split)

lemma validateActor_None:
  "validateActor msg sid pid = None \<Longrightarrow> sid = in_SessionID msg \<and> pid = in_PlayerID msg"
  by (simp add: validateActor_def split: if_splits)

text \<open>
  C21: A message acts for its own connection only. Whatever a client writes into a message,
  the router calls the game with the session and player of the connection and with no
  other, so what other calls would do makes no difference; and the hub answers at most one
  frame, an error to the sender.
\<close>

theorem router_acts_for_sender:
  assumes "agree_on (in_SessionID msg) (in_PlayerID msg) acts acts'"
  shows "Route acts js now msg (h, w) = Route acts' js now msg (h, w) \<and>
    answers msg h (fst (Route acts js now msg (h, w)))"
proof -
  have eq: "handlePlayerMove acts js now msg raw hw = handlePlayerMove acts' js now msg raw hw"
    "handlePlayTile acts js now msg raw hw = handlePlayTile acts' js now msg raw hw"
    "handleDrawFromBoneyard acts js now msg raw hw = handleDrawFromBoneyard acts' js now msg raw hw"
    "handlePassTurn acts js now msg raw hw = handlePassTurn acts' js now msg raw hw"
    "handleJoin acts now msg raw hw = handleJoin acts' now msg raw hw" for raw hw
    unfolding handlePlayerMove_def handlePlayTile_def handleDrawFromBoneyard_def handlePassTurn_def handleJoin_def
    using assms
    by (auto intro!: with_payload_cong dest!: validateActor_None
        simp: actor_of_def agree_on_def play_for_def resolveTileFromHand_def split: prod.split sum.split option.split)
  show ?thesis by (simp add: Route_def eq answers_Route [unfolded Route_def] split: option.split)
qed

definition forged_move :: inbound_message where
  "forged_move = \<lparr>in_SessionID = ''g'', in_PlayerID = ''p1'',
     in_Payload = JObj [(''type'', JStr ''DRAW_FROM_BONEYARD''),
       (''payload'', JObj [(''session_id'', JStr ''g''), (''player_id'', JStr ''p2'')])]\<rparr>"

lemma router_acts_for_sender_witness:
  "Route (refusing None) [] 5 forged_move (NewHub True False, []) =
   Route ((refusing None)\<lparr>ga_Draw := (\<lambda>sid pid w. if pid = ''p2'' then (Inr None, w @ [(sid, pid)])
      else ga_Draw (refusing None) sid pid w)\<rparr>) [] 5 forged_move (NewHub True False, [])"
  using router_acts_for_sender [of forged_move "refusing None" "(refusing None)\<lparr>ga_Draw := (\<lambda>sid pid w. if pid = ''p2'' then
      (Inr None, w @ [(sid, pid)]) else ga_Draw (refusing None) sid pid w)\<rparr>" "[]" 5 "NewHub True False" "[]"]
  by (simp add: agree_on_def forged_move_def)

end
