(* ===== verification/Session_Cache.thy ===== *)
theory Session_Cache
  imports Prelude
begin

section \<open>The idempotency cache\<close>

text \<open>
  Models \<open>pkg/gateway/session_cache.go\<close>: mutation responses kept under the client's ID
  and sequence number, with the oldest key evicted beyond the capacity. The source
  documents an LRU cache; a hit does not move its key, so the order is that of insertion.
  The response type is a parameter. The interface the gateway uses is the locale
  \<open>response_cache\<close>. A nil cache is not modelled.
\<close>

record 'r session_cache =
  cache_capacity :: nat
  cache_order :: "string list"
  cache_entries :: "string \<rightharpoonup> 'r"

definition defaultSessionCacheCapacity :: nat where
  "defaultSessionCacheCapacity = 10000"

definition NewSessionCache :: "int \<Rightarrow> 'r session_cache" where
  "NewSessionCache capacity =
     \<lparr>cache_capacity = (if capacity \<le> 0 then defaultSessionCacheCapacity else nat capacity),
      cache_order = [], cache_entries = Map.empty\<rparr>"

text \<open>\<open>itoa\<close> fills a buffer of 20 bytes from the right, the digits of a 64-bit number at most.\<close>

definition SessionCacheKey :: "string \<Rightarrow> nat \<Rightarrow> string" where
  "SessionCacheKey clientID sequenceNumber = clientID @ CHR '':'' # nat_dec sequenceNumber"

definition cache_Get :: "string \<Rightarrow> nat \<Rightarrow> 'r session_cache \<Rightarrow> 'r option" where
  "cache_Get clientID sequenceNumber c = cache_entries c (SessionCacheKey clientID sequenceNumber)"

definition cache_Put :: "string \<Rightarrow> nat \<Rightarrow> 'r \<Rightarrow> 'r session_cache \<Rightarrow> 'r session_cache" where
  "cache_Put clientID sequenceNumber resp c =
     (let key = SessionCacheKey clientID sequenceNumber;
          c1 = (if cache_entries c key = None then
                  (let order = cache_order c @ [key] in
                   if length order > cache_capacity c then
                     c\<lparr>cache_order := tl order, cache_entries := (cache_entries c)(hd order := None)\<rparr>
                   else c\<lparr>cache_order := order\<rparr>)
                else c)
      in c1\<lparr>cache_entries := (cache_entries c1)(key \<mapsto> resp)\<rparr>)"

definition cache_Len :: "'r session_cache \<Rightarrow> nat" where
  "cache_Len c = card (dom (cache_entries c))"

subsection \<open>Keys and the invariant\<close>

lemma SessionCacheKey_inject [simp]:
  "SessionCacheKey i q = SessionCacheKey j p \<longleftrightarrow> i = j \<and> q = p"
proof
  assume "SessionCacheKey i q = SessionCacheKey j p"
  then have "i = j \<and> nat_dec q = nat_dec p"
    unfolding SessionCacheKey_def by (rule append_sep_inject) (use nat_dec_digits not_digit_sep in blast)+
  then show "i = j \<and> q = p" by simp
qed simp

definition cache_ok :: "'r session_cache \<Rightarrow> bool" where
  "cache_ok c = (distinct (cache_order c) \<and> set (cache_order c) = dom (cache_entries c)
     \<and> length (cache_order c) \<le> cache_capacity c \<and> 0 < cache_capacity c)"

lemma NewSessionCache_ok: "cache_ok (NewSessionCache n)"
  by (simp add: cache_ok_def NewSessionCache_def defaultSessionCacheCapacity_def)

text \<open>A put under a new key, with the oldest key leaving when the cache is full.\<close>

lemma cache_Put_new:
  assumes ok: "cache_ok c" and new: "cache_entries c k = None" and k: "k = SessionCacheKey i q"
  shows "cache_Put i q r c =
    (if length (cache_order c) < cache_capacity c
     then c\<lparr>cache_order := cache_order c @ [k], cache_entries := (cache_entries c)(k \<mapsto> r)\<rparr>
     else c\<lparr>cache_order := tl (cache_order c) @ [k],
            cache_entries := (cache_entries c)(hd (cache_order c) := None, k \<mapsto> r)\<rparr>)"
proof -
  have ne: "cache_order c \<noteq> [] \<or> length (cache_order c) < cache_capacity c"
    using ok by (auto simp: cache_ok_def)
  show ?thesis
    using new ne unfolding cache_Put_def Let_def k [symmetric]
    by (cases "cache_order c") auto
qed

lemma cache_Put_old:
  assumes "cache_entries c (SessionCacheKey i q) \<noteq> None"
  shows "cache_Put i q r c = c\<lparr>cache_entries := (cache_entries c)(SessionCacheKey i q \<mapsto> r)\<rparr>"
  using assms by (auto simp: cache_Put_def Let_def)

lemma cache_Put_ok:
  assumes ok: "cache_ok c"
  shows "cache_ok (cache_Put i q r c)"
proof (cases "cache_entries c (SessionCacheKey i q)")
  case (Some v)
  with ok show ?thesis by (auto simp: cache_Put_old cache_ok_def)
next
  case None
  let ?k = "SessionCacheKey i q"
  have k: "?k \<notin> set (cache_order c)" using None ok by (auto simp: cache_ok_def)
  show ?thesis
  proof (cases "length (cache_order c) < cache_capacity c")
    case True
    with None ok k show ?thesis
      by (auto simp: cache_Put_new [OF ok None refl] cache_ok_def)
  next
    case False
    with ok obtain x xs where o: "cache_order c = x # xs" by (cases "cache_order c") (auto simp: cache_ok_def)
    with ok have d: "x \<notin> set xs" "distinct xs" "dom (cache_entries c) = insert x (set xs)"
      "Suc (length xs) \<le> cache_capacity c" by (auto simp: cache_ok_def)
    have "dom ((cache_entries c)(x := None, ?k \<mapsto> r)) = insert ?k (set xs)"
      using d k o by auto
    with False o d k ok show ?thesis
      by (simp add: cache_Put_new [OF ok None refl] cache_ok_def)
  qed
qed

lemma cache_Len_bound: "cache_ok c \<Longrightarrow> cache_Len c \<le> cache_capacity c"
  unfolding cache_ok_def cache_Len_def by (metis distinct_card)

subsection \<open>The contract\<close>

text \<open>
  \<open>behind i q b c\<close>: at most \<open>b\<close> responses were stored after the one under the key. A
  response is found under its own key, and stays there while fewer than the capacity
  have come after it.
\<close>

locale response_cache =
  fixes get :: "string \<Rightarrow> nat \<Rightarrow> 'c \<Rightarrow> 'r option" and put :: "string \<Rightarrow> nat \<Rightarrow> 'r \<Rightarrow> 'c \<Rightarrow> 'c"
    and valid :: "'c \<Rightarrow> bool" and capacity :: "'c \<Rightarrow> nat" and behind :: "string \<Rightarrow> nat \<Rightarrow> nat \<Rightarrow> 'c \<Rightarrow> bool"
  assumes valid_put: "valid c \<Longrightarrow> valid (put i q r c)"
    and capacity_put: "capacity (put i q r c) = capacity c"
    and get_put: "valid c \<Longrightarrow> get i q (put i q r c) = Some r"
    and behind_put: "valid c \<Longrightarrow> get i q c = None \<Longrightarrow> behind i q 0 (put i q r c)"
    and behind_other: "valid c \<Longrightarrow> behind i q b c \<Longrightarrow> b + 1 < capacity c \<Longrightarrow> (j, p) \<noteq> (i, q) \<Longrightarrow>
      behind i q (b + 1) (put j p s c) \<and> get i q (put j p s c) = get i q c"
    and behind_mono: "behind i q b c \<Longrightarrow> b \<le> b' \<Longrightarrow> behind i q b' c"
begin

text \<open>A response survives any run of steps that each leave the cache or store under another key.\<close>

lemma survives_step:
  assumes "valid c" "behind i q b c" "get i q c = Some r" "b + 1 < capacity c"
    and "c' = c \<or> (\<exists>j p s. (j, p) \<noteq> (i, q) \<and> c' = put j p s c)"
  shows "valid c' \<and> behind i q (b + 1) c' \<and> get i q c' = Some r \<and> capacity c' = capacity c"
  using assms(5)
proof (elim disjE exE conjE)
  assume "c' = c"
  with assms behind_mono [of i q b c "b + 1"] show ?thesis by simp
next
  fix j p s assume "(j, p) \<noteq> (i, q)" "c' = put j p s c"
  with assms behind_other [of c i q b j p s] show ?thesis by (simp add: valid_put capacity_put)
qed

end

definition cache_behind :: "string \<Rightarrow> nat \<Rightarrow> nat \<Rightarrow> 'r session_cache \<Rightarrow> bool" where
  "cache_behind i q b c = (\<exists>xs ys. cache_order c = xs @ SessionCacheKey i q # ys \<and> length ys \<le> b)"

lemma cache_behindI:
  "cache_order c = xs @ SessionCacheKey i q # ys \<Longrightarrow> length ys \<le> b \<Longrightarrow> cache_behind i q b c"
  unfolding cache_behind_def by blast

lemma cache_behind_mono: "cache_behind i q b c \<Longrightarrow> b \<le> b' \<Longrightarrow> cache_behind i q b' c"
  unfolding cache_behind_def by (elim exE conjE) (rule exI, rule exI, rule conjI, assumption, simp)

lemma cache_behind_other:
  assumes ok: "cache_ok c" and b: "cache_behind i q b c" "b + 1 < cache_capacity c" and k: "(j, p) \<noteq> (i, q)"
  shows "cache_behind i q (b + 1) (cache_Put j p s c) \<and> cache_Get i q (cache_Put j p s c) = cache_Get i q c"
proof (cases "cache_entries c (SessionCacheKey j p)")
  case (Some v)
  then have put: "cache_Put j p s c = c\<lparr>cache_entries := (cache_entries c)(SessionCacheKey j p \<mapsto> s)\<rparr>"
    by (simp add: cache_Put_old)
  have "cache_behind i q (b + 1) c" by (rule cache_behind_mono [OF b(1)]) simp
  with k show ?thesis by (auto simp: put cache_behind_def cache_Get_def)
next
  case None
  obtain xs ys where o: "cache_order c = xs @ SessionCacheKey i q # ys" and ys: "length ys \<le> b"
    using b unfolding cache_behind_def by blast
  show ?thesis
  proof (cases "length (cache_order c) < cache_capacity c")
    case True
    have put: "cache_Put j p s c = c\<lparr>cache_order := cache_order c @ [SessionCacheKey j p],
        cache_entries := (cache_entries c)(SessionCacheKey j p \<mapsto> s)\<rparr>"
      using True by (simp add: cache_Put_new [OF ok None refl])
    have "cache_behind i q (b + 1) (cache_Put j p s c)"
      by (rule cache_behindI [of _ xs _ _ "ys @ [SessionCacheKey j p]"]) (use o ys put in simp_all)
    moreover have "cache_Get i q (cache_Put j p s c) = cache_Get i q c"
      using k by (auto simp: put cache_Get_def)
    ultimately show ?thesis ..
  next
    case False
    with b ys o obtain x xs' where xs: "xs = x # xs'" by (cases xs) auto
    with ok o have x: "x \<noteq> SessionCacheKey i q" by (auto simp: cache_ok_def)
    have put: "cache_Put j p s c = c\<lparr>cache_order := xs' @ SessionCacheKey i q # ys @ [SessionCacheKey j p],
        cache_entries := (cache_entries c)(x := None, SessionCacheKey j p \<mapsto> s)\<rparr>"
      using False o xs by (simp add: cache_Put_new [OF ok None refl])
    have "cache_behind i q (b + 1) (cache_Put j p s c)"
      by (rule cache_behindI [of _ xs' _ _ "ys @ [SessionCacheKey j p]"]) (use ys put in simp_all)
    moreover have "cache_Get i q (cache_Put j p s c) = cache_Get i q c"
      using k x by (auto simp: put cache_Get_def)
    ultimately show ?thesis ..
  qed
qed

interpretation cache: response_cache cache_Get cache_Put cache_ok cache_capacity cache_behind
proof unfold_locales
  fix c :: "'a session_cache" and i j q p b b' r s
  show "cache_ok c \<Longrightarrow> cache_ok (cache_Put i q r c)" by (rule cache_Put_ok)
  show "cache_capacity (cache_Put i q r c) = cache_capacity c" by (simp add: cache_Put_def Let_def)
  show "cache_Get i q (cache_Put i q r c) = Some r" by (simp add: cache_Get_def cache_Put_def Let_def)
  show "cache_behind i q 0 (cache_Put i q r c)" if "cache_ok c" "cache_Get i q c = None"
  proof -
    have new: "cache_entries c (SessionCacheKey i q) = None" using that(2) by (simp add: cache_Get_def)
    have "\<exists>xs. cache_order (cache_Put i q r c) = xs @ [SessionCacheKey i q]"
      by (simp add: cache_Put_new [OF that(1) new refl])
    then obtain xs where "cache_order (cache_Put i q r c) = xs @ [SessionCacheKey i q]" by blast
    then show ?thesis by (intro cache_behindI [of _ xs _ _ "[]"]) simp_all
  qed
  show "cache_behind i q (b + 1) (cache_Put j p s c) \<and> cache_Get i q (cache_Put j p s c) = cache_Get i q c"
    if "cache_ok c" "cache_behind i q b c" "b + 1 < cache_capacity c" "(j, p) \<noteq> (i, q)"
    by (rule cache_behind_other [OF that])
  show "cache_behind i q b' c" if "cache_behind i q b c" "b \<le> b'"
    by (rule cache_behind_mono [OF that])
qed

text \<open>
  The cache is not the LRU cache of its documentation: of two keys in a cache of capacity
  two, the older is evicted by a third although it was read last.
\<close>

lemma cache_evicts_in_insertion_order:
  fixes r s t :: 'r
  assumes "(i, q) \<noteq> (j, p)" "(i, q) \<noteq> (k, m)" "(j, p) \<noteq> (k, m)"
  defines "c \<equiv> cache_Put j p s (cache_Put i q r (NewSessionCache 2))"
  shows "cache_Get i q c = Some r" "cache_Get i q (cache_Put k m t c) = None" "cache_Get j p (cache_Put k m t c) = Some s"
  using assms(1-3) unfolding c_def
  by (auto simp: cache_Get_def cache_Put_def NewSessionCache_def Let_def)

end
