(* ===== verification/Gateway.thy ===== *)
theory Gateway
  imports Session_Cache Raft_Node Ws_Events Session_Props
begin

section \<open>The match gateway\<close>

text \<open>
  Models \<open>pkg/gateway/match_gateway.go\<close> and \<open>session.go\<close>: the HTTP handlers that read,
  create and mutate matches through the local Raft node, forward to the leader when the
  node is not it, and answer a repeated mutation from the idempotency cache.

  The Raft node, the game manager, the HTTP client and the entropy source are the
  functions of \<open>gateway_env\<close> over a world \<open>'w\<close>. A response is its status, the
  \<open>Retry-After\<close> header and its body; the text of an error in a body is held as the error
  it comes from, a literal text as \<open>Errorf\<close>. White space is that of ASCII. Logging, trace
  headers and time-outs of the HTTP client (one of its errors) are left out.
\<close>

subsection \<open>Strings\<close>

definition is_space :: "char \<Rightarrow> bool" where
  "is_space c = (c = CHR '' '' \<or> (9 \<le> (of_char c :: nat) \<and> (of_char c :: nat) \<le> 13))"

definition TrimSpace :: "string \<Rightarrow> string" where
  "TrimSpace s = rev (dropWhile is_space (rev (dropWhile is_space s)))"

definition TrimRightSlash :: "string \<Rightarrow> string" where
  "TrimRightSlash s = rev (dropWhile (\<lambda>c. c = CHR ''/'') (rev s))"

definition HasPrefix :: "string \<Rightarrow> string \<Rightarrow> bool" where
  "HasPrefix s p = (take (length p) s = p)"

subsection \<open>Requests and responses\<close>

record http_request =
  rq_Method :: string
  rq_MatchID :: string
  rq_PlayerID :: string
  rq_Body :: "jtext result"

text \<open>\<open>rq_MatchID\<close> and \<open>rq_PlayerID\<close> are the query parameters, \<open>rq_Body\<close> what reading the body gives.\<close>

record create_request =
  cr_MatchID :: string
  cr_Setup :: match_setup

record mutate_request =
  mr_ClientID :: string
  mr_SequenceNumber :: nat
  mr_MatchID :: string
  mr_PlayerID :: string
  mr_ActionData :: jtext

record create_response =
  cres_OK :: bool
  cres_MatchID :: string
  cres_Error :: "go_error option"

record mutate_response =
  mres_OK :: bool
  IdempotentReplay :: bool
  mres_Result :: "apply_result option"
  mres_Error :: "go_error option"

record read_response =
  rres_MatchID :: string
  rres_Found :: bool
  rres_Session :: "game_session option"
  rres_Node :: "(string \<times> raft_role) option"

record state_response =
  sres_MatchID :: string
  sres_PlayerID :: string
  sres_Found :: bool
  sres_Session :: "game_session option"
  sres_Node :: "(string \<times> raft_role) option"
  sres_Error :: "go_error option"

record fill_response =
  fres_OK :: bool
  fres_Proposed :: nat
  fres_SnapshotIndex :: nat
  fres_Uncompacted :: nat
  fres_NodeID :: string
  fres_Error :: "go_error option"

record proxy_request =
  pq_Method :: string
  pq_URL :: string
  pq_Query :: "(string \<times> string) list"
  pq_Body :: jtext

record proxy_response =
  pr_Status :: nat
  pr_Header :: "(string \<times> string) list"
  pr_Body :: string

text \<open>
  The bodies: \<open>LeaderUnavailable\<close> carries the details, node ID and node state,
  \<open>ProxyFailed\<close> the leader, the URL and its query, \<open>Redirected\<close> the text, leader ID and address of
  the redirect; \<open>Proxied\<close> is a copy of the leader's response.
\<close>

datatype gw_body =
    ErrorBody go_error
  | LeaderUnavailable go_error string raft_role
  | ProxyFailed string string "(string \<times> string) list"
  | Redirected string string string
  | CreateBody create_response
  | MutateBody mutate_response
  | ReadBody read_response
  | StateBody state_response
  | FillBody fill_response
  | Proxied proxy_response

record gw_response =
  rs_Status :: nat
  rs_RetryAfter :: "nat option"
  rs_Body :: gw_body

definition writeGatewayJSON :: "nat \<Rightarrow> gw_body \<Rightarrow> gw_response" where
  "writeGatewayJSON status b = \<lparr>rs_Status = status, rs_RetryAfter = None, rs_Body = b\<rparr>"

definition defaultRetryAfterSecs :: nat where "defaultRetryAfterSecs = 2"
definition defaultFillLogCount :: nat where "defaultFillLogCount = 50"

definition retry_later :: "gw_body \<Rightarrow> gw_response" where
  "retry_later b = \<lparr>rs_Status = 503, rs_RetryAfter = Some defaultRetryAfterSecs, rs_Body = b\<rparr>"

subsection \<open>Environment and state\<close>

record 'w gateway_env =
  gw_NodeID :: string
  gw_IsLeader :: "'w \<Rightarrow> bool"
  gw_LeaderEndpoint :: "'w \<Rightarrow> string \<times> string \<times> go_error option"
  gw_ProposeAndWait :: "jtext \<Rightarrow> 'w \<Rightarrow> apply_outcome result \<times> 'w"
  gw_EnsureRead :: "'w \<Rightarrow> go_error option \<times> 'w"
  gw_SnapshotIndex :: "'w \<Rightarrow> nat"
  gw_Uncompacted :: "'w \<Rightarrow> nat"
  gw_GetSession :: "string \<Rightarrow> 'w \<Rightarrow> game_session option \<times> 'w"
  gw_RandRead :: "'w \<Rightarrow> bytes result \<times> 'w"
  gw_BadURL :: "string \<Rightarrow> bool"
  gw_Do :: "proxy_request \<Rightarrow> 'w \<Rightarrow> proxy_response result \<times> 'w"

record match_gateway =
  g_raft :: bool
  g_manager :: bool
  g_cache :: "mutate_response session_cache"
  httpPeerAddresses :: "string \<rightharpoonup> string"

text \<open>\<open>g_raft\<close> and \<open>g_manager\<close>: whether the pointer is set. Option functions set the last two fields.\<close>

definition NewMatchGateway :: "bool \<Rightarrow> bool \<Rightarrow> match_gateway" where
  "NewMatchGateway raft manager =
     \<lparr>g_raft = raft, g_manager = manager, g_cache = NewSessionCache (int defaultSessionCacheCapacity),
      httpPeerAddresses = Map.empty\<rparr>"

definition WithHTTPPeerAddresses :: "(string \<rightharpoonup> string) \<Rightarrow> match_gateway \<Rightarrow> match_gateway" where
  "WithHTTPPeerAddresses addrs g = g\<lparr>httpPeerAddresses := addrs\<rparr>"

definition WithSessionCache :: "mutate_response session_cache \<Rightarrow> match_gateway \<Rightarrow> match_gateway" where
  "WithSessionCache c g = g\<lparr>g_cache := c\<rparr>"

definition nodeState :: "'w gateway_env \<Rightarrow> 'w \<Rightarrow> raft_role" where
  "nodeState env w = (if gw_IsLeader env w then StateLeader else StateFollower)"

subsection \<open>Helpers\<close>

definition sessionPlayerKnown :: "game_session \<Rightarrow> string \<Rightarrow> bool" where
  "sessionPlayerKnown s playerID = list_ex (\<lambda>p. p = playerID) (Players s)"

definition err_not_part :: go_error where
  "err_not_part = Errorf ''player_id is not part of this match''"

definition maskApplyResultForPlayer :: "apply_result \<Rightarrow> string \<Rightarrow> apply_result result" where
  "maskApplyResultForPlayer r pid =
     (let p = TrimSpace pid in
      case ar_Session r of
        None \<Rightarrow> Inr r
      | Some s \<Rightarrow>
          if p = [] then Inr r
          else if \<not> sessionPlayerKnown s p then Inl err_not_part
          else Inr (r\<lparr>ar_Session := ViewForPlayer p (Some s)\<rparr>))"

definition normalizeHTTPBase :: "string \<Rightarrow> string" where
  "normalizeHTTPBase a =
     (let addr = TrimSpace a in
      if addr = [] then []
      else if HasPrefix addr ''http://'' \<or> HasPrefix addr ''https://'' then TrimRightSlash addr
      else ''http://'' @ (if HasPrefix addr '':'' then ''localhost'' @ addr else addr))"

definition leaderHTTPBase :: "match_gateway \<Rightarrow> string \<Rightarrow> string \<Rightarrow> string" where
  "leaderHTTPBase g leaderID raftAddr =
     (case httpPeerAddresses g leaderID of
        Some base \<Rightarrow> if base \<noteq> [] then normalizeHTTPBase base else normalizeHTTPBase raftAddr
      | None \<Rightarrow> normalizeHTTPBase raftAddr)"

text \<open>\<open>errors.As\<close> looks through wrapped errors.\<close>

fun as_redirect :: "go_error \<Rightarrow> (string \<times> string \<times> string) option" where
  "as_redirect (LeaderRedirectError lid addr reason) = Some (lid, addr, reason)"
| "as_redirect (Wrapf _ e) = as_redirect e"
| "as_redirect _ = None"

definition redirect_text :: "string \<times> string \<times> string \<Rightarrow> string" where
  "redirect_text r =
     (case r of (lid, addr, reason) \<Rightarrow>
        if reason \<noteq> [] then reason else ''redirect to leader '' @ lid @ '' at '' @ addr)"

definition writeProposalError :: "go_error \<Rightarrow> gw_response" where
  "writeProposalError e =
     (case as_redirect e of
        Some (lid, addr, reason) \<Rightarrow> retry_later (Redirected (redirect_text (lid, addr, reason)) lid addr)
      | None \<Rightarrow> writeGatewayJSON 500 (MutateBody \<lparr>mres_OK = False, IdempotentReplay = False,
                  mres_Result = None, mres_Error = Some e\<rparr>))"

definition normalizeCreateRequest :: "create_request \<Rightarrow> create_request result" where
  "normalizeCreateRequest req =
     (let uids = (if PlayerUIDs (cr_Setup req) = [] then [''p1'', ''p2''] else PlayerUIDs (cr_Setup req));
          cleaned = filter (\<lambda>u. u \<noteq> []) (map TrimSpace uids) in
      if cleaned = [] then Inl (Errorf ''at least one player_uid is required'')
      else Inr (req\<lparr>cr_Setup := (cr_Setup req)\<lparr>PlayerUIDs := cleaned\<rparr>\<rparr>))"

definition hex_digit :: "nat \<Rightarrow> char" where
  "hex_digit n = (if n < 10 then char_of (48 + n) else char_of (87 + n))"

definition hex :: "bytes \<Rightarrow> string" where
  "hex bs = concat (map (\<lambda>b. [hex_digit (unat b div 16), hex_digit (unat b mod 16)]) bs)"

definition generateMatchID :: "'w gateway_env \<Rightarrow> 'w \<Rightarrow> string result \<times> 'w" where
  "generateMatchID env w =
     (case gw_RandRead env w of
        (Inl e, w1) \<Rightarrow> (Inl e, w1)
      | (Inr entropy, w1) \<Rightarrow> (Inr (''match-'' @ hex entropy), w1))"

definition validateMutateRequest :: "mutate_request \<Rightarrow> go_error option" where
  "validateMutateRequest req =
     (if TrimSpace (mr_ClientID req) = [] then Some (Errorf ''client_id is required'')
      else if mr_SequenceNumber req = 0 then Some (Errorf ''sequence_number must be greater than zero'')
      else if TrimSpace (mr_MatchID req) = [] then Some (Errorf ''match_id is required'')
      else if mr_ActionData req = None then Some (Errorf ''action_data is required'')
      else None)"

text \<open>\<open>MatchActionData\<close> has the fields and JSON names of \<open>ApplyTurnPayload\<close>.\<close>

definition decodeActionData :: "jtext \<Rightarrow> apply_turn_payload result" where
  "decodeActionData raw =
     (case un_text apply_turn_field raw zero_turn of
        None \<Rightarrow> Inl (Wrapf ''invalid action_data: '' ErrJson)
      | Some action \<Rightarrow>
          if at_Kind action = [] then Inl (Errorf ''action_data.kind is required'')
          else if at_PlayerID action = [] then Inl (Errorf ''action_data.player_id is required'')
          else Inr action)"

definition validateMutatePlayerScope ::
  "'w gateway_env \<Rightarrow> match_gateway \<Rightarrow> mutate_request \<Rightarrow> 'w \<Rightarrow> go_error option \<times> 'w" where
  "validateMutatePlayerScope env g req w =
     (let p = TrimSpace (mr_PlayerID req) in
      if p = [] \<or> \<not> g_manager g then (None, w)
      else case gw_GetSession env (mr_MatchID req) w of
        (None, w1) \<Rightarrow> (None, w1)
      | (Some s, w1) \<Rightarrow> (if \<not> sessionPlayerKnown s p then Some err_not_part else None, w1))"

subsection \<open>Request bodies\<close>

definition create_field :: "string \<Rightarrow> json \<Rightarrow> create_request \<Rightarrow> create_request option" where
  "create_field k j r =
     (if key_is ''match_id'' k then map_option (\<lambda>v. r\<lparr>cr_MatchID := v\<rparr>) (un_string j (cr_MatchID r))
      else map_option (\<lambda>v. r\<lparr>cr_Setup := v\<rparr>) (start_match_field k j (cr_Setup r)))"

definition zero_create :: create_request where
  "zero_create = \<lparr>cr_MatchID = [], cr_Setup = zero_setup\<rparr>"

definition mutate_field :: "string \<Rightarrow> json \<Rightarrow> mutate_request \<Rightarrow> mutate_request option" where
  "mutate_field k j r =
     (if key_is ''client_id'' k then map_option (\<lambda>v. r\<lparr>mr_ClientID := v\<rparr>) (un_string j (mr_ClientID r))
      else if key_is ''sequence_number'' k then map_option (\<lambda>v. r\<lparr>mr_SequenceNumber := v\<rparr>) (un_uint j (mr_SequenceNumber r))
      else if key_is ''match_id'' k then map_option (\<lambda>v. r\<lparr>mr_MatchID := v\<rparr>) (un_string j (mr_MatchID r))
      else if key_is ''player_id'' k then map_option (\<lambda>v. r\<lparr>mr_PlayerID := v\<rparr>) (un_string j (mr_PlayerID r))
      else if key_is ''action_data'' k then Some (r\<lparr>mr_ActionData := Some j\<rparr>)
      else Some r)"

definition zero_mutate :: mutate_request where
  "zero_mutate = \<lparr>mr_ClientID = [], mr_SequenceNumber = 0, mr_MatchID = [], mr_PlayerID = [], mr_ActionData = None\<rparr>"

subsection \<open>Forwarding to the leader\<close>

text \<open>The part the four forwarding functions share: find the leader, send, copy the answer.\<close>

definition forward_to_leader ::
  "'w gateway_env \<Rightarrow> match_gateway \<Rightarrow> string \<Rightarrow> string \<Rightarrow> (string \<times> string) list \<Rightarrow> jtext \<Rightarrow> 'w \<Rightarrow> gw_response \<times> 'w" where
  "forward_to_leader env g verb path query body w =
     (case gw_LeaderEndpoint env w of
        (_, _, Some e) \<Rightarrow> (retry_later (LeaderUnavailable e (gw_NodeID env) (nodeState env w)), w)
      | (leaderID, leaderRaftAddr, None) \<Rightarrow>
          let targetURL = TrimRightSlash (leaderHTTPBase g leaderID leaderRaftAddr) @ path in
          if gw_BadURL env targetURL then
            (writeGatewayJSON 500 (ErrorBody (Errorf ''failed to build leader proxy request'')), w)
          else
            (case gw_Do env \<lparr>pq_Method = verb, pq_URL = targetURL, pq_Query = query, pq_Body = body\<rparr> w of
               (Inl e, w1) \<Rightarrow> (retry_later (ProxyFailed leaderID targetURL query), w1)
             | (Inr resp, w1) \<Rightarrow> (\<lparr>rs_Status = pr_Status resp, rs_RetryAfter = None, rs_Body = Proxied resp\<rparr>, w1)))"

definition forwardStateToLeader ::
  "'w gateway_env \<Rightarrow> match_gateway \<Rightarrow> string \<Rightarrow> string \<Rightarrow> 'w \<Rightarrow> gw_response \<times> 'w" where
  "forwardStateToLeader env g matchID playerID w =
     forward_to_leader env g ''GET'' ''/match/state'' [(''match_id'', matchID), (''player_id'', playerID)] None w"

definition forwardCreateToLeader :: "'w gateway_env \<Rightarrow> match_gateway \<Rightarrow> jtext \<Rightarrow> 'w \<Rightarrow> gw_response \<times> 'w" where
  "forwardCreateToLeader env g body w = forward_to_leader env g ''POST'' ''/match/create'' [] body w"

definition forwardMutateToLeader :: "'w gateway_env \<Rightarrow> match_gateway \<Rightarrow> jtext \<Rightarrow> 'w \<Rightarrow> gw_response \<times> 'w" where
  "forwardMutateToLeader env g body w = forward_to_leader env g ''POST'' ''/match/mutate'' [] body w"

definition forwardFillLogToLeader :: "'w gateway_env \<Rightarrow> match_gateway \<Rightarrow> 'w \<Rightarrow> gw_response \<times> 'w" where
  "forwardFillLogToLeader env g w = forward_to_leader env g ''POST'' ''/debug/fill-log'' [] None w"

subsection \<open>Reads\<close>

definition err_body :: "string \<Rightarrow> gw_body" where "err_body msg = ErrorBody (Errorf msg)"

definition handleRead :: "'w gateway_env \<Rightarrow> match_gateway \<Rightarrow> http_request \<Rightarrow> 'w \<Rightarrow> gw_response \<times> 'w" where
  "handleRead env g r w =
     (if rq_Method r \<noteq> ''GET'' then (writeGatewayJSON 405 (err_body ''method not allowed''), w)
      else if \<not> g_manager g then (writeGatewayJSON 503 (err_body ''game manager is not configured''), w)
      else
        let matchID = TrimSpace (rq_MatchID r) in
        if matchID = [] then (writeGatewayJSON 400 (err_body ''match_id is required''), w)
        else (case gw_GetSession env matchID w of
          (so, w1) \<Rightarrow>
            (writeGatewayJSON 200 (ReadBody \<lparr>rres_MatchID = matchID, rres_Found = (so \<noteq> None), rres_Session = so,
               rres_Node = (if g_raft g then Some (gw_NodeID env, nodeState env w1) else None)\<rparr>), w1)))"

definition processLocalState :: "'w gateway_env \<Rightarrow> string \<Rightarrow> string \<Rightarrow> 'w \<Rightarrow> gw_response \<times> 'w" where
  "processLocalState env matchID playerID w =
     (case gw_EnsureRead env w of
        (Some e, w1) \<Rightarrow> (writeProposalError e, w1)
      | (None, w1) \<Rightarrow>
          (case gw_GetSession env matchID w1 of
             (so, w2) \<Rightarrow>
               let resp = \<lparr>sres_MatchID = matchID, sres_PlayerID = playerID, sres_Found = (so \<noteq> None),
                           sres_Session = None, sres_Node = Some (gw_NodeID env, nodeState env w2), sres_Error = None\<rparr> in
               (case so of
                  None \<Rightarrow> (writeGatewayJSON 200 (StateBody resp), w2)
                | Some s \<Rightarrow>
                    if \<not> sessionPlayerKnown s playerID then
                      (writeGatewayJSON 400 (StateBody \<lparr>sres_MatchID = matchID, sres_PlayerID = playerID,
                         sres_Found = False, sres_Session = None, sres_Node = None, sres_Error = Some err_not_part\<rparr>), w2)
                    else (writeGatewayJSON 200 (StateBody (resp\<lparr>sres_Session := ViewForPlayer playerID (Some s)\<rparr>)), w2))))"

definition handleState :: "'w gateway_env \<Rightarrow> match_gateway \<Rightarrow> http_request \<Rightarrow> 'w \<Rightarrow> gw_response \<times> 'w" where
  "handleState env g r w =
     (if rq_Method r \<noteq> ''GET'' then (writeGatewayJSON 405 (err_body ''method not allowed''), w)
      else if \<not> g_raft g then (writeGatewayJSON 503 (err_body ''raft node is not configured''), w)
      else if \<not> g_manager g then (writeGatewayJSON 503 (err_body ''game manager is not configured''), w)
      else
        let matchID = TrimSpace (rq_MatchID r); playerID = TrimSpace (rq_PlayerID r) in
        if matchID = [] then (writeGatewayJSON 400 (err_body ''match_id is required''), w)
        else if playerID = [] then (writeGatewayJSON 400 (err_body ''player_id is required''), w)
        else if \<not> gw_IsLeader env w then forwardStateToLeader env g matchID playerID w
        else processLocalState env matchID playerID w)"

subsection \<open>Creating matches\<close>

definition create_command :: "string \<Rightarrow> match_setup \<Rightarrow> json" where
  "create_command matchID su = EncodeCommandWithPayload OpStartMatch matchID (TypedPayload (start_match_json su))"

definition processLocalCreate :: "'w gateway_env \<Rightarrow> create_request \<Rightarrow> 'w \<Rightarrow> gw_response \<times> 'w" where
  "processLocalCreate env req w =
     (let fail = (\<lambda>status e. writeGatewayJSON status (CreateBody \<lparr>cres_OK = False, cres_MatchID = [], cres_Error = Some e\<rparr>));
          named = TrimSpace (cr_MatchID req) in
      case (if named = [] then generateMatchID env w else (Inr named, w)) of
        (Inl _, w1) \<Rightarrow> (fail 500 (Errorf ''failed to generate match_id''), w1)
      | (Inr matchID, w1) \<Rightarrow>
          (case gw_ProposeAndWait env (Some (create_command matchID (cr_Setup req))) w1 of
             (Inl e, w2) \<Rightarrow> (writeProposalError e, w2)
           | (Inr (ApplyErr e), w2) \<Rightarrow> (fail 409 e, w2)
           | (Inr ApplyNil, w2) \<Rightarrow> (fail 409 (Errorf ''match create returned no confirmation''), w2)
           | (Inr (ApplyOK r), w2) \<Rightarrow>
               if \<not> ar_OK r then (fail 409 (Errorf ''match create returned no confirmation''), w2)
               else (writeGatewayJSON 201 (CreateBody \<lparr>cres_OK = True, cres_MatchID = ar_MatchID r, cres_Error = None\<rparr>), w2)))"

definition handleCreate :: "'w gateway_env \<Rightarrow> match_gateway \<Rightarrow> http_request \<Rightarrow> 'w \<Rightarrow> gw_response \<times> 'w" where
  "handleCreate env g r w =
     (if rq_Method r \<noteq> ''POST'' then (writeGatewayJSON 405 (err_body ''method not allowed''), w)
      else if \<not> g_raft g then (writeGatewayJSON 503 (err_body ''raft node is not configured''), w)
      else case rq_Body r of
        Inl _ \<Rightarrow> (writeGatewayJSON 400 (err_body ''invalid request body''), w)
      | Inr raw \<Rightarrow>
          let body = (case raw of None \<Rightarrow> JObj [] | Some j \<Rightarrow> j) in
          (case un_text create_field (Some body) zero_create of
             None \<Rightarrow> (writeGatewayJSON 400 (err_body ''invalid JSON payload''), w)
           | Some req0 \<Rightarrow>
               (case normalizeCreateRequest req0 of
                  Inl e \<Rightarrow> (writeGatewayJSON 400 (ErrorBody e), w)
                | Inr req \<Rightarrow>
                    if \<not> gw_IsLeader env w then forwardCreateToLeader env g (Some body) w
                    else processLocalCreate env req w)))"

subsection \<open>Mutations\<close>

definition mutate_command :: "string \<Rightarrow> apply_turn_payload \<Rightarrow> json" where
  "mutate_command matchID action = EncodeCommandWithPayload OpApplyTurn matchID (TypedPayload (apply_turn_json action))"

definition processLocalMutate ::
  "'w gateway_env \<Rightarrow> mutate_request \<Rightarrow> match_gateway \<times> 'w \<Rightarrow> gw_response \<times> match_gateway \<times> 'w" where
  "processLocalMutate env req gw =
     (case gw of (g, w) \<Rightarrow>
      (case cache_Get (mr_ClientID req) (mr_SequenceNumber req) (g_cache g) of
        Some cached \<Rightarrow> (writeGatewayJSON 200 (MutateBody (cached\<lparr>IdempotentReplay := True\<rparr>)), g, w)
      | None \<Rightarrow>
          (case decodeActionData (mr_ActionData req) of
             Inl e \<Rightarrow> (writeGatewayJSON 400 (ErrorBody e), g, w)
           | Inr action \<Rightarrow>
               (case gw_ProposeAndWait env (Some (mutate_command (mr_MatchID req) action)) w of
                  (Inl e, w1) \<Rightarrow> (writeProposalError e, g, w1)
                | (Inr (ApplyErr e), w1) \<Rightarrow> (writeProposalError e, g, w1)
                | (Inr ApplyNil, w1) \<Rightarrow>
                    (writeGatewayJSON 409 (MutateBody \<lparr>mres_OK = False, IdempotentReplay = False, mres_Result = None,
                       mres_Error = Some (Errorf ''mutation returned no confirmation'')\<rparr>), g, w1)
                | (Inr (ApplyOK r), w1) \<Rightarrow>
                    if \<not> ar_OK r then
                      (writeGatewayJSON 409 (MutateBody \<lparr>mres_OK = False, IdempotentReplay = False, mres_Result = None,
                         mres_Error = Some (Errorf ''mutation returned no confirmation'')\<rparr>), g, w1)
                    else
                      (case maskApplyResultForPlayer r (mr_PlayerID req) of
                         Inl e \<Rightarrow> (writeGatewayJSON 400 (ErrorBody e), g, w1)
                       | Inr masked \<Rightarrow>
                           let resp = \<lparr>mres_OK = True, IdempotentReplay = False, mres_Result = Some masked,
                                       mres_Error = None\<rparr> in
                           (writeGatewayJSON 200 (MutateBody resp),
                            g\<lparr>g_cache := cache_Put (mr_ClientID req) (mr_SequenceNumber req) resp (g_cache g)\<rparr>,
                            w1))))))"

definition handleMutate ::
  "'w gateway_env \<Rightarrow> http_request \<Rightarrow> match_gateway \<times> 'w \<Rightarrow> gw_response \<times> match_gateway \<times> 'w" where
  "handleMutate env r gw =
     (case gw of (g, w) \<Rightarrow>
      if rq_Method r \<noteq> ''POST'' then (writeGatewayJSON 405 (err_body ''method not allowed''), g, w)
      else if \<not> g_raft g then (writeGatewayJSON 503 (err_body ''raft node is not configured''), g, w)
      else case rq_Body r of
        Inl _ \<Rightarrow> (writeGatewayJSON 400 (err_body ''invalid request body''), g, w)
      | Inr body \<Rightarrow>
          (case un_text mutate_field body zero_mutate of
             None \<Rightarrow> (writeGatewayJSON 400 (err_body ''invalid JSON payload''), g, w)
           | Some req \<Rightarrow>
               (case validateMutateRequest req of
                  Some e \<Rightarrow> (writeGatewayJSON 400 (ErrorBody e), g, w)
                | None \<Rightarrow>
                    (case validateMutatePlayerScope env g req w of
                       (Some e, w1) \<Rightarrow> (writeGatewayJSON 400 (ErrorBody e), g, w1)
                     | (None, w1) \<Rightarrow>
                         if \<not> gw_IsLeader env w1 then
                           (case forwardMutateToLeader env g body w1 of (resp, w2) \<Rightarrow> (resp, g, w2))
                         else processLocalMutate env req (g, w1)))))"

subsection \<open>Filling the log\<close>

text \<open>\<open>inTime i\<close>: whether time remains before the deadline when entry \<open>i\<close> is reached.\<close>

fun fill_loop :: "'w gateway_env \<Rightarrow> (nat \<Rightarrow> bool) \<Rightarrow> nat \<Rightarrow> nat \<Rightarrow> 'w \<Rightarrow> gw_response \<times> 'w" where
  "fill_loop env inTime proposed 0 w =
     (writeGatewayJSON 200 (FillBody \<lparr>fres_OK = True, fres_Proposed = proposed,
        fres_SnapshotIndex = gw_SnapshotIndex env w, fres_Uncompacted = gw_Uncompacted env w,
        fres_NodeID = gw_NodeID env, fres_Error = None\<rparr>), w)"
| "fill_loop env inTime proposed (Suc k) w =
     (let fail = (\<lambda>status e. writeGatewayJSON status (FillBody \<lparr>fres_OK = False, fres_Proposed = proposed,
                    fres_SnapshotIndex = 0, fres_Uncompacted = 0, fres_NodeID = gw_NodeID env, fres_Error = Some e\<rparr>)) in
      if \<not> inTime proposed then
        (fail 504 (Errorf (''timed out after proposing '' @ nat_dec proposed @ '' entries'')), w)
      else
        (case gw_ProposeAndWait env (Some (EncodeDebugNoopCommand (''debug-fill-'' @ nat_dec (proposed + 1)))) w of
           (Inl e, w1) \<Rightarrow> (writeProposalError e, w1)
         | (Inr (ApplyErr e), w1) \<Rightarrow> (fail 500 e, w1)
         | (Inr _, w1) \<Rightarrow> fill_loop env inTime (proposed + 1) k w1))"

definition processLocalFillLog :: "'w gateway_env \<Rightarrow> (nat \<Rightarrow> bool) \<Rightarrow> 'w \<Rightarrow> gw_response \<times> 'w" where
  "processLocalFillLog env inTime w = fill_loop env inTime 0 defaultFillLogCount w"

definition handleFillLog ::
  "'w gateway_env \<Rightarrow> (nat \<Rightarrow> bool) \<Rightarrow> match_gateway \<Rightarrow> http_request \<Rightarrow> 'w \<Rightarrow> gw_response \<times> 'w" where
  "handleFillLog env inTime g r w =
     (if rq_Method r \<noteq> ''POST'' then (writeGatewayJSON 405 (err_body ''method not allowed''), w)
      else if \<not> g_raft g then
        (writeGatewayJSON 503 (FillBody \<lparr>fres_OK = False, fres_Proposed = 0, fres_SnapshotIndex = 0,
           fres_Uncompacted = 0, fres_NodeID = [], fres_Error = Some (Errorf ''raft node is not configured'')\<rparr>), w)
      else if \<not> gw_IsLeader env w then forwardFillLogToLeader env g w
      else processLocalFillLog env inTime w)"

subsection \<open>The replicated handler of the WebSocket router\<close>

definition mapProposalError :: "go_error \<Rightarrow> handler_error" where
  "mapProposalError e =
     (case as_redirect e of
        Some (lid, addr, reason) \<Rightarrow>
          if lid \<noteq> [] \<and> addr \<noteq> [] then RedirectableError lid addr (redirect_text (lid, addr, reason)) else PlainError e
      | None \<Rightarrow> PlainError e)"

definition proposeTurn ::
  "'w gateway_env \<Rightarrow> string \<Rightarrow> apply_turn_payload \<Rightarrow> 'w \<Rightarrow> (handler_error + apply_result) \<times> 'w" where
  "proposeTurn env sid payload w =
     (case gw_ProposeAndWait env (Some (mutate_command sid payload)) w of
        (Inl e, w1) \<Rightarrow> (Inl (mapProposalError e), w1)
      | (Inr (ApplyErr e), w1) \<Rightarrow> (Inl (PlainError e), w1)
      | (Inr ApplyNil, w1) \<Rightarrow> (Inl (PlainError (Errorf ''replicated turn returned no confirmation'')), w1)
      | (Inr (ApplyOK r), w1) \<Rightarrow>
          if \<not> ar_OK r then (Inl (PlainError (Errorf ''replicated turn returned no confirmation'')), w1)
          else (Inr r, w1))"

definition handler_PlayTile ::
  "'w gateway_env \<Rightarrow> string \<Rightarrow> string \<Rightarrow> domino_tile \<Rightarrow> bool \<Rightarrow> 'w \<Rightarrow> (handler_error + bool) \<times> 'w" where
  "handler_PlayTile env sid pid t playAtLeft w =
     (case proposeTurn env sid \<lparr>at_Kind = ''PLAY_TILE'', at_PlayerID = pid, at_Tile = t, at_PlayAtLeft = playAtLeft\<rparr> w of
        (Inl e, w1) \<Rightarrow> (Inl e, w1)
      | (Inr r, w1) \<Rightarrow> (Inr (case ar_Turn r of None \<Rightarrow> ar_Applied r | Some turn \<Rightarrow> Applied turn), w1))"

definition handler_Draw ::
  "'w gateway_env \<Rightarrow> string \<Rightarrow> string \<Rightarrow> 'w \<Rightarrow> (handler_error + domino_tile option) \<times> 'w" where
  "handler_Draw env sid pid w =
     (case proposeTurn env sid \<lparr>at_Kind = ''DRAW'', at_PlayerID = pid, at_Tile = zero_tile, at_PlayAtLeft = False\<rparr> w of
        (Inl e, w1) \<Rightarrow> (Inl e, w1)
      | (Inr r, w1) \<Rightarrow> (Inr (case ar_Turn r of None \<Rightarrow> None | Some turn \<Rightarrow> DrawnTile turn), w1))"

definition handler_Pass :: "'w gateway_env \<Rightarrow> string \<Rightarrow> string \<Rightarrow> 'w \<Rightarrow> handler_error option \<times> 'w" where
  "handler_Pass env sid pid w =
     (case proposeTurn env sid \<lparr>at_Kind = ''PASS'', at_PlayerID = pid, at_Tile = zero_tile, at_PlayAtLeft = False\<rparr> w of
        (Inl e, w1) \<Rightarrow> (Some e, w1)
      | (Inr _, w1) \<Rightarrow> (None, w1))"

text \<open>What \<open>WireSessionReplication\<close> sends to the hub for an applied entry.\<close>

definition session_delta_of :: "apply_result \<Rightarrow> session_delta" where
  "session_delta_of r = \<lparr>sd_MatchID = ar_MatchID r, sd_Op = ar_Op r, sd_Applied = ar_Applied r,
     sd_Session = ar_Session r, sd_Turn = ar_Turn r\<rparr>"

text \<open>An example world: the local state machine behind the log, and one stored session.\<close>

definition demo_gw_env :: "(local_fsm \<times> jtext list) gateway_env" where
  "demo_gw_env = \<lparr>gw_NodeID = ''A'', gw_IsLeader = (\<lambda>w. True), gw_LeaderEndpoint = (\<lambda>w. (''A'', ''a'', None)),
     gw_ProposeAndWait = (\<lambda>cmd w. case LocalApply cmd (fst w) of
        (Inl e, f) \<Rightarrow> (Inr (ApplyErr e), (f, snd w @ [cmd])) | (Inr r, f) \<Rightarrow> (Inr (ApplyOK r), (f, snd w @ [cmd]))),
     gw_EnsureRead = (\<lambda>w. (None, w)), gw_SnapshotIndex = (\<lambda>w. 0), gw_Uncompacted = (\<lambda>w. length (snd w)),
     gw_GetSession = (\<lambda>sid w. (Some demo_session, w)), gw_RandRead = (\<lambda>w. (Inr [1], w)),
     gw_BadURL = (\<lambda>u. False), gw_Do = (\<lambda>rq w. (Inl (ErrExternal ''no route''), w))\<rparr>"

definition demo_mutate :: mutate_request where
  "demo_mutate = \<lparr>mr_ClientID = ''c'', mr_SequenceNumber = 1, mr_MatchID = ''m'', mr_PlayerID = ''a'',
     mr_ActionData = Some (apply_turn_json demo_turn_payload)\<rparr>"

lemma decodeActionData_encode:
  assumes "at_Kind p \<noteq> []" "at_PlayerID p \<noteq> []" "tile_int64 (at_Tile p)"
  shows "decodeActionData (Some (apply_turn_json p)) = Inr p"
  using DecodeApplyTurn_encode [OF assms]
  by (auto simp: DecodeApplyTurnPayload_def decodeActionData_def split: option.splits if_splits)

lemma demo_action: "decodeActionData (Some (apply_turn_json demo_turn_payload)) = Inr demo_turn_payload"
  by (rule decodeActionData_encode) (simp_all add: demo_turn_payload_def zero_tile_def tile_int64_def in_int64_def)

lemma demo_apply:
  "LocalApply (Some (mutate_command ''m'' demo_turn_payload)) [''m'' \<mapsto> \<lparr>Counter = 0, ms_Status = ''active''\<rparr>] =
     (Inr ((ok_result OpApplyTurn ''m'')\<lparr>ar_Applied := True\<rparr>), [''m'' \<mapsto> \<lparr>Counter = 1, ms_Status = ''active''\<rparr>])"
  by (simp add: LocalApply_def mutate_command_def DecodeCommand_encode op_defs wrap64_def)

subsection \<open>Idempotency\<close>

fun run_mutates :: "'w gateway_env \<Rightarrow> mutate_request list \<Rightarrow> match_gateway \<times> 'w \<Rightarrow> match_gateway \<times> 'w" where
  "run_mutates env [] gw = gw"
| "run_mutates env (r # rs) gw = run_mutates env rs (snd (processLocalMutate env r gw))"

lemma processLocalMutate_cached:
  "cache_Get (mr_ClientID req) (mr_SequenceNumber req) (g_cache g) = Some r \<Longrightarrow>
     processLocalMutate env req (g, w) = (writeGatewayJSON 200 (MutateBody (r\<lparr>IdempotentReplay := True\<rparr>)), g, w)"
  by (simp add: processLocalMutate_def)

lemma processLocalMutate_new:
  assumes "cache_Get (mr_ClientID req) (mr_SequenceNumber req) (g_cache g) = None"
    and "processLocalMutate env req (g, w) = (resp, g', w')"
  shows "g' = g \<and> (\<forall>mr. rs_Body resp = MutateBody mr \<longrightarrow> \<not> mres_OK mr) \<or>
    (\<exists>mr. rs_Body resp = MutateBody mr \<and> mres_OK mr \<and>
       g' = g\<lparr>g_cache := cache_Put (mr_ClientID req) (mr_SequenceNumber req) mr (g_cache g)\<rparr>)"
  using assms
  by (auto simp: processLocalMutate_def writeProposalError_def writeGatewayJSON_def retry_later_def Let_def
    split: sum.splits option.splits prod.splits apply_outcome.splits if_splits)

lemma run_mutates_keeps:
  assumes "cache_ok (g_cache g)" "cache_Get i q (g_cache g) = Some r" "cache_behind i q b (g_cache g)"
    and "b + length reqs < cache_capacity (g_cache g)" "run_mutates env reqs (g, w) = (g', w')"
  shows "cache_Get i q (g_cache g') = Some r"
  using assms
proof (induction reqs arbitrary: g w b)
  case Nil
  then show ?case by simp
next
  case (Cons m ms)
  obtain resp g1 w1 where st: "processLocalMutate env m (g, w) = (resp, g1, w1)" by (metis prod_cases3)
  have "g_cache g1 = g_cache g \<or> (\<exists>j p s. (j, p) \<noteq> (i, q) \<and> g_cache g1 = cache_Put j p s (g_cache g))"
  proof (cases "cache_Get (mr_ClientID m) (mr_SequenceNumber m) (g_cache g)")
    case None
    with Cons.prems(2) have "(mr_ClientID m, mr_SequenceNumber m) \<noteq> (i, q)" by auto
    with processLocalMutate_new [OF None st] show ?thesis by fastforce
  next
    case (Some c)
    with st show ?thesis by (simp add: processLocalMutate_cached)
  qed
  then have "cache_ok (g_cache g1) \<and> cache_behind i q (b + 1) (g_cache g1) \<and> cache_Get i q (g_cache g1) = Some r
      \<and> cache_capacity (g_cache g1) = cache_capacity (g_cache g)"
    using Cons.prems by (intro cache.survives_step) simp_all
  with Cons.IH [of g1 "b + 1" w1] Cons.prems st show ?case by simp
qed

text \<open>
  C17: A mutation is applied once: when the gateway has confirmed a mutation, a repeated
  request with the same client and sequence number, whatever else it says, is answered
  with the confirmed result, marked as a replay, and proposes nothing, as long as fewer
  requests than the cache holds came in between.
\<close>

theorem mutation_applied_once:
  assumes "cache_ok (g_cache g)" "cache_Get (mr_ClientID req) (mr_SequenceNumber req) (g_cache g) = None"
    and "processLocalMutate env req (g, w) = (resp, gw1)" "rs_Body resp = MutateBody mr" "mres_OK mr"
    and "length reqs < cache_capacity (g_cache g)" "gw2 = run_mutates env reqs gw1"
    and "mr_ClientID req' = mr_ClientID req" "mr_SequenceNumber req' = mr_SequenceNumber req"
  shows "processLocalMutate env req' gw2 =
    (\<lparr>rs_Status = 200, rs_RetryAfter = None, rs_Body = MutateBody (mr\<lparr>IdempotentReplay := True\<rparr>)\<rparr>, gw2)"
proof -
  obtain g1 w1 where gw1: "gw1 = (g1, w1)" by (metis surj_pair)
  obtain g2 w2 where gw2: "gw2 = (g2, w2)" by (metis surj_pair)
  let ?i = "mr_ClientID req" and ?q = "mr_SequenceNumber req"
  have g1: "g1 = g\<lparr>g_cache := cache_Put ?i ?q mr (g_cache g)\<rparr>"
    using processLocalMutate_new [OF assms(2) assms(3) [unfolded gw1]] assms(4,5) by auto
  have "cache_Get ?i ?q (g_cache g2) = Some mr"
  proof (rule run_mutates_keeps)
    show "cache_ok (g_cache g1)" using assms(1) by (simp add: g1 cache.valid_put)
    show "cache_Get ?i ?q (g_cache g1) = Some mr" using assms(1) by (simp add: g1 cache.get_put)
    show "cache_behind ?i ?q 0 (g_cache g1)" using assms(1,2) by (simp add: g1 cache.behind_put)
    show "0 + length reqs < cache_capacity (g_cache g1)" using assms(6) by (simp add: g1 cache.capacity_put)
    show "run_mutates env reqs (g1, w1) = (g2, w2)" using assms(7) gw1 gw2 by simp
  qed
  then show ?thesis
    using assms(8,9) by (simp add: gw2 processLocalMutate_cached writeGatewayJSON_def)
qed

lemma mutation_applied_once_witness:
  "\<exists>gw1 mr. fst (processLocalMutate demo_gw_env demo_mutate (NewMatchGateway True True,
         ([''m'' \<mapsto> \<lparr>Counter = 0, ms_Status = ''active''\<rparr>], []))) = writeGatewayJSON 200 (MutateBody mr)
     \<and> processLocalMutate demo_gw_env demo_mutate gw1 =
         (\<lparr>rs_Status = 200, rs_RetryAfter = None, rs_Body = MutateBody (mr\<lparr>IdempotentReplay := True\<rparr>)\<rparr>, gw1)
     \<and> length (snd (snd gw1)) = 1"
proof -
  let ?g = "NewMatchGateway True True" and ?w = "([''m'' \<mapsto> \<lparr>Counter = 0, ms_Status = ''active''\<rparr>], []) :: local_fsm \<times> jtext list"
  let ?mr = "\<lparr>mres_OK = True, IdempotentReplay = False,
    mres_Result = Some ((ok_result OpApplyTurn ''m'')\<lparr>ar_Applied := True\<rparr>), mres_Error = None\<rparr>"
  have none: "cache_Get (mr_ClientID demo_mutate) (mr_SequenceNumber demo_mutate) (g_cache ?g) = None"
    by (simp add: cache_Get_def NewMatchGateway_def NewSessionCache_def)
  have ok: "cache_ok (g_cache ?g)" by (simp add: NewMatchGateway_def NewSessionCache_ok)
  have cap: "length ([] :: mutate_request list) < cache_capacity (g_cache ?g)" using ok by (simp add: cache_ok_def)
  obtain gw1 where run: "processLocalMutate demo_gw_env demo_mutate (?g, ?w) = (writeGatewayJSON 200 (MutateBody ?mr), gw1)"
    and one: "length (snd (snd gw1)) = 1"
    using none demo_action demo_apply
    by (simp add: processLocalMutate_def demo_mutate_def demo_gw_env_def maskApplyResultForPlayer_def ok_result_def Let_def)
  have body: "rs_Body (writeGatewayJSON 200 (MutateBody ?mr)) = MutateBody ?mr" "mres_OK ?mr"
    by (simp_all add: writeGatewayJSON_def)
  from mutation_applied_once [OF ok none run body cap refl refl refl]
  have "processLocalMutate demo_gw_env demo_mutate gw1 =
    (\<lparr>rs_Status = 200, rs_RetryAfter = None, rs_Body = MutateBody (?mr\<lparr>IdempotentReplay := True\<rparr>)\<rparr>, gw1)" by simp
  with run one show ?thesis by (intro exI [of _ gw1] exI [of _ ?mr]) simp
qed

subsection \<open>What a client sees\<close>





subsection \<open>What is proposed\<close>

lemma un_members_inv:
  assumes step: "\<And>k j x x'. P x \<Longrightarrow> asg k j x = Some x' \<Longrightarrow> P x'"
  shows "P x \<Longrightarrow> un_members asg ms x = Some x' \<Longrightarrow> P x'"
proof (induction ms arbitrary: x)
  case Nil
  then show ?case by simp
next
  case (Cons m ms)
  obtain k j where m: "m = (k, j)" by force
  with Cons.prems(2) obtain y where "asg k j x = Some y" "un_members asg ms y = Some x'"
    by (auto split: option.splits)
  with Cons.IH [of y] step [OF Cons.prems(1)] show ?case by blast
qed

lemma un_struct_inv:
  assumes step: "\<And>k j x x'. P x \<Longrightarrow> asg k j x = Some x' \<Longrightarrow> P x'" and "P x" "un_struct asg j x = Some x'"
  shows "P x'"
  using assms(2,3) un_members_inv [of P asg x _ x', OF step] by (cases j) (simp_all add: un_struct_def)

lemma un_int_in: "in_int64 old \<Longrightarrow> un_int j old = Some v \<Longrightarrow> in_int64 v"
  by (auto simp: un_int_def split: json.splits if_splits)

lemma tile_field_int64: "tile_int64 t \<Longrightarrow> tile_field k j t = Some t' \<Longrightarrow> tile_int64 t'"
  by (auto simp: tile_field_def tile_int64_def dest: un_int_in split: if_splits)

lemma un_tile_int64: "tile_int64 t \<Longrightarrow> un_struct tile_field j t = Some t' \<Longrightarrow> tile_int64 t'"
  by (rule un_struct_inv [of tile_int64 tile_field, OF tile_field_int64])

lemma turn_field_int64:
  "tile_int64 (at_Tile p) \<Longrightarrow> apply_turn_field k j p = Some p' \<Longrightarrow> tile_int64 (at_Tile p')"
  by (auto simp: apply_turn_field_def dest: un_tile_int64 split: if_splits)

lemma decodeActionData_ok:
  assumes "decodeActionData raw = Inr p"
  shows "at_Kind p \<noteq> []" "at_PlayerID p \<noteq> []" "tile_int64 (at_Tile p)"
proof -
  show "at_Kind p \<noteq> []" "at_PlayerID p \<noteq> []"
    using assms by (auto simp: decodeActionData_def split: option.splits if_splits)
  obtain j where j: "un_struct apply_turn_field j zero_turn = Some p"
    using assms by (auto simp: decodeActionData_def un_text_def split: option.splits if_splits)
  have "tile_int64 (at_Tile zero_turn)" by (simp add: zero_turn_def zero_tile_def tile_int64_def in_int64_def)
  from un_struct_inv [of "\<lambda>p. tile_int64 (at_Tile p)", OF turn_field_int64 this j] show "tile_int64 (at_Tile p)" .
qed

text \<open>
  What the gateway proposes, every replica decodes: for a request that passed the
  gateway's checks, the log entry decodes on every node to a turn of exactly that match
  with exactly the action of the request, so it is never rejected for its form.
\<close>

theorem proposed_mutation_decodes:
  assumes "validateMutateRequest req = None" "decodeActionData (mr_ActionData req) = Inr p"
  shows "decode_entry DecodeApplyTurnPayload (mutate_command (mr_MatchID req) p) = Inr (OpApplyTurn, mr_MatchID req, p)"
proof -
  have "mr_MatchID req \<noteq> []"
    using assms(1) by (auto simp: validateMutateRequest_def TrimSpace_def split: if_splits)
  with decodeActionData_ok [OF assms(2)] show ?thesis
    by (simp add: mutate_command_def decode_entry_def DecodeCommand_encode DecodeApplyTurn_encode)
qed

lemma proposed_mutation_decodes_witness:
  "decode_entry DecodeApplyTurnPayload (mutate_command ''m'' demo_turn_payload) = Inr (OpApplyTurn, ''m'', demo_turn_payload)"
  using proposed_mutation_decodes [of demo_mutate demo_turn_payload] demo_action
  by (simp add: demo_mutate_def validateMutateRequest_def TrimSpace_def is_space_def)

text \<open>
  The player of the request and the player of the action are not compared: a request in
  the name of one seated player may carry the action of another.
\<close>

lemma mutation_for_another_player:
  "\<exists>req p. validateMutateRequest req = None \<and> mr_PlayerID req = ''a''
     \<and> decodeActionData (mr_ActionData req) = Inr p \<and> at_PlayerID p = ''b''"
proof -
  let ?a = "demo_turn_payload\<lparr>at_PlayerID := ''b''\<rparr>"
  let ?r = "\<lparr>mr_ClientID = ''c'', mr_SequenceNumber = 1, mr_MatchID = ''m'', mr_PlayerID = ''a'',
    mr_ActionData = Some (apply_turn_json ?a)\<rparr>"
  have "decodeActionData (Some (apply_turn_json ?a)) = Inr ?a"
    by (rule decodeActionData_encode) (simp_all add: demo_turn_payload_def zero_tile_def tile_int64_def in_int64_def)
  moreover have "validateMutateRequest ?r = None" by (simp add: validateMutateRequest_def TrimSpace_def is_space_def)
  ultimately show ?thesis by (intro exI [of _ ?r] exI [of _ ?a]) simp
qed

end
