(* ===== verification/Ws_Gateway.thy ===== *)
theory Ws_Gateway
  imports Ws_Laws Gateway
begin

section \<open>WebSocket turns through the replicated log\<close>

text \<open>
  \<open>ReplicatedGameHandler\<close> of \<open>pkg/gateway/session.go\<close> as the action handler of the router:
  turns are proposed to the Raft node, sessions are read from the manager, and abandonment
  goes to the manager directly. \<open>abandon\<close> is the manager's \<open>HandlePlayerAbandoned\<close>.
\<close>

definition replicated_handler ::
  "'w gateway_env \<Rightarrow> (string \<Rightarrow> string \<Rightarrow> 'w \<Rightarrow> go_error option \<times> 'w) \<Rightarrow> 'w game_actions" where
  "replicated_handler env abandon =
     \<lparr>ga_PlayTile = handler_PlayTile env, ga_Draw = handler_Draw env, ga_Pass = handler_Pass env,
      ga_Abandoned = (\<lambda>sid pid w. case abandon sid pid w of (e, w1) \<Rightarrow> (map_option PlainError e, w1)),
      ga_GetSession = gw_GetSession env\<rparr>"

text \<open>A \<open>PLAY_TILE\<close> message as a client writes it.\<close>

definition play_message :: "string \<Rightarrow> string \<Rightarrow> domino_tile \<Rightarrow> bool \<Rightarrow> inbound_message" where
  "play_message sid pid t atLeft = \<lparr>in_SessionID = sid, in_PlayerID = pid, in_Payload =
     JObj [(''type'', JStr ''PLAY_TILE''), (''timestamp'', JInt 0),
           (''payload'', JObj [(''session_id'', JStr sid), (''player_id'', JStr pid),
              (''tile'', tile_json t), (''play_at_left'', JBool atLeft)])]\<rparr>"

lemma play_message_decodes:
  "un_struct envelope_field (in_Payload (play_message sid pid t l)) zero_envelope =
     Some \<lparr>ie_Type = ''PLAY_TILE'', ie_Timestamp = 0, ie_Payload = Some (JObj [(''session_id'', JStr sid),
       (''player_id'', JStr pid), (''tile'', tile_json t), (''play_at_left'', JBool l)])\<rparr>"
  by (simp add: play_message_def un_struct_def envelope_field_def key_is_def lower_char_def un_string_def
      un_int_def in_int64_def zero_envelope_def)

lemma play_payload_decodes:
  assumes "tile_int64 t"
  shows "un_text play_tile_field (Some (JObj [(''session_id'', JStr sid), (''player_id'', JStr pid),
      (''tile'', tile_json t), (''play_at_left'', JBool l)])) zero_play =
    Some \<lparr>ap_SessionID = sid, ap_PlayerID = pid, pp_Tile = t, pp_PlayAtLeft = l\<rparr>"
  using un_tile_from [OF assms]
  by (simp add: un_text_def un_struct_def [of play_tile_field] play_tile_field_def actor_field_def key_is_def
      lower_char_def un_string_def un_bool_def zero_play_def)

lemma Route_play:
  assumes "tile_int64 t" "tile_ID t \<noteq> []" "sid \<noteq> []" "pid \<noteq> []"
  shows "Route acts js now (play_message sid pid t l) (h, w) =
    play_for acts js now (play_message sid pid t l) sid pid t l (h, w)"
proof -
  have "validateActor (play_message sid pid t l) sid pid = None"
    using assms by (simp add: validateActor_def play_message_def)
  with assms(2) play_payload_decodes [OF assms(1), of sid pid l] show ?thesis
    by (simp add: Route_def play_message_decodes event_type_defs handlePlayTile_def with_payload_def actor_of_def)
qed

definition turn_payload :: "string \<Rightarrow> domino_tile \<Rightarrow> bool \<Rightarrow> apply_turn_payload" where
  "turn_payload pid t l = \<lparr>at_Kind = ''PLAY_TILE'', at_PlayerID = pid, at_Tile = t, at_PlayAtLeft = l\<rparr>"

text \<open>
  C24: What a move sent over the WebSocket leads to. A well-formed \<open>PLAY_TILE\<close> message makes
  exactly one proposal, the turn of that player in that match. A confirmed turn is not
  answered at all (the delta follows by broadcast); a rejected one is answered with the
  error; and when the node is not the leader the sender gets the ID and the address of the
  leader, if both are known.
\<close>

theorem ws_move_is_proposed:
  assumes "tile_int64 t" "tile_ID t \<noteq> []" "sid \<noteq> []" "pid \<noteq> []"
  shows "let msg = play_message sid pid t l; rejected = (\<lambda>e. action_failed js now msg (PlainError e) h);
             unconfirmed = Errorf ''replicated turn returned no confirmation'' in
    Route (replicated_handler env abandon) js now msg (h, w) =
      (case gw_ProposeAndWait env (Some (mutate_command sid (turn_payload pid t l))) w of
         (Inr (ApplyOK r), w1) \<Rightarrow> (if ar_OK r then h else rejected unconfirmed, w1)
       | (Inr ApplyNil, w1) \<Rightarrow> (rejected unconfirmed, w1)
       | (Inr (ApplyErr e), w1) \<Rightarrow> (rejected e, w1)
       | (Inl e, w1) \<Rightarrow>
           (case as_redirect e of
              Some (leader, addr, reason) \<Rightarrow>
                if leader \<noteq> [] \<and> addr \<noteq> [] then
                  (sendToPlayer sid pid (ErrorEnvelope now ErrCodeLeaderRedirect
                     (redirect_text (leader, addr, reason)) (Some (leader, addr))) h, w1)
                else (rejected e, w1)
            | None \<Rightarrow> (rejected e, w1)))"
proof -
  have same: "redirectable_text (redirect_text r) = redirect_text r" for r
    by (cases r) (simp add: redirectable_text_def redirect_text_def)
  have redirect: "action_failed js now (play_message sid pid t l) (RedirectableError leader addr (redirect_text r)) h =
      sendToPlayer sid pid (ErrorEnvelope now ErrCodeLeaderRedirect (redirect_text r) (Some (leader, addr))) h"
    if "leader \<noteq> []" "addr \<noteq> []" for leader addr r
    using that by (simp add: action_failed_def mapActionError_def sendActionError_def AsLeaderRedirect_def
        handler_error_text_def same newRedirectEnvelope_def play_message_def Let_def)
  obtain out w1 where out: "gw_ProposeAndWait env (Some (mutate_command sid (turn_payload pid t l))) w = (out, w1)"
    by fastforce
  show ?thesis
  proof (cases out)
    case (Inl e)
    with out show ?thesis
      by (cases "as_redirect e")
        (auto simp: Route_play [OF assms] play_for_def replicated_handler_def handler_PlayTile_def proposeTurn_def
          mapProposalError_def Let_def redirect turn_payload_def)
  next
    case (Inr r)
    with out show ?thesis
      by (cases r) (simp_all add: Route_play [OF assms] play_for_def replicated_handler_def handler_PlayTile_def
          proposeTurn_def Let_def turn_payload_def)
  qed
qed

definition follower_env :: "nat gateway_env" where
  "follower_env = \<lparr>gw_NodeID = ''B'', gw_IsLeader = (\<lambda>w. False), gw_LeaderEndpoint = (\<lambda>w. (''A'', ''a:1'', None)),
     gw_ProposeAndWait = (\<lambda>cmd w. (Inl (LeaderRedirectError ''A'' ''a:1'' []), w + 1)),
     gw_EnsureRead = (\<lambda>w. (None, w)), gw_SnapshotIndex = (\<lambda>w. 0), gw_Uncompacted = (\<lambda>w. 0),
     gw_GetSession = (\<lambda>sid w. (None, w)), gw_RandRead = (\<lambda>w. (Inr [1], w)),
     gw_BadURL = (\<lambda>u. False), gw_Do = (\<lambda>rq w. (Inl (ErrExternal ''no route''), w))\<rparr>"

definition follower_hub :: hub where
  "follower_hub = fst (connect (replicated_handler follower_env (\<lambda>_ _ w. (None, w))) 1 ''g'' ''p1'' (NewHub True False, 0))"

lemma ws_move_is_proposed_witness:
  "Route (replicated_handler follower_env (\<lambda>_ _ w. (None, w))) [] 5
      (play_message ''g'' ''p1'' (NewTile 6 6) True) (follower_hub, 0) =
    (sendToPlayer ''g'' ''p1'' (ErrorEnvelope 5 ErrCodeLeaderRedirect ''redirect to leader A at a:1''
       (Some (''A'', ''a:1''))) follower_hub, 1)"
proof -
  have "tile_int64 (NewTile 6 6)" "tile_ID (NewTile 6 6) \<noteq> []" "''g'' \<noteq> []" "''p1'' \<noteq> []"
    by (simp_all add: NewTile_def tile_int64_def in_int64_def)
  from ws_move_is_proposed [OF this, where env = follower_env and l = True and js = "[]" and now = 5
      and h = follower_hub and w = 0 and abandon = "\<lambda>_ _ w. (None, w)"]
  show ?thesis by (simp add: Let_def follower_env_def redirect_text_def)
qed

end
