(* ===== verification/Career.thy ===== *)
theory Career
  imports Manager Channels "HOL-Library.List_Lexorder" "HOL-Library.Char_ord"
begin

section \<open>Players and match records\<close>

text \<open>
  The stored data of \<open>pkg/models/models.go\<close> and \<open>pkg/models/career.go\<close>. A player's
  \<open>MatchHistory\<close> is left out: no code reads or writes it. Times are nanoseconds, 0 the
  zero time. A Go map is an association list with distinct keys; \<open>encoding/json\<close> writes
  its members in the order of the keys. The JSON strings in a record are \<open>jtext\<close>, \<open>None\<close>
  when empty.
\<close>

type_synonym score_map = "(string \<times> int) list"
type_synonym elo_deltas = "(string \<times> rat) list"

definition DefaultELO :: rat where "DefaultELO = 1500"

record player =
  pl_UID :: string
  pl_DType :: "string list"
  pl_PlayerID :: string
  pl_Username :: string
  pl_Email :: string
  pl_CreatedAt :: int
  pl_ELO :: rat
  pl_PeakELO :: rat
  pl_MatchesPlayed :: int
  pl_Wins :: int
  pl_Losses :: int
  pl_LastMatchAt :: int

definition zero_player :: player where
  "zero_player = \<lparr>pl_UID = [], pl_DType = [], pl_PlayerID = [], pl_Username = [], pl_Email = [], pl_CreatedAt = 0,
     pl_ELO = 0, pl_PeakELO = 0, pl_MatchesPlayed = 0, pl_Wins = 0, pl_Losses = 0, pl_LastMatchAt = 0\<rparr>"

definition TypePlayer :: string where "TypePlayer = ''Player''"
definition TypeMatchRecord :: string where "TypeMatchRecord = ''MatchRecord''"

definition NewPlayer :: "int \<Rightarrow> string \<Rightarrow> string \<Rightarrow> string \<Rightarrow> player" where
  "NewPlayer now pid name mail =
     zero_player\<lparr>pl_DType := [TypePlayer], pl_PlayerID := pid, pl_Username := name, pl_Email := mail, pl_CreatedAt := now\<rparr>"

definition PlayersByUID :: "string list \<Rightarrow> player list" where
  "PlayersByUID uids = map (\<lambda>uid. zero_player\<lparr>pl_UID := uid, pl_DType := [TypePlayer]\<rparr>) uids"

record match_record =
  mr_UID :: string
  mr_DType :: "string list"
  mr_MatchID :: string
  mr_Winner :: string
  mr_Scores :: jtext
  mr_EndTime :: int
  mr_EndReason :: string
  mr_ELODeltas :: jtext
  mr_RatingsApplied :: bool
  mr_Players :: "player list"

definition map_json :: "('v \<Rightarrow> json) \<Rightarrow> (string \<times> 'v) list \<Rightarrow> json" where
  "map_json f m = JObj (map (\<lambda>(k, v). (k, f v)) (sort_key fst m))"

text \<open>\<open>json.Marshal\<close> of a map with string keys and integer values does not fail.\<close>

definition NewMatchRecord ::
  "int \<Rightarrow> string \<Rightarrow> string \<Rightarrow> score_map \<Rightarrow> string \<Rightarrow> player list \<Rightarrow> match_record" where
  "NewMatchRecord now matchID winnerID scores reason players =
     \<lparr>mr_UID = [], mr_DType = [TypeMatchRecord], mr_MatchID = matchID, mr_Winner = winnerID,
      mr_Scores = Some (map_json JInt scores), mr_EndTime = now, mr_EndReason = reason, mr_ELODeltas = None,
      mr_RatingsApplied = False, mr_Players = players\<rparr>"

text \<open>A map target: the members are put in order; a value is decoded into a new zero value.\<close>

fun un_map_members :: "(json \<Rightarrow> 'v \<Rightarrow> 'v option) \<Rightarrow> 'v \<Rightarrow> (string \<times> json) list \<Rightarrow> (string \<times> 'v) list \<Rightarrow> (string \<times> 'v) list option" where
  "un_map_members f z [] m = Some m"
| "un_map_members f z ((k, j) # ms) m =
     (case f j z of None \<Rightarrow> None | Some v \<Rightarrow> un_map_members f z ms (map_put k v m))"

definition un_map :: "(json \<Rightarrow> 'v \<Rightarrow> 'v option) \<Rightarrow> 'v \<Rightarrow> json \<Rightarrow> (string \<times> 'v) list option" where
  "un_map f z j = (case j of JNull \<Rightarrow> Some [] | JObj ms \<Rightarrow> un_map_members f z ms [] | _ \<Rightarrow> None)"

definition parse_map :: "(json \<Rightarrow> 'v \<Rightarrow> 'v option) \<Rightarrow> 'v \<Rightarrow> jtext \<Rightarrow> (string \<times> 'v) list result" where
  "parse_map f z t =
     (case t of
        None \<Rightarrow> Inr []
      | Some j \<Rightarrow> (case un_map f z j of None \<Rightarrow> Inl ErrJson | Some m \<Rightarrow> Inr m))"

definition ParseScores :: "match_record \<Rightarrow> score_map result" where
  "ParseScores m = parse_map un_int 0 (mr_Scores m)"

definition ParseELODeltas :: "match_record \<Rightarrow> elo_deltas result" where
  "ParseELODeltas m = parse_map un_float 0 (mr_ELODeltas m)"

text \<open>Reading a missing key of a map gives the zero value.\<close>

definition map_read :: "'v \<Rightarrow> (string \<times> 'v) list \<Rightarrow> string \<Rightarrow> 'v" where
  "map_read z m k = (case map_of m k of None \<Rightarrow> z | Some v \<Rightarrow> v)"

definition WinRate :: "int \<Rightarrow> int \<Rightarrow> rat" where
  "WinRate wins matches = (if matches \<le> 0 then 0 else of_int wins / of_int matches)"

lemma un_map_fresh:
  "(\<And>k v. (k, v) \<in> set m \<Longrightarrow> f (g v) z = Some v) \<Longrightarrow> distinct (map fst m) \<Longrightarrow> fst ` set m \<inter> fst ` set old = {} \<Longrightarrow>
     un_map_members f z (map (\<lambda>(k, v). (k, g v)) m) old = Some (old @ m)"
proof (induction m arbitrary: old)
  case (Cons p m)
  obtain k v where p: "p = (k, v)" by force
  have "k \<notin> fst ` set old" using Cons.prems(3) p by auto
  then have "map_put k v old = old @ [(k, v)]" by (induction old) auto
  moreover have "f (g v) z = Some v" using Cons.prems(1) [of k v] p by simp
  moreover have "un_map_members f z (map (\<lambda>(k, v). (k, g v)) m) (old @ [(k, v)]) = Some ((old @ [(k, v)]) @ m)"
    using Cons.prems p by (intro Cons.IH) auto
  ultimately show ?case using p by simp
qed simp

text \<open>What is written is read back, in the order of the keys.\<close>

lemma parse_map_json:
  assumes "\<And>k v. (k, v) \<in> set m \<Longrightarrow> f (g v) z = Some v" "distinct (map fst m)"
  shows "parse_map f z (Some (map_json g m)) = Inr (sort_key fst m)"
proof -
  have "distinct (map fst (sort_key fst m))"
    using assms(2) by (simp add: distinct_map distinct_sort)
  with un_map_fresh [of "sort_key fst m" f g z "[]"] assms(1) show ?thesis
    by (simp add: parse_map_def un_map_def map_json_def)
qed

lemma scores_round_trip:
  assumes "distinct (map fst scores)" "\<forall>(k, v) \<in> set scores. in_int64 v"
  shows "ParseScores (NewMatchRecord now mid win scores reason ps) = Inr (sort_key fst scores)"
proof -
  have "un_int (JInt v) 0 = Some v" if "(k, v) \<in> set scores" for k v
    using assms(2) that by (auto simp: un_int_def)
  from parse_map_json [of scores un_int JInt 0, OF this assms(1)] show ?thesis
    by (simp add: ParseScores_def NewMatchRecord_def)
qed

end
