(* ===== verification/Rating.thy ===== *)
theory Rating
  imports Career Ledger
begin

section \<open>Ratings\<close>

text \<open>
  Models \<open>pkg/rating/elo.go\<close> and \<open>pkg/engine/rating_worker.go\<close>. Ratings are rationals and
  arithmetic is exact: the rounding of floats is left out. \<open>math.Pow(10, x)\<close> is the
  argument \<open>pow10\<close>. The field of a match is a Go map, here an association list; the order
  in which the code ranges over it does not matter to the results but their order.
\<close>

subsection \<open>The ELO formula\<close>

definition baseKFactor :: rat where "baseKFactor = 32"
definition experiencedKFactor :: rat where "experiencedKFactor = 16"
definition experiencedMatchThreshold :: int where "experiencedMatchThreshold = 30"

record participant =
  pa_PlayerID :: string
  pa_ELO :: rat
  pa_MatchesPlayed :: int

record rating_result =
  rr_PlayerID :: string
  rr_OldELO :: rat
  rr_NewELO :: rat
  rr_Delta :: rat
  rr_Won :: bool
  rr_MatchesPlayed :: int

definition kFactor :: "int \<Rightarrow> rat" where
  "kFactor matchesPlayed = (if matchesPlayed \<ge> experiencedMatchThreshold then experiencedKFactor else baseKFactor)"

text \<open>The chance of a player against one opponent.\<close>

definition chance :: "(rat \<Rightarrow> rat) \<Rightarrow> rat \<Rightarrow> rat \<Rightarrow> rat" where
  "chance pow10 rating opponent = 1 / (1 + pow10 ((opponent - rating) / 400))"

definition expectedScore :: "(rat \<Rightarrow> rat) \<Rightarrow> rat \<Rightarrow> (string \<times> participant) list \<Rightarrow> string \<Rightarrow> rat" where
  "expectedScore pow10 rating field self =
     (if length field \<le> 1 then 1 / 2
      else
        let opponents = filter (\<lambda>(pid, _). pid \<noteq> self) field in
        sum_list (map (\<lambda>(_, o1). chance pow10 rating (pa_ELO o1)) opponents) / of_nat (length opponents))"

definition field_of :: "participant list \<Rightarrow> (string \<times> participant) list" where
  "field_of ps =
     foldl (\<lambda>m p. if pa_PlayerID p = [] then m
        else map_put (pa_PlayerID p) (if pa_ELO p \<le> 0 then p\<lparr>pa_ELO := DefaultELO\<rparr> else p) m) [] ps"

definition rate :: "(rat \<Rightarrow> rat) \<Rightarrow> (string \<times> participant) list \<Rightarrow> string \<Rightarrow> string \<times> participant \<Rightarrow> rating_result" where
  "rate pow10 field winnerID entry =
     (case entry of (pid, p) \<Rightarrow>
      let actual = (if pid = winnerID then 1 else 0);
          delta = kFactor (pa_MatchesPlayed p) * (actual - expectedScore pow10 (pa_ELO p) field pid) in
      \<lparr>rr_PlayerID = pid, rr_OldELO = pa_ELO p, rr_NewELO = pa_ELO p + delta, rr_Delta = delta,
       rr_Won = (pid = winnerID), rr_MatchesPlayed = pa_MatchesPlayed p + 1\<rparr>)"

definition ComputeMatch :: "(rat \<Rightarrow> rat) \<Rightarrow> participant list \<Rightarrow> string \<Rightarrow> rating_result list" where
  "ComputeMatch pow10 ps winnerID =
     (if ps = [] \<or> winnerID = [] then []
      else let byID = field_of ps in map (rate pow10 byID winnerID) byID)"

subsection \<open>The rating worker\<close>

text \<open>Go's conversion of a float to an integer truncates towards zero.\<close>

definition go_int :: "rat \<Rightarrow> int" where
  "go_int x = (if x < 0 then - \<lfloor>- x\<rfloor> else \<lfloor>x\<rfloor>)"

definition roundDelta :: "rat \<Rightarrow> rat" where
  "roundDelta v = of_int (go_int (v * 100 + 1 / 2)) / 100"

text \<open>The stats repository, the broadcaster, the clock and the breaker, over a world.\<close>

record 'w rating_env =
  rw_GetMatchWithPlayers :: "string \<Rightarrow> ('w, (match_record \<times> player list) result) action"
  rw_UpdatePlayerCareers :: "player list \<Rightarrow> ('w, go_error option) action"
  rw_ApplyMatchRatings :: "string \<Rightarrow> elo_deltas \<Rightarrow> ('w, go_error option) action"
  rw_Broadcast :: "(string \<Rightarrow> stats_update list \<Rightarrow> 'w \<Rightarrow> 'w) option"
  rw_Now :: "'w \<Rightarrow> int"
  rw_Pow10 :: "rat \<Rightarrow> rat"
  rw_Execute :: "(('w \<times> go_error option, go_error option) action \<Rightarrow> ('w \<times> go_error option, go_error option) action) option"
  rw_Retry :: "'w retry_env"
  rw_Config :: retry_config

definition runProtected :: "'w rating_env \<Rightarrow> ('w, go_error option) action \<Rightarrow> ('w, go_error option) action" where
  "runProtected env fn w =
     (let attempts = Retry (rw_Retry env) (rw_Config env) fn in
      case rw_Execute env of
        None \<Rightarrow> attempts w
      | Some execute \<Rightarrow>
          (case execute (\<lambda>(w, _). case attempts w of (err, w1) \<Rightarrow> (err, (w1, err))) (w, None) of
             (Some e, (w1, _)) \<Rightarrow> (Some e, w1)
           | (None, (w1, err)) \<Rightarrow> (err, w1)))"

definition by_player :: "player list \<Rightarrow> (string \<times> player) list" where
  "by_player ps = foldl (\<lambda>m p. if pl_PlayerID p = [] then m else map_put (pl_PlayerID p) p m) [] ps"

definition participants_of :: "player list \<Rightarrow> participant list" where
  "participants_of ps =
     map (\<lambda>pid. let p = the (map_of (by_player ps) pid) in
            \<lparr>pa_PlayerID = pid, pa_ELO = (if pl_ELO p \<le> 0 then DefaultELO else pl_ELO p),
             pa_MatchesPlayed = pl_MatchesPlayed p\<rparr>)
       (filter (\<lambda>pid. pid \<noteq> []) (map pl_PlayerID ps))"

text \<open>A player's new career row; \<open>Player\<close> fields that are not set are zero.\<close>

definition peak_of :: "player \<Rightarrow> rating_result \<Rightarrow> rat" where
  "peak_of p r =
     (let peak = (if pl_PeakELO p \<le> 0 then rr_OldELO r else pl_PeakELO p) in
      if rr_NewELO r > peak then rr_NewELO r else peak)"

definition career_row :: "int \<Rightarrow> player \<Rightarrow> rating_result \<Rightarrow> player" where
  "career_row now p r =
     zero_player\<lparr>pl_PlayerID := rr_PlayerID r, pl_ELO := rr_NewELO r, pl_PeakELO := peak_of p r,
       pl_MatchesPlayed := rr_MatchesPlayed r, pl_Wins := (if rr_Won r then pl_Wins p + 1 else pl_Wins p),
       pl_Losses := (if rr_Won r then pl_Losses p else pl_Losses p + 1), pl_LastMatchAt := now\<rparr>"

definition stats_row :: "string \<Rightarrow> player \<Rightarrow> rating_result \<Rightarrow> stats_update" where
  "stats_row matchID p r =
     \<lparr>su_SessionID = matchID, su_MatchID = matchID, su_PlayerID = rr_PlayerID r, su_ELO = rr_NewELO r,
      su_PeakELO = peak_of p r, su_MatchesPlayed = rr_MatchesPlayed r,
      su_Wins = (if rr_Won r then pl_Wins p + 1 else pl_Wins p),
      su_Losses = (if rr_Won r then pl_Losses p else pl_Losses p + 1),
      su_ELODelta = roundDelta (rr_Delta r), su_Won = rr_Won r\<rparr>"

definition player_of :: "player list \<Rightarrow> rating_result \<Rightarrow> player" where
  "player_of ps r = the (map_of (by_player ps) (rr_PlayerID r))"

definition processMatch :: "'w rating_env \<Rightarrow> match_record \<Rightarrow> ('w, go_error option) action" where
  "processMatch env rec w =
     (case rw_GetMatchWithPlayers env (mr_MatchID rec) w of
        (Inl e, w1) \<Rightarrow> (Some e, w1)
      | (Inr (stored, players), w1) \<Rightarrow>
          if mr_RatingsApplied stored then (None, w1)
          else if participants_of players = [] then (None, w1)
          else if mr_Winner stored = [] then (None, w1)
          else
            let results = ComputeMatch (rw_Pow10 env) (participants_of players) (mr_Winner stored) in
            if results = [] then (None, w1)
            else
              let updates = map (\<lambda>r. career_row (rw_Now env w1) (player_of players r) r) results;
                  deltas = map (\<lambda>r. (rr_PlayerID r, roundDelta (rr_Delta r))) results;
                  statUpdates = map (\<lambda>r. stats_row (mr_MatchID rec) (player_of players r) r) results in
              (case rw_UpdatePlayerCareers env updates w1 of
                 (Some e, w2) \<Rightarrow> (Some e, w2)
               | (None, w2) \<Rightarrow>
                   let uid = (if mr_UID stored = [] then mr_UID rec else mr_UID stored) in
                   if uid = [] then (None, w2)
                   else
                     (case rw_ApplyMatchRatings env uid deltas w2 of
                        (Some e, w3) \<Rightarrow> (Some e, w3)
                      | (None, w3) \<Rightarrow>
                          (None, case rw_Broadcast env of None \<Rightarrow> w3 | Some send \<Rightarrow> send (mr_MatchID rec) statUpdates w3))))"

definition ProcessMatch :: "'w rating_env \<Rightarrow> match_record \<Rightarrow> ('w, go_error option) action" where
  "ProcessMatch env rec = runProtected env (processMatch env rec)"

end
