(* ===== verification/Rating_Props.thy ===== *)
theory Rating_Props
  imports Rating
begin

section \<open>Properties of the ratings\<close>

text \<open>
  Theorems about \<open>ComputeMatch\<close> and the rating worker: which way and how far a rating
  moves, what a match does to the sum of the ratings, and how often a match is counted.
\<close>

subsection \<open>The expected score\<close>

text \<open>What is used of powers of ten.\<close>

definition power_law :: "(rat \<Rightarrow> rat) \<Rightarrow> bool" where
  "power_law pow10 \<longleftrightarrow> (\<forall>x. 0 < pow10 x \<and> pow10 x * pow10 (- x) = 1)"


lemma chance_sum:
  assumes "power_law pow10"
  shows "chance pow10 a b + chance pow10 b a = 1"
proof -
  let ?p = "pow10 ((b - a) / 400)" and ?q = "pow10 ((a - b) / 400)"
  have "(a - b) / 400 = - ((b - a) / 400)" by (metis minus_diff_eq minus_divide_left)
  then have pq: "?p * ?q = 1" "0 < ?p" "0 < ?q" using assms unfolding power_law_def by metis+
  have "(1 + ?q) + (1 + ?p) = (1 + ?p) * (1 + ?q)" using pq(1) by (simp add: algebra_simps)
  then show ?thesis using pq(2,3) by (simp add: chance_def add_divide_eq_iff divide_simps add_pos_pos)
qed

lemma field_distinct: "distinct (map fst (field_of ps))"
proof -
  have "distinct (map fst (foldl (\<lambda>m p. if pa_PlayerID p = [] then m
      else map_put (pa_PlayerID p) (if pa_ELO p \<le> 0 then p\<lparr>pa_ELO := DefaultELO\<rparr> else p) m) m0 ps))"
    if "distinct (map fst m0)" for m0
    using that by (induction ps arbitrary: m0) (simp_all add: distinct_map_put)
  then show ?thesis by (simp add: field_of_def)
qed

lemma opponents_of:
  assumes "distinct (map fst field)" "(pid, p) \<in> set field"
  shows "set (filter (\<lambda>(q, _). q \<noteq> pid) field) = set field - {(pid, p)}"
    "length (filter (\<lambda>(q, _). q \<noteq> pid) field) = length field - 1"
proof -
  show s: "set (filter (\<lambda>(q, _). q \<noteq> pid) field) = set field - {(pid, p)}"
    using assms by (auto dest: eq_key_imp_eq_value)
  have "distinct field" using assms(1) by (simp add: distinct_map)
  then have "length (filter (\<lambda>(q, _). q \<noteq> pid) field) = card (set field - {(pid, p)})"
    using s by (metis distinct_card distinct_filter)
  then show "length (filter (\<lambda>(q, _). q \<noteq> pid) field) = length field - 1"
    using \<open>distinct field\<close> assms(2) by (simp add: distinct_card)
qed

lemma expectedScore_sum:
  assumes "distinct (map fst field)" "(pid, p) \<in> set field" "1 < length field"
  shows "expectedScore pow10 r field pid =
    (\<Sum>q \<in> set field - {(pid, p)}. chance pow10 r (pa_ELO (snd q))) / of_nat (length field - 1)"
proof -
  have "distinct (filter (\<lambda>(q, _). q \<noteq> pid) field)" using assms(1) by (simp add: distinct_map)
  then have "sum_list (map (\<lambda>(_, o1). chance pow10 r (pa_ELO o1)) (filter (\<lambda>(q, _). q \<noteq> pid) field))
      = (\<Sum>q \<in> set field - {(pid, p)}. chance pow10 r (pa_ELO (snd q)))"
    using opponents_of(1) [OF assms(1,2)] by (simp add: sum_list_distinct_conv_sum_set case_prod_unfold)
  with assms(3) opponents_of(2) [OF assms(1,2)] show ?thesis by (simp add: expectedScore_def Let_def)
qed


subsection \<open>Which way ratings move\<close>

lemma field_keys: "set (map fst (field_of ps)) = set (map pa_PlayerID ps) - {[]}"
proof -
  have "set (map fst (foldl (\<lambda>m p. if pa_PlayerID p = [] then m
      else map_put (pa_PlayerID p) (if pa_ELO p \<le> 0 then p\<lparr>pa_ELO := DefaultELO\<rparr> else p) m) m0 ps))
      = set (map fst m0) \<union> (set (map pa_PlayerID ps) - {[]})" for m0
    by (induction ps arbitrary: m0) (auto simp: keys_map_put simp del: set_map)
  then show ?thesis by (simp add: field_of_def)
qed

lemma rate_fields:
  "rr_PlayerID (rate pow10 field w (pid, p)) = pid" "rr_OldELO (rate pow10 field w (pid, p)) = pa_ELO p"
  "rr_NewELO (rate pow10 field w (pid, p)) = pa_ELO p + rr_Delta (rate pow10 field w (pid, p))"
  "rr_Won (rate pow10 field w (pid, p)) = (pid = w)"
  "rr_MatchesPlayed (rate pow10 field w (pid, p)) = pa_MatchesPlayed p + 1"
  "rr_Delta (rate pow10 field w (pid, p)) =
     kFactor (pa_MatchesPlayed p) * ((if pid = w then 1 else 0) - expectedScore pow10 (pa_ELO p) field pid)"
  by (simp_all add: rate_def Let_def)



subsection \<open>The sum of the ratings\<close>

lemma double_sum:
  assumes "power_law pow10" "finite S"
  shows "2 * (\<Sum>p\<in>S. \<Sum>q\<in>S - {p}. chance pow10 (e p) (e q)) = of_nat (card S) * (of_nat (card S) - 1 :: rat)"
proof -
  let ?t = "\<lambda>p q. if q = p then 0 else chance pow10 (e p) (e q)"
  have row: "(\<Sum>q\<in>S - {p}. chance pow10 (e p) (e q)) = (\<Sum>q\<in>S. ?t p q)" if "p \<in> S" for p
    using assms(2) that by (simp add: sum.remove [of S p])
  have "(\<Sum>p\<in>S. \<Sum>q\<in>S. ?t p q) + (\<Sum>p\<in>S. \<Sum>q\<in>S. ?t q p) = (\<Sum>p\<in>S. \<Sum>q\<in>S. ?t p q + ?t q p)"
    by (simp only: sum.distrib)
  also have "\<dots> = (\<Sum>p\<in>S. \<Sum>q\<in>S. if q = p then 0 else 1)"
    by (intro sum.cong refl) (simp add: chance_sum [OF assms(1)])
  also have "\<dots> = (\<Sum>p\<in>S. of_nat (card S) - 1)"
  proof (intro sum.cong refl)
    fix p assume p: "p \<in> S"
    then have "(\<Sum>q\<in>S. if q = p then 0 else (1::rat)) = (\<Sum>q\<in>S - {p}. 1)"
      using assms(2) by (simp add: sum.remove [of S p])
    with p assms(2) show "(\<Sum>q\<in>S. if q = p then 0 else (1::rat)) = of_nat (card S) - 1"
      by (simp add: card_gt_0_iff Suc_leI of_nat_diff) (metis card_gt_0_iff empty_iff of_nat_1 of_nat_diff Suc_leI One_nat_def)
  qed
  also have "(\<Sum>p\<in>S. \<Sum>q\<in>S. ?t q p) = (\<Sum>p\<in>S. \<Sum>q\<in>S. ?t p q)" by (rule sum.swap)
  finally show ?thesis using row by simp
qed

text \<open>
  What a match does to the sum of the ratings. With one K factor for all, the changes
  of \<open>n\<close> players sum to \<open>K (1 - n/2)\<close> when the winner is among them: nothing for two
  players, but \<open>K/2\<close> lost per match of three and \<open>K\<close> per match of four.
\<close>

theorem rating_sum_drifts:
  assumes "power_law pow10" "1 < length (field_of ps)" "winner \<in> set (map fst (field_of ps))"
    "\<And>p. p \<in> set (field_of ps) \<Longrightarrow> kFactor (pa_MatchesPlayed (snd p)) = K"
  shows "sum_list (map rr_Delta (ComputeMatch pow10 ps winner)) = K * (1 - of_nat (length (field_of ps)) / 2)"
proof -
  let ?F = "field_of ps" and ?n = "length (field_of ps)"
  let ?S = "set ?F" and ?E = "\<lambda>q. expectedScore pow10 (pa_ELO (snd q)) ?F (fst q)"
  have d: "distinct ?F" using field_distinct [of ps] by (simp add: distinct_map)
  have card: "card ?S = ?n" using d by (rule distinct_card)
  have "field_of [] = []" by (simp add: field_of_def)
  then have ne: "ps \<noteq> []" "winner \<noteq> []"
    using assms(2) assms(3) [unfolded field_keys] by auto
  have "sum_list (map rr_Delta (ComputeMatch pow10 ps winner)) = (\<Sum>q\<in>?S. rr_Delta (rate pow10 ?F winner q))"
    using ne d by (simp add: ComputeMatch_def Let_def sum_list_distinct_conv_sum_set comp_def)
  also have "\<dots> = (\<Sum>q\<in>?S. K * ((if fst q = winner then 1 else 0) - ?E q))"
    by (intro sum.cong refl) (use assms(4) in \<open>force simp: rate_def Let_def\<close>)
  also have "\<dots> = K * ((\<Sum>q\<in>?S. if fst q = winner then 1 else 0) - (\<Sum>q\<in>?S. ?E q))"
    by (simp only: sum_distrib_left [symmetric] sum_subtractf)
  also have "(\<Sum>q\<in>?S. if fst q = winner then 1 else (0::rat)) = 1"
  proof -
    obtain p where p: "(winner, p) \<in> ?S" using assms(3) by auto
    then have "{q \<in> ?S. fst q = winner} = {(winner, p)}"
      using field_distinct [of ps] by (auto dest: eq_key_imp_eq_value)
    then show ?thesis by (simp add: sum.inter_filter [symmetric])
  qed
  also have "(\<Sum>q\<in>?S. ?E q) = of_nat ?n / 2"
  proof -
    have "?E q = (\<Sum>o1\<in>?S - {q}. chance pow10 (pa_ELO (snd q)) (pa_ELO (snd o1))) / of_nat (?n - 1)" if "q \<in> ?S" for q
      using that expectedScore_sum [OF field_distinct _ assms(2), of "fst q" "snd q"] by simp
    moreover define T where "T = (\<Sum>q\<in>?S. \<Sum>o1\<in>?S - {q}. chance pow10 (pa_ELO (snd q)) (pa_ELO (snd o1)))"
    ultimately have E: "(\<Sum>q\<in>?S. ?E q) = T / of_nat (?n - 1)"
      by (simp add: sum_divide_distrib)
    have "2 * T = of_nat ?n * (of_nat ?n - 1)"
      unfolding T_def using double_sum [OF assms(1), of ?S "\<lambda>q. pa_ELO (snd q)"] card by simp
    then have T: "T = of_nat ?n / 2 * (of_nat ?n - 1)" by simp
    have n: "of_nat (?n - 1) = (of_nat ?n - 1 :: rat)" "(of_nat ?n - 1 :: rat) \<noteq> 0"
      using assms(2) by (simp_all add: of_nat_diff)
    show ?thesis unfolding E n(1) T using n(2) by (rule nonzero_mult_div_cancel_right)
  qed
  finally show ?thesis .
qed

text \<open>Two new players, and a power of ten of the kind assumed.\<close>

definition demo_pow10 :: "rat \<Rightarrow> rat" where
  "demo_pow10 x = (if x = 0 then 1 else if x > 0 then 10 else 1 / 10)"

lemma demo_power_law: "power_law demo_pow10"
  by (auto simp: power_law_def demo_pow10_def)

definition newcomer :: "string \<Rightarrow> participant" where
  "newcomer pid = \<lparr>pa_PlayerID = pid, pa_ELO = 0, pa_MatchesPlayed = 0\<rparr>"

lemma newcomers_field:
  "field_of [newcomer ''a'', newcomer ''b'', newcomer ''c''] =
     map (\<lambda>pid. (pid, (newcomer pid)\<lparr>pa_ELO := 1500\<rparr>)) [''a'', ''b'', ''c'']"
  by (simp add: field_of_def newcomer_def DefaultELO_def)

lemma rating_sum_drifts_witness:
  "sum_list (map rr_Delta (ComputeMatch demo_pow10 [newcomer ''a'', newcomer ''b'', newcomer ''c''] ''b'')) = - 16"
proof -
  have "sum_list (map rr_Delta (ComputeMatch demo_pow10 [newcomer ''a'', newcomer ''b'', newcomer ''c''] ''b''))
      = 32 * (1 - of_nat (length (field_of [newcomer ''a'', newcomer ''b'', newcomer ''c''])) / 2)"
    by (rule rating_sum_drifts [OF demo_power_law]; unfold newcomers_field)
      (auto simp: newcomer_def kFactor_def experiencedMatchThreshold_def baseKFactor_def)
  then show ?thesis by (simp add: newcomers_field)
qed


subsection \<open>The rating worker\<close>

lemma by_player_keys: "set (map fst (by_player ps)) = set (map pl_PlayerID ps) - {[]}"
proof -
  have "set (map fst (foldl (\<lambda>m p. if pl_PlayerID p = [] then m else map_put (pl_PlayerID p) p m) m0 ps))
      = set (map fst m0) \<union> (set (map pl_PlayerID ps) - {[]})" for m0
    by (induction ps arbitrary: m0) (auto simp: keys_map_put simp del: set_map)
  then show ?thesis by (simp add: by_player_def)
qed

lemma participants_ids: "set (map pa_PlayerID (participants_of ps)) = set (map pl_PlayerID ps) - {[]}"
  by (auto simp: participants_of_def Let_def)

lemma field_entry:
  assumes "(pid, p) \<in> set (field_of qs)"
  shows "\<exists>q \<in> set qs. pa_PlayerID q = pid \<and> pa_MatchesPlayed q = pa_MatchesPlayed p"
proof -
  have "\<exists>q \<in> set qs. pa_PlayerID q = pid \<and> pa_MatchesPlayed q = pa_MatchesPlayed p"
    if "(pid, p) \<in> set (foldl (\<lambda>m p. if pa_PlayerID p = [] then m
      else map_put (pa_PlayerID p) (if pa_ELO p \<le> 0 then p\<lparr>pa_ELO := DefaultELO\<rparr> else p) m) m0 qs)"
      "(pid, p) \<notin> set m0" for m0
    using that
  proof (induction qs arbitrary: m0)
    case (Cons q qs)
    let ?m = "if pa_PlayerID q = [] then m0
      else map_put (pa_PlayerID q) (if pa_ELO q \<le> 0 then q\<lparr>pa_ELO := DefaultELO\<rparr> else q) m0"
    show ?case
    proof (cases "(pid, p) \<in> set ?m")
      case True
      with Cons.prems(2) show ?thesis by (auto dest!: in_map_put split: if_splits)
    next
      case False
      with Cons.IH [of ?m] Cons.prems(1) show ?thesis by auto
    qed
  qed simp
  from this [of "[]"] assms show ?thesis by (simp add: field_of_def)
qed

text \<open>
  C35: A match is counted once for every player. The rows the worker writes for a match
  with a winner are one for each player with an ID, and each has, over what was stored of
  the player, one match more, one win or one loss more (a win for the winner alone), and
  a peak that is at least the new rating; so wins and losses add up to matches if they did.
\<close>

theorem careers_advance_by_one:
  assumes "winner \<noteq> []"
  shows "let rows = map (\<lambda>r. career_row now (player_of ps r) r) (ComputeMatch pow10 (participants_of ps) winner) in
    distinct (map pl_PlayerID rows) \<and> set (map pl_PlayerID rows) = set (map pl_PlayerID ps) - {[]} \<and>
    (\<forall>row \<in> set rows. let p = the (map_of (by_player ps) (pl_PlayerID row)) in
       pl_MatchesPlayed row = pl_MatchesPlayed p + 1 \<and>
       pl_Wins row = pl_Wins p + (if pl_PlayerID row = winner then 1 else 0) \<and>
       pl_Losses row = pl_Losses p + (if pl_PlayerID row = winner then 0 else 1) \<and>
       pl_ELO row \<le> pl_PeakELO row)"
proof -
  let ?qs = "participants_of ps"
  let ?F = "field_of ?qs" and ?rs = "ComputeMatch pow10 (participants_of ps) winner"
  let ?row = "\<lambda>r. career_row now (player_of ps r) r"
  have rs: "?rs = map (rate pow10 ?F winner) ?F"
    using assms by (simp add: ComputeMatch_def Let_def field_of_def)
  have ids: "map pl_PlayerID (map ?row ?rs) = map fst ?F"
    by (simp add: rs career_row_def rate_def Let_def case_prod_unfold)
  have row: "let p = the (map_of (by_player ps) (pl_PlayerID (?row r))) in
       pl_MatchesPlayed (?row r) = pl_MatchesPlayed p + 1 \<and>
       pl_Wins (?row r) = pl_Wins p + (if pl_PlayerID (?row r) = winner then 1 else 0) \<and>
       pl_Losses (?row r) = pl_Losses p + (if pl_PlayerID (?row r) = winner then 0 else 1) \<and>
       pl_ELO (?row r) \<le> pl_PeakELO (?row r)" if "r \<in> set ?rs" for r
  proof -
    obtain pid p where p: "(pid, p) \<in> set ?F" "r = rate pow10 ?F winner (pid, p)" using \<open>r \<in> set ?rs\<close> rs by auto
    obtain q where "q \<in> set ?qs" "pa_PlayerID q = pid" "pa_MatchesPlayed q = pa_MatchesPlayed p"
      using field_entry [OF p(1)] by blast
    then have "pa_MatchesPlayed p = pl_MatchesPlayed (the (map_of (by_player ps) pid))"
      by (auto simp: participants_of_def Let_def)
    then show ?thesis by (simp add: p(2) career_row_def player_of_def rate_fields peak_of_def Let_def)
  qed
  have "distinct (map pl_PlayerID (map ?row ?rs))" unfolding ids by (rule field_distinct)
  moreover have "set (map pl_PlayerID (map ?row ?rs)) = set (map pl_PlayerID ps) - {[]}"
    unfolding ids field_keys participants_ids by simp
  moreover have "\<forall>row \<in> set (map ?row ?rs). let p = the (map_of (by_player ps) (pl_PlayerID row)) in
       pl_MatchesPlayed row = pl_MatchesPlayed p + 1 \<and>
       pl_Wins row = pl_Wins p + (if pl_PlayerID row = winner then 1 else 0) \<and>
       pl_Losses row = pl_Losses p + (if pl_PlayerID row = winner then 0 else 1) \<and>
       pl_ELO row \<le> pl_PeakELO row"
    using row by (simp add: Let_def)
  ultimately show ?thesis unfolding Let_def by (intro conjI)
qed

definition demo_player :: "string \<Rightarrow> player" where
  "demo_player pid = zero_player\<lparr>pl_PlayerID := pid, pl_ELO := 1500, pl_PeakELO := 1500, pl_MatchesPlayed := 4,
     pl_Wins := 2, pl_Losses := 2\<rparr>"

lemma careers_advance_by_one_witness:
  "set (map pl_PlayerID (map (\<lambda>r. career_row 7 (player_of [demo_player ''a'', demo_player ''b''] r) r)
     (ComputeMatch demo_pow10 (participants_of [demo_player ''a'', demo_player ''b'']) ''a''))) = {''a'', ''b''}"
proof -
  have "''a'' \<noteq> []" by simp
  from careers_advance_by_one [OF this, of 7 "[demo_player ''a'', demo_player ''b'']" demo_pow10]
  show ?thesis unfolding Let_def by (elim conjE) (simp add: demo_player_def)
qed

text \<open>
  A store with one match: careers are updated by player ID, and the list says which of the
  next attempts to stamp the match fail. The worker updates the careers and stamps the
  match in two transactions and repeats both when the second fails: here one failure
  makes one match count twice, and the winner has two wins more.
\<close>

record rating_store =
  rs_match :: match_record
  rs_players :: "player list"
  rs_fails :: "bool list"

definition put_career :: "player list \<Rightarrow> player \<Rightarrow> player" where
  "put_career rows p = (case filter (\<lambda>r. pl_PlayerID r = pl_PlayerID p) rows of [] \<Rightarrow> p | r # _ \<Rightarrow> r)"

definition store_env :: "rating_store rating_env" where
  "store_env = \<lparr>rw_GetMatchWithPlayers = (\<lambda>_ w. (Inr (rs_match w, rs_players w), w)),
     rw_UpdatePlayerCareers = (\<lambda>rows w. (None, w\<lparr>rs_players := map (put_career rows) (rs_players w)\<rparr>)),
     rw_ApplyMatchRatings = (\<lambda>_ _ w. case rs_fails w of
        True # fs \<Rightarrow> (Some (ErrExternal ''unavailable''), w\<lparr>rs_fails := fs\<rparr>)
      | _ \<Rightarrow> (None, w\<lparr>rs_fails := tl (rs_fails w), rs_match := (rs_match w)\<lparr>mr_RatingsApplied := True\<rparr>\<rparr>)),
     rw_Broadcast = None, rw_Now = (\<lambda>_. 9), rw_Pow10 = demo_pow10, rw_Execute = None,
     rw_Retry = \<lparr>ctxErr = (\<lambda>_. None), wait = (\<lambda>_ w. (None, w)), jitter = (\<lambda>_ _. 0)\<rparr>, rw_Config = DefaultRetryConfig\<rparr>"

definition demo_match :: match_record where
  "demo_match = (NewMatchRecord 5 ''g'' ''a'' [] ''DOMINO'' [])\<lparr>mr_UID := ''0x1''\<rparr>"

definition counted :: "bool list \<Rightarrow> (int \<times> int) list" where
  "counted fails = map (\<lambda>p. (pl_MatchesPlayed p, pl_Wins p)) (rs_players (snd (ProcessMatch store_env demo_match
     \<lparr>rs_match = demo_match, rs_players = [demo_player ''a'', demo_player ''b''], rs_fails = fails\<rparr>)))"

lemma failed_stamp_counts_twice:
  "counted [] = [(5, 3), (5, 2)]" "counted [True] = [(6, 4), (6, 2)]"
  by code_simp+

end
