(* ===== verification/Cursor.thy ===== *)
theory Cursor
  imports Career
begin

section \<open>Page cursors\<close>

text \<open>
  Models \<open>pkg/pagination/cursor.go\<close>: a cursor is marshalled to JSON and the text encoded
  with \<open>base64.URLEncoding\<close>, which is written out here. The texts of JSON values and of
  times are the functions of \<open>text_codec\<close>; a byte is a character.
\<close>

subsection \<open>Base 64\<close>

definition b64_char :: "nat \<Rightarrow> char" where
  "b64_char n =
     (if n < 26 then char_of (n + 65) else if n < 52 then char_of (n + 71) else if n < 62 then char_of (n - 4)
      else if n = 62 then CHR ''-'' else CHR ''_'')"

definition b64_value :: "char \<Rightarrow> nat option" where
  "b64_value c =
     (let n = (of_char c :: nat) in
      if 65 \<le> n \<and> n \<le> 90 then Some (n - 65) else if 97 \<le> n \<and> n \<le> 122 then Some (n - 71)
      else if 48 \<le> n \<and> n \<le> 57 then Some (n + 4) else if c = CHR ''-'' then Some 62
      else if c = CHR ''_'' then Some 63 else None)"

fun b64_encode :: "nat list \<Rightarrow> string" where
  "b64_encode [] = []"
| "b64_encode [a] = [b64_char (a div 4), b64_char (a mod 4 * 16), CHR ''='', CHR ''='']"
| "b64_encode [a, b] = [b64_char (a div 4), b64_char (a mod 4 * 16 + b div 16), b64_char (b mod 16 * 4), CHR ''='']"
| "b64_encode (a # b # c # rest) =
     b64_char (a div 4) # b64_char (a mod 4 * 16 + b div 16) # b64_char (b mod 16 * 4 + c div 64)
       # b64_char (c mod 64) # b64_encode rest"

text \<open>The decoder skips line ends and does not look at the unused bits of the last digit.\<close>

fun b64_quads :: "string \<Rightarrow> nat list option" where
  "b64_quads [] = Some []"
| "b64_quads (w # x # y # z # rest) =
     (case (b64_value w, b64_value x) of
        (Some a, Some b) \<Rightarrow>
          if y = CHR ''='' then
            (if z = CHR ''='' \<and> rest = [] then Some [a * 4 + b div 16] else None)
          else
            (case b64_value y of
               None \<Rightarrow> None
             | Some c \<Rightarrow>
                 if z = CHR ''='' then
                   (if rest = [] then Some [a * 4 + b div 16, b mod 16 * 16 + c div 4] else None)
                 else
                   (case (b64_value z, b64_quads rest) of
                      (Some d, Some bytes) \<Rightarrow>
                        Some ((a * 4 + b div 16) # (b mod 16 * 16 + c div 4) # (c mod 4 * 64 + d) # bytes)
                    | _ \<Rightarrow> None))
      | _ \<Rightarrow> None)"
| "b64_quads _ = None"

definition b64_decode :: "string \<Rightarrow> nat list option" where
  "b64_decode s = b64_quads (filter (\<lambda>c. c \<noteq> CHR 0x0A \<and> c \<noteq> CHR 0x0D) s)"

lemma char_codes:
  "c = CHR ''-'' \<longleftrightarrow> (of_char c :: nat) = 45" "c = CHR ''_'' \<longleftrightarrow> (of_char c :: nat) = 95"
  "c = CHR ''='' \<longleftrightarrow> (of_char c :: nat) = 61" "c = CHR 0x0A \<longleftrightarrow> (of_char c :: nat) = 10"
  "c = CHR 0x0D \<longleftrightarrow> (of_char c :: nat) = 13"
proof -
  have "(of_char CHR ''-'' :: nat) = 45" "(of_char CHR ''_'' :: nat) = 95" "(of_char CHR ''='' :: nat) = 61"
    "(of_char CHR 0x0A :: nat) = 10" "(of_char CHR 0x0D :: nat) = 13" by simp_all
  then show "c = CHR ''-'' \<longleftrightarrow> (of_char c :: nat) = 45" "c = CHR ''_'' \<longleftrightarrow> (of_char c :: nat) = 95"
    "c = CHR ''='' \<longleftrightarrow> (of_char c :: nat) = 61" "c = CHR 0x0A \<longleftrightarrow> (of_char c :: nat) = 10"
    "c = CHR 0x0D \<longleftrightarrow> (of_char c :: nat) = 13"
    by (metis of_char_eq_iff)+
qed

lemma b64_code: "n < 64 \<Longrightarrow> (of_char (b64_char n) :: nat) =
    (if n < 26 then n + 65 else if n < 52 then n + 71 else if n < 62 then n - 4 else if n = 62 then 45 else 95)"
  by (auto simp: b64_char_def)

lemma b64_chars: "n < 64 \<Longrightarrow> b64_value (b64_char n) = Some n \<and> b64_char n \<noteq> CHR ''='' \<and>
    b64_char n \<noteq> CHR 0x0A \<and> b64_char n \<noteq> CHR 0x0D"
  by (auto simp: b64_value_def Let_def char_codes b64_code)

lemma b64_round_trip: "\<forall>b \<in> set bs. b < 256 \<Longrightarrow> b64_decode (b64_encode bs) = Some bs"
  unfolding b64_decode_def
proof (induction bs rule: b64_encode.induct)
  case (2 a)
  have "a div 4 < 64" "a mod 4 * 16 < 64" using 2 by simp_all
  then show ?case using b64_chars [of "a div 4"] b64_chars [of "a mod 4 * 16"] by simp
next
  case (3 a b)
  have "a < 256" "b < 256" using 3 by simp_all
  then have "a div 4 < 64" "b div 16 < 16" by simp_all
  moreover have "a mod 4 < 4" "b mod 16 < 16" by simp_all
  ultimately have "a div 4 < 64" "a mod 4 * 16 + b div 16 < 64" "b mod 16 * 4 < 64" by linarith+
  moreover have "b div 16 div 16 = 0" "b div 16 mod 16 = b div 16" using \<open>b div 16 < 16\<close> by simp_all
  ultimately show ?case
    using b64_chars [of "a div 4"] b64_chars [of "a mod 4 * 16 + b div 16"] b64_chars [of "b mod 16 * 4"] by simp
next
  case (4 a b c rest)
  have "a < 256" "b < 256" "c < 256" using 4 by simp_all
  then have "a div 4 < 64" "b div 16 < 16" "c div 64 < 4" by simp_all
  moreover have "a mod 4 < 4" "b mod 16 < 16" "c mod 64 < 64" by simp_all
  ultimately have "a div 4 < 64" "a mod 4 * 16 + b div 16 < 64" "b mod 16 * 4 + c div 64 < 64" "c mod 64 < 64"
    by linarith+
  moreover have "b div 16 div 16 = 0" "b div 16 mod 16 = b div 16" "c div 64 div 4 = 0" "c div 64 mod 4 = c div 64"
    using \<open>b div 16 < 16\<close> \<open>c div 64 < 4\<close> by simp_all
  ultimately show ?case
    using b64_chars [of "a div 4"] b64_chars [of "a mod 4 * 16 + b div 16"] b64_chars [of "b mod 16 * 4 + c div 64"]
      b64_chars [of "c mod 64"] 4 by simp
qed simp

subsection \<open>Cursors\<close>

text \<open>
  \<open>tx_Marshal\<close> is the JSON text of a time, which fails outside the years that RFC 3339
  can write; \<open>tx_Format\<close> is \<open>UTC().Format(time.RFC3339Nano)\<close>.
\<close>

record text_codec =
  tx_Print :: "json \<Rightarrow> string"
  tx_Parse :: "string \<Rightarrow> json option"
  tx_Marshal :: "int \<Rightarrow> string option"
  tx_Unmarshal :: "string \<Rightarrow> int option"
  tx_Format :: "int \<Rightarrow> string"

record history_cursor =
  hc_EndTime :: int
  hc_MatchID :: string

definition byte_list :: "string \<Rightarrow> nat list" where "byte_list s = map of_char s"
definition from_bytes :: "nat list \<Rightarrow> string" where "from_bytes bs = map char_of bs"

definition cursor_json :: "string \<Rightarrow> string \<Rightarrow> json" where
  "cursor_json t mid = JObj [(''end_time'', JStr t), (''match_id'', JStr mid)]"

definition EncodeCursor :: "text_codec \<Rightarrow> history_cursor \<Rightarrow> string result" where
  "EncodeCursor tx c =
     (if hc_MatchID c = [] \<or> hc_EndTime c = 0 then
        Inl (Errorf ''cursor requires non-zero end_time and match_id'')
      else
        (case tx_Marshal tx (hc_EndTime c) of
           None \<Rightarrow> Inl (Wrapf ''marshal cursor: '' ErrJson)
         | Some t \<Rightarrow> Inr (b64_encode (byte_list (tx_Print tx (cursor_json t (hc_MatchID c)))))))"

definition un_time :: "text_codec \<Rightarrow> json \<Rightarrow> int \<Rightarrow> int option" where
  "un_time tx j old = (case j of JNull \<Rightarrow> Some old | JStr s \<Rightarrow> tx_Unmarshal tx s | _ \<Rightarrow> None)"

definition un_cursor :: "text_codec \<Rightarrow> json \<Rightarrow> history_cursor option" where
  "un_cursor tx j = un_struct (\<lambda>k j c.
      if key_is ''end_time'' k then map_option (\<lambda>v. c\<lparr>hc_EndTime := v\<rparr>) (un_time tx j (hc_EndTime c))
      else if key_is ''match_id'' k then map_option (\<lambda>v. c\<lparr>hc_MatchID := v\<rparr>) (un_string j (hc_MatchID c))
      else Some c) j \<lparr>hc_EndTime = 0, hc_MatchID = []\<rparr>"

definition DecodeCursor :: "text_codec \<Rightarrow> string \<Rightarrow> history_cursor result" where
  "DecodeCursor tx token =
     (if token = [] then Inl (Errorf ''cursor token cannot be empty'')
      else case b64_decode token of
        None \<Rightarrow> Inl (Wrapf ''decode cursor: '' (ErrExternal ''illegal base64 data''))
      | Some raw \<Rightarrow>
          (case tx_Parse tx (from_bytes raw) of
             None \<Rightarrow> Inl (Wrapf ''parse cursor: '' ErrJson)
           | Some j \<Rightarrow>
               (case un_cursor tx j of
                  None \<Rightarrow> Inl (Wrapf ''parse cursor: '' ErrJson)
                | Some c \<Rightarrow>
                    if hc_MatchID c = [] \<or> hc_EndTime c = 0 then Inl (Errorf ''invalid cursor payload'') else Inr c)))"

text \<open>What is used of the texts: they are read back, and no JSON text is empty.\<close>

definition codec_ok :: "text_codec \<Rightarrow> int set \<Rightarrow> bool" where
  "codec_ok tx T \<longleftrightarrow>
     (\<forall>t mid. tx_Parse tx (tx_Print tx (cursor_json t mid)) = Some (cursor_json t mid) \<and> tx_Print tx (cursor_json t mid) \<noteq> []) \<and>
     (\<forall>t \<in> T. \<exists>s. tx_Marshal tx t = Some s \<and> tx_Unmarshal tx s = Some t)"

lemma b64_encode_Nil: "b64_encode bs = [] \<longleftrightarrow> bs = []"
  by (cases bs rule: b64_encode.cases) auto

lemma bytes_bound: "\<forall>b \<in> set (byte_list s). b < 256"
  by (auto simp: byte_list_def)

lemma from_byte_list [simp]: "from_bytes (byte_list s) = s"
  by (induction s) (simp_all add: from_bytes_def byte_list_def)

lemma cursor_read_back:
  assumes "codec_ok tx T" "t \<in> T" "t \<noteq> 0" "mid \<noteq> []"
  shows "\<exists>token. EncodeCursor tx \<lparr>hc_EndTime = t, hc_MatchID = mid\<rparr> = Inr token \<and> token \<noteq> [] \<and>
    DecodeCursor tx token = Inr \<lparr>hc_EndTime = t, hc_MatchID = mid\<rparr>"
proof -
  obtain s where s: "tx_Marshal tx t = Some s" "tx_Unmarshal tx s = Some t"
    using assms(1,2) by (auto simp: codec_ok_def)
  let ?j = "cursor_json s mid"
  have p: "tx_Parse tx (tx_Print tx ?j) = Some ?j" "tx_Print tx ?j \<noteq> []" using assms(1) by (auto simp: codec_ok_def)
  have u: "un_cursor tx ?j = Some \<lparr>hc_EndTime = t, hc_MatchID = mid\<rparr>"
    by (simp add: un_cursor_def un_struct_def cursor_json_def key_is_def lower_char_def un_time_def un_string_def s)
  have ne: "b64_encode (byte_list (tx_Print tx ?j)) \<noteq> []" using p(2) by (simp add: b64_encode_Nil byte_list_def)
  show ?thesis
    using assms(3,4) s p u ne b64_round_trip [OF bytes_bound [of "tx_Print tx ?j"]]
    by (simp add: EncodeCursor_def DecodeCursor_def)
qed

lemma decoded_cursor: "DecodeCursor tx token = Inr c \<Longrightarrow> hc_MatchID c \<noteq> [] \<and> hc_EndTime c \<noteq> 0"
  by (auto simp: DecodeCursor_def split: if_splits option.splits)

text \<open>
  A cursor is read back from its token. Whatever the match ID and the time (one that
  RFC 3339 can write), decoding what was encoded gives the cursor; and any token that
  decodes, whoever made it, names a match and a time.
\<close>

theorem cursor_round_trip:
  assumes "codec_ok tx T" "t \<in> T" "t \<noteq> 0" "mid \<noteq> []"
  shows "(\<exists>token. EncodeCursor tx \<lparr>hc_EndTime = t, hc_MatchID = mid\<rparr> = Inr token \<and> token \<noteq> [] \<and>
      DecodeCursor tx token = Inr \<lparr>hc_EndTime = t, hc_MatchID = mid\<rparr>) \<and>
    (\<forall>token c. DecodeCursor tx token = Inr c \<longrightarrow> hc_MatchID c \<noteq> [] \<and> hc_EndTime c \<noteq> 0)"
  using cursor_read_back [OF assms] decoded_cursor by blast

text \<open>A codec for the examples: the texts of a cursor's members, with a separator.\<close>

definition demo_codec :: text_codec where
  "demo_codec = \<lparr>tx_Print = (\<lambda>j. case j of
        JObj [(_, JStr t), (_, JStr mid)] \<Rightarrow> nat_dec (length t) @ CHR '' '' # t @ mid | _ \<Rightarrow> []),
     tx_Parse = (\<lambda>s. case dropWhile (\<lambda>c. c \<noteq> CHR '' '') s of
        [] \<Rightarrow> None
      | _ # r \<Rightarrow> (let n = dec_val (takeWhile (\<lambda>c. c \<noteq> CHR '' '') s) in Some (cursor_json (take n r) (drop n r)))),
     tx_Marshal = (\<lambda>t. Some (nat_dec (nat t))), tx_Unmarshal = (\<lambda>s. Some (int (dec_val s))), tx_Format = (\<lambda>t. nat_dec (nat t))\<rparr>"

lemma demo_codec_ok: "codec_ok demo_codec {1..}"
proof -
  have d: "\<forall>c \<in> set (nat_dec n). c \<noteq> CHR '' ''" for n
    using nat_dec_digits [of "CHR '' ''" n] by (auto simp: is_digit_def)
  have "tx_Parse demo_codec (tx_Print demo_codec (cursor_json t mid)) = Some (cursor_json t mid)" for t mid
    using d [of "length t"]
    by (simp add: demo_codec_def cursor_json_def takeWhile_append2 dropWhile_append2 Let_def)
  then show ?thesis by (simp add: codec_ok_def) (simp add: demo_codec_def cursor_json_def)
qed

lemma cursor_round_trip_witness:
  "\<exists>token. EncodeCursor demo_codec \<lparr>hc_EndTime = 5, hc_MatchID = ''m1''\<rparr> = Inr token \<and>
     DecodeCursor demo_codec token = Inr \<lparr>hc_EndTime = 5, hc_MatchID = ''m1''\<rparr>"
proof -
  have "(5::int) \<in> {1..}" "(5::int) \<noteq> 0" "''m1'' \<noteq> []" by simp_all
  from conjunct1 [OF cursor_round_trip [OF demo_codec_ok this]] show ?thesis by (elim exE conjE) (intro exI conjI)
qed

end
