(* ===== verification/Stats.thy ===== *)
theory Stats
  imports Cursor
begin

section \<open>Statistics queries\<close>

text \<open>
  Models \<open>pkg/repository/stats_repository.go\<close> and \<open>pkg/repository/stats_paginated.go\<close>, and
  the ledger part of \<open>pkg/repository/game_respository.go\<close>. The Dgraph client is the record
  \<open>stats_db\<close>: one function per query, from the variables of the query to the error of the
  call, or the rows of its response, \<open>None\<close> when they do not parse. The text of a query is
  in the source. A mutation is a function over a world.
\<close>

subsection \<open>Read models\<close>

record leaderboard_entry =
  lb_Rank :: int
  lb_PlayerID :: string
  lb_Username :: string
  lb_ELO :: rat
  lb_PeakELO :: rat
  lb_MatchesPlayed :: int
  lb_Wins :: int
  lb_Losses :: int
  lb_WinRate :: rat

record history_entry =
  he_MatchID :: string
  he_EndTime :: int
  he_EndReason :: string
  he_WinnerID :: string
  he_Scores :: score_map
  he_Won :: bool
  he_ELODelta :: rat

record career_stats =
  cs_PlayerID :: string
  cs_Username :: string
  cs_ELO :: rat
  cs_PeakELO :: rat
  cs_MatchesPlayed :: int
  cs_Wins :: int
  cs_Losses :: int
  cs_WinRate :: rat
  cs_LastMatchAt :: "int option"
  cs_RecentMatches :: "history_entry list"

record page_meta =
  pm_NextCursor :: string
  pm_HasMore :: bool

record history_page =
  hp_PlayerID :: string
  hp_Matches :: "history_entry list"
  hp_Page :: page_meta

record ledger_row =
  lr_MatchID :: string
  lr_Winner :: string
  lr_EndTime :: int
  lr_EndReason :: string
  lr_RatingsApplied :: bool
  lr_ELODeltas :: jtext
  lr_Participants :: "player list"

record ledger_state =
  ls_MatchID :: string
  ls_WinnerID :: string
  ls_EndTime :: string
  ls_EndReason :: string
  ls_RatingsApplied :: bool
  ls_Participants :: "string list"
  ls_ELODeltas :: elo_deltas

subsection \<open>The database\<close>

text \<open>The cursor variables of the history query are the formatted time and the match ID.\<close>

record stats_db =
  db_PlayersByID :: "string list \<Rightarrow> player list option result"
  db_Leaderboard :: "int \<Rightarrow> player list option result"
  db_Career :: "string \<Rightarrow> int \<Rightarrow> (player \<times> match_record list) list option result"
  db_MatchRecord :: "string \<Rightarrow> match_record list option result"
  db_History :: "string \<Rightarrow> int \<Rightarrow> (string \<times> string) option \<Rightarrow> (string \<times> match_record list) list option result"
  db_Profile :: "string \<Rightarrow> player list option result"
  db_LedgerState :: "string \<Rightarrow> ledger_row list option result"
  db_MatchWithPlayers :: "string \<Rightarrow> match_record list option result"

text \<open>Running a query and unmarshalling its response.\<close>

definition run_query :: "string \<Rightarrow> string \<Rightarrow> 'a option result \<Rightarrow> 'a result" where
  "run_query failed unparsed r =
     (case r of
        Inl e \<Rightarrow> Inl (Wrapf failed e)
      | Inr None \<Rightarrow> Inl (Wrapf unparsed ErrJson)
      | Inr (Some x) \<Rightarrow> Inr x)"

definition first_row :: "string \<Rightarrow> 'a list \<Rightarrow> 'a result" where
  "first_row missing rows = (case rows of [] \<Rightarrow> Inl (Errorf missing) | x # _ \<Rightarrow> Inr x)"

definition bindr :: "'a result \<Rightarrow> ('a \<Rightarrow> 'b result) \<Rightarrow> 'b result" where
  "bindr r f = (case r of Inl e \<Rightarrow> Inl e | Inr x \<Rightarrow> f x)"

lemma bindr_simps [simp]: "bindr (Inl e) f = Inl e" "bindr (Inr x) f = f x"
  by (simp_all add: bindr_def)

definition normalizeELO :: "rat \<Rightarrow> rat" where
  "normalizeELO v = (if v \<le> 0 then DefaultELO else v)"

definition GetPlayersByIDs :: "stats_db \<Rightarrow> string list \<Rightarrow> player list result" where
  "GetPlayersByIDs db ids =
     (if ids = [] then Inr []
      else run_query ''query players by id: '' ''parse players response: '' (db_PlayersByID db ids))"

definition UpdatePlayerCareers_dgraph ::
  "(player list \<Rightarrow> 'w \<Rightarrow> go_error option \<times> 'w) \<Rightarrow> player list \<Rightarrow> 'w \<Rightarrow> go_error option \<times> 'w" where
  "UpdatePlayerCareers_dgraph mutate ps w =
     (if ps = [] then (None, w)
      else (case mutate (map (\<lambda>p. p\<lparr>pl_DType := [TypePlayer]\<rparr>) ps) w of
              (Some e, w1) \<Rightarrow> (Some (Wrapf ''update player careers: '' e), w1)
            | (None, w1) \<Rightarrow> (None, w1)))"

definition ApplyMatchRatings_dgraph ::
  "(string \<Rightarrow> jtext \<Rightarrow> bool \<Rightarrow> 'w \<Rightarrow> go_error option \<times> 'w) \<Rightarrow> string \<Rightarrow> elo_deltas \<Rightarrow> 'w \<Rightarrow> go_error option \<times> 'w" where
  "ApplyMatchRatings_dgraph mutate matchUID deltas w =
     (if matchUID = [] then (Some (Errorf ''match UID cannot be empty''), w)
      else (case mutate matchUID (Some (map_json JFloat deltas)) True w of
              (Some e, w1) \<Rightarrow> (Some (Wrapf ''apply match ratings: '' e), w1)
            | (None, w1) \<Rightarrow> (None, w1)))"

definition SaveMatchRecord_dgraph ::
  "(match_record \<Rightarrow> 'w \<Rightarrow> go_error option \<times> 'w) \<Rightarrow> match_record \<Rightarrow> 'w \<Rightarrow> go_error option \<times> 'w" where
  "SaveMatchRecord_dgraph mutate r w =
     (case mutate r w of
        (Some e, w1) \<Rightarrow> (Some (Wrapf ''failed to persist match record: '' e), w1)
      | (None, w1) \<Rightarrow> (None, w1))"

subsection \<open>Leaderboard and careers\<close>

definition leaderboard_row :: "nat \<Rightarrow> player \<Rightarrow> leaderboard_entry" where
  "leaderboard_row i p =
     \<lparr>lb_Rank = int i + 1, lb_PlayerID = pl_PlayerID p, lb_Username = pl_Username p, lb_ELO = normalizeELO (pl_ELO p),
      lb_PeakELO = normalizeELO (pl_PeakELO p), lb_MatchesPlayed = pl_MatchesPlayed p, lb_Wins = pl_Wins p,
      lb_Losses = pl_Losses p, lb_WinRate = WinRate (pl_Wins p) (pl_MatchesPlayed p)\<rparr>"

definition ListLeaderboard :: "stats_db \<Rightarrow> int \<Rightarrow> leaderboard_entry list result" where
  "ListLeaderboard db limit0 =
     (let limit = (if limit0 \<le> 0 then 50 else limit0) in
      bindr (run_query ''query leaderboard: '' ''parse leaderboard response: '' (db_Leaderboard db limit))
        (\<lambda>rows. Inr (map (\<lambda>(i, p). leaderboard_row i p) (zip [0..<length rows] rows))))"

definition career_of :: "player \<Rightarrow> history_entry list \<Rightarrow> career_stats" where
  "career_of p recent =
     \<lparr>cs_PlayerID = pl_PlayerID p, cs_Username = pl_Username p, cs_ELO = normalizeELO (pl_ELO p),
      cs_PeakELO = normalizeELO (pl_PeakELO p), cs_MatchesPlayed = pl_MatchesPlayed p, cs_Wins = pl_Wins p,
      cs_Losses = pl_Losses p, cs_WinRate = WinRate (pl_Wins p) (pl_MatchesPlayed p),
      cs_LastMatchAt = (if pl_LastMatchAt p = 0 then None else Some (pl_LastMatchAt p)), cs_RecentMatches = recent\<rparr>"

definition matchHistoryEntryFromRecord :: "string \<Rightarrow> match_record \<Rightarrow> history_entry result" where
  "matchHistoryEntryFromRecord pid m =
     (case ParseScores m of
        Inl e \<Rightarrow> Inl (Wrapf (''parse scores for match '' @ quote (mr_MatchID m) @ '': '') e)
      | Inr scores \<Rightarrow>
          (case ParseELODeltas m of
             Inl e \<Rightarrow> Inl (Wrapf (''parse elo deltas for match '' @ quote (mr_MatchID m) @ '': '') e)
           | Inr deltas \<Rightarrow>
               Inr \<lparr>he_MatchID = mr_MatchID m, he_EndTime = mr_EndTime m, he_EndReason = mr_EndReason m,
                    he_WinnerID = mr_Winner m, he_Scores = scores, he_Won = (mr_Winner m = pid),
                    he_ELODelta = map_read 0 deltas pid\<rparr>))"

text \<open>The loops over the records stop at the first one that does not parse.\<close>

fun entries_of :: "string \<Rightarrow> match_record list \<Rightarrow> history_entry list result" where
  "entries_of pid [] = Inr []"
| "entries_of pid (m # ms) =
     (case matchHistoryEntryFromRecord pid m of
        Inl e \<Rightarrow> Inl e
      | Inr h \<Rightarrow> (case entries_of pid ms of Inl e \<Rightarrow> Inl e | Inr hs \<Rightarrow> Inr (h # hs)))"

definition GetPlayerCareer :: "stats_db \<Rightarrow> string \<Rightarrow> int \<Rightarrow> career_stats result" where
  "GetPlayerCareer db pid limit0 =
     (if pid = [] then Inl (Errorf ''player ID cannot be empty'')
      else
        let limit = (if limit0 \<le> 0 then 20 else limit0) in
        bindr (run_query ''query player career: '' ''parse player career response: '' (db_Career db pid limit)) (\<lambda>rows.
        bindr (first_row (''player not found: '' @ quote pid) rows) (\<lambda>(p, recent).
        bindr (entries_of pid recent) (\<lambda>hs. Inr (career_of p hs)))))"

definition GetPlayerProfile :: "stats_db \<Rightarrow> string \<Rightarrow> career_stats result" where
  "GetPlayerProfile db pid =
     (if pid = [] then Inl (Errorf ''player ID cannot be empty'')
      else
        bindr (run_query ''query player profile: '' ''parse player profile response: '' (db_Profile db pid)) (\<lambda>rows.
        bindr (first_row (''player not found: '' @ quote pid) rows) (\<lambda>p. Inr (career_of p []))))"

subsection \<open>Ledger rows\<close>

definition GetMatchRecord :: "stats_db \<Rightarrow> string \<Rightarrow> match_record result" where
  "GetMatchRecord db mid =
     (if mid = [] then Inl (Errorf ''match ID cannot be empty'')
      else
        bindr (run_query ''query match record: '' ''parse match record response: '' (db_MatchRecord db mid)) (\<lambda>rows.
        first_row (''match record not found: '' @ quote mid) rows))"

definition GetMatchWithPlayers :: "stats_db \<Rightarrow> string \<Rightarrow> (match_record \<times> player list) result" where
  "GetMatchWithPlayers db mid =
     (if mid = [] then Inl (Errorf ''match ID cannot be empty'')
      else
        bindr (run_query ''query match with players: '' ''parse match with players response: '' (db_MatchWithPlayers db mid)) (\<lambda>rows.
        bindr (first_row (''match record not found: '' @ quote mid) rows) (\<lambda>r. Inr (r, mr_Players r))))"

definition GetLedgerState :: "text_codec \<Rightarrow> stats_db \<Rightarrow> string \<Rightarrow> ledger_state result" where
  "GetLedgerState tx db mid =
     (if mid = [] then Inl (Errorf ''match ID cannot be empty'')
      else
        bindr (run_query ''query ledger state: '' ''parse ledger state response: '' (db_LedgerState db mid)) (\<lambda>rows.
        bindr (first_row (''match record not found: '' @ quote mid) rows) (\<lambda>r.
        let st = \<lparr>ls_MatchID = lr_MatchID r, ls_WinnerID = lr_Winner r,
                  ls_EndTime = (if lr_EndTime r = 0 then [] else tx_Format tx (lr_EndTime r)),
                  ls_EndReason = lr_EndReason r, ls_RatingsApplied = lr_RatingsApplied r,
                  ls_Participants = map pl_PlayerID (lr_Participants r), ls_ELODeltas = []\<rparr> in
        (case parse_map un_float 0 (lr_ELODeltas r) of
           Inl e \<Rightarrow> Inl (Wrapf ''parse elo deltas: '' e)
         | Inr deltas \<Rightarrow> Inr (st\<lparr>ls_ELODeltas := deltas\<rparr>)))))"

subsection \<open>Match history\<close>

definition clamp_limit :: "int \<Rightarrow> int" where
  "clamp_limit limit0 = (let limit = (if limit0 \<le> 0 then 20 else limit0) in if limit > 100 then 100 else limit)"

definition history_page_of :: "text_codec \<Rightarrow> string \<Rightarrow> int \<Rightarrow> match_record list \<Rightarrow> history_page result" where
  "history_page_of tx pid limit matches =
     (let hasMore = int (length matches) > limit;
          shown = (if hasMore then take (nat limit) matches else matches) in
      bindr (entries_of pid shown) (\<lambda>entries.
        let page = \<lparr>hp_PlayerID = pid, hp_Matches = entries, hp_Page = \<lparr>pm_NextCursor = [], pm_HasMore = hasMore\<rparr>\<rparr> in
        if hasMore \<and> entries \<noteq> [] then
          (case EncodeCursor tx \<lparr>hc_EndTime = he_EndTime (last entries), hc_MatchID = he_MatchID (last entries)\<rparr> of
             Inl e \<Rightarrow> Inl (Wrapf ''encode next cursor: '' e)
           | Inr token \<Rightarrow> Inr (page\<lparr>hp_Page := \<lparr>pm_NextCursor = token, pm_HasMore = hasMore\<rparr>\<rparr>))
        else Inr page))"

definition ListPlayerMatchHistory ::
  "text_codec \<Rightarrow> stats_db \<Rightarrow> string \<Rightarrow> int \<Rightarrow> string \<Rightarrow> history_page result" where
  "ListPlayerMatchHistory tx db pid limit0 afterCursor =
     (if pid = [] then Inl (Errorf ''player ID cannot be empty'')
      else
        let limit = clamp_limit limit0 in
        bindr (if afterCursor = [] then Inr None
               else (case DecodeCursor tx afterCursor of
                       Inl e \<Rightarrow> Inl (Wrapf ''invalid cursor: '' e)
                     | Inr c \<Rightarrow> Inr (Some (tx_Format tx (hc_EndTime c), hc_MatchID c)))) (\<lambda>cursor.
        bindr (run_query ''query match history: '' ''parse match history response: ''
                 (db_History db pid (limit + 1) cursor)) (\<lambda>rows.
        bindr (first_row (''player not found: '' @ quote pid) rows) (\<lambda>(_, matches).
        history_page_of tx pid limit matches))))"

end
