(* ===== verification/Stats_Props.thy ===== *)
theory Stats_Props
  imports Stats
begin

section \<open>Properties of the statistics queries\<close>

text \<open>
  Theorems about the pages of a match history: a client that follows the cursors sees
  every match once and in order, on a database that answers the history query as
  documented.
\<close>

subsection \<open>Entries\<close>

lemma entries_of_iff:
  "entries_of pid ms = Inr hs \<longleftrightarrow> list_all2 (\<lambda>m h. matchHistoryEntryFromRecord pid m = Inr h) ms hs"
proof (induction ms arbitrary: hs)
  case (Cons m ms)
  show ?case
    by (auto simp: list_all2_Cons1 Cons.IH [symmetric] split: sum.splits)
qed auto

lemma entry_keys:
  "matchHistoryEntryFromRecord pid m = Inr h \<Longrightarrow> he_EndTime h = mr_EndTime m \<and> he_MatchID h = mr_MatchID m"
  by (auto simp: matchHistoryEntryFromRecord_def split: sum.splits)

lemma entries_take: "entries_of pid ms = Inr hs \<Longrightarrow> entries_of pid (take n ms) = Inr (take n hs)"
  by (simp add: entries_of_iff list_all2_takeI)

lemma entries_drop: "entries_of pid ms = Inr hs \<Longrightarrow> entries_of pid (drop n ms) = Inr (drop n hs)"
  by (simp add: entries_of_iff list_all2_dropI)

lemma entries_length: "entries_of pid ms = Inr hs \<Longrightarrow> length hs = length ms"
  by (simp add: entries_of_iff list_all2_lengthD)

lemma entries_last:
  assumes "entries_of pid ms = Inr hs" "ms \<noteq> []"
  shows "he_EndTime (last hs) = mr_EndTime (last ms) \<and> he_MatchID (last hs) = mr_MatchID (last ms)"
proof -
  have l: "length ms = length hs" "\<forall>i < length ms. matchHistoryEntryFromRecord pid (ms ! i) = Inr (hs ! i)"
    using assms(1) by (simp_all add: entries_of_iff list_all2_conv_all_nth)
  with assms(2) entry_keys [of pid "last ms" "last hs"] show ?thesis by (cases hs) (auto simp: last_conv_nth)
qed

subsection \<open>The order of a history\<close>

text \<open>
  The filter of the paginated query: behind the cursor's row in the order of end time and
  match ID, both descending. \<open>serves_history\<close> is what the two queries mean: the rows of
  the player in that order, those behind the cursor, and no more than the limit.
\<close>

definition behind :: "int \<times> string \<Rightarrow> match_record \<Rightarrow> bool" where
  "behind c m \<longleftrightarrow> mr_EndTime m < fst c \<or> mr_EndTime m = fst c \<and> mr_MatchID m < snd c"

definition row_key :: "match_record \<Rightarrow> int \<times> string" where
  "row_key m = (mr_EndTime m, mr_MatchID m)"

definition newest_first :: "match_record list \<Rightarrow> bool" where
  "newest_first rows \<longleftrightarrow> sorted_wrt (\<lambda>a b. behind (row_key a) b) rows"

definition serves_history :: "text_codec \<Rightarrow> stats_db \<Rightarrow> string \<Rightarrow> match_record list \<Rightarrow> bool" where
  "serves_history tx db pid rows \<longleftrightarrow>
     (\<forall>limit. db_History db pid limit None = Inr (Some [(pid, take (nat limit) rows)])) \<and>
     (\<forall>limit. \<forall>m \<in> set rows. db_History db pid limit (Some (tx_Format tx (mr_EndTime m), mr_MatchID m)) =
        Inr (Some [(pid, take (nat limit) (filter (behind (row_key m)) rows))]))"

lemma behind_not_sym: "behind (row_key a) b \<Longrightarrow> \<not> behind (row_key b) a"
  by (auto simp: behind_def row_key_def)

lemma filter_behind:
  assumes "newest_first (xs @ ys)" "xs \<noteq> []"
  shows "filter (behind (row_key (last xs))) (xs @ ys) = ys"
proof -
  have xs: "xs = butlast xs @ [last xs]" using assms(2) by simp
  have s: "sorted_wrt (\<lambda>a b. behind (row_key a) b) (butlast xs @ [last xs] @ ys)"
    using assms(1) unfolding newest_first_def by (subst (asm) xs) simp
  have "filter (behind (row_key (last xs))) (butlast xs) = []"
    using s behind_not_sym by (fastforce simp: sorted_wrt_append filter_empty_conv)
  moreover have "\<not> behind (row_key (last xs)) (last xs)" by (simp add: behind_def row_key_def)
  moreover have "filter (behind (row_key (last xs))) ys = ys"
    using s by (auto simp: sorted_wrt_append filter_id_conv)
  ultimately show ?thesis by (subst xs) simp
qed

subsection \<open>Following the cursors\<close>

text \<open>
  A client that asks for page after page. \<open>None\<close> is that the number of pages it is ready
  to ask for did not do.
\<close>

fun all_pages :: "nat \<Rightarrow> text_codec \<Rightarrow> stats_db \<Rightarrow> string \<Rightarrow> int \<Rightarrow> string \<Rightarrow> history_entry list result option" where
  "all_pages 0 tx db pid limit cursor = None"
| "all_pages (Suc k) tx db pid limit cursor =
     (case ListPlayerMatchHistory tx db pid limit cursor of
        Inl e \<Rightarrow> Some (Inl e)
      | Inr page \<Rightarrow>
          if \<not> pm_HasMore (hp_Page page) then Some (Inr (hp_Matches page))
          else map_option (\<lambda>r. case r of Inl e \<Rightarrow> Inl e | Inr hs \<Rightarrow> Inr (hp_Matches page @ hs))
                 (all_pages k tx db pid limit (pm_NextCursor (hp_Page page))))"

lemma clamp_pos: "1 \<le> clamp_limit l \<and> clamp_limit l \<le> 100"
  by (simp add: clamp_limit_def Let_def)

lemma history_page:
  assumes tx: "codec_ok tx T" and limit: "1 \<le> limit" and hs: "entries_of pid rest = Inr hs"
    and rows: "\<forall>m \<in> set rest. mr_EndTime m \<in> T \<and> mr_EndTime m \<noteq> 0 \<and> mr_MatchID m \<noteq> []"
  shows "\<exists>page. history_page_of tx pid limit (take (nat (limit + 1)) rest) = Inr page \<and>
    hp_Matches page = take (nat limit) hs \<and> pm_HasMore (hp_Page page) = (nat limit < length rest) \<and>
    (nat limit < length rest \<longrightarrow> pm_NextCursor (hp_Page page) \<noteq> [] \<and>
       DecodeCursor tx (pm_NextCursor (hp_Page page)) =
         Inr \<lparr>hc_EndTime = mr_EndTime (last (take (nat limit) rest)), hc_MatchID = mr_MatchID (last (take (nat limit) rest))\<rparr>)"
proof (cases "nat limit < length rest")
  case True
  let ?L = "nat limit"
  have L: "take ?L (take (nat (limit + 1)) rest) = take ?L rest" "int (length (take (nat (limit + 1)) rest)) > limit"
    using limit True by simp_all
  have ne: "take ?L rest \<noteq> []" using limit True by auto
  have e: "entries_of pid (take ?L rest) = Inr (take ?L hs)" by (rule entries_take [OF hs])
  have "last (take ?L rest) \<in> set rest" using ne by (meson in_set_takeD last_in_set)
  with cursor_read_back [OF tx] rows
  obtain token where t: "EncodeCursor tx \<lparr>hc_EndTime = mr_EndTime (last (take ?L rest)), hc_MatchID = mr_MatchID (last (take ?L rest))\<rparr> = Inr token"
    "token \<noteq> []" "DecodeCursor tx token = Inr \<lparr>hc_EndTime = mr_EndTime (last (take ?L rest)), hc_MatchID = mr_MatchID (last (take ?L rest))\<rparr>"
    by meson
  have "take ?L hs \<noteq> []" using ne entries_length [OF hs] by auto
  with t L e entries_last [OF e ne] True show ?thesis by (simp add: history_page_of_def Let_def)
next
  case False
  then have "int (length rest) \<le> limit" using limit by arith
  then have "take (nat (limit + 1)) rest = rest" "\<not> int (length rest) > limit" "take (nat limit) hs = hs"
    using entries_length [OF hs] False by simp_all
  with hs False show ?thesis by (simp add: history_page_of_def Let_def)
qed

lemma page_of_rest:
  assumes rows: "rows = seen @ rest" "newest_first rows" and db: "serves_history tx db pid rows" and pid: "pid \<noteq> []"
    and cur: "if seen = [] then cursor = [] else cursor \<noteq> [] \<and>
      DecodeCursor tx cursor = Inr \<lparr>hc_EndTime = mr_EndTime (last seen), hc_MatchID = mr_MatchID (last seen)\<rparr>"
  shows "ListPlayerMatchHistory tx db pid limit cursor =
    history_page_of tx pid (clamp_limit limit) (take (nat (clamp_limit limit + 1)) rest)"
proof (cases "seen = []")
  case True
  with assms show ?thesis
    by (simp add: ListPlayerMatchHistory_def serves_history_def run_query_def first_row_def Let_def)
next
  case False
  then have "last seen \<in> set rows" using rows by simp
  then have "db_History db pid (clamp_limit limit + 1) (Some (tx_Format tx (mr_EndTime (last seen)), mr_MatchID (last seen)))
      = Inr (Some [(pid, take (nat (clamp_limit limit + 1)) (filter (behind (row_key (last seen))) rows))])"
    using db unfolding serves_history_def by blast
  moreover have "filter (behind (row_key (last seen))) rows = rest"
    using filter_behind [of seen rest] rows False by simp
  ultimately have "db_History db pid (clamp_limit limit + 1) (Some (tx_Format tx (mr_EndTime (last seen)), mr_MatchID (last seen)))
      = Inr (Some [(pid, take (nat (clamp_limit limit + 1)) rest)])" by simp
  with pid cur False show ?thesis by (simp add: ListPlayerMatchHistory_def run_query_def first_row_def Let_def)
qed

lemma pages_of_rest:
  assumes "codec_ok tx T" "serves_history tx db pid rows" "newest_first rows" "pid \<noteq> []"
    "\<forall>m \<in> set rows. mr_EndTime m \<in> T \<and> mr_EndTime m \<noteq> 0 \<and> mr_MatchID m \<noteq> []"
    "rows = seen @ rest" "entries_of pid rest = Inr hs" "length rest < fuel"
    "if seen = [] then cursor = [] else cursor \<noteq> [] \<and>
      DecodeCursor tx cursor = Inr \<lparr>hc_EndTime = mr_EndTime (last seen), hc_MatchID = mr_MatchID (last seen)\<rparr>"
  shows "all_pages fuel tx db pid limit cursor = Some (Inr hs)"
  using assms(6-)
proof (induction fuel arbitrary: seen rest hs cursor)
  case (Suc k)
  let ?L = "nat (clamp_limit limit)"
  have L: "1 \<le> ?L" using clamp_pos [of limit] by arith
  have "\<forall>m \<in> set rest. mr_EndTime m \<in> T \<and> mr_EndTime m \<noteq> 0 \<and> mr_MatchID m \<noteq> []"
    using assms(5) Suc.prems(1) by simp
  from history_page [OF assms(1) conjunct1 [OF clamp_pos] Suc.prems(2) this, of limit]
    page_of_rest [OF Suc.prems(1) assms(3,2,4) Suc.prems(4), of limit]
  obtain page where page: "ListPlayerMatchHistory tx db pid limit cursor = Inr page"
    "hp_Matches page = take ?L hs" "pm_HasMore (hp_Page page) = (?L < length rest)"
    "?L < length rest \<longrightarrow> pm_NextCursor (hp_Page page) \<noteq> [] \<and> DecodeCursor tx (pm_NextCursor (hp_Page page)) =
       Inr \<lparr>hc_EndTime = mr_EndTime (last (take ?L rest)), hc_MatchID = mr_MatchID (last (take ?L rest))\<rparr>"
    by auto
  show ?case
  proof (cases "?L < length rest")
    case True
    let ?seen = "seen @ take ?L rest"
    have ne: "take ?L rest \<noteq> []" using L True by auto
    have "all_pages k tx db pid limit (pm_NextCursor (hp_Page page)) = Some (Inr (drop ?L hs))"
    proof (rule Suc.IH)
      show "rows = ?seen @ drop ?L rest" using Suc.prems(1) by simp
      show "entries_of pid (drop ?L rest) = Inr (drop ?L hs)" by (rule entries_drop [OF Suc.prems(2)])
      show "length (drop ?L rest) < k" using Suc.prems(3) L True by simp
      show "if ?seen = [] then pm_NextCursor (hp_Page page) = [] else pm_NextCursor (hp_Page page) \<noteq> [] \<and>
          DecodeCursor tx (pm_NextCursor (hp_Page page)) =
            Inr \<lparr>hc_EndTime = mr_EndTime (last ?seen), hc_MatchID = mr_MatchID (last ?seen)\<rparr>"
        using page(4) True ne by simp
    qed
    with page True show ?thesis by simp
  next
    case False
    with page entries_length [OF Suc.prems(2)] show ?thesis by simp
  qed
qed simp

text \<open>
  Following the cursors shows every match once, in order. On a database that answers
  the history query as it says, for any limit and any history whose rows parse and have an
  ID and a time, a client that starts without a cursor and follows \<open>next_cursor\<close> until
  there is no more gets exactly the entries of the history, and needs no more pages than
  there are matches plus one.
\<close>

theorem history_pages_cover:
  assumes "codec_ok tx T" "serves_history tx db pid rows" "newest_first rows" "pid \<noteq> []"
    "\<forall>m \<in> set rows. mr_EndTime m \<in> T \<and> mr_EndTime m \<noteq> 0 \<and> mr_MatchID m \<noteq> []"
    "entries_of pid rows = Inr hs"
  shows "all_pages (Suc (length rows)) tx db pid limit [] = Some (Inr hs)"
  by (rule pages_of_rest [OF assms(1-5), of "[]" rows]) (simp_all add: assms(6))

definition demo_row :: "int \<Rightarrow> string \<Rightarrow> match_record" where
  "demo_row t mid = NewMatchRecord t mid ''a'' [(''a'', 0), (''b'', 7)] ''DOMINO'' []"

definition demo_rows :: "match_record list" where
  "demo_rows = [demo_row 9 ''m3'', demo_row 9 ''m2'', demo_row 4 ''m1'']"

definition demo_db :: stats_db where
  "demo_db = \<lparr>db_PlayersByID = (\<lambda>_. Inr None), db_Leaderboard = (\<lambda>_. Inr None), db_Career = (\<lambda>_ _. Inr None),
     db_MatchRecord = (\<lambda>_. Inr None),
     db_History = (\<lambda>pid limit cursor. Inr (Some [(pid, take (nat limit) (case cursor of
        None \<Rightarrow> demo_rows
      | Some (t, mid) \<Rightarrow> filter (behind (int (dec_val t), mid)) demo_rows))])),
     db_Profile = (\<lambda>_. Inr None), db_LedgerState = (\<lambda>_. Inr None), db_MatchWithPlayers = (\<lambda>_. Inr None)\<rparr>"

lemma demo_history:
  "\<forall>m \<in> set demo_rows. mr_EndTime m \<in> {1..} \<and> mr_EndTime m \<noteq> 0 \<and> mr_MatchID m \<noteq> []"
  "serves_history demo_codec demo_db ''a'' demo_rows"
  "newest_first demo_rows"
  "\<exists>hs. entries_of ''a'' demo_rows = Inr hs \<and> map he_MatchID hs = [''m3'', ''m2'', ''m1'']"
proof -
  show rows: "\<forall>m \<in> set demo_rows. mr_EndTime m \<in> {1..} \<and> mr_EndTime m \<noteq> 0 \<and> mr_MatchID m \<noteq> []"
    by (simp add: demo_rows_def demo_row_def NewMatchRecord_def)
  show "serves_history demo_codec demo_db ''a'' demo_rows"
    using rows by (auto simp: serves_history_def demo_db_def demo_codec_def row_key_def)
  show "newest_first demo_rows"
    by (simp add: newest_first_def demo_rows_def demo_row_def NewMatchRecord_def behind_def row_key_def less_char_def)
  have "entries_of ''a'' demo_rows \<noteq> Inl e" for e
    by (simp add: demo_rows_def demo_row_def matchHistoryEntryFromRecord_def ParseScores_def ParseELODeltas_def
        NewMatchRecord_def parse_map_def un_map_def map_json_def un_int_def in_int64_def insort_key_def less_eq_char_def)
  then obtain hs where hs: "entries_of ''a'' demo_rows = Inr hs" by (cases "entries_of ''a'' demo_rows") auto
  moreover have "map he_MatchID hs = map mr_MatchID demo_rows"
    using hs entry_keys by (auto simp: entries_of_iff list_all2_conv_all_nth intro!: nth_equalityI)
  ultimately show "\<exists>hs. entries_of ''a'' demo_rows = Inr hs \<and> map he_MatchID hs = [''m3'', ''m2'', ''m1'']"
    by (simp add: demo_rows_def demo_row_def NewMatchRecord_def)
qed

lemma history_pages_cover_witness:
  "\<exists>hs. all_pages 4 demo_codec demo_db ''a'' 1 [] = Some (Inr hs) \<and> map he_MatchID hs = [''m3'', ''m2'', ''m1'']"
proof -
  obtain hs where hs: "entries_of ''a'' demo_rows = Inr hs" "map he_MatchID hs = [''m3'', ''m2'', ''m1'']"
    using demo_history(4) by (elim exE conjE)
  have four: "4 = Suc (length demo_rows)" by (simp add: demo_rows_def)
  have "all_pages 4 demo_codec demo_db ''a'' 1 [] = Some (Inr hs)"
    unfolding four by (rule history_pages_cover [OF demo_codec_ok demo_history(2,3) _ demo_history(1) hs(1)]) simp
  with hs(2) show ?thesis by (intro exI conjI)
qed

end
