(* ===== verification/Strings.thy ===== *)
theory Strings
  imports Channels
begin

section \<open>String functions\<close>

text \<open>
  The functions of Go's \<open>strings\<close> and \<open>strconv\<close> that the start-up code and the statistics
  API use, on ASCII strings.
\<close>

definition is_space :: "char \<Rightarrow> bool" where
  "is_space c = (c = CHR '' '' \<or> (let n = (of_char c :: nat) in 9 \<le> n \<and> n \<le> 13))"

definition trim_right :: "(char \<Rightarrow> bool) \<Rightarrow> string \<Rightarrow> string" where
  "trim_right P s = rev (dropWhile P (rev s))"

definition trim :: "(char \<Rightarrow> bool) \<Rightarrow> string \<Rightarrow> string" where
  "trim P s = trim_right P (dropWhile P s)"

definition TrimSpace :: "string \<Rightarrow> string" where "TrimSpace s = trim is_space s"

definition HasPrefix :: "string \<Rightarrow> string \<Rightarrow> bool" where
  "HasPrefix s p = (take (length p) s = p)"

definition TrimPrefix :: "string \<Rightarrow> string \<Rightarrow> string" where
  "TrimPrefix s p = (if HasPrefix s p then drop (length p) s else s)"

text \<open>\<open>Split\<close> at a one-byte separator, and \<open>SplitN\<close> with at most two parts.\<close>

fun Split :: "char \<Rightarrow> string \<Rightarrow> string list" where
  "Split c [] = [[]]"
| "Split c (x # xs) = (if x = c then [] # Split c xs else (x # hd (Split c xs)) # tl (Split c xs))"

definition SplitN2 :: "char \<Rightarrow> string \<Rightarrow> string list" where
  "SplitN2 c s = (if c \<in> set s then [takeWhile (\<lambda>x. x \<noteq> c) s, tl (dropWhile (\<lambda>x. x \<noteq> c) s)] else [s])"

definition ParseUint :: "string \<Rightarrow> nat option" where
  "ParseUint s =
     (if s = [] \<or> \<not> list_all is_digit s \<or> dec_val s \<ge> 2 ^ 64 then None else Some (dec_val s))"

definition Atoi :: "string \<Rightarrow> int option" where
  "Atoi s =
     (let (neg, t) = (case s of [] \<Rightarrow> (False, [])
          | c # r \<Rightarrow> if c = CHR ''-'' then (True, r) else if c = CHR ''+'' then (False, r) else (False, s)) in
      if t = [] \<or> \<not> list_all is_digit t then None
      else
        let v = (if neg then - int (dec_val t) else int (dec_val t)) in
        if - (2 ^ 63) \<le> v \<and> v < 2 ^ 63 then Some v else None)"

lemma Split_not_Nil [simp]: "Split c s \<noteq> []"
  by (cases s) simp_all

lemma Split_append: "c \<notin> set s \<Longrightarrow> Split c (s @ c # r) = s # Split c r"
  by (induction s) auto

lemma Split_single: "c \<notin> set s \<Longrightarrow> Split c s = [s]"
  by (induction s) auto

lemma SplitN2_sep: "c \<notin> set s \<Longrightarrow> SplitN2 c (s @ c # r) = [s, r]"
proof -
  assume c: "c \<notin> set s"
  then have "takeWhile (\<lambda>x. x \<noteq> c) (s @ c # r) = s" "dropWhile (\<lambda>x. x \<noteq> c) (s @ c # r) = c # r"
    by (induction s) auto
  then show ?thesis by (simp add: SplitN2_def)
qed

lemma trim_id: "s = [] \<or> \<not> P (hd s) \<and> \<not> P (last s) \<Longrightarrow> trim P s = s"
proof -
  assume a: "s = [] \<or> \<not> P (hd s) \<and> \<not> P (last s)"
  have "dropWhile P s = s" using a by (cases s) auto
  moreover have "dropWhile P (rev s) = rev s" using a by (cases s rule: rev_cases) auto
  ultimately show "trim P s = s" by (simp add: trim_def trim_right_def)
qed

lemma Atoi_nat_dec: "n < 2 ^ 63 \<Longrightarrow> Atoi (nat_dec n) = Some (int n)"
proof -
  assume n: "n < 2 ^ 63"
  obtain c r where cr: "nat_dec n = c # r" by (cases "nat_dec n") auto
  have d: "list_all is_digit (nat_dec n)" using nat_dec_digits by (auto simp: list_all_iff)
  then have "is_digit c" using cr by simp
  then have "c \<noteq> CHR ''-''" "c \<noteq> CHR ''+''" by (auto simp: is_digit_def)
  moreover have "- (2 ^ 63) \<le> int n" "int n < 2 ^ 63" using n by simp_all
  moreover have "list_all is_digit (c # r)" "dec_val (c # r) = n" using d cr by (simp, metis dec_val_nat_dec)
  ultimately show "Atoi (nat_dec n) = Some (int n)" unfolding cr by (simp add: Atoi_def Let_def)
qed

end
