(* ===== verification/Startup.thy ===== *)
theory Startup
  imports Strings Raft_Node
begin

section \<open>Start-up configuration\<close>

text \<open>
  Models the parsers and validators of \<open>cmd/server/main.go\<close>: the flags, the peer lists, the
  base addresses of the gateways and the compaction threshold. An environment variable is
  an argument. Maps are association lists; a later entry with the same ID replaces the
  earlier one.
\<close>

definition validateNodeFlags :: "string \<Rightarrow> string \<Rightarrow> string \<Rightarrow> go_error option" where
  "validateNodeFlags nodeID raftAddr gatewayAddr =
     (if TrimSpace nodeID = [] then Some (Errorf ''--id is required (e.g. --id=node-1)'')
      else if TrimSpace raftAddr = [] then Some (Errorf ''--raft-addr is required (e.g. --raft-addr=:50051)'')
      else if TrimSpace gatewayAddr = [] then Some (Errorf ''--gateway-addr is required (e.g. --gateway-addr=:8080)'')
      else None)"

fun parse_entries :: "string list \<Rightarrow> peer_map \<Rightarrow> peer_map result" where
  "parse_entries [] peers = Inr peers"
| "parse_entries (raw # es) peers =
     (let entry = TrimSpace raw in
      if entry = [] then parse_entries es peers
      else case SplitN2 (CHR ''='') entry of
        [a, b] \<Rightarrow>
          let pid = TrimSpace a; addr = TrimSpace b in
          if pid = [] \<or> addr = [] then
            Inl (Errorf (''invalid peer entry '' @ quote entry @ '': id and address are required''))
          else parse_entries es (map_put pid addr peers)
      | _ \<Rightarrow> Inl (Errorf (''invalid peer entry '' @ quote entry @ '': expected id=address'')))"

definition parsePeerList :: "string \<Rightarrow> peer_map result" where
  "parsePeerList raw0 =
     (let raw = TrimSpace raw0 in if raw = [] then Inr [] else parse_entries (Split (CHR '','') raw) [])"

definition buildClusterPeers :: "string \<Rightarrow> string \<Rightarrow> peer_map \<Rightarrow> peer_map" where
  "buildClusterPeers nodeID raftAddr others = map_put nodeID raftAddr others"

definition gatewayHTTPBase :: "string \<Rightarrow> string" where
  "gatewayHTTPBase addr =
     (if HasPrefix addr ''http://'' \<or> HasPrefix addr ''https://'' then trim_right (\<lambda>c. c = CHR ''/'') addr
      else ''http://'' @ (if HasPrefix addr '':'' then ''localhost'' @ addr else addr))"

definition buildHTTPPeerAddresses :: "string \<Rightarrow> string \<Rightarrow> string \<Rightarrow> peer_map result" where
  "buildHTTPPeerAddresses nodeID gatewayAddr raw =
     (case parsePeerList raw of
        Inl e \<Rightarrow> Inl e
      | Inr peers \<Rightarrow>
          Inr (map_put nodeID (gatewayHTTPBase gatewayAddr) (map (\<lambda>(pid, addr). (pid, gatewayHTTPBase addr)) peers)))"

definition compactThresholdFromEnv :: "string \<Rightarrow> nat option" where
  "compactThresholdFromEnv env =
     (let raw = TrimSpace env in
      if raw = [] then None
      else case ParseUint raw of None \<Rightarrow> None | Some t \<Rightarrow> if t = 0 then None else Some t)"

text \<open>The node \<open>main\<close> starts without storage.\<close>

definition configured_node :: "string \<Rightarrow> string \<Rightarrow> peer_map \<Rightarrow> string \<Rightarrow> 's \<Rightarrow> ('s, 'd) raft_node" where
  "configured_node nodeID raftAddr peers threshold fsm =
     (let n = NewRaftNode nodeID (buildClusterPeers nodeID raftAddr peers) fsm in
      case compactThresholdFromEnv threshold of None \<Rightarrow> n | Some t \<Rightarrow> SetCompactThreshold t n)"

subsection \<open>Peer lists are read as they are written\<close>

definition plain :: "string \<Rightarrow> bool" where
  "plain s \<longleftrightarrow> s \<noteq> [] \<and> \<not> is_space (hd s) \<and> \<not> is_space (last s) \<and> CHR '','' \<notin> set s"

fun peer_list :: "peer_map \<Rightarrow> string" where
  "peer_list [] = []"
| "peer_list [(pid, addr)] = pid @ CHR ''='' # addr"
| "peer_list ((pid, addr) # ps) = pid @ CHR ''='' # addr @ CHR '','' # peer_list ps"

lemma plain_trim: "plain s \<Longrightarrow> TrimSpace s = s"
  by (simp add: TrimSpace_def plain_def trim_id)

lemma plain_entry: "plain a \<Longrightarrow> plain b \<Longrightarrow> plain (a @ CHR ''='' # b)"
  by (auto simp: plain_def hd_append)

lemma parse_entry:
  assumes "plain pid" "plain addr" "CHR ''='' \<notin> set pid"
  shows "parse_entries ((pid @ CHR ''='' # addr) # es) peers = parse_entries es (map_put pid addr peers)"
proof -
  have "TrimSpace (pid @ CHR ''='' # addr) = pid @ CHR ''='' # addr" using plain_trim plain_entry assms by blast
  moreover have "TrimSpace pid = pid" "TrimSpace addr = addr" "pid \<noteq> []" "addr \<noteq> []"
    using assms plain_trim by (auto simp: plain_def)
  ultimately show ?thesis using SplitN2_sep [OF assms(3)] by (simp add: Let_def)
qed

definition peers_ok :: "peer_map \<Rightarrow> bool" where
  "peers_ok peers \<longleftrightarrow> distinct (map fst peers) \<and>
     (\<forall>(pid, addr) \<in> set peers. plain pid \<and> plain addr \<and> CHR ''='' \<notin> set pid)"

lemma entries_of_list:
  "\<forall>(pid, addr) \<in> set peers. plain pid \<and> plain addr \<and> CHR ''='' \<notin> set pid \<Longrightarrow> peers \<noteq> [] \<Longrightarrow>
     parse_entries (Split (CHR '','') (peer_list peers)) acc = Inr (foldl (\<lambda>m (pid, addr). map_put pid addr m) acc peers)"
proof (induction peers arbitrary: acc rule: peer_list.induct)
  case (2 pid addr)
  then have "Split (CHR '','') (pid @ CHR ''='' # addr) = [pid @ CHR ''='' # addr]"
    by (intro Split_single) (auto simp: plain_def)
  with 2 show ?case by (simp add: parse_entry del: parse_entries.simps(2))
next
  case (3 pid addr p ps)
  have "CHR '','' \<notin> set (pid @ CHR ''='' # addr)" using 3 by (auto simp: plain_def)
  from Split_append [OF this, of "peer_list (p # ps)"] 3 show ?case by (simp add: parse_entry del: parse_entries.simps(2))
qed simp

lemma put_all: "distinct (map fst (acc @ peers)) \<Longrightarrow> foldl (\<lambda>m (pid, addr). map_put pid addr m) acc peers = acc @ peers"
proof (induction peers arbitrary: acc)
  case (Cons p ps)
  obtain pid addr where p: "p = (pid, addr)" by force
  have "map_put pid addr acc = acc @ [(pid, addr)]"
    using Cons.prems p by (induction acc) auto
  with Cons p show ?case by simp
qed simp

lemma peer_list_ends: "peers_ok peers \<Longrightarrow> peers \<noteq> [] \<Longrightarrow> TrimSpace (peer_list peers) = peer_list peers"
proof -
  assume "peers_ok peers" "peers \<noteq> []"
  then have "peer_list peers \<noteq> [] \<and> \<not> is_space (hd (peer_list peers)) \<and> \<not> is_space (last (peer_list peers))"
    by (induction peers rule: peer_list.induct) (auto simp: peers_ok_def plain_def hd_append)
  then show ?thesis by (simp add: TrimSpace_def trim_id)
qed

text \<open>
  A peer list is read as it was written. Peers with distinct IDs, written as
  \<open>id=address\<close> separated by commas, without commas, outer blanks or empty parts and
  without an equals sign in an ID, are parsed to exactly that map (an address may contain
  one); the cluster a node is started with is that map and the node itself.
\<close>

theorem peer_list_round_trip:
  assumes "peers_ok peers" "nodeID \<notin> set (map fst peers)"
  shows "parsePeerList (peer_list peers) = Inr peers \<and>
    buildClusterPeers nodeID raftAddr peers = peers @ [(nodeID, raftAddr)]"
proof
  show "parsePeerList (peer_list peers) = Inr peers"
  proof (cases "peers = []")
    case False
    with peer_list_ends [OF assms(1)] have "TrimSpace (peer_list peers) = peer_list peers" "peer_list peers \<noteq> []"
      by (simp, cases peers rule: peer_list.cases) auto
    with False entries_of_list [of peers "[]"] put_all [of "[]" peers] assms(1) show ?thesis
      by (simp add: parsePeerList_def peers_ok_def)
  qed (simp add: parsePeerList_def TrimSpace_def trim_def trim_right_def)
  show "buildClusterPeers nodeID raftAddr peers = peers @ [(nodeID, raftAddr)]"
    using assms(2) unfolding buildClusterPeers_def by (induction peers) auto
qed

lemma peer_list_round_trip_witness:
  "parsePeerList ''n2=b:1,n3=c:1'' = Inr [(''n2'', ''b:1''), (''n3'', ''c:1'')]"
proof -
  have "peers_ok [(''n2'', ''b:1''), (''n3'', ''c:1'')]" by (simp add: peers_ok_def plain_def is_space_def)
  from conjunct1 [OF peer_list_round_trip [OF this, of "''n1''" "''a:1''"]] show ?thesis by simp
qed

end
