(* ===== verification/Stats_Api.thy ===== *)
theory Stats_Api
  imports Stats_Props Startup Router
begin

section \<open>The statistics and routing API\<close>

text \<open>
  Models \<open>pkg/api/handlers.go\<close>. A request is its method, its path and its query
  parameters; a response its status and its body before it is marshalled. \<open>js\<close> is the
  text of an error of encoding/json, which the mapping of errors to statuses searches.
\<close>

record api_request =
  aq_Method :: string
  aq_Path :: string
  aq_Query :: "string \<Rightarrow> string"

datatype api_body =
    ApiError string
  | ApiLeaderboard "leaderboard_entry list"
  | ApiCareer career_stats
  | ApiPage history_page
  | ApiNoLeader string string raft_role
  | ApiLeader string string string bool raft_role
  | ApiNoRoute string string string
  | ApiRoute string string string string bool string

type_synonym api_response = "nat \<times> api_body"

subsection \<open>Statistics\<close>

text \<open>The limits of the three handlers: a default, or a positive number.\<close>

definition limit_param :: "int \<Rightarrow> string \<Rightarrow> int option" where
  "limit_param dflt raw =
     (if raw = [] then Some dflt
      else case Atoi raw of None \<Rightarrow> None | Some n \<Rightarrow> if n \<le> 0 then None else Some n)"

definition handleLeaderboard :: "string \<Rightarrow> stats_db \<Rightarrow> api_request \<Rightarrow> api_response" where
  "handleLeaderboard js db r =
     (if aq_Method r \<noteq> ''GET'' then (405, ApiError ''method not allowed'')
      else case limit_param 50 (aq_Query r ''limit'') of
        None \<Rightarrow> (400, ApiError ''invalid limit'')
      | Some limit \<Rightarrow>
          (case ListLeaderboard db limit of
             Inl e \<Rightarrow> (500, ApiError (err_text js e))
           | Inr entries \<Rightarrow> (200, ApiLeaderboard entries)))"

definition handlePlayerStats :: "string \<Rightarrow> stats_db \<Rightarrow> api_request \<Rightarrow> string \<Rightarrow> api_response" where
  "handlePlayerStats js db r playerID =
     (case limit_param 20 (aq_Query r ''recent'') of
        None \<Rightarrow> (400, ApiError ''invalid recent'')
      | Some limit \<Rightarrow>
          (case GetPlayerCareer db playerID limit of
             Inl e \<Rightarrow> (if contains ''not found'' (err_text js e) then 404 else 500, ApiError (err_text js e))
           | Inr stats \<Rightarrow> (200, ApiCareer stats)))"

definition handlePlayerMatches ::
  "string \<Rightarrow> text_codec \<Rightarrow> stats_db \<Rightarrow> api_request \<Rightarrow> string \<Rightarrow> api_response" where
  "handlePlayerMatches js tx db r playerID =
     (case limit_param 20 (aq_Query r ''limit'') of
        None \<Rightarrow> (400, ApiError ''invalid limit'')
      | Some limit \<Rightarrow>
          (case ListPlayerMatchHistory tx db playerID limit (aq_Query r ''cursor'') of
             Inl e \<Rightarrow>
               (if contains ''not found'' (err_text js e) then 404
                else if contains ''invalid cursor'' (err_text js e) then 400 else 500, ApiError (err_text js e))
           | Inr page \<Rightarrow> (200, ApiPage page)))"

definition handlePlayerRoutes :: "string \<Rightarrow> text_codec \<Rightarrow> stats_db \<Rightarrow> api_request \<Rightarrow> api_response" where
  "handlePlayerRoutes js tx db r =
     (if aq_Method r \<noteq> ''GET'' then (405, ApiError ''method not allowed'')
      else
        let path = TrimPrefix (aq_Path r) ''/api/players/'';
            parts = Split (CHR ''/'') (trim (\<lambda>c. c = CHR ''/'') path) in
        if parts = [] \<or> parts ! 0 = [] then (404, ApiError ''player not found'')
        else if length parts = 1 \<or> parts ! 1 = ''stats'' then handlePlayerStats js db r (parts ! 0)
        else if parts ! 1 = ''matches'' then handlePlayerMatches js tx db r (parts ! 0)
        else (404, ApiError ''route not found''))"

subsection \<open>Leadership\<close>

text \<open>A candidate shows as a follower.\<close>

definition gatewayNodeState :: "('s, 'd) raft_node \<Rightarrow> raft_role" where
  "gatewayNodeState n = (if IsLeader n then StateLeader else StateFollower)"

definition handleLeader :: "string \<Rightarrow> ('s, 'd) raft_node option \<Rightarrow> api_request \<Rightarrow> api_response" where
  "handleLeader js raft r =
     (if aq_Method r \<noteq> ''GET'' then (405, ApiError ''method not allowed'')
      else case raft of
        None \<Rightarrow> (503, ApiError ''raft node is not configured'')
      | Some n \<Rightarrow>
          (case LeaderEndpoint n of
             (_, _, Some e) \<Rightarrow> (503, ApiNoLeader (err_text js e) (NodeID n) (gatewayNodeState n))
           | (leaderID, addr, None) \<Rightarrow>
               (200, ApiLeader (NodeID n) leaderID addr (leaderID = NodeID n) (gatewayNodeState n))))"

definition handleSessionRoute :: "string \<Rightarrow> ('s, 'd) raft_node option \<Rightarrow> api_request \<Rightarrow> api_response" where
  "handleSessionRoute js raft r =
     (if aq_Method r \<noteq> ''GET'' then (405, ApiError ''method not allowed'')
      else case raft of
        None \<Rightarrow> (503, ApiError ''raft node is not configured'')
      | Some n \<Rightarrow>
          let sessionID = aq_Query r ''session_id'' in
          if sessionID = [] then (400, ApiError ''session_id is required'')
          else
            (case LeaderEndpoint n of
               (_, _, Some e) \<Rightarrow> (503, ApiNoRoute (err_text js e) sessionID (NodeID n))
             | (leaderID, addr, None) \<Rightarrow>
                 let redirect = (leaderID \<noteq> NodeID n) in
                 (if redirect then 307 else 200, ApiRoute sessionID (NodeID n) leaderID addr redirect addr)))"

subsection \<open>Properties\<close>

text \<open>Two different slashes never hide a player: the ID is the first part of the path.\<close>

lemma player_path:
  assumes "pid \<noteq> []" "CHR ''/'' \<notin> set pid"
  shows "handlePlayerRoutes js tx db \<lparr>aq_Method = ''GET'', aq_Path = ''/api/players/'' @ pid @ ''/matches'', aq_Query = q\<rparr>
    = handlePlayerMatches js tx db \<lparr>aq_Method = ''GET'', aq_Path = ''/api/players/'' @ pid @ ''/matches'', aq_Query = q\<rparr> pid"
proof -
  have "hd pid \<noteq> CHR ''/''" using assms hd_in_set by metis
  then have "trim (\<lambda>c. c = CHR ''/'') (pid @ ''/matches'') = pid @ ''/matches''"
    using assms by (intro trim_id) (auto simp: hd_append)
  moreover have "Split (CHR ''/'') (pid @ ''/matches'') = [pid, ''matches'']"
    using Split_append [OF assms(2), of "''matches''"] by simp
  ultimately show ?thesis
    using assms(1) by (simp add: handlePlayerRoutes_def TrimPrefix_def HasPrefix_def Let_def)
qed

text \<open>
  The pages of a player over HTTP: the client asks for the route of the player, with the
  cursor of the page before.
\<close>

definition matches_request :: "string \<Rightarrow> string \<Rightarrow> string \<Rightarrow> api_request" where
  "matches_request pid limit cursor =
     \<lparr>aq_Method = ''GET'', aq_Path = ''/api/players/'' @ pid @ ''/matches'',
      aq_Query = (\<lambda>k. if k = ''limit'' then limit else if k = ''cursor'' then cursor else [])\<rparr>"

fun http_pages :: "nat \<Rightarrow> (api_request \<Rightarrow> api_response) \<Rightarrow> string \<Rightarrow> string \<Rightarrow> string \<Rightarrow> history_entry list option" where
  "http_pages 0 serve pid limit cursor = None"
| "http_pages (Suc k) serve pid limit cursor =
     (case serve (matches_request pid limit cursor) of
        (_, ApiPage page) \<Rightarrow>
          if \<not> pm_HasMore (hp_Page page) then Some (hp_Matches page)
          else map_option (\<lambda>hs. hp_Matches page @ hs) (http_pages k serve pid limit (pm_NextCursor (hp_Page page)))
      | _ \<Rightarrow> None)"

lemma serve_matches:
  assumes "pid \<noteq> []" "CHR ''/'' \<notin> set pid" "limit_param 20 raw = Some limit"
  shows "handlePlayerRoutes js tx db (matches_request pid raw cursor) =
    (case ListPlayerMatchHistory tx db pid limit cursor of
       Inl e \<Rightarrow> (if contains ''not found'' (err_text js e) then 404
                else if contains ''invalid cursor'' (err_text js e) then 400 else 500, ApiError (err_text js e))
     | Inr page \<Rightarrow> (200, ApiPage page))"
  unfolding matches_request_def player_path [OF assms(1,2)] handlePlayerMatches_def
  using assms(3) by simp

lemma http_pages_eq:
  assumes "pid \<noteq> []" "CHR ''/'' \<notin> set pid" "limit_param 20 raw = Some limit"
  shows "all_pages k tx db pid limit cursor = Some (Inr hs) \<Longrightarrow>
    http_pages k (handlePlayerRoutes js tx db) pid raw cursor = Some hs"
proof (induction k arbitrary: cursor hs)
  case (Suc k)
  obtain page where page: "ListPlayerMatchHistory tx db pid limit cursor = Inr page"
    using Suc.prems by (cases "ListPlayerMatchHistory tx db pid limit cursor") auto
  show ?case
  proof (cases "pm_HasMore (hp_Page page)")
    case True
    with Suc.prems page obtain r where r: "all_pages k tx db pid limit (pm_NextCursor (hp_Page page)) = Some r"
      "(case r of Inl e \<Rightarrow> Inl e | Inr ks \<Rightarrow> Inr (hp_Matches page @ ks)) = Inr hs" by auto
    then obtain ks where "r = Inr ks" "hs = hp_Matches page @ ks" by (cases r) auto
    with r(1) Suc.IH have "http_pages k (handlePlayerRoutes js tx db) pid raw (pm_NextCursor (hp_Page page)) = Some ks"
      by blast
    with True page \<open>hs = _\<close> show ?thesis by (simp add: serve_matches [OF assms])
  next
    case False
    with Suc.prems page show ?thesis by (simp add: serve_matches [OF assms])
  qed
qed simp

text \<open>
  C36: The HTTP pages of a player cover the history. On a database that answers the history
  query as it says, a client that asks \<open>/api/players/<id>/matches\<close> with no limit or any
  positive one, and follows the cursors, is served every match of the player once and in
  order.
\<close>

theorem http_history_covers:
  assumes "codec_ok tx T" "serves_history tx db pid rows" "newest_first rows" "pid \<noteq> []" "CHR ''/'' \<notin> set pid"
    "\<forall>m \<in> set rows. mr_EndTime m \<in> T \<and> mr_EndTime m \<noteq> 0 \<and> mr_MatchID m \<noteq> []"
    "entries_of pid rows = Inr hs" "raw = [] \<or> (\<exists>n. 0 < n \<and> n < 2 ^ 63 \<and> raw = nat_dec n)"
  shows "http_pages (Suc (length rows)) (handlePlayerRoutes js tx db) pid raw [] = Some hs"
proof -
  obtain limit where "limit_param 20 raw = Some limit"
    using assms(8) Atoi_nat_dec by (auto simp: limit_param_def)
  then show ?thesis
    by (rule http_pages_eq [OF assms(4,5)]) (rule pages_of_rest [OF assms(1-4,6), of "[]" rows], simp_all add: assms(7))
qed

lemma http_history_covers_witness:
  "map_option (map he_MatchID) (http_pages 4 (handlePlayerRoutes [] demo_codec demo_db) ''a'' ''2'' []) =
     Some [''m3'', ''m2'', ''m1'']"
proof -
  obtain hs where hs: "entries_of ''a'' demo_rows = Inr hs" "map he_MatchID hs = [''m3'', ''m2'', ''m1'']"
    using demo_history(4) by (elim exE conjE)
  have four: "4 = Suc (length demo_rows)" by (simp add: demo_rows_def)
  have "''2'' = nat_dec 2" by code_simp
  then have two: "''2'' = [] \<or> (\<exists>n. 0 < n \<and> n < 2 ^ 63 \<and> ''2'' = nat_dec n)" by (intro disjI2 exI [of _ 2]) simp
  have "http_pages 4 (handlePlayerRoutes [] demo_codec demo_db) ''a'' ''2'' [] = Some hs"
    unfolding four by (rule http_history_covers [OF demo_codec_ok demo_history(2,3) _ _ demo_history(1) hs(1) two]) simp_all
  with hs(2) show ?thesis by simp
qed

end
