(* ===== verification/Workers.thy ===== *)
theory Workers
  imports Engine_Events Hub
begin

section \<open>Background workers\<close>

text \<open>
  Models the consumer half of \<open>pkg/game/loop.go\<close>: the worker pools that take the events of
  the game engine from the broker. A pool is a dispatcher that moves events from its
  subscription into a queue of jobs, workers that handle them, and a goroutine that closes
  the queue when the context ends. \<open>pool_step\<close> is one move of one of them, \<open>pool_input\<close> one
  of the broker or of whoever cancels the context; both run in any order.
\<close>

subsection \<open>Configuration\<close>

text \<open>Delays are nanoseconds; a consumer works on a world \<open>'w\<close>.\<close>

record 'w worker_config =
  MatchEndedWorkers :: int
  MatchmakingUpdateWorkers :: int
  PlayerNotificationWorkers :: int
  MatchEndedIODelay :: int
  MatchmakingUpdateIODelay :: int
  PlayerNotificationIODelay :: int
  OnMatchEnded :: "(game_payload \<Rightarrow> 'w \<Rightarrow> 'w) option"
  OnMatchmakingUpdate :: "(game_payload \<Rightarrow> 'w \<Rightarrow> 'w) option"
  OnPlayerNotification :: "(game_payload \<Rightarrow> 'w \<Rightarrow> 'w) option"

definition defaultWorkersPerTopic :: int where "defaultWorkersPerTopic = 2"
definition defaultJobQueueSize :: nat where "defaultJobQueueSize = 64"
definition mockMatchEndedIODelay :: int where "mockMatchEndedIODelay = 500000000"
definition mockMatchmakingUpdateIODelay :: int where "mockMatchmakingUpdateIODelay = 200000000"
definition mockPlayerNotificationIODelay :: int where "mockPlayerNotificationIODelay = 100000000"

definition defaultWorkerConfig :: "'w worker_config" where
  "defaultWorkerConfig =
     \<lparr>MatchEndedWorkers = defaultWorkersPerTopic, MatchmakingUpdateWorkers = defaultWorkersPerTopic,
      PlayerNotificationWorkers = defaultWorkersPerTopic, MatchEndedIODelay = mockMatchEndedIODelay,
      MatchmakingUpdateIODelay = mockMatchmakingUpdateIODelay, PlayerNotificationIODelay = mockPlayerNotificationIODelay,
      OnMatchEnded = None, OnMatchmakingUpdate = None, OnPlayerNotification = None\<rparr>"

definition or_default :: "(int \<Rightarrow> bool) \<Rightarrow> int \<Rightarrow> int \<Rightarrow> int" where
  "or_default unset v d = (if unset v then d else v)"

definition withDefaults :: "'w worker_config \<Rightarrow> 'w worker_config" where
  "withDefaults c =
     (let d = (defaultWorkerConfig :: 'w worker_config) in
      c\<lparr>MatchEndedWorkers := or_default (\<lambda>n. n = 0) (MatchEndedWorkers c) (MatchEndedWorkers d),
        MatchmakingUpdateWorkers := or_default (\<lambda>n. n = 0) (MatchmakingUpdateWorkers c) (MatchmakingUpdateWorkers d),
        PlayerNotificationWorkers := or_default (\<lambda>n. n = 0) (PlayerNotificationWorkers c) (PlayerNotificationWorkers d),
        MatchEndedIODelay := or_default (\<lambda>n. n \<le> 0) (MatchEndedIODelay c) (MatchEndedIODelay d),
        MatchmakingUpdateIODelay := or_default (\<lambda>n. n \<le> 0) (MatchmakingUpdateIODelay c) (MatchmakingUpdateIODelay d),
        PlayerNotificationIODelay := or_default (\<lambda>n. n \<le> 0) (PlayerNotificationIODelay c) (PlayerNotificationIODelay d)\<rparr>)"

subsection \<open>Consumers\<close>

text \<open>
  What a handler does with an event: it drops a payload of another type, calls its
  consumer, or sleeps.
\<close>

datatype 'w handled = Unexpected | Consumed 'w | Slept int

fun processMatchEnded :: "'w worker_config \<Rightarrow> game_payload \<Rightarrow> 'w \<Rightarrow> 'w handled" where
  "processMatchEnded cfg (MatchEndedPayload sid oc ps so) w =
     (case OnMatchEnded cfg of
        Some f \<Rightarrow> Consumed (f (MatchEndedPayload sid oc ps so) w)
      | None \<Rightarrow> Slept (MatchEndedIODelay cfg))"
| "processMatchEnded cfg p w = Unexpected"

fun processMatchmakingUpdate :: "'w worker_config \<Rightarrow> game_payload \<Rightarrow> 'w \<Rightarrow> 'w handled" where
  "processMatchmakingUpdate cfg (MatchmakingUpdatePayload sid st ps cur) w =
     (case OnMatchmakingUpdate cfg of
        Some f \<Rightarrow> Consumed (f (MatchmakingUpdatePayload sid st ps cur) w)
      | None \<Rightarrow> Slept (MatchmakingUpdateIODelay cfg))"
| "processMatchmakingUpdate cfg p w = Unexpected"

fun processPlayerNotification :: "'w worker_config \<Rightarrow> game_payload \<Rightarrow> 'w \<Rightarrow> 'w handled" where
  "processPlayerNotification cfg (PlayerNotificationPayload sid pid kind msg) w =
     (case OnPlayerNotification cfg of
        Some f \<Rightarrow> Consumed (f (PlayerNotificationPayload sid pid kind msg) w)
      | None \<Rightarrow> Slept (PlayerNotificationIODelay cfg))"
| "processPlayerNotification cfg p w = Unexpected"

subsection \<open>A pool\<close>

datatype 'e worker = Idle | Busy 'e | Returned

text \<open>
  \<open>wp_holding\<close> is the event the dispatcher has taken and not yet queued; \<open>wp_delivered\<close>,
  \<open>wp_started\<close> only record what the broker put in and what a worker began to handle.
\<close>

record 'e pool =
  wp_events :: "'e channel"
  wp_jobs :: "'e channel"
  wp_holding :: "'e option"
  wp_stopped :: bool
  wp_workers :: "'e worker list"
  wp_done :: bool
  wp_crashed :: "go_error option"
  wp_delivered :: "'e list"
  wp_started :: "'e list"

definition start_pool :: "'e channel \<Rightarrow> int \<Rightarrow> 'e pool" where
  "start_pool events n =
     \<lparr>wp_events = events, wp_jobs = new_channel defaultJobQueueSize, wp_holding = None, wp_stopped = False,
      wp_workers = replicate (nat n) Idle, wp_done = False, wp_crashed = None,
      wp_delivered = ch_buf events, wp_started = []\<rparr>"

definition startTopicWorkerPool ::
  "(topic \<Rightarrow> 'w \<Rightarrow> 'e channel result \<times> 'w) \<Rightarrow> topic \<Rightarrow> int \<Rightarrow> 'w \<Rightarrow> 'e pool result \<times> 'w" where
  "startTopicWorkerPool subscribe topic workers w =
     (case subscribe topic w of
        (Inl e, w1) \<Rightarrow> (Inl e, w1)
      | (Inr events, w1) \<Rightarrow> (Inr (start_pool events workers), w1))"

fun start_pools ::
  "(topic \<Rightarrow> 'w \<Rightarrow> 'e channel result \<times> 'w) \<Rightarrow> (topic \<times> string \<times> int) list \<Rightarrow> 'w \<Rightarrow> (go_error option \<times> 'e pool list) \<times> 'w" where
  "start_pools subscribe [] w = ((None, []), w)"
| "start_pools subscribe ((t, name, n) # ts) w =
     (case startTopicWorkerPool subscribe t n w of
        (Inl e, w1) \<Rightarrow> ((Some (Wrapf (''start '' @ name @ '' workers: '') e), []), w1)
      | (Inr p, w1) \<Rightarrow> (case start_pools subscribe ts w1 of ((e, ps), w2) \<Rightarrow> ((e, p # ps), w2)))"

definition StartBackgroundWorkersWithConfig ::
  "(topic \<Rightarrow> 'w \<Rightarrow> 'e channel result \<times> 'w) option \<Rightarrow> 'v worker_config \<Rightarrow> 'w \<Rightarrow> (go_error option \<times> 'e pool list) \<times> 'w" where
  "StartBackgroundWorkersWithConfig broker cfg0 w =
     (case broker of
        None \<Rightarrow> ((Some (Errorf ''broker is required''), []), w)
      | Some subscribe \<Rightarrow>
          let cfg = withDefaults cfg0 in
          start_pools subscribe
            [(TopicMatchEnded, ''match.ended'', MatchEndedWorkers cfg),
             (TopicMatchmakingUpdate, ''matchmaking.update'', MatchmakingUpdateWorkers cfg),
             (TopicPlayerNotification, ''player.notification'', PlayerNotificationWorkers cfg)] w)"

definition StartBackgroundWorkers ::
  "(topic \<Rightarrow> 'w \<Rightarrow> 'e channel result \<times> 'w) option \<Rightarrow> 'w \<Rightarrow> (go_error option \<times> 'e pool list) \<times> 'w" where
  "StartBackgroundWorkers broker w = StartBackgroundWorkersWithConfig broker
     (\<lparr>MatchEndedWorkers = 0, MatchmakingUpdateWorkers = 0, PlayerNotificationWorkers = 0, MatchEndedIODelay = 0,
       MatchmakingUpdateIODelay = 0, PlayerNotificationIODelay = 0, OnMatchEnded = None, OnMatchmakingUpdate = None,
       OnPlayerNotification = None\<rparr> :: unit worker_config) w"

subsection \<open>Moves of a pool\<close>

inductive pool_step :: "'e pool \<Rightarrow> 'e pool \<Rightarrow> bool" where
  dispatcher_takes:
    "wp_crashed p = None \<Longrightarrow> \<not> wp_stopped p \<Longrightarrow> wp_holding p = None \<Longrightarrow> ch_buf (wp_events p) = e # es \<Longrightarrow>
     pool_step p (p\<lparr>wp_events := (wp_events p)\<lparr>ch_buf := es\<rparr>, wp_holding := Some e\<rparr>)"
| dispatcher_queues:
    "wp_crashed p = None \<Longrightarrow> \<not> wp_stopped p \<Longrightarrow> wp_holding p = Some e \<Longrightarrow> chan_send e (wp_jobs p) = Some (Inr jobs) \<Longrightarrow>
     pool_step p (p\<lparr>wp_jobs := jobs, wp_holding := None\<rparr>)"
| dispatcher_panics:
    "wp_crashed p = None \<Longrightarrow> \<not> wp_stopped p \<Longrightarrow> wp_holding p = Some e \<Longrightarrow> chan_send e (wp_jobs p) = Some (Inl x) \<Longrightarrow>
     pool_step p (p\<lparr>wp_crashed := Some x\<rparr>)"
| dispatcher_cancelled:
    "wp_crashed p = None \<Longrightarrow> \<not> wp_stopped p \<Longrightarrow> wp_done p \<Longrightarrow> pool_step p (p\<lparr>wp_stopped := True\<rparr>)"
| events_closed:
    "wp_crashed p = None \<Longrightarrow> \<not> wp_stopped p \<Longrightarrow> wp_holding p = None \<Longrightarrow> ch_buf (wp_events p) = [] \<Longrightarrow>
     ch_closed (wp_events p) \<Longrightarrow> pool_step p (p\<lparr>wp_stopped := True\<rparr>)"
| jobs_closed:
    "wp_crashed p = None \<Longrightarrow> wp_done p \<Longrightarrow> chan_close (wp_jobs p) = Inr jobs \<Longrightarrow> pool_step p (p\<lparr>wp_jobs := jobs\<rparr>)"
| worker_starts:
    "wp_crashed p = None \<Longrightarrow> i < length (wp_workers p) \<Longrightarrow> wp_workers p ! i = Idle \<Longrightarrow> ch_buf (wp_jobs p) = e # es \<Longrightarrow>
     pool_step p (p\<lparr>wp_jobs := (wp_jobs p)\<lparr>ch_buf := es\<rparr>, wp_workers := (wp_workers p)[i := Busy e],
       wp_started := wp_started p @ [e]\<rparr>)"
| worker_finishes:
    "wp_crashed p = None \<Longrightarrow> i < length (wp_workers p) \<Longrightarrow> wp_workers p ! i = Busy e \<Longrightarrow>
     pool_step p (p\<lparr>wp_workers := (wp_workers p)[i := Idle]\<rparr>)"
| worker_returns:
    "wp_crashed p = None \<Longrightarrow> i < length (wp_workers p) \<Longrightarrow> wp_workers p ! i = Idle \<Longrightarrow>
     wp_done p \<or> ch_buf (wp_jobs p) = [] \<and> ch_closed (wp_jobs p) \<Longrightarrow>
     pool_step p (p\<lparr>wp_workers := (wp_workers p)[i := Returned]\<rparr>)"

inductive pool_input :: "'e pool \<Rightarrow> 'e pool \<Rightarrow> bool" where
  broker_sends:
    "chan_send e (wp_events p) = Some (Inr c) \<Longrightarrow>
     pool_input p (p\<lparr>wp_events := c, wp_delivered := wp_delivered p @ [e]\<rparr>)"
| broker_closes: "chan_close (wp_events p) = Inr c \<Longrightarrow> pool_input p (p\<lparr>wp_events := c\<rparr>)"
| cancelled: "pool_input p (p\<lparr>wp_done := True\<rparr>)"

inductive pool_reach :: "'e channel \<Rightarrow> int \<Rightarrow> 'e pool \<Rightarrow> bool" for events n where
  pool_starts: "pool_reach events n (start_pool events n)"
| pool_moves: "pool_reach events n p \<Longrightarrow> pool_step p q \<or> pool_input p q \<Longrightarrow> pool_reach events n q"

inductive_cases pool_stepE: "pool_step p q"
inductive_cases pool_inputE: "pool_input p q"

subsection \<open>What a pool keeps\<close>

text \<open>
  Every delivered event is, in order, started, queued, held or still in the subscription.
  The queue is closed only after the context has ended, and only then can anything crash.
\<close>

definition in_flight :: "'e pool \<Rightarrow> 'e list" where
  "in_flight p = ch_buf (wp_jobs p) @ (case wp_holding p of None \<Rightarrow> [] | Some e \<Rightarrow> [e]) @ ch_buf (wp_events p)"

definition pool_ok :: "int \<Rightarrow> 'e pool \<Rightarrow> bool" where
  "pool_ok n p \<longleftrightarrow>
     wp_delivered p = wp_started p @ in_flight p \<and> length (wp_workers p) = nat n \<and>
     ch_cap (wp_jobs p) = defaultJobQueueSize \<and> length (ch_buf (wp_jobs p)) \<le> defaultJobQueueSize \<and>
     (ch_closed (wp_jobs p) \<longrightarrow> wp_done p) \<and> (wp_crashed p \<noteq> None \<longrightarrow> wp_done p) \<and>
     (Returned \<in> set (wp_workers p) \<longrightarrow> wp_done p) \<and>
     (\<not> wp_done p \<longrightarrow> wp_stopped p \<longrightarrow> wp_holding p = None \<and> ch_buf (wp_events p) = [] \<and> ch_closed (wp_events p))"

lemma start_pool_ok: "pool_ok n (start_pool events n)"
  by (simp add: pool_ok_def start_pool_def in_flight_def new_channel_def)

lemma pool_step_ok:
  assumes "pool_step p q" "pool_ok n p"
  shows "pool_ok n q"
  using assms
  by (cases rule: pool_step.cases)
    (auto simp: pool_ok_def in_flight_def chan_send_def chan_close_def split: if_splits dest!: in_set_update)

lemma pool_input_ok:
  assumes "pool_input p q" "pool_ok n p"
  shows "pool_ok n q"
  using assms
  by (cases rule: pool_input.cases)
    (auto simp: pool_ok_def in_flight_def chan_send_def chan_close_def split: if_splits option.splits)

lemma pool_reach_ok: "pool_reach events n p \<Longrightarrow> pool_ok n p"
  by (induction rule: pool_reach.induct) (auto simp: start_pool_ok pool_step_ok pool_input_ok)

text \<open>The work left, for the end of a run without input.\<close>

fun effort :: "'e worker \<Rightarrow> nat" where
  "effort Idle = 1"
| "effort (Busy e) = 2"
| "effort Returned = 0"

definition work_left :: "'e pool \<Rightarrow> nat" where
  "work_left p = 4 * length (ch_buf (wp_events p)) + (if wp_holding p = None then 0 else 3) + 2 * length (ch_buf (wp_jobs p))
     + sum_list (map effort (wp_workers p))
     + of_bool (\<not> wp_stopped p) + of_bool (\<not> ch_closed (wp_jobs p)) + of_bool (wp_crashed p = None)"

lemma effort_update:
  "i < length ws \<Longrightarrow> sum_list (map effort (ws[i := w])) + effort (ws ! i) = sum_list (map effort ws) + effort w"
proof (induction ws arbitrary: i)
  case (Cons x ws)
  then show ?case by (cases i) simp_all
qed simp

lemma work_shrinks:
  assumes "pool_step p q"
  shows "work_left q < work_left p"
  using assms
proof (cases rule: pool_step.cases)
  case (worker_starts i e es)
  with effort_update [of i "wp_workers p" "Busy e"] show ?thesis by (simp add: work_left_def)
next
  case (worker_finishes i e)
  with effort_update [of i "wp_workers p" Idle] show ?thesis by (simp add: work_left_def)
next
  case (worker_returns i)
  with effort_update [of i "wp_workers p" Returned] show ?thesis by (simp add: work_left_def)
qed (auto simp: work_left_def chan_send_def chan_close_def split: if_splits)

lemma idle_pool_is_drained:
  assumes ok: "pool_ok n p" and live: "\<not> wp_done p" "0 < n" and idle: "\<And>q. \<not> pool_step p q"
  shows "wp_started p = wp_delivered p"
proof -
  have c: "wp_crashed p = None" "\<not> ch_closed (wp_jobs p)" "Returned \<notin> set (wp_workers p)"
    using ok live by (auto simp: pool_ok_def)
  have n: "0 < length (wp_workers p)" using ok live(2) by (simp add: pool_ok_def)
  have w: "wp_workers p ! 0 = Idle"
    using c n idle worker_finishes [of p 0] nth_mem [OF n] by (cases "wp_workers p ! 0") auto
  have jobs: "ch_buf (wp_jobs p) = []"
    using idle worker_starts [OF c(1) n w] by (cases "ch_buf (wp_jobs p)") auto
  have "wp_holding p = None \<and> ch_buf (wp_events p) = []"
  proof (cases "wp_stopped p")
    case True
    with ok live show ?thesis by (simp add: pool_ok_def)
  next
    case False
    have hold: "wp_holding p = None"
    proof (rule ccontr)
      assume "wp_holding p \<noteq> None"
      then obtain e where e: "wp_holding p = Some e" by blast
      have "chan_send e (wp_jobs p) = Some (Inr ((wp_jobs p)\<lparr>ch_buf := [e]\<rparr>))"
        using ok c(2) jobs by (simp add: chan_send_def pool_ok_def defaultJobQueueSize_def)
      from idle dispatcher_queues [OF c(1) False e this] show False by blast
    qed
    moreover have "ch_buf (wp_events p) = []"
      using idle dispatcher_takes [OF c(1) False hold] by (cases "ch_buf (wp_events p)") auto
    ultimately show ?thesis by blast
  qed
  with jobs ok show ?thesis by (simp add: pool_ok_def in_flight_def)
qed

lemma pool_terminates: "wfp (\<lambda>q p. pool_step p q)"
  by (rule wfp_if_convertible_to_nat [of _ work_left]) (rule work_shrinks)

text \<open>
  C39: A worker pool handles every event exactly once, in order. In every interleaving of
  broker, dispatcher, workers and shutdown, what was delivered is what workers started, in
  that order, followed by what is in flight; only a shutdown can make the pool panic; the
  pool cannot run for ever on a finite input; and when it comes to rest before a shutdown,
  with at least one worker, nothing is left.
\<close>

theorem pool_handles_each_once:
  assumes "pool_reach events n p"
  shows "wp_delivered p = wp_started p @ in_flight p
    \<and> (wp_crashed p \<noteq> None \<longrightarrow> wp_done p)
    \<and> wfp (\<lambda>b a :: 'e pool. pool_step a b)
    \<and> (\<not> wp_done p \<and> 0 < n \<and> (\<forall>q. \<not> pool_step p q) \<longrightarrow> wp_started p = wp_delivered p)"
  using pool_reach_ok [OF assms] idle_pool_is_drained [OF pool_reach_ok [OF assms]] pool_terminates
  by (auto simp: pool_ok_def)

text \<open>A pool of one worker and an event: taken, and then the context ends.\<close>

definition one_event :: "nat channel" where
  "one_event = \<lparr>ch_buf = [7], ch_cap = 64, ch_closed = False\<rparr>"

definition taken_pool :: "nat pool" where
  "taken_pool = (start_pool one_event 1)\<lparr>wp_events := one_event\<lparr>ch_buf := []\<rparr>, wp_holding := Some 7\<rparr>"

lemma taken_reached: "pool_reach one_event 1 taken_pool"
proof -
  have "pool_step (start_pool one_event 1) taken_pool"
    using dispatcher_takes [of "start_pool one_event 1" 7 "[]"] by (simp add: taken_pool_def start_pool_def one_event_def)
  then show ?thesis using pool_starts pool_moves by blast
qed

lemma pool_handles_each_once_witness:
  "wp_delivered taken_pool = [7] \<and> wp_delivered taken_pool = wp_started taken_pool @ in_flight taken_pool"
proof
  show "wp_delivered taken_pool = [7]" by (simp add: taken_pool_def start_pool_def one_event_def)
  show "wp_delivered taken_pool = wp_started taken_pool @ in_flight taken_pool"
    by (rule conjunct1 [OF pool_handles_each_once [OF taken_reached]])
qed

text \<open>
  The queue of jobs is closed when the context ends, while the dispatcher may still hold an
  event: the send then panics, and the panic ends the server in the middle of its shutdown.
\<close>

lemma shutdown_panics: "\<exists>p. pool_reach one_event 1 p \<and> wp_crashed p = Some (GoPanic ''send on closed channel'')"
proof -
  let ?p = "taken_pool\<lparr>wp_done := True\<rparr>"
  let ?q = "?p\<lparr>wp_jobs := (wp_jobs ?p)\<lparr>ch_closed := True\<rparr>\<rparr>"
  have p: "pool_reach one_event 1 ?p" using pool_moves [OF taken_reached] cancelled by blast
  have "pool_step ?p ?q"
    by (rule jobs_closed) (simp_all add: taken_pool_def start_pool_def chan_close_def new_channel_def)
  then have q: "pool_reach one_event 1 ?q" using pool_moves [OF p] by blast
  have "pool_step ?q (?q\<lparr>wp_crashed := Some (GoPanic ''send on closed channel'')\<rparr>)"
    by (rule dispatcher_panics [where e = 7]) (simp_all add: taken_pool_def start_pool_def chan_send_def)
  then have "pool_reach one_event 1 (?q\<lparr>wp_crashed := Some (GoPanic ''send on closed channel'')\<rparr>)"
    using pool_moves [OF q] by blast
  then show ?thesis by force
qed

text \<open>A negative number of workers is no default and starts none: nothing is ever handled.\<close>

lemma negative_workers_handle_nothing:
  "withDefaults (c\<lparr>MatchEndedWorkers := - 1\<rparr>) = (withDefaults c)\<lparr>MatchEndedWorkers := - 1\<rparr>"
  "wp_workers (start_pool events (- 1)) = []"
  by (simp_all add: withDefaults_def Let_def or_default_def start_pool_def)

subsection \<open>The end of a match\<close>

text \<open>
  The server's consumer of \<open>match.ended\<close> hands the match over to the hub. \<open>consume\<close> runs the
  handler over the events of a topic.
\<close>

fun on_match_ended :: "int \<Rightarrow> game_payload \<Rightarrow> hub \<Rightarrow> hub" where
  "on_match_ended now (MatchEndedPayload sid oc ps so) h =
     (case so of None \<Rightarrow> h | Some s \<Rightarrow> TerminateMatch now sid (Some oc) (Some s) h)"
| "on_match_ended now p h = h"

definition server_workers :: "int \<Rightarrow> hub worker_config" where
  "server_workers now = withDefaults
     \<lparr>MatchEndedWorkers = 0, MatchmakingUpdateWorkers = 0, PlayerNotificationWorkers = 0, MatchEndedIODelay = 0,
      MatchmakingUpdateIODelay = 0, PlayerNotificationIODelay = 0, OnMatchEnded = Some (on_match_ended now),
      OnMatchmakingUpdate = None, OnPlayerNotification = None\<rparr>"

definition consume :: "'w worker_config \<Rightarrow> game_event list \<Rightarrow> 'w \<Rightarrow> 'w" where
  "consume cfg evs w = fold (\<lambda>e w. case processMatchEnded cfg (game_event.Payload e) w of Consumed w1 \<Rightarrow> w1 | _ \<Rightarrow> w) evs w"

lemma ended_match_is_terminated:
  assumes "Outcome r = Some oc"
  shows "consume (server_workers now) (filter (\<lambda>e. Topic e = TopicMatchEnded) (snd (Tick log_publisher s (Some r) []))) h =
    (if MatchEnded r then TerminateMatch now (SessionID s) (Some oc) (Some s) h else h)"
proof (cases "MatchEnded r")
  case True
  show ?thesis unfolding Tick_log_ended [OF assms True]
    by (simp add: True consume_def server_workers_def withDefaults_def Let_def)
next
  case False
  then show ?thesis using Tick_log_running [of "Some r" s] by (simp add: consume_def)
qed

end
