(* ===== verification/Breaker.thy ===== *)
theory Breaker
  imports Rating
begin

section \<open>Circuit breakers and the end of the workers\<close>

text \<open>
  Models \<open>pkg/resilience/circuitbreaker.go\<close>, the gauges of \<open>cmd/server/main.go\<close> that show a
  breaker, and how the ledger worker stops. The breaker itself is the package gobreaker:
  its state and its \<open>Execute\<close> are arguments.
\<close>

subsection \<open>States\<close>

text \<open>The states of gobreaker; its type is an integer, so there can be others.\<close>

datatype breaker_state = CbClosed | CbHalfOpen | CbOpen | CbOther

type_synonym state = int

definition StateClosed :: state where "StateClosed = 0"
definition StateOpen :: state where "StateOpen = 1"
definition StateHalfOpen :: state where "StateHalfOpen = 2"

lemmas state_defs = StateClosed_def StateOpen_def StateHalfOpen_def

definition state_string :: "state \<Rightarrow> string" where
  "state_string s =
     (if s = StateClosed then ''closed'' else if s = StateOpen then ''open''
      else if s = StateHalfOpen then ''half-open'' else ''unknown'')"

definition Breaker_State :: "breaker_state \<Rightarrow> state" where
  "Breaker_State s = (case s of CbOpen \<Rightarrow> StateOpen | CbHalfOpen \<Rightarrow> StateHalfOpen | _ \<Rightarrow> StateClosed)"

definition resilienceStateToMetric :: "state \<Rightarrow> int" where
  "resilienceStateToMetric s =
     (if s = StateClosed then 0 else if s = StateHalfOpen then 1 else if s = StateOpen then 2 else - 1)"

definition gobreakerStateToMetric :: "breaker_state \<Rightarrow> int" where
  "gobreakerStateToMetric s = (case s of CbClosed \<Rightarrow> 0 | CbHalfOpen \<Rightarrow> 1 | CbOpen \<Rightarrow> 2 | CbOther \<Rightarrow> - 1)"

text \<open>Durations are nanoseconds; \<open>ReadyToTrip\<close> looks at the consecutive failures.\<close>

record breaker_config =
  bc_Name :: string
  bc_MaxRequests :: nat
  bc_Interval :: int
  bc_Timeout :: int
  bc_ReadyToTrip :: "nat \<Rightarrow> bool"

definition DefaultBreakerConfig :: "string \<Rightarrow> breaker_config" where
  "DefaultBreakerConfig name =
     \<lparr>bc_Name = name, bc_MaxRequests = 3, bc_Interval = 30000000000, bc_Timeout = 15000000000,
      bc_ReadyToTrip = (\<lambda>failures. failures \<ge> 5)\<rparr>"

text \<open>\<open>newBreakerWithMetrics\<close>: the configuration, and the gauge a change of state and the start set.\<close>

definition newBreakerWithMetrics :: "string \<Rightarrow> breaker_state \<Rightarrow> breaker_config \<times> (breaker_state \<Rightarrow> int) \<times> int" where
  "newBreakerWithMetrics name initial =
     (DefaultBreakerConfig name, gobreakerStateToMetric, resilienceStateToMetric (Breaker_State initial))"

text \<open>\<open>Run\<close> over \<open>Execute\<close>.\<close>

definition Run :: "(('w, go_error option) action \<Rightarrow> ('w, go_error option) action) \<Rightarrow> ('w, go_error option) action \<Rightarrow> ('w, go_error option) action" where
  "Run execute fn = execute fn"

definition BreakerState :: "breaker_state option \<Rightarrow> state" where
  "BreakerState b = (case b of None \<Rightarrow> StateClosed | Some s \<Rightarrow> Breaker_State s)"

definition IsTransient :: "go_error option \<Rightarrow> bool" where
  "IsTransient err = (case err of None \<Rightarrow> False | Some e \<Rightarrow> \<not> (errors_is e Canceled \<or> errors_is e DeadlineExceeded))"

text \<open>
  The two ways to set the gauge agree on the three states of gobreaker, and the gauge tells
  them apart.
\<close>

lemma gauges_agree:
  assumes "s \<noteq> CbOther" "s' \<noteq> CbOther"
  shows "resilienceStateToMetric (Breaker_State s) = gobreakerStateToMetric s"
    "resilienceStateToMetric (Breaker_State s) = resilienceStateToMetric (Breaker_State s') \<Longrightarrow> s = s'"
  using assms
  by (cases s; cases s'; simp add: resilienceStateToMetric_def Breaker_State_def gobreakerStateToMetric_def state_defs)+

lemma deadline_is_not_transient: "\<not> IsTransient (Some (Wrapf p (Wrapf q DeadlineExceeded)))"
  by (simp add: IsTransient_def DeadlineExceeded_def Canceled_def)

subsection \<open>Stopping the ledger worker\<close>

text \<open>
  The queue of the worker is a channel that \<open>Stop\<close> closes. A send on it panics from then
  on, although it is a \<open>select\<close> with a default; what was queued is still worked off.
\<close>

record ('m, 'w) ledger_queue =
  lq_worker :: "('m, 'w) ledger_worker"
  lq_closed :: bool

definition worker_SpoolLen :: "('m, 'w) ledger_worker \<Rightarrow> nat" where
  "worker_SpoolLen l = (case lw_spool l of None \<Rightarrow> 0 | Some s \<Rightarrow> SpoolLen s)"

definition Stop :: "('m, 'w) ledger_queue \<Rightarrow> ('m, 'w) ledger_queue result" where
  "Stop q = (if lq_closed q then Inl (GoPanic ''close of closed channel'') else Inr (q\<lparr>lq_closed := True\<rparr>))"

definition enqueue_job :: "'m \<Rightarrow> ('m, 'w) ledger_queue \<Rightarrow> ('m, 'w) ledger_queue result" where
  "enqueue_job r q =
     (if lq_closed q then Inl (GoPanic ''send on closed channel'') else Inr (q\<lparr>lq_worker := Enqueue r (lq_worker q)\<rparr>))"

text \<open>One turn of \<open>Run\<close>: \<open>None\<close> when the loop ends.\<close>

definition run_turn :: "('m, 'w) ledger_env \<Rightarrow> ('m, 'w) ledger_queue \<Rightarrow> ('m, 'w) ledger_queue option" where
  "run_turn env q =
     (if lw_jobs (lq_worker q) = [] \<and> lq_closed q then None
      else Some (q\<lparr>lq_worker := run_step env (lq_worker q)\<rparr>))"

text \<open>
  \<open>main\<close> stops the ledger worker right after it cancels the event workers, without waiting
  for them: one that is still ending a match records it in the ledger and panics.
\<close>

lemma record_after_stop_panics:
  "Stop q = Inr q1 \<Longrightarrow> enqueue_job r q1 = Inl (GoPanic ''send on closed channel'')"
  by (auto simp: Stop_def enqueue_job_def split: if_splits)

end
