(* ===== verification/Match_End.thy ===== *)
theory Match_End
  imports Workers Breaker Stats
begin

section \<open>From the end of a match to its history\<close>

text \<open>
  The components at the end of a match put together: the turn result goes through the
  events of the game engine and a worker to the hub (\<open>pkg/ws/hub.go\<close>), which makes a
  record of it for the ledger worker (\<open>pkg/engine/ledger_worker.go\<close>); the statistics
  queries read the record back.
\<close>

subsection \<open>The record of a match\<close>








subsection \<open>The hub and the workers\<close>







end
