(* ===== verification/Limiter.thy ===== *)
theory Limiter
  imports Channels
begin

section \<open>The edge of the server\<close>

text \<open>
  Models \<open>pkg/telemetry/ratelimit.go\<close> and the trace middleware of \<open>logger.go\<close>. Times are
  nanoseconds; tokens are rationals and arithmetic is exact. Each operation reads the
  clock inside its lock section, so in a run of them the times do not decrease.
\<close>

subsection \<open>Token buckets\<close>

record client_bucket =
  tokens :: rat
  lastSeen :: int

record limiter =
  clients :: "(string \<times> client_bucket) list"
  refillRate :: rat
  maxTokens :: rat
  ttl :: int

definition seconds :: "int \<Rightarrow> rat" where
  "seconds ns = of_int ns / 1000000000"

definition NewTokenBucketLimiter :: "rat \<Rightarrow> rat \<Rightarrow> int \<Rightarrow> limiter" where
  "NewTokenBucketLimiter rate burst keep =
     \<lparr>clients = [], refillRate = rate, maxTokens = burst, ttl = keep\<rparr>"

definition refilled :: "limiter \<Rightarrow> int \<Rightarrow> client_bucket \<Rightarrow> rat" where
  "refilled l now b =
     (let n = tokens b + seconds (now - lastSeen b) * refillRate l in if n > maxTokens l then maxTokens l else n)"

definition Allow :: "int \<Rightarrow> string \<Rightarrow> limiter \<Rightarrow> bool \<times> limiter" where
  "Allow now ip l =
     (case map_of (clients l) ip of
        None \<Rightarrow> (True, l\<lparr>clients := map_put ip \<lparr>tokens = maxTokens l - 1, lastSeen = now\<rparr> (clients l)\<rparr>)
      | Some b \<Rightarrow>
          let n = refilled l now b in
          if n \<ge> 1 then (True, l\<lparr>clients := map_put ip \<lparr>tokens = n - 1, lastSeen = now\<rparr> (clients l)\<rparr>)
          else (False, l\<lparr>clients := map_put ip \<lparr>tokens = n, lastSeen = now\<rparr> (clients l)\<rparr>))"

text \<open>One tick of the janitor.\<close>

definition sweep :: "int \<Rightarrow> limiter \<Rightarrow> limiter" where
  "sweep now l = l\<lparr>clients := filter (\<lambda>(_, b). \<not> now - lastSeen b > ttl l) (clients l)\<rparr>"

subsection \<open>Middleware\<close>

text \<open>
  \<open>net.SplitHostPort\<close>: the host before the last colon, or between brackets; \<open>None\<close> is its
  error.
\<close>

definition before_last :: "char \<Rightarrow> string \<Rightarrow> string \<times> string" where
  "before_last c s =
     (let r = takeWhile (\<lambda>d. d \<noteq> c) (rev s) in (take (length s - length r - 1) s, rev r))"

definition SplitHostPort :: "string \<Rightarrow> (string \<times> string) option" where
  "SplitHostPort s =
     (if CHR '':'' \<notin> set s then None
      else case before_last (CHR '':'') s of (h, port) \<Rightarrow>
        if hd s = CHR ''['' then
          (if CHR '']'' \<notin> set s then None
           else
             let host = takeWhile (\<lambda>d. d \<noteq> CHR '']'') (tl s) in
             if h \<noteq> CHR ''['' # host @ '']'' then None
             else if CHR ''['' \<in> set (tl s) \<or> CHR '']'' \<in> set port then None
             else Some (host, port))
        else if CHR '':'' \<in> set h then None
        else if CHR ''['' \<in> set s \<or> CHR '']'' \<in> set s then None
        else Some (h, port))"

definition client_ip :: "string \<Rightarrow> string" where
  "client_ip addr = (case SplitHostPort addr of None \<Rightarrow> addr | Some (h, _) \<Rightarrow> h)"

datatype 'r limited = TooManyRequests | Served 'r

definition RateLimitMiddleware ::
  "('w \<Rightarrow> 'r \<times> 'w) \<Rightarrow> int \<Rightarrow> string \<Rightarrow> limiter \<times> 'w \<Rightarrow> 'r limited \<times> limiter \<times> 'w" where
  "RateLimitMiddleware next now addr st =
     (case st of (l, w) \<Rightarrow>
      (case Allow now (client_ip addr) l of
         (False, l1) \<Rightarrow> (TooManyRequests, l1, w)
       | (True, l1) \<Rightarrow> (case next w of (r, w1) \<Rightarrow> (Served r, l1, w1))))"

text \<open>\<open>newTraceID\<close>, of the 16 random bytes or the error of the random source.\<close>

definition hex_byte :: "nat \<Rightarrow> string" where
  "hex_byte b = [''0123456789abcdef'' ! (b div 16), ''0123456789abcdef'' ! (b mod 16)]"

definition newTraceID :: "nat list option \<Rightarrow> string" where
  "newTraceID bytes = (case bytes of None \<Rightarrow> ''unknown'' | Some bs \<Rightarrow> concat (map hex_byte bs))"

text \<open>The trace ID of a request: the header, or a generated one; it is sent back and passed on.\<close>

definition TraceMiddleware :: "(string \<Rightarrow> 'w \<Rightarrow> 'r \<times> 'w) \<Rightarrow> nat list option \<Rightarrow> string \<Rightarrow> 'w \<Rightarrow> (string \<times> 'r) \<times> 'w" where
  "TraceMiddleware next bytes header w =
     (let traceID = (if header = [] then newTraceID bytes else header) in
      case next traceID w of (r, w1) \<Rightarrow> ((traceID, r), w1))"

subsection \<open>Runs\<close>

text \<open>
  A run is a list of requests and ticks of the janitor, each at its time. \<open>admitted ip\<close>
  counts the requests of one address that were let through.
\<close>

datatype edge_event = Request string int | Sweep int

fun at_time :: "edge_event \<Rightarrow> int" where
  "at_time (Request ip now) = now"
| "at_time (Sweep now) = now"

fun edge_step :: "string \<Rightarrow> edge_event \<Rightarrow> limiter \<Rightarrow> bool \<times> limiter" where
  "edge_step ip (Request a now) l = (case Allow now a l of (ok, l1) \<Rightarrow> (ok \<and> a = ip, l1))"
| "edge_step ip (Sweep now) l = (False, sweep now l)"

fun count_run :: "('e \<Rightarrow> 's \<Rightarrow> bool \<times> 's) \<Rightarrow> 'e list \<Rightarrow> 's \<Rightarrow> nat \<times> 's" where
  "count_run step [] s = (0, s)"
| "count_run step (e # es) s =
     (case step e s of (counted, s1) \<Rightarrow>
      (case count_run step es s1 of (n, s2) \<Rightarrow> (of_bool counted + n, s2)))"

lemma count_run_Cons [simp]:
  "fst (count_run step (e # es) s) = of_bool (fst (step e s)) + fst (count_run step es (snd (step e s)))"
  "snd (count_run step (e # es) s) = snd (count_run step es (snd (step e s)))"
  by (simp_all add: case_prod_unfold)

declare count_run.simps(2) [simp del]

lemma count_run_append:
  "fst (count_run step (es @ fs) s) = fst (count_run step es s) + fst (count_run step fs (snd (count_run step es s)))"
  "snd (count_run step (es @ fs) s) = snd (count_run step fs (snd (count_run step es s)))"
  by (induction es arbitrary: s) simp_all

definition admitted :: "string \<Rightarrow> edge_event list \<Rightarrow> limiter \<Rightarrow> nat" where
  "admitted ip es l = fst (count_run (edge_step ip) es l)"

definition after_events :: "edge_event list \<Rightarrow> limiter \<Rightarrow> limiter" where
  "after_events es l = snd (count_run (edge_step []) es l)"

subsection \<open>A budget bounds what is admitted\<close>

text \<open>
  The interface of a metered service: its state has a budget that is never negative, that
  time raises at a rate and that pays for each counted step.
\<close>

locale metered =
  fixes step :: "'e \<Rightarrow> 's \<Rightarrow> bool \<times> 's"
    and clock :: "'e \<Rightarrow> int"
    and inv :: "int \<Rightarrow> 's \<Rightarrow> bool"
    and budget :: "int \<Rightarrow> 's \<Rightarrow> rat"
    and rate :: "'s \<Rightarrow> rat"
  assumes budget_nonneg: "inv t s \<Longrightarrow> 0 \<le> budget t s"
    and rate_nonneg: "inv t s \<Longrightarrow> 0 \<le> rate s"
    and step_inv: "inv t s \<Longrightarrow> t \<le> clock e \<Longrightarrow> inv (clock e) (snd (step e s))"
    and rate_kept: "inv t s \<Longrightarrow> rate (snd (step e s)) = rate s"
    and step_pays: "inv t s \<Longrightarrow> t \<le> clock e \<Longrightarrow>
      of_bool (fst (step e s)) + budget (clock e) (snd (step e s)) \<le> budget t s + rate s * seconds (clock e - t)"
begin

lemma run_inv:
  "sorted (map clock es) \<Longrightarrow> \<forall>e \<in> set es. t \<le> clock e \<Longrightarrow> inv t s \<Longrightarrow>
    inv (if es = [] then t else clock (last es)) (snd (count_run step es s))"
proof (induction es arbitrary: t s)
  case (Cons e es)
  have "inv (clock e) (snd (step e s))" using step_inv [OF Cons.prems(3), of e] Cons.prems(2) by simp
  with Cons.IH [of "clock e" "snd (step e s)"] Cons.prems(1) show ?case by (simp split: if_splits)
qed simp

lemma run_pays:
  assumes "sorted (map clock es)" "\<forall>e \<in> set es. t \<le> clock e \<and> clock e \<le> t1" "t \<le> t1" "inv t s"
  shows "of_nat (fst (count_run step es s)) \<le> budget t s + rate s * seconds (t1 - t)"
  using assms
proof (induction es arbitrary: t s)
  case Nil
  then show ?case using budget_nonneg rate_nonneg by (simp add: seconds_def add_nonneg_nonneg)
next
  case (Cons e es)
  let ?s1 = "snd (step e s)"
  note inv = Cons.prems(4)
  have t: "t \<le> clock e" "clock e \<le> t1" using Cons.prems(2) by auto
  have "of_nat (fst (count_run step es ?s1)) \<le> budget (clock e) ?s1 + rate s * seconds (t1 - clock e)"
    using Cons.IH [of "clock e" ?s1] Cons.prems(1,2) t step_inv [OF inv t(1)] rate_kept [OF inv] by simp
  moreover note step_pays [OF inv t(1)]
  moreover have "seconds (clock e - t) + seconds (t1 - clock e) = seconds (t1 - t)"
    by (simp add: seconds_def add_divide_distrib [symmetric] flip: of_int_add)
  then have "rate s * seconds (clock e - t) + rate s * seconds (t1 - clock e) = rate s * seconds (t1 - t)"
    by (simp flip: distrib_left)
  ultimately show ?case by simp
qed

end

text \<open>
  The budget of an address: what its bucket would hold now. An idle bucket is dropped only
  when it is full, if the time to live is long enough to fill it.
\<close>

definition limiter_inv :: "int \<Rightarrow> limiter \<Rightarrow> bool" where
  "limiter_inv t l \<longleftrightarrow> 1 \<le> maxTokens l \<and> 0 \<le> refillRate l \<and> maxTokens l \<le> refillRate l * seconds (ttl l) \<and>
     distinct (map fst (clients l)) \<and> (\<forall>(_, b) \<in> set (clients l). 0 \<le> tokens b \<and> tokens b \<le> maxTokens l \<and> lastSeen b \<le> t)"

definition bucket_budget :: "string \<Rightarrow> int \<Rightarrow> limiter \<Rightarrow> rat" where
  "bucket_budget ip t l = (case map_of (clients l) ip of None \<Rightarrow> maxTokens l | Some b \<Rightarrow> refilled l t b)"

lemma seconds_nonneg [simp]: "0 \<le> seconds n \<longleftrightarrow> 0 \<le> n"
  by (simp add: seconds_def zero_le_divide_iff)

lemma seconds_diff: "seconds (a - b) = seconds a - seconds b"
  by (simp add: seconds_def diff_divide_distrib)

lemma refilled_clients [simp]: "refilled (l\<lparr>clients := c\<rparr>) = refilled l"
  by (simp add: refilled_def Let_def fun_eq_iff)

lemma refilled_le: "refilled l t b \<le> maxTokens l"
  by (simp add: refilled_def Let_def)

lemma refilled_now: "n \<le> maxTokens l \<Longrightarrow> refilled l t \<lparr>tokens = n, lastSeen = t\<rparr> = n"
  by (simp add: refilled_def seconds_def)

lemma refilled_grows:
  assumes "0 \<le> refillRate l" "t \<le> now"
  shows "refilled l now b \<le> refilled l t b + refillRate l * seconds (now - t)"
proof -
  have "seconds (now - lastSeen b) * refillRate l = seconds (t - lastSeen b) * refillRate l + refillRate l * seconds (now - t)"
    by (simp add: seconds_diff algebra_simps)
  moreover have "0 \<le> refillRate l * seconds (now - t)" using assms by simp
  ultimately show ?thesis by (simp add: refilled_def Let_def)
qed

lemma refilled_nonneg:
  assumes "0 \<le> refillRate l" "1 \<le> maxTokens l" "0 \<le> tokens b" "lastSeen b \<le> t"
  shows "0 \<le> refilled l t b"
  using assms by (simp add: refilled_def Let_def mult_nonneg_nonneg)

lemma idle_is_full:
  assumes "0 \<le> refillRate l" "maxTokens l \<le> refillRate l * seconds (ttl l)" "0 \<le> tokens b" "now - lastSeen b > ttl l"
  shows "refilled l now b = maxTokens l"
proof -
  have "0 \<le> seconds (now - lastSeen b - ttl l)" using assms(4) by simp
  then have "seconds (ttl l) \<le> seconds (now - lastSeen b)" by (simp add: seconds_diff)
  then have "refillRate l * seconds (ttl l) \<le> seconds (now - lastSeen b) * refillRate l"
    using assms(1) by (simp add: mult.commute mult_left_mono)
  with assms(2,3) have "maxTokens l \<le> tokens b + seconds (now - lastSeen b) * refillRate l" by simp
  then show ?thesis by (simp add: refilled_def Let_def)
qed

lemma map_of_filter_values:
  "distinct (map fst m) \<Longrightarrow> map_of (filter (\<lambda>(_, b). P b) m) k =
     (case map_of m k of None \<Rightarrow> None | Some b \<Rightarrow> if P b then Some b else None)"
proof (induction m)
  case (Cons p m)
  moreover have "k = fst p \<Longrightarrow> map_of m k = None" using Cons.prems by (simp add: map_of_eq_None_iff)
  ultimately show ?case by (cases p) (auto split: option.splits)
qed simp

lemma budget_put:
  "bucket_budget ip t (l\<lparr>clients := map_put a b (clients l)\<rparr>) = (if ip = a then refilled l t b else bucket_budget ip t l)"
  by (simp add: bucket_budget_def map_of_map_put split: option.split)

text \<open>A request is admitted exactly when the budget holds a token, which it then takes.\<close>

lemma Allow_bucket:
  assumes "1 \<le> maxTokens l"
  shows "fst (Allow now a l) = (1 \<le> bucket_budget a now l)"
    "snd (Allow now a l) = l\<lparr>clients := map_put a
       \<lparr>tokens = bucket_budget a now l - of_bool (1 \<le> bucket_budget a now l), lastSeen = now\<rparr> (clients l)\<rparr>"
  using assms by (auto simp: Allow_def bucket_budget_def Let_def split: option.splits)

lemma budget_bounds:
  assumes "limiter_inv t l" "t \<le> now"
  shows "0 \<le> bucket_budget ip now l" "bucket_budget ip now l \<le> maxTokens l"
    "bucket_budget ip now l \<le> bucket_budget ip t l + refillRate l * seconds (now - t)"
proof -
  have b: "0 \<le> tokens b \<and> lastSeen b \<le> t" if "map_of (clients l) ip = Some b" for b
    using assms(1) map_of_SomeD [OF that] by (auto simp: limiter_inv_def)
  show "0 \<le> bucket_budget ip now l"
    using assms b refilled_nonneg by (fastforce simp: bucket_budget_def limiter_inv_def split: option.split)
  show "bucket_budget ip now l \<le> maxTokens l"
    using refilled_le by (simp add: bucket_budget_def split: option.split)
  show "bucket_budget ip now l \<le> bucket_budget ip t l + refillRate l * seconds (now - t)"
    using assms refilled_grows [of l t now]
    by (auto simp: bucket_budget_def limiter_inv_def mult_nonneg_nonneg split: option.split)
qed

lemma budget_after_Allow:
  assumes "limiter_inv t l" "t \<le> now"
  shows "of_bool (fst (Allow now a l) \<and> a = ip) + bucket_budget ip now (snd (Allow now a l)) = bucket_budget ip now l"
proof (cases "a = ip")
  case True
  let ?n = "bucket_budget ip now l - of_bool (1 \<le> bucket_budget ip now l)"
  have m: "1 \<le> maxTokens l" using assms(1) by (simp add: limiter_inv_def)
  have "?n \<le> maxTokens l" using budget_bounds(2) [OF assms, of ip] by (simp add: of_bool_def)
  then have "bucket_budget ip now (snd (Allow now ip l)) = ?n"
    unfolding Allow_bucket(2) [OF m] budget_put by (simp add: refilled_now)
  with True Allow_bucket(1) [OF m] show ?thesis by simp
next
  case False
  have m: "1 \<le> maxTokens l" using assms(1) by (simp add: limiter_inv_def)
  have "bucket_budget ip now (snd (Allow now a l)) = bucket_budget ip now l"
    unfolding Allow_bucket(2) [OF m] budget_put using False by simp
  with False show ?thesis by simp
qed

lemma budget_after_sweep:
  assumes "limiter_inv t l" "t \<le> now"
  shows "bucket_budget ip now (sweep now l) = bucket_budget ip now l"
proof (cases "map_of (clients l) ip")
  case (Some b)
  have "0 \<le> tokens b" using assms(1) map_of_SomeD [OF Some] by (auto simp: limiter_inv_def)
  then show ?thesis
    using Some assms idle_is_full [of l b now]
    by (simp add: bucket_budget_def sweep_def limiter_inv_def map_of_filter_values)
next
  case None
  with assms(1) show ?thesis by (simp add: bucket_budget_def sweep_def limiter_inv_def map_of_filter_values)
qed

lemma limiter_step_inv:
  assumes "limiter_inv t l" "t \<le> at_time e"
  shows "limiter_inv (at_time e) (snd (edge_step ip e l))"
proof (cases e)
  case (Request a now)
  have m: "1 \<le> maxTokens l" using assms(1) by (simp add: limiter_inv_def)
  note b = budget_bounds(1,2) [OF assms, of a]
  let ?b = "\<lparr>tokens = bucket_budget a now l - of_bool (1 \<le> bucket_budget a now l), lastSeen = now\<rparr>"
  have "\<forall>(_, b) \<in> set (map_put a ?b (clients l)). 0 \<le> tokens b \<and> tokens b \<le> maxTokens l \<and> lastSeen b \<le> now"
  proof
    fix p
    assume "p \<in> set (map_put a ?b (clients l))"
    then have "p = (a, ?b) \<or> p \<in> set (clients l)" by (rule in_map_put)
    then show "case p of (_, b) \<Rightarrow> 0 \<le> tokens b \<and> tokens b \<le> maxTokens l \<and> lastSeen b \<le> now"
      using assms b Request by (fastforce simp: limiter_inv_def)
  qed
  then show ?thesis
    using assms(1) Request distinct_map_put [of "clients l" a ?b] Allow_bucket(2) [OF m]
    by (simp add: limiter_inv_def case_prod_unfold)
next
  case (Sweep now)
  with assms show ?thesis
    by (fastforce simp: limiter_inv_def sweep_def distinct_map_filter)
qed

interpretation bucket: metered "edge_step ip" at_time limiter_inv "bucket_budget ip" refillRate for ip
proof unfold_locales
  fix t l e
  assume inv: "limiter_inv t l"
  show "0 \<le> bucket_budget ip t l" using budget_bounds(1) [OF inv order_refl] .
  show "0 \<le> refillRate l" using inv by (simp add: limiter_inv_def)
  have m: "1 \<le> maxTokens l" using inv by (simp add: limiter_inv_def)
  show "refillRate (snd (edge_step ip e l)) = refillRate l"
    by (cases e) (simp_all add: case_prod_unfold Allow_bucket [OF m] sweep_def)
  assume t: "t \<le> at_time e"
  show "limiter_inv (at_time e) (snd (edge_step ip e l))" by (rule limiter_step_inv [OF inv t])
  show "of_bool (fst (edge_step ip e l)) + bucket_budget ip (at_time e) (snd (edge_step ip e l))
      \<le> bucket_budget ip t l + refillRate l * seconds (at_time e - t)"
    using budget_bounds(3) [OF inv t, of ip] budget_after_Allow [OF inv, of "at_time e" _ ip] budget_after_sweep [OF inv, of "at_time e" ip] t
    by (cases e) (simp_all add: case_prod_unfold)
qed

subsection \<open>What a limiter promises\<close>

lemma edge_state: "snd (edge_step ip e l) = snd (edge_step [] e l)"
  by (cases e) (simp_all add: case_prod_unfold)

lemma limiter_inv_later: "limiter_inv t l \<Longrightarrow> t \<le> t' \<Longrightarrow> limiter_inv t' l"
  by (fastforce simp: limiter_inv_def)

lemma limiter_reached:
  assumes "1 \<le> burst" "0 \<le> rate" "burst \<le> rate * seconds keep" "sorted (map at_time before)" "\<forall>e \<in> set before. at_time e \<le> t"
  shows "limiter_inv t (after_events before (NewTokenBucketLimiter rate burst keep))"
proof (cases before)
  case Nil
  with assms show ?thesis by (simp add: after_events_def NewTokenBucketLimiter_def limiter_inv_def)
next
  case (Cons e es)
  have "limiter_inv (at_time e) (NewTokenBucketLimiter rate burst keep)"
    using assms by (simp add: NewTokenBucketLimiter_def limiter_inv_def)
  with bucket.run_inv [OF assms(4), of "at_time e"] assms(4) Cons
  have "limiter_inv (at_time (last before)) (after_events before (NewTokenBucketLimiter rate burst keep))"
    by (simp add: after_events_def)
  then show ?thesis using assms(5) Cons limiter_inv_later by simp
qed

lemma limiter_config:
  "maxTokens (after_events es l) = maxTokens l" "refillRate (after_events es l) = refillRate l" "ttl (after_events es l) = ttl l"
proof -
  have "maxTokens (snd (edge_step [] e l)) = maxTokens l \<and> refillRate (snd (edge_step [] e l)) = refillRate l
      \<and> ttl (snd (edge_step [] e l)) = ttl l" for e l
    by (cases e) (simp_all add: Allow_def sweep_def Let_def case_prod_unfold split: option.split)
  then have "maxTokens (after_events es l) = maxTokens l \<and> refillRate (after_events es l) = refillRate l
      \<and> ttl (after_events es l) = ttl l"
    unfolding after_events_def by (induction es arbitrary: l) simp_all
  then show "maxTokens (after_events es l) = maxTokens l" "refillRate (after_events es l) = refillRate l"
    "ttl (after_events es l) = ttl l" by simp_all
qed

text \<open>
  C37: The rate of every client is bounded. Whatever all clients and the janitor did before
  and do meanwhile, in any window of time an address has at most \<open>burst\<close> requests admitted
  plus \<open>rate\<close> for each second of the window, provided the time to live is long enough to
  fill a bucket; the server runs with a rate of 10, a burst of 20 and an hour.
\<close>

theorem rate_is_bounded:
  assumes "1 \<le> burst" "0 \<le> rate" "burst \<le> rate * seconds keep" "sorted (map at_time (before @ window))"
    "\<forall>e \<in> set window. t0 \<le> at_time e \<and> at_time e \<le> t1" "t0 \<le> t1"
  shows "of_nat (admitted ip window (after_events before (NewTokenBucketLimiter rate burst keep)))
    \<le> burst + rate * seconds (t1 - t0)"
proof (cases window)
  case Nil
  with assms(1,2,6) show ?thesis by (simp add: admitted_def add_nonneg_nonneg)
next
  case (Cons e es)
  let ?l = "after_events before (NewTokenBucketLimiter rate burst keep)" and ?t = "at_time e"
  have max: "maxTokens ?l = burst" "refillRate ?l = rate" by (simp_all add: limiter_config NewTokenBucketLimiter_def)
  have inv: "limiter_inv ?t ?l"
    using assms(4) Cons by (intro limiter_reached [OF assms(1-3)]) (simp_all add: sorted_append)
  have t: "t0 \<le> ?t" "?t \<le> t1" "\<forall>e \<in> set window. ?t \<le> at_time e \<and> at_time e \<le> t1" "sorted (map at_time window)"
    using assms(4,5) Cons by (simp_all add: sorted_append)
  have "of_nat (admitted ip window ?l) \<le> bucket_budget ip ?t ?l + rate * seconds (t1 - ?t)"
    using bucket.run_pays [OF t(4,3,2) inv, of ip] max unfolding admitted_def by simp
  also have "\<dots> \<le> burst + rate * seconds (t1 - t0)"
    using budget_bounds(2) [OF inv order_refl, of ip] max t(1) assms(2)
    by (intro add_mono mult_left_mono) (simp_all add: seconds_def divide_right_mono)
  finally show ?thesis .
qed

lemma rate_is_bounded_witness:
  "of_nat (admitted ''a'' [Request ''a'' 5, Request ''b'' 6, Request ''a'' 1000000005] (after_events [Request ''a'' 1]
     (NewTokenBucketLimiter 10 20 3600000000000))) \<le> (30 :: rat)"
  using rate_is_bounded [of 20 10 3600000000000 "[Request ''a'' 1]" "[Request ''a'' 5, Request ''b'' 6, Request ''a'' 1000000005]"
      5 1000000005 "''a''"]
  by (simp add: seconds_def)

lemma bucket_seen:
  "\<forall>(ip, b) \<in> set (clients (after_events es (NewTokenBucketLimiter rate burst keep))). Request ip (lastSeen b) \<in> set es"
proof (induction es rule: rev_induct)
  case (snoc e es)
  let ?l = "after_events es (NewTokenBucketLimiter rate burst keep)"
  have "after_events (es @ [e]) (NewTokenBucketLimiter rate burst keep) = snd (edge_step [] e ?l)"
    by (simp add: after_events_def count_run_append)
  moreover have "p \<in> set (clients ?l) \<or> (\<exists>a now. e = Request a now \<and> fst p = a \<and> lastSeen (snd p) = now)"
    if "p \<in> set (clients (snd (edge_step [] e ?l)))" for p
    using that by (cases e)
      (auto simp: Allow_def sweep_def Let_def case_prod_unfold split: option.splits if_splits dest!: in_map_put)
  ultimately show ?case using snoc by fastforce
qed (simp add: after_events_def NewTokenBucketLimiter_def)

text \<open>
  C38: A patient client is served. An address whose requests so far are all at least as long
  ago as it takes to earn a token is admitted, whatever the other clients and the janitor
  do.
\<close>

theorem patient_client_served:
  assumes "1 \<le> burst" "0 \<le> rate" "burst \<le> rate * seconds keep" "sorted (map at_time before)" "\<forall>e \<in> set before. at_time e \<le> now"
    "\<forall>t. Request ip t \<in> set before \<longrightarrow> 1 \<le> rate * seconds (now - t)"
  shows "fst (Allow now ip (after_events before (NewTokenBucketLimiter rate burst keep)))"
proof -
  let ?l = "after_events before (NewTokenBucketLimiter rate burst keep)"
  have max: "maxTokens ?l = burst" "refillRate ?l = rate" by (simp_all add: limiter_config NewTokenBucketLimiter_def)
  have inv: "limiter_inv now ?l" by (rule limiter_reached [OF assms(1-5)])
  have "1 \<le> bucket_budget ip now ?l"
  proof (cases "map_of (clients ?l) ip")
    case (Some b)
    have b: "0 \<le> tokens b" "Request ip (lastSeen b) \<in> set before"
      using inv map_of_SomeD [OF Some] bucket_seen by (fastforce simp: limiter_inv_def)+
    with assms(6) have "1 \<le> rate * seconds (now - lastSeen b)" by blast
    with b(1) Some max assms(1) show ?thesis by (simp add: bucket_budget_def refilled_def Let_def mult.commute)
  qed (use max assms(1) in \<open>simp add: bucket_budget_def\<close>)
  with Allow_bucket(1) [of ?l now ip] max(1) assms(1) show ?thesis by simp
qed

lemma patient_client_served_witness:
  "fst (Allow 200000000 ''a'' (after_events [Request ''a'' 0, Request ''b'' 100, Request ''b'' 150]
     (NewTokenBucketLimiter 10 20 3600000000000)))"
  by (rule patient_client_served) (auto simp: seconds_def)

end
