(* ===== verification/Server.thy ===== *)
theory Server
  imports Startup Limiter Storage
begin

section \<open>The server\<close>

text \<open>
  Models how \<open>cmd/server/main.go\<close> starts: the checks in their order, each of which ends the
  process, the node they lead to, and the routes of the HTTP server with what is rate
  limited. Dialling the database, reading its active sessions, making the storage
  directory and listening are arguments.
\<close>

subsection \<open>Start-up\<close>

record flags =
  fl_id :: string
  fl_raft_addr :: string
  fl_gateway_addr :: string
  fl_peers :: string

record 'd server_env =
  se_Getenv :: "string \<Rightarrow> string"
  se_InitDgraph :: "string \<Rightarrow> go_error option"
  se_Bootstrap :: "go_error option"
  se_NewStorage :: "string \<Rightarrow> 'd result"
  se_StartTransport :: "string \<Rightarrow> go_error option"

record ('s, 'd) server =
  sv_node :: "('s, 'd) raft_node"
  sv_http_peers :: peer_map
  sv_database :: string

text \<open>\<open>Exit m e\<close>: the process ends with status 1, after logging \<open>m\<close> and the error.\<close>

datatype exit = Exit string go_error

definition or_exit :: "string \<Rightarrow> go_error option \<Rightarrow> exit option" where
  "or_exit m eo = map_option (Exit m) eo"

definition raft_storage_of :: "'d server_env \<Rightarrow> 'd option result" where
  "raft_storage_of se =
     (let dataDir = TrimSpace (se_Getenv se ''RAFT_DATA_DIR'') in
      if dataDir = [] then Inr None
      else case se_NewStorage se dataDir of Inl e \<Rightarrow> Inl e | Inr d \<Rightarrow> Inr (Some d))"

definition raft_node_of ::
  "('s, 'd) raft_env \<Rightarrow> 'd server_env \<Rightarrow> flags \<Rightarrow> peer_map \<Rightarrow> 's \<Rightarrow> 'd option \<Rightarrow> ('s, 'd) raft_node result" where
  "raft_node_of env se fl peers fsm st =
     (let cluster = buildClusterPeers (fl_id fl) (fl_raft_addr fl) peers in
      case (case st of None \<Rightarrow> Inr (NewRaftNode (fl_id fl) cluster fsm)
            | Some d \<Rightarrow> NewRaftNodeWithStorage env (fl_id fl) cluster fsm (Some d)) of
        Inl e \<Rightarrow> Inl e
      | Inr n \<Rightarrow>
          (case compactThresholdFromEnv (se_Getenv se ''RAFT_COMPACT_THRESHOLD'') of
             None \<Rightarrow> Inr n
           | Some t \<Rightarrow> Inr (SetCompactThreshold t n)))"

definition start_server ::
  "('s, 'd) raft_env \<Rightarrow> 'd server_env \<Rightarrow> flags \<Rightarrow> 's \<Rightarrow> exit + ('s, 'd) server" where
  "start_server env se fl fsm =
     (case validateNodeFlags (fl_id fl) (fl_raft_addr fl) (fl_gateway_addr fl) of
        Some e \<Rightarrow> Inl (Exit ''configuration error'' e)
      | None \<Rightarrow>
      case parsePeerList (fl_peers fl) of
        Inl e \<Rightarrow> Inl (Exit ''failed to parse --peers'' e)
      | Inr peers \<Rightarrow>
      let dgraph = (if se_Getenv se ''DGRAPH_ALPHA_GRPC'' = [] then ''localhost:9080'' else se_Getenv se ''DGRAPH_ALPHA_GRPC'') in
      case or_exit ''failed to initialize Dgraph connection pool'' (se_InitDgraph se dgraph) of
        Some x \<Rightarrow> Inl x
      | None \<Rightarrow>
      case or_exit ''failed to bootstrap active sessions for crash recovery'' (se_Bootstrap se) of
        Some x \<Rightarrow> Inl x
      | None \<Rightarrow>
      case raft_storage_of se of
        Inl e \<Rightarrow> Inl (Exit ''failed to initialize Raft storage'' e)
      | Inr st \<Rightarrow>
      case raft_node_of env se fl peers fsm st of
        Inl e \<Rightarrow> Inl (Exit ''failed to initialize Raft node'' e)
      | Inr n \<Rightarrow>
      case or_exit ''failed to start Raft transport'' (se_StartTransport se (fl_raft_addr fl)) of
        Some x \<Rightarrow> Inl x
      | None \<Rightarrow>
      case buildHTTPPeerAddresses (fl_id fl) (fl_gateway_addr fl) (se_Getenv se ''GATEWAY_HTTP_PEERS'') of
        Inl e \<Rightarrow> Inl (Exit ''failed to parse GATEWAY_HTTP_PEERS'' e)
      | Inr https \<Rightarrow> Inr \<lparr>sv_node = n, sv_http_peers = https, sv_database = dgraph\<rparr>)"

text \<open>
  A server that starts without storage is a follower of term 0 that knows its own address
  and those of its peers, keeps a positive number of entries before it compacts, and knows
  its own gateway.
\<close>

lemma map_of_put: "map_of (map_put k v m) k = Some v"
  by (simp add: map_of_map_put)

lemma started_server_is_configured:
  assumes "start_server env se fl fsm = Inr sv" "TrimSpace (se_Getenv se ''RAFT_DATA_DIR'') = []"
  shows "NodeID (sv_node sv) = fl_id fl" "State (sv_node sv) = StateFollower" "CurrentTerm (sv_node sv) = 0"
    "map_of (PeerAddresses (sv_node sv)) (fl_id fl) = Some (fl_raft_addr fl)"
    "0 < compactThreshold (sv_node sv)"
    "map_of (sv_http_peers sv) (fl_id fl) = Some (gatewayHTTPBase (fl_gateway_addr fl))"
    "TrimSpace (fl_id fl) \<noteq> []"
  using assms
  by (auto simp: start_server_def raft_storage_of_def raft_node_of_def buildClusterPeers_def buildHTTPPeerAddresses_def
      NewRaftNode_def SetCompactThreshold_def defaultCompactThreshold_def validateNodeFlags_def Let_def map_of_put
      split: option.splits sum.splits if_splits)

subsection \<open>Routes\<close>

text \<open>
  The patterns of the muxes: one that ends in a slash takes every path below it, the
  longest pattern wins. The API has a mux of its own below \<open>/api/\<close>.
\<close>

datatype endpoint =
    Metrics | WsConnect | MatchRead | MatchState | MatchCreate | MatchMutate | DebugFillLog
  | Leaderboard | PlayerRoutes | GatewayLeader | GatewaySession | NotFound

definition server_patterns :: "(string \<times> endpoint) list" where
  "server_patterns =
     [(''/metrics'', Metrics), (''/ws/connect'', WsConnect), (''/match/read'', MatchRead), (''/match/state'', MatchState),
      (''/match/create'', MatchCreate), (''/match/mutate'', MatchMutate), (''/debug/fill-log'', DebugFillLog)]"

definition api_patterns :: "(string \<times> endpoint) list" where
  "api_patterns =
     [(''/api/leaderboard'', Leaderboard), (''/api/gateway/leader'', GatewayLeader), (''/api/gateway/session'', GatewaySession)]"

definition api_route :: "string \<Rightarrow> endpoint" where
  "api_route path =
     (case map_of api_patterns path of
        Some e \<Rightarrow> e
      | None \<Rightarrow> if HasPrefix path ''/api/players/'' then PlayerRoutes else NotFound)"

text \<open>The endpoint of a path, and whether the limiter stands before it.\<close>

definition server_route :: "string \<Rightarrow> bool \<times> endpoint" where
  "server_route path =
     (case map_of server_patterns path of
        Some e \<Rightarrow> (e = WsConnect, e)
      | None \<Rightarrow> if HasPrefix path ''/api/'' then (True, api_route path) else (False, NotFound))"

text \<open>
  The limiter guards the connections and the statistics, but none of the endpoints that
  change a match: a client can propose as fast as it likes.
\<close>

lemma mutations_are_not_limited:
  "server_route ''/match/create'' = (False, MatchCreate)" "server_route ''/match/mutate'' = (False, MatchMutate)"
  "server_route ''/debug/fill-log'' = (False, DebugFillLog)" "server_route ''/ws/connect'' = (True, WsConnect)"
  by (simp_all add: server_route_def server_patterns_def)

lemma api_is_limited: "HasPrefix path ''/api/'' \<Longrightarrow> map_of server_patterns path = None \<Longrightarrow> fst (server_route path)"
  by (simp add: server_route_def)

text \<open>The limiter of the server fulfils the assumptions of the theorems on rates.\<close>

definition server_limiter :: limiter where
  "server_limiter = NewTokenBucketLimiter 10 20 3600000000000"

lemma server_limiter_config:
  "1 \<le> maxTokens server_limiter" "maxTokens server_limiter \<le> refillRate server_limiter * seconds (ttl server_limiter)"
  by (simp_all add: server_limiter_def NewTokenBucketLimiter_def seconds_def)

end
