(* ===== verification/Transport.thy ===== *)
theory Transport
  imports Raft_Props Channels
begin

section \<open>The Raft transport\<close>

text \<open>
  Models \<open>pkg/consensus/transport.go\<close>: the registry of the nodes of a process, the bridge
  that net/rpc calls, the life of a listener and the deadline of an outgoing call. Sockets
  and net/rpc are arguments: what they return, and how long they take. The gate and the
  observer that only tests set are left out.
\<close>

subsection \<open>The registry\<close>

text \<open>
  Nodes are shared by reference: \<open>tw_nodes\<close> is the store, \<open>activeRaftNodes\<close> maps IDs to
  references. \<open>registeredRPCNodes\<close> only ever grows: net/rpc cannot forget a service.
\<close>

record ('s, 'd) transport_world =
  tw_nodes :: "nat \<Rightarrow> ('s, 'd) raft_node"
  activeRaftNodes :: "(string \<times> nat) list"
  registeredRPCNodes :: "string list"

definition lookupActiveRaftNode :: "string \<Rightarrow> ('s, 'd) transport_world \<Rightarrow> nat result" where
  "lookupActiveRaftNode nodeID w =
     (case map_of (activeRaftNodes w) nodeID of
        None \<Rightarrow> Inl (Errorf (''raft node '' @ quote nodeID @ '' is not active''))
      | Some r \<Rightarrow> Inr r)"

definition PeerIsActive :: "string \<Rightarrow> ('s, 'd) transport_world \<Rightarrow> bool" where
  "PeerIsActive nodeID w = (map_of (activeRaftNodes w) nodeID \<noteq> None)"

text \<open>\<open>err\<close> is what \<open>rpc.RegisterName\<close> returns if it is called.\<close>

definition registerRaftRPCService ::
  "go_error option \<Rightarrow> string \<Rightarrow> ('s, 'd) transport_world \<Rightarrow> go_error option \<times> ('s, 'd) transport_world" where
  "registerRaftRPCService err nodeID w =
     (if nodeID \<in> set (registeredRPCNodes w) then (None, w)
      else case err of
        Some e \<Rightarrow> (Some e, w)
      | None \<Rightarrow> (None, w\<lparr>registeredRPCNodes := nodeID # registeredRPCNodes w\<rparr>))"

subsection \<open>Incoming calls\<close>

datatype rpc_request = VoteRequest request_vote_args | AppendRequest append_entries_args | SnapshotRequest install_snapshot_args

datatype rpc_reply = VoteReply request_vote_reply | AppendReply append_entries_reply | SnapshotReply nat

definition on_node ::
  "string \<Rightarrow> (('s, 'd) raft_node \<Rightarrow> rpc_reply result \<times> ('s, 'd) raft_node) \<Rightarrow> ('s, 'd) transport_world
    \<Rightarrow> rpc_reply result \<times> ('s, 'd) transport_world" where
  "on_node nodeID handler w =
     (case lookupActiveRaftNode nodeID w of
        Inl e \<Rightarrow> (Inl e, w)
      | Inr r \<Rightarrow> (case handler (tw_nodes w r) of (reply, n) \<Rightarrow> (reply, w\<lparr>tw_nodes := (tw_nodes w)(r := n)\<rparr>)))"

definition bridge_RequestVote ::
  "string \<Rightarrow> request_vote_args \<Rightarrow> ('s, 'd) transport_world \<Rightarrow> rpc_reply result \<times> ('s, 'd) transport_world" where
  "bridge_RequestVote nodeID args =
     on_node nodeID (\<lambda>n. case RequestVote args n of (reply, n1) \<Rightarrow> (Inr (VoteReply reply), n1))"

definition bridge_AppendEntries ::
  "('s, 'd) raft_env \<Rightarrow> string \<Rightarrow> append_entries_args \<Rightarrow> ('s, 'd) transport_world
    \<Rightarrow> rpc_reply result \<times> ('s, 'd) transport_world" where
  "bridge_AppendEntries env nodeID args =
     on_node nodeID (\<lambda>n. case AppendEntries env args n of
        (Inl e, n1) \<Rightarrow> (Inl e, n1) | (Inr reply, n1) \<Rightarrow> (Inr (AppendReply reply), n1))"

definition bridge_InstallSnapshot ::
  "('s, 'd) raft_env \<Rightarrow> string \<Rightarrow> install_snapshot_args \<Rightarrow> ('s, 'd) transport_world
    \<Rightarrow> rpc_reply result \<times> ('s, 'd) transport_world" where
  "bridge_InstallSnapshot env nodeID args =
     on_node nodeID (\<lambda>n. case InstallSnapshot env args n of
        (Some e, _, n1) \<Rightarrow> (Inl e, n1) | (None, term, n1) \<Rightarrow> (Inr (SnapshotReply term), n1))"

fun bridge_call ::
  "('s, 'd) raft_env \<Rightarrow> string \<Rightarrow> rpc_request \<Rightarrow> ('s, 'd) transport_world \<Rightarrow> rpc_reply result \<times> ('s, 'd) transport_world" where
  "bridge_call env nodeID (VoteRequest args) = bridge_RequestVote nodeID args"
| "bridge_call env nodeID (AppendRequest args) = bridge_AppendEntries env nodeID args"
| "bridge_call env nodeID (SnapshotRequest args) = bridge_InstallSnapshot env nodeID args"

subsection \<open>The listener\<close>

text \<open>\<open>tr_ln\<close> is \<open>None\<close> before the listener is set, then whether it is open.\<close>

record transport =
  tr_node :: "nat option"
  tr_ln :: "bool option"
  tr_closed :: bool
  tr_cancelled :: bool

definition NewNetworkTransport :: "nat option \<Rightarrow> transport" where
  "NewNetworkTransport node = \<lparr>tr_node = node, tr_ln = None, tr_closed = False, tr_cancelled = False\<rparr>"

definition close_transport :: "transport \<Rightarrow> transport" where
  "close_transport t =
     (if tr_closed t then t else t\<lparr>tr_closed := True, tr_ln := map_option (\<lambda>_. False) (tr_ln t)\<rparr>)"

definition isShuttingDown :: "transport \<Rightarrow> bool" where
  "isShuttingDown t = tr_closed t"

text \<open>
  \<open>StartServer\<close> up to the lock, with the results of \<open>rpc.RegisterName\<close> and \<open>net.Listen\<close>,
  and its lock section. \<open>Shutdown\<close> may come in between.
\<close>

definition start_listen ::
  "go_error option \<Rightarrow> go_error option \<Rightarrow> string \<Rightarrow> transport \<Rightarrow> ('s, 'd) transport_world
    \<Rightarrow> go_error option \<times> ('s, 'd) transport_world" where
  "start_listen regErr listenErr addr t w =
     (case tr_node t of
        None \<Rightarrow> (Some (Errorf ''raft node is nil''), w)
      | Some r \<Rightarrow>
          let nodeID = NodeID (tw_nodes w r);
              w1 = w\<lparr>activeRaftNodes := map_put nodeID r (activeRaftNodes w)\<rparr> in
          (case registerRaftRPCService regErr nodeID w1 of
             (Some e, w2) \<Rightarrow>
               (Some (Wrapf ''register raft rpc service: '' e), w2\<lparr>activeRaftNodes := map_delete nodeID (activeRaftNodes w2)\<rparr>)
           | (None, w2) \<Rightarrow>
               (case listenErr of
                  Some e \<Rightarrow> (Some (Wrapf (''listen on '' @ addr @ '': '') e), w2)
                | None \<Rightarrow> (None, w2))))"

definition start_accepting :: "transport \<Rightarrow> go_error option \<times> transport" where
  "start_accepting t =
     (if tr_closed t then (Some (Errorf ''transport already shut down''), t) else (None, t\<lparr>tr_ln := Some True\<rparr>))"

definition StartServer ::
  "go_error option \<Rightarrow> go_error option \<Rightarrow> string \<Rightarrow> transport \<times> ('s, 'd) transport_world
    \<Rightarrow> go_error option \<times> transport \<times> ('s, 'd) transport_world" where
  "StartServer regErr listenErr addr st =
     (case st of (t, w) \<Rightarrow>
      (case start_listen regErr listenErr addr t w of
         (Some e, w1) \<Rightarrow> (Some e, t, w1)
       | (None, w1) \<Rightarrow> (case start_accepting t of (e, t1) \<Rightarrow> (e, t1, w1))))"

definition ErrClosed :: go_error where "ErrClosed = ErrExternal ''use of closed network connection''"

datatype accepted = Serve | Retry_accept | Leave

text \<open>One turn of \<open>serveLoop\<close>, on what \<open>Accept\<close> returned.\<close>

definition serve_turn :: "go_error option \<Rightarrow> transport \<Rightarrow> accepted" where
  "serve_turn err t =
     (case err of
        None \<Rightarrow> Serve
      | Some e \<Rightarrow> if isShuttingDown t \<or> errors_is e ErrClosed then Leave else Retry_accept)"

definition Shutdown :: "transport \<times> ('s, 'd) transport_world \<Rightarrow> transport \<times> ('s, 'd) transport_world" where
  "Shutdown st =
     (case st of (t, w) \<Rightarrow>
      ((close_transport t)\<lparr>tr_cancelled := True\<rparr>,
       case tr_node t of
         None \<Rightarrow> w
       | Some r \<Rightarrow> w\<lparr>activeRaftNodes := map_delete (NodeID (tw_nodes w r)) (activeRaftNodes w)\<rparr>))"

text \<open>The goroutine that waits for the context.\<close>

definition context_done :: "transport \<Rightarrow> transport" where
  "context_done t = (if tr_cancelled t then close_transport t else t)"

subsection \<open>Outgoing calls\<close>

text \<open>Durations are nanoseconds.\<close>

definition defaultRPCTimeout :: int where "defaultRPCTimeout = 200000000"

text \<open>
  \<open>sendRPC\<close>, with the results of dialling, of setting the deadline and of the call; the
  reply is what the call stored.
\<close>

definition sendRPC ::
  "go_error option \<Rightarrow> go_error option \<Rightarrow> 'r result \<Rightarrow> string \<Rightarrow> string \<Rightarrow> 'r result" where
  "sendRPC dialErr deadlineErr called addr meth =
     (case dialErr of
        Some e \<Rightarrow> Inl (Wrapf (''dial peer '' @ addr @ '': '') e)
      | None \<Rightarrow>
          (case deadlineErr of
             Some e \<Rightarrow> Inl (Wrapf ''set rpc deadline: '' e)
           | None \<Rightarrow>
               (case called of
                  Inr reply \<Rightarrow> Inr reply
                | Inl e \<Rightarrow>
                    if errors_is e eof \<or> errors_is e ErrClosed
                    then Inl (Wrapf (''rpc call '' @ meth @ '': connection closed: '') e)
                    else Inl (Wrapf (''rpc call '' @ meth @ '': '') e))))"

text \<open>
  The context of the caller: the time it has left, \<open>None\<close> without a deadline; when and with
  what error it is cancelled; its error now (the \<open>ctx.Err()\<close> of a deadline that has passed
  may still be nil, here the formatted nil).
\<close>

record call_context =
  cc_remaining :: "int option"
  cc_cancel :: "(int \<times> go_error) option"
  cc_err :: go_error

definition rpc_timeout :: "int option \<Rightarrow> int" where
  "rpc_timeout remaining =
     (case remaining of None \<Rightarrow> defaultRPCTimeout | Some r \<Rightarrow> if r < defaultRPCTimeout then r else defaultRPCTimeout)"

definition context_ends :: "call_context \<Rightarrow> int \<times> go_error" where
  "context_ends c =
     (let t = rpc_timeout (cc_remaining c) in
      case cc_cancel c of Some (stop, e) \<Rightarrow> if stop < t then (stop, e) else (t, DeadlineExceeded) | None \<Rightarrow> (t, DeadlineExceeded))"

text \<open>
  \<open>SendRPCWithContext\<close> returns when the call does, after \<open>took\<close>, or when its context ends;
  \<open>first\<close> is the case Go takes when both are ready. The result is the time it took, too.
\<close>

definition SendRPCWithContext ::
  "call_context \<Rightarrow> bool \<Rightarrow> int \<Rightarrow> 'r result \<Rightarrow> string \<Rightarrow> string \<Rightarrow> int \<times> 'r result" where
  "SendRPCWithContext c first took result addr meth =
     (let err = (\<lambda>e. Inl (Wrapf (''rpc call '' @ meth @ '' to '' @ addr @ '': '') e)) in
      if (case cc_remaining c of Some r \<Rightarrow> r \<le> 0 | None \<Rightarrow> False) then (0, err (cc_err c))
      else case context_ends c of (ends, e) \<Rightarrow>
        if took < ends \<or> took = ends \<and> first then (took, result) else (ends, err e))"

definition SendRPC :: "bool \<Rightarrow> int \<Rightarrow> 'r result \<Rightarrow> string \<Rightarrow> string \<Rightarrow> int \<times> 'r result" where
  "SendRPC = SendRPCWithContext \<lparr>cc_remaining = Some defaultRPCTimeout, cc_cancel = None, cc_err = DeadlineExceeded\<rparr>"

subsection \<open>Calls reach the node while it runs\<close>

text \<open>What the node does with a request, without a transport in between.\<close>

fun node_call :: "('s, 'd) raft_env \<Rightarrow> rpc_request \<Rightarrow> ('s, 'd) raft_node \<Rightarrow> rpc_reply result \<times> ('s, 'd) raft_node" where
  "node_call env (VoteRequest args) n = (case RequestVote args n of (reply, n1) \<Rightarrow> (Inr (VoteReply reply), n1))"
| "node_call env (AppendRequest args) n =
     (case AppendEntries env args n of (Inl e, n1) \<Rightarrow> (Inl e, n1) | (Inr reply, n1) \<Rightarrow> (Inr (AppendReply reply), n1))"
| "node_call env (SnapshotRequest args) n =
     (case InstallSnapshot env args n of (Some e, _, n1) \<Rightarrow> (Inl e, n1) | (None, t, n1) \<Rightarrow> (Inr (SnapshotReply t), n1))"

fun call_all :: "('q \<Rightarrow> 's \<Rightarrow> 'r \<times> 's) \<Rightarrow> 'q list \<Rightarrow> 's \<Rightarrow> 'r list \<times> 's" where
  "call_all f [] s = ([], s)"
| "call_all f (q # qs) s = (case f q s of (r, s1) \<Rightarrow> (case call_all f qs s1 of (rs, s2) \<Rightarrow> (r # rs, s2)))"

lemma bridge_is_node_call:
  "bridge_call env nodeID q w = on_node nodeID (node_call env q) w"
  by (cases q) (simp_all add: bridge_RequestVote_def bridge_AppendEntries_def bridge_InstallSnapshot_def on_node_def
      split: sum.split prod.split option.split)

lemma maybeCompact_NodeID: "NodeID (snd (maybeCompact env n)) = NodeID n"
proof -
  have "NodeID (snd (case persistSnapshot env i t d n of
      (Some err, n1) \<Rightarrow> (Some (Wrapf m err), n1)
    | (None, n1) \<Rightarrow> persistDurableState env
        (n1\<lparr>snapshotIndex := i, snapshotTerm := t, lastSnapshot := d, raft_log := compacted_log i t n1\<rparr>))) = NodeID n" for i t d m
  proof -
    obtain e n1 where p: "persistSnapshot env i t d n = (e, n1)" by fastforce
    have "NodeID (snd (persistSnapshot env i t d n)) = NodeID n" by (simp add: raft_frame)
    with p show ?thesis by (cases e) (simp_all add: raft_frame)
  qed
  then show ?thesis
    unfolding maybeCompact_def Let_def by (auto split: sum.split option.split)
qed

lemma applyCommitted_NodeID: "NodeID (snd (applyCommitted env n)) = NodeID n"
proof -
  obtain e n1 where m: "maybeCompact env (apply_loop env True n) = (e, n1)" by fastforce
  then have "NodeID n1 = NodeID n"
    using maybeCompact_NodeID [of env "apply_loop env True n"] apply_loop_frame_all [of env True n] by simp
  with m show ?thesis by (cases e) (simp_all add: applyCommitted_def)
qed

lemma node_call_NodeID: "NodeID (snd (node_call env q n)) = NodeID n"
proof (cases q)
  case (VoteRequest args)
  then show ?thesis by (simp add: RequestVote_def Let_def raft_frame case_prod_unfold)
next
  case (AppendRequest args)
  obtain r n1 where r: "AppendEntries env args n = (r, n1)" by fastforce
  let ?n3 = "adopt_commit args (append_log args (accept_leader (ae_Term args) (ae_LeaderID args) n))"
  obtain e n4 where a: "applyCommitted env ?n3 = (e, n4)" by fastforce
  have n4: "NodeID n4 = NodeID n" using applyCommitted_NodeID [of env ?n3] a by (simp add: raft_frame)
  have "NodeID (snd (AppendEntries env args n)) = NodeID n"
    unfolding AppendEntries_def Let_def a using n4
    by (auto simp: raft_frame case_prod_unfold split: option.split)
  with r AppendRequest show ?thesis by (cases r) simp_all
next
  case (SnapshotRequest args)
  obtain e t n1 where r: "InstallSnapshot env args n = (e, t, n1)" using prod_cases3 by blast
  have "NodeID (snd (snd (InstallSnapshot env args n))) = NodeID n"
    unfolding InstallSnapshot_def Let_def
    by (auto simp: raft_frame case_prod_unfold split: option.split sum.split)
  with r SnapshotRequest show ?thesis by (cases e) simp_all
qed

lemma call_all_on_node:
  assumes "map_of (activeRaftNodes w) nodeID = Some r"
  shows "call_all (on_node nodeID o node_call env) qs w =
    (case call_all (node_call env) qs (tw_nodes w r) of (rs, n) \<Rightarrow> (rs, w\<lparr>tw_nodes := (tw_nodes w)(r := n)\<rparr>))"
  using assms
proof (induction qs arbitrary: w)
  case (Cons q qs)
  obtain r1 n1 where q: "node_call env q (tw_nodes w r) = (r1, n1)" by fastforce
  let ?w1 = "w\<lparr>tw_nodes := (tw_nodes w)(r := n1)\<rparr>"
  have "on_node nodeID (node_call env q) w = (r1, ?w1)"
    using Cons.prems q by (simp add: on_node_def lookupActiveRaftNode_def)
  with Cons.IH [of ?w1] Cons.prems q show ?case by (simp split: prod.split cong: if_cong)
qed simp

lemma call_all_NodeID: "NodeID (snd (call_all (node_call env) qs n)) = NodeID n"
proof (induction qs arbitrary: n)
  case (Cons q qs)
  with node_call_NodeID [of env q n] show ?case by (simp add: case_prod_unfold)
qed simp

lemma started:
  assumes "StartServer regErr listenErr addr (NewNetworkTransport (Some r), w) = (None, t, w1)"
  shows "tr_node t = Some r" "tw_nodes w1 = tw_nodes w" "map_of (activeRaftNodes w1) (NodeID (tw_nodes w r)) = Some r"
  using assms
  by (auto simp: StartServer_def start_listen_def start_accepting_def NewNetworkTransport_def registerRaftRPCService_def
      Let_def map_of_map_put split: option.splits if_splits prod.splits)

text \<open>
  The transport adds nothing and loses nothing. While a node's transport runs, the calls
  that arrive for its ID are answered exactly as the node would answer them itself, one
  after the other, and change this node alone; after the shutdown every call fails and the
  node does not move any more.
\<close>

theorem running_node_answers:
  assumes "StartServer regErr listenErr addr (NewNetworkTransport (Some r), w) = (None, t, w1)"
  shows "call_all (bridge_call env (NodeID (tw_nodes w r))) qs w1 =
      (case call_all (node_call env) qs (tw_nodes w r) of (rs, n) \<Rightarrow> (rs, w1\<lparr>tw_nodes := (tw_nodes w)(r := n)\<rparr>))
    \<and> (let w2 = snd (Shutdown (t, snd (call_all (bridge_call env (NodeID (tw_nodes w r))) qs w1))) in
       \<forall>q. bridge_call env (NodeID (tw_nodes w r)) q w2 =
         (Inl (Errorf (''raft node '' @ quote (NodeID (tw_nodes w r)) @ '' is not active'')), w2))"
proof -
  let ?id = "NodeID (tw_nodes w r)"
  note s = started [OF assms]
  have b: "bridge_call env ?id = on_node ?id o node_call env" by (rule ext)+ (simp add: bridge_is_node_call)
  obtain rs n where n: "call_all (node_call env) qs (tw_nodes w r) = (rs, n)" by fastforce
  have run: "call_all (bridge_call env ?id) qs w1 = (rs, w1\<lparr>tw_nodes := (tw_nodes w)(r := n)\<rparr>)"
    using call_all_on_node [OF s(3), of env qs] n s(2) unfolding b by simp
  have "NodeID n = ?id" using call_all_NodeID [of env qs "tw_nodes w r"] n by simp
  with run s(1) have "map_of (activeRaftNodes (snd (Shutdown (t, snd (call_all (bridge_call env ?id) qs w1))))) ?id = None"
    by (simp add: Shutdown_def map_of_map_delete)
  then show ?thesis using run n by (simp add: bridge_is_node_call on_node_def lookupActiveRaftNode_def Let_def)
qed

definition demo_world :: "(local_fsm, unit) transport_world" where
  "demo_world = \<lparr>tw_nodes = (\<lambda>_. demo_node ''A''), activeRaftNodes = [], registeredRPCNodes = []\<rparr>"

definition demo_started :: "transport \<times> (local_fsm, unit) transport_world" where
  "demo_started = (\<lparr>tr_node = Some 0, tr_ln = Some True, tr_closed = False, tr_cancelled = False\<rparr>,
     demo_world\<lparr>activeRaftNodes := [(''A'', 0)], registeredRPCNodes := [''A'']\<rparr>)"

lemma running_node_answers_witness:
  "StartServer None None '':1'' (NewNetworkTransport (Some 0), demo_world) = (None, demo_started) \<and>
   fst (call_all (bridge_call demo_env ''A'') [VoteRequest \<lparr>rv_Term = 3, rv_CandidateID = ''B'', rv_LastLogIndex = 9, rv_LastLogTerm = 2\<rparr>]
     (snd demo_started)) =
   fst (call_all (node_call demo_env) [VoteRequest \<lparr>rv_Term = 3, rv_CandidateID = ''B'', rv_LastLogIndex = 9, rv_LastLogTerm = 2\<rparr>]
     (demo_node ''A''))"
proof
  let ?q = "[VoteRequest \<lparr>rv_Term = 3, rv_CandidateID = ''B'', rv_LastLogIndex = 9, rv_LastLogTerm = 2\<rparr>]"
  have i: "NodeID (tw_nodes demo_world 0) = ''A''" by (simp add: demo_world_def demo_node_def NewRaftNode_def)
  show s: "StartServer None None '':1'' (NewNetworkTransport (Some 0), demo_world) = (None, demo_started)"
    by (simp add: StartServer_def start_listen_def start_accepting_def NewNetworkTransport_def registerRaftRPCService_def
        demo_started_def Let_def i) (simp add: demo_world_def)
  from conjunct1 [OF running_node_answers [OF s [unfolded demo_started_def], of demo_env ?q]]
  show "fst (call_all (bridge_call demo_env ''A'') ?q (snd demo_started)) = fst (call_all (node_call demo_env) ?q (demo_node ''A''))"
    unfolding i by (simp add: demo_started_def demo_world_def case_prod_unfold del: call_all.simps)
qed

text \<open>A shutdown is done once, whoever asks for it; the loop leaves only then.\<close>

lemma close_transport_once: "close_transport (close_transport t) = close_transport t"
  by (simp add: close_transport_def)

lemma serve_leaves_after_shutdown:
  "serve_turn (Some e) (fst (Shutdown (t, w))) = Leave"
  "\<not> tr_closed t \<Longrightarrow> \<not> errors_is e ErrClosed \<Longrightarrow> serve_turn (Some e) t = Retry_accept"
  by (auto simp: serve_turn_def isShuttingDown_def Shutdown_def close_transport_def)

text \<open>When the listener cannot be opened the node stays in the registry, and shows as active.\<close>

lemma failed_listen_stays_active:
  assumes "StartServer regErr (Some e) addr (NewNetworkTransport (Some r), w) = (Some (Wrapf (''listen on '' @ addr @ '': '') e), t, w1)"
    "NodeID (tw_nodes w r) \<in> set (registeredRPCNodes w)"
  shows "PeerIsActive (NodeID (tw_nodes w r)) w1"
  using assms
  by (auto simp: StartServer_def start_listen_def NewNetworkTransport_def registerRaftRPCService_def PeerIsActive_def
      Let_def map_of_map_put)

text \<open>
  An outgoing call ends within 200 ms and within the time of its caller, and a reply is
  only ever the one of a call that finished in that time.
\<close>

lemma call_is_bounded:
  assumes "SendRPCWithContext c first took result addr meth = (spent, out)" "0 \<le> took"
    "case cc_cancel c of None \<Rightarrow> True | Some (stop, _) \<Rightarrow> 0 \<le> stop"
  shows "0 \<le> spent \<and> spent \<le> defaultRPCTimeout" "cc_remaining c = Some left \<Longrightarrow> 0 \<le> left \<Longrightarrow> spent \<le> left"
    "out = Inr reply \<Longrightarrow> result = Inr reply \<and> took = spent"
  using assms
  by (auto simp: SendRPCWithContext_def context_ends_def rpc_timeout_def defaultRPCTimeout_def Let_def
      split: if_splits option.splits)

end
