(* ===== verification/Timers.thy ===== *)
theory Timers
  imports Raft_Ops Channels
begin

section \<open>The timers of a node\<close>

text \<open>
  Models the election ticker and the heartbeat loops of \<open>pkg/consensus/raft_node.go\<close>, and
  the accessors that take the lock for one value. Durations are nanoseconds.
\<close>

subsection \<open>The election ticker\<close>

definition electionTimeoutMin :: int where "electionTimeoutMin = 150000000"
definition electionTimeoutMax :: int where "electionTimeoutMax = 300000000"
definition heartbeatInterval :: int where "heartbeatInterval = 50000000"

text \<open>\<open>intn n\<close> is \<open>rand.Int63n n\<close>: at least 0 and below \<open>n\<close>.\<close>

definition randomElectionTimeout :: "(int \<Rightarrow> int) \<Rightarrow> int" where
  "randomElectionTimeout intn =
     (let delta = electionTimeoutMax - electionTimeoutMin in electionTimeoutMin + intn (delta + 1))"

text \<open>
  One turn of \<open>runElectionTicker\<close>, from the times at which the context ends and a
  heartbeat is signalled, if ever; \<open>late\<close> is the case Go takes among those that are ready
  when the timer fires.
\<close>

datatype ticker_turn = TickerReturns | TickerReset | TickerElection

definition ticker_turn :: "int \<Rightarrow> int option \<Rightarrow> int option \<Rightarrow> ticker_turn \<Rightarrow> ticker_turn" where
  "ticker_turn timeout done_at reset_at late =
     (let before = (\<lambda>t. case t of None \<Rightarrow> False | Some a \<Rightarrow> a < timeout) in
      if before done_at \<and> (before reset_at \<longrightarrow> the done_at < the reset_at) then TickerReturns
      else if before reset_at \<and> (before done_at \<longrightarrow> the reset_at < the done_at) then TickerReset
      else if before done_at \<and> before reset_at then (if late = TickerReturns then TickerReturns else TickerReset)
      else if (late = TickerReturns \<and> done_at = Some timeout) \<or> (late = TickerReset \<and> reset_at = Some timeout) then late
      else TickerElection)"

text \<open>
  A follower that hears of its leader before the smallest timeout has passed does not start
  an election, whatever timeout it drew; three heartbeats fit into it.
\<close>

lemma election_timeout_bounds:
  assumes "\<And>n. 0 < n \<Longrightarrow> 0 \<le> intn n \<and> intn n < n"
  shows "electionTimeoutMin \<le> randomElectionTimeout intn" "randomElectionTimeout intn \<le> electionTimeoutMax"
  using assms [of "electionTimeoutMax - electionTimeoutMin + 1"]
  by (simp_all add: randomElectionTimeout_def electionTimeoutMin_def electionTimeoutMax_def)

lemma heartbeat_prevents_election:
  assumes "\<And>n. 0 < n \<Longrightarrow> 0 \<le> intn n \<and> intn n < n" "r < electionTimeoutMin"
  shows "ticker_turn (randomElectionTimeout intn) done_at (Some r) late \<noteq> TickerElection" "3 * heartbeatInterval \<le> electionTimeoutMin"
  using election_timeout_bounds(1) [OF assms(1)] assms(2)
  by (auto simp: ticker_turn_def Let_def heartbeatInterval_def electionTimeoutMin_def split: option.split)

subsection \<open>Heartbeat loops\<close>

text \<open>
  \<open>tm_stop\<close> is the field \<open>heartbeatStop\<close> with the number of its channel, \<open>tm_closed\<close> the
  channels that were closed, \<open>tm_loops\<close> the loops that run, by the channel they listen to.
  Every election that is won starts a goroutine, which then runs \<open>begin_loop\<close>.
\<close>

record timers =
  tm_stop :: "nat option"
  tm_closed :: "nat list"
  tm_loops :: "nat list"
  tm_next :: nat

definition no_timers :: timers where
  "no_timers = \<lparr>tm_stop = None, tm_closed = [], tm_loops = [], tm_next = 0\<rparr>"

definition close_stop :: "nat \<Rightarrow> timers \<Rightarrow> timers result" where
  "close_stop c t = (if c \<in> set (tm_closed t) then Inl (GoPanic ''close of closed channel'') else Inr (t\<lparr>tm_closed := c # tm_closed t\<rparr>))"

definition begin_loop :: "timers \<Rightarrow> timers result" where
  "begin_loop t =
     (case (case tm_stop t of None \<Rightarrow> Inr t | Some c \<Rightarrow> close_stop c t) of
        Inl e \<Rightarrow> Inl e
      | Inr t1 \<Rightarrow> Inr (t1\<lparr>tm_stop := Some (tm_next t1), tm_loops := tm_loops t1 @ [tm_next t1], tm_next := tm_next t1 + 1\<rparr>))"

definition stopHeartbeatTicker :: "timers \<Rightarrow> timers result" where
  "stopHeartbeatTicker t =
     (case tm_stop t of
        None \<Rightarrow> Inr t
      | Some c \<Rightarrow> (case close_stop c t of Inl e \<Rightarrow> Inl e | Inr t1 \<Rightarrow> Inr (t1\<lparr>tm_stop := None\<rparr>)))"

text \<open>
  What a loop does next: it leaves when the context is done, when it is told to stop, or at
  a tick when the node does not lead; \<open>Some\<close> is the term to broadcast.
\<close>

datatype loop_signal = LoopDone | LoopStop | LoopTick

definition loop_turn :: "loop_signal \<Rightarrow> ('s, 'd) raft_node \<Rightarrow> nat option" where
  "loop_turn sig n = (if sig = LoopTick \<and> State n = StateLeader then Some (CurrentTerm n) else None)"

definition leave_loop :: "nat \<Rightarrow> timers \<Rightarrow> timers" where
  "leave_loop c t = t\<lparr>tm_loops := remove1 c (tm_loops t)\<rparr>"

datatype timer_event = LoopBegins | LeadershipLost | LoopLeaves nat

fun timer_step :: "timer_event \<Rightarrow> timers \<Rightarrow> timers result" where
  "timer_step LoopBegins t = begin_loop t"
| "timer_step LeadershipLost t = stopHeartbeatTicker t"
| "timer_step (LoopLeaves c) t = Inr (leave_loop c t)"

fun timer_run :: "timer_event list \<Rightarrow> timers \<Rightarrow> timers result" where
  "timer_run [] t = Inr t"
| "timer_run (e # es) t = (case timer_step e t of Inl x \<Rightarrow> Inl x | Inr t1 \<Rightarrow> timer_run es t1)"

definition timers_ok :: "timers \<Rightarrow> bool" where
  "timers_ok t \<longleftrightarrow> (\<forall>c \<in> set (tm_closed t) \<union> set (tm_loops t). c < tm_next t) \<and> distinct (tm_loops t) \<and>
     (\<forall>c. tm_stop t = Some c \<longrightarrow> c \<notin> set (tm_closed t) \<and> c < tm_next t) \<and>
     (\<forall>c \<in> set (tm_loops t). c \<in> set (tm_closed t) \<or> tm_stop t = Some c)"

lemma begin_loop_ok:
  assumes "timers_ok t"
  shows "\<exists>t1. begin_loop t = Inr t1 \<and> timers_ok t1"
proof (cases "tm_stop t")
  case None
  with assms show ?thesis by (auto simp: timers_ok_def begin_loop_def less_Suc_eq)
next
  case (Some c)
  then have "c \<notin> set (tm_closed t)" "c < tm_next t" using assms by (simp_all add: timers_ok_def)
  with assms Some show ?thesis by (auto simp: timers_ok_def begin_loop_def close_stop_def less_Suc_eq)
qed

lemma stop_loop_ok:
  assumes "timers_ok t"
  shows "\<exists>t1. stopHeartbeatTicker t = Inr t1 \<and> timers_ok t1"
proof (cases "tm_stop t")
  case None
  with assms show ?thesis by (simp add: stopHeartbeatTicker_def)
next
  case (Some c)
  then have "c \<notin> set (tm_closed t)" "c < tm_next t" using assms by (simp_all add: timers_ok_def)
  with assms Some show ?thesis by (auto simp: timers_ok_def stopHeartbeatTicker_def close_stop_def)
qed

lemma leave_loop_ok: "timers_ok t \<Longrightarrow> timers_ok (leave_loop c t)"
  using set_remove1_subset [of c "tm_loops t"] by (auto simp: timers_ok_def leave_loop_def)

lemma timer_step_ok: "timers_ok t \<Longrightarrow> \<exists>t1. timer_step e t = Inr t1 \<and> timers_ok t1"
  using begin_loop_ok stop_loop_ok leave_loop_ok by (cases e) auto

text \<open>
  No interleaving of elections won, leaderships lost and loops that end closes a channel
  twice, and at most one loop has not been told to stop.
\<close>

lemma one_heartbeat_loop:
  assumes "timers_ok t"
  shows "\<exists>t1. timer_run es t = Inr t1 \<and> length (filter (\<lambda>c. c \<notin> set (tm_closed t1)) (tm_loops t1)) \<le> 1"
  using assms
proof (induction es arbitrary: t)
  case Nil
  have "set (filter (\<lambda>c. c \<notin> set (tm_closed t)) (tm_loops t)) \<subseteq> set_option (tm_stop t)"
    using Nil by (auto simp: timers_ok_def)
  moreover have "distinct (filter (\<lambda>c. c \<notin> set (tm_closed t)) (tm_loops t))" using Nil by (simp add: timers_ok_def)
  ultimately have "length (filter (\<lambda>c. c \<notin> set (tm_closed t)) (tm_loops t)) \<le> card (set_option (tm_stop t))"
    using card_mono [of "set_option (tm_stop t)"] by (simp add: distinct_card [symmetric])
  also have "\<dots> \<le> 1" by (cases "tm_stop t") simp_all
  finally show ?case by simp
next
  case (Cons e es)
  obtain t1 where t1: "timer_step e t = Inr t1" "timers_ok t1" using timer_step_ok [OF Cons.prems] by blast
  with Cons.IH [OF t1(2)] show ?case by simp
qed

lemma no_timers_ok: "timers_ok no_timers"
  by (simp add: timers_ok_def no_timers_def)

subsection \<open>Accessors\<close>

definition SnapshotIndex :: "('s, 'd) raft_node \<Rightarrow> nat" where
  "SnapshotIndex n = snapshotIndex n"

definition LogLength :: "('s, 'd) raft_node \<Rightarrow> nat" where
  "LogLength n = length (raft_log n)"

definition FlushStorage :: "('s, 'd) raft_env \<Rightarrow> ('s, 'd) raft_node \<Rightarrow> go_error option \<times> ('s, 'd) raft_node" where
  "FlushStorage env n = persistDurableState env n"

definition isApplyError :: "apply_outcome \<Rightarrow> bool" where
  "isApplyError r = (case r of ApplyErr _ \<Rightarrow> True | _ \<Rightarrow> False)"

text \<open>\<open>AsApplyResult\<close> with its second result as an option.\<close>

definition AsApplyResult :: "apply_outcome \<Rightarrow> apply_result option" where
  "AsApplyResult r =
     (if isApplyError r then None else case r of ApplyOK a \<Rightarrow> Some a | _ \<Rightarrow> None)"

definition clonePeerMap :: "peer_map \<Rightarrow> peer_map" where
  "clonePeerMap ps = foldl (\<lambda>m (pid, addr). map_put pid addr m) [] ps"

lemma clonePeerMap_id: "distinct (map fst ps) \<Longrightarrow> clonePeerMap ps = ps"
proof -
  have "foldl (\<lambda>m (pid, addr). map_put pid addr m) acc ps = acc @ ps" if "distinct (map fst (acc @ ps))"
    for acc and ps :: peer_map
    using that
  proof (induction ps arbitrary: acc)
    case (Cons p ps)
    obtain k v where p: "p = (k, v)" by fastforce
    have "map_put k v acc = acc @ [(k, v)]"
      using Cons.prems p by (induction acc) auto
    with Cons.IH [of "acc @ [(k, v)]"] Cons.prems p show ?case by simp
  qed simp
  from this [of "[]" ps] show "distinct (map fst ps) \<Longrightarrow> clonePeerMap ps = ps" by (simp add: clonePeerMap_def)
qed

end
