(* ===== verification/Teardown.thy ===== *)
theory Teardown
  imports Transport Breaker Timers Storage
begin

section \<open>The teardown of the server\<close>

text \<open>
  Models the end of \<open>main\<close> in \<open>cmd/server/main.go\<close>: the steps it takes after the signal, in
  their order, and the calls that other goroutines still make between them: the Raft
  requests that arrive through the bridge of the transport, and the match records of event
  workers that are still ending a match, for which \<open>main\<close> does not wait. A request is
  answered as a whole before or after a step.
\<close>

record ('s, 'd, 'm, 'w) running =
  rn_workers :: bool
  rn_http :: bool
  rn_queue :: "('m, 'w) ledger_queue"
  rn_transport :: transport
  rn_world :: "('s, 'd) transport_world"
  rn_node :: nat
  rn_flush_error :: "go_error option"

subsection \<open>Calls of the other goroutines\<close>

text \<open>
  A Raft request for a service, a match that ended, or a turn of the ledger worker, which does
  nothing once the loop has ended.
\<close>

datatype 'm arrival = RpcArrives string rpc_request | MatchEnds 'm | LedgerTurn

fun arrive ::
  "('s, 'd) raft_env \<Rightarrow> ('m, 'w) ledger_env \<Rightarrow> 'm arrival \<Rightarrow> ('s, 'd, 'm, 'w) running
    \<Rightarrow> ('s, 'd, 'm, 'w) running result" where
  "arrive env lenv (RpcArrives i q) x = Inr (x\<lparr>rn_world := snd (bridge_call env i q (rn_world x))\<rparr>)"
| "arrive env lenv (MatchEnds m) x =
     (case enqueue_job m (rn_queue x) of Inl e \<Rightarrow> Inl e | Inr lq \<Rightarrow> Inr (x\<lparr>rn_queue := lq\<rparr>))"
| "arrive env lenv LedgerTurn x =
     (case run_turn lenv (rn_queue x) of None \<Rightarrow> Inr x | Some lq \<Rightarrow> Inr (x\<lparr>rn_queue := lq\<rparr>))"

fun arrivals ::
  "('s, 'd) raft_env \<Rightarrow> ('m, 'w) ledger_env \<Rightarrow> 'm arrival list \<Rightarrow> ('s, 'd, 'm, 'w) running
    \<Rightarrow> ('s, 'd, 'm, 'w) running result" where
  "arrivals env lenv [] x = Inr x"
| "arrivals env lenv (a # as) x = (case arrive env lenv a x of Inl e \<Rightarrow> Inl e | Inr y \<Rightarrow> arrivals env lenv as y)"

subsection \<open>The steps of main\<close>

datatype teardown_step = CancelWorkers | StopLedger | CloseHTTP | CancelRaft | StopTransport | WaitTransport | FlushNode

text \<open>
  \<open>raftCancel\<close> ends the context the transport's own derives from. \<open>Wait\<close> returns when the
  goroutine that waits for the context is done, too.
\<close>

fun do_step ::
  "('s, 'd) raft_env \<Rightarrow> teardown_step \<Rightarrow> ('s, 'd, 'm, 'w) running \<Rightarrow> ('s, 'd, 'm, 'w) running result" where
  "do_step env CancelWorkers x = Inr (x\<lparr>rn_workers := False\<rparr>)"
| "do_step env StopLedger x = (case Stop (rn_queue x) of Inl e \<Rightarrow> Inl e | Inr lq \<Rightarrow> Inr (x\<lparr>rn_queue := lq\<rparr>))"
| "do_step env CloseHTTP x = Inr (x\<lparr>rn_http := False\<rparr>)"
| "do_step env CancelRaft x = Inr (x\<lparr>rn_transport := (rn_transport x)\<lparr>tr_cancelled := True\<rparr>\<rparr>)"
| "do_step env StopTransport x =
     (case Shutdown (rn_transport x, rn_world x) of (t, w) \<Rightarrow> Inr (x\<lparr>rn_transport := t, rn_world := w\<rparr>))"
| "do_step env WaitTransport x = Inr (x\<lparr>rn_transport := context_done (rn_transport x)\<rparr>)"
| "do_step env FlushNode x =
     (case FlushStorage env (tw_nodes (rn_world x) (rn_node x)) of (eo, n) \<Rightarrow>
        Inr (x\<lparr>rn_world := (rn_world x)\<lparr>tw_nodes := (tw_nodes (rn_world x))(rn_node x := n)\<rparr>, rn_flush_error := eo\<rparr>))"

definition main_steps :: "teardown_step list" where
  "main_steps = [CancelWorkers, StopLedger, CloseHTTP, CancelRaft, StopTransport, WaitTransport, FlushNode]"

text \<open>Each step with what arrives before it.\<close>

fun teardown ::
  "('s, 'd) raft_env \<Rightarrow> ('m, 'w) ledger_env \<Rightarrow> ('m arrival list \<times> teardown_step) list \<Rightarrow> ('s, 'd, 'm, 'w) running
    \<Rightarrow> ('s, 'd, 'm, 'w) running result" where
  "teardown env lenv [] x = Inr x"
| "teardown env lenv ((as, s) # steps) x =
     (case arrivals env lenv as x of Inl e \<Rightarrow> Inl e
      | Inr y \<Rightarrow> (case do_step env s y of Inl e \<Rightarrow> Inl e | Inr z \<Rightarrow> teardown env lenv steps z))"


subsection \<open>What arrives\<close>

definition ends_match :: "'m arrival \<Rightarrow> bool" where
  "ends_match a = (case a of MatchEnds _ \<Rightarrow> True | _ \<Rightarrow> False)"

lemma ends_match_simps [simp]:
  "ends_match (MatchEnds m)" "\<not> ends_match (RpcArrives i q)" "\<not> ends_match LedgerTurn"
  by (simp_all add: ends_match_def)

text \<open>The requests for one service.\<close>

fun calls_for :: "string \<Rightarrow> 'm arrival list \<Rightarrow> rpc_request list" where
  "calls_for nodeID [] = []"
| "calls_for nodeID (RpcArrives i q # as) = (if i = nodeID then q # calls_for nodeID as else calls_for nodeID as)"
| "calls_for nodeID (_ # as) = calls_for nodeID as"

lemma calls_for_append: "calls_for i (as @ bs) = calls_for i as @ calls_for i bs"
  by (induction i as rule: calls_for.induct) simp_all

lemma call_all_append:
  "snd (call_all f (xs @ ys) s) = snd (call_all f ys (snd (call_all f xs s)))"
  by (induction xs arbitrary: s) (simp_all add: case_prod_unfold)

text \<open>A send on the closed queue is the only way to fail.\<close>

lemma run_turn_closed: "run_turn lenv lq = Some lq1 \<Longrightarrow> lq_closed lq1 = lq_closed lq"
  by (auto simp: run_turn_def split: if_splits)


lemma arrivals_frame:
  assumes "arrivals env lenv as x = Inr y"
  shows "rn_transport y = rn_transport x \<and> rn_node y = rn_node x \<and> rn_flush_error y = rn_flush_error x
    \<and> rn_workers y = rn_workers x \<and> rn_http y = rn_http x \<and> lq_closed (rn_queue y) = lq_closed (rn_queue x)"
  using assms
proof (induction as arbitrary: x)
  case (Cons a as)
  then obtain z where z: "arrive env lenv a x = Inr z" "arrivals env lenv as z = Inr y"
    by (auto split: sum.splits)
  from z(1) have "rn_transport z = rn_transport x \<and> rn_node z = rn_node x \<and> rn_flush_error z = rn_flush_error x
    \<and> rn_workers z = rn_workers x \<and> rn_http z = rn_http x \<and> lq_closed (rn_queue z) = lq_closed (rn_queue x)"
    by (cases a) (auto simp: enqueue_job_def run_turn_closed split: option.splits if_splits)
  with Cons.IH [OF z(2)] show ?case by simp
qed simp

text \<open>While the node is the only one in the registry, its requests move it; afterwards nothing moves.\<close>

lemma arrivals_active:
  assumes "arrivals env lenv as x = Inr y" "activeRaftNodes (rn_world x) = [(i, r)]"
  shows "activeRaftNodes (rn_world y) = [(i, r)]
    \<and> tw_nodes (rn_world y) r = snd (call_all (node_call env) (calls_for i as) (tw_nodes (rn_world x) r))"
  using assms
proof (induction as arbitrary: x)
  case (Cons a as)
  then obtain z where z: "arrive env lenv a x = Inr z" "arrivals env lenv as z = Inr y"
    by (auto split: sum.splits)
  show ?case
  proof (cases a)
    case (RpcArrives j q)
    obtain rep n where n: "node_call env q (tw_nodes (rn_world x) r) = (rep, n)" by fastforce
    have w: "rn_world z = snd (bridge_call env j q (rn_world x))" using z(1) RpcArrives by auto
    show ?thesis
    proof (cases "j = i")
      case True
      then have "rn_world z = (rn_world x)\<lparr>tw_nodes := (tw_nodes (rn_world x))(r := n)\<rparr>"
        using w n Cons.prems(2) by (simp add: bridge_is_node_call on_node_def lookupActiveRaftNode_def)
      with Cons.IH [OF z(2)] Cons.prems(2) RpcArrives True n show ?thesis by (simp add: case_prod_unfold)
    next
      case False
      then have "rn_world z = rn_world x"
        using w Cons.prems(2) by (simp add: bridge_is_node_call on_node_def lookupActiveRaftNode_def)
      with Cons.IH [OF z(2)] Cons.prems(2) RpcArrives False show ?thesis by simp
    qed
  next
    case (MatchEnds m)
    with z(1) have "rn_world z = rn_world x" by (auto split: sum.splits)
    with Cons.IH [OF z(2)] Cons.prems(2) MatchEnds show ?thesis by simp
  next
    case LedgerTurn
    with z(1) have "rn_world z = rn_world x" by (auto split: option.splits)
    with Cons.IH [OF z(2)] Cons.prems(2) LedgerTurn show ?thesis by simp
  qed
qed simp

lemma arrivals_inactive:
  assumes "arrivals env lenv as x = Inr y" "activeRaftNodes (rn_world x) = []"
  shows "rn_world y = rn_world x"
  using assms
proof (induction as arbitrary: x)
  case (Cons a as)
  then obtain z where z: "arrive env lenv a x = Inr z" "arrivals env lenv as z = Inr y"
    by (auto split: sum.splits)
  from z(1) Cons.prems(2) have "rn_world z = rn_world x"
    by (cases a) (auto simp: bridge_is_node_call on_node_def lookupActiveRaftNode_def split: option.splits sum.splits)
  with Cons.IH [OF z(2)] Cons.prems(2) show ?case by simp
qed simp


subsection \<open>What the teardown leaves\<close>


lemma seven: "length as = 7 \<Longrightarrow> \<exists>a1 a2 a3 a4 a5 a6 a7. as = [a1, a2, a3, a4, a5, a6, a7]"
  by (auto simp: numeral_eq_Suc length_Suc_conv)

lemma teardown_split:
  "teardown env lenv (ps @ qs) x = (case teardown env lenv ps x of Inl e \<Rightarrow> Inl e | Inr y \<Rightarrow> teardown env lenv qs y)"
  by (induction ps arbitrary: x) (auto split: sum.split)

lemma teardown_appendD:
  "teardown env lenv (ps @ qs) x = Inr y \<Longrightarrow> \<exists>z. teardown env lenv ps x = Inr z \<and> teardown env lenv qs z = Inr y"
  unfolding teardown_split by (cases "teardown env lenv ps x") simp_all





text \<open>Until the transport stops, the node is moved by the requests for it and nothing else.\<close>

definition node_runs ::
  "('s, 'd) raft_env \<Rightarrow> nat \<Rightarrow> ('s, 'd) raft_node \<Rightarrow> rpc_request list \<Rightarrow> ('s, 'd, 'm, 'w) running \<Rightarrow> bool" where
  "node_runs env r n0 qs x =
     (activeRaftNodes (rn_world x) = [(NodeID n0, r)] \<and> tw_nodes (rn_world x) r = snd (call_all (node_call env) qs n0)
      \<and> rn_node x = r \<and> tr_node (rn_transport x) = Some r)"

lemma arrivals_run:
  "arrivals env lenv as x = Inr y \<Longrightarrow> node_runs env r n0 qs x \<Longrightarrow> node_runs env r n0 (qs @ calls_for (NodeID n0) as) y"
  using arrivals_active [of env lenv as x y "NodeID n0" r] arrivals_frame [of env lenv as x y]
  by (simp add: node_runs_def call_all_append)

lemma do_step_run:
  "s \<in> {CancelWorkers, StopLedger, CloseHTTP, CancelRaft} \<Longrightarrow> do_step env s x = Inr y \<Longrightarrow> node_runs env r n0 qs x
     \<Longrightarrow> node_runs env r n0 qs y"
  by (cases s) (auto simp: node_runs_def split: sum.splits)

lemma teardown_run:
  assumes "teardown env lenv steps x = Inr y" "snd ` set steps \<subseteq> {CancelWorkers, StopLedger, CloseHTTP, CancelRaft}"
    and "node_runs env r n0 qs x"
  shows "node_runs env r n0 (qs @ calls_for (NodeID n0) (concat (map fst steps))) y"
  using assms
proof (induction steps arbitrary: x qs)
  case (Cons p steps)
  obtain as s where p: "p = (as, s)" by fastforce
  with Cons.prems(1) obtain u v where
    uv: "arrivals env lenv as x = Inr u" "do_step env s u = Inr v" "teardown env lenv steps v = Inr y"
    by (auto split: sum.splits)
  have "s \<in> {CancelWorkers, StopLedger, CloseHTTP, CancelRaft}" using Cons.prems(2) p by auto
  then have v: "node_runs env r n0 (qs @ calls_for (NodeID n0) as) v"
    using do_step_run [OF _ uv(2) arrivals_run [OF uv(1) Cons.prems(3)]] by blast
  have "snd ` set steps \<subseteq> {CancelWorkers, StopLedger, CloseHTTP, CancelRaft}" using Cons.prems(2) by auto
  from Cons.IH [OF uv(3) this v] p show ?case by (simp add: calls_for_append)
qed simp

text \<open>Afterwards the registry is empty, the listener closed, and only the flush touches the node.\<close>

lemma stop_and_flush:
  assumes "teardown env lenv [(as, StopTransport), (bs, WaitTransport), (cs, FlushNode)] x = Inr y" "node_runs env r n0 qs x"
  shows "(rn_flush_error y, tw_nodes (rn_world y) r) =
      FlushStorage env (snd (call_all (node_call env) (qs @ calls_for (NodeID n0) as) n0))
    \<and> activeRaftNodes (rn_world y) = [] \<and> tr_closed (rn_transport y)"
proof -
  from assms(1) obtain u v where u: "arrivals env lenv as x = Inr u" and v: "do_step env StopTransport u = Inr v"
    and rest: "teardown env lenv [(bs, WaitTransport), (cs, FlushNode)] v = Inr y"
    by (auto split: sum.splits)
  let ?n = "snd (call_all (node_call env) (qs @ calls_for (NodeID n0) as) n0)"
  have run: "node_runs env r n0 (qs @ calls_for (NodeID n0) as) u" by (rule arrivals_run [OF u assms(2)])
  have id: "NodeID ?n = NodeID n0" by (rule call_all_NodeID)
  have v': "activeRaftNodes (rn_world v) = []" "tw_nodes (rn_world v) r = ?n" "rn_node v = r"
    "tr_closed (rn_transport v)" "tr_cancelled (rn_transport v)"
    using v run id by (auto simp: node_runs_def Shutdown_def map_delete_def close_transport_def)
  from rest obtain u1 where u1: "arrivals env lenv bs v = Inr u1"
    and last: "teardown env lenv [(cs, FlushNode)] (u1\<lparr>rn_transport := context_done (rn_transport u1)\<rparr>) = Inr y"
    by (auto split: sum.splits)
  let ?u2 = "u1\<lparr>rn_transport := context_done (rn_transport u1)\<rparr>"
  have w1: "rn_world u1 = rn_world v" using arrivals_inactive [OF u1] v' by simp
  from last obtain u3 where u3: "arrivals env lenv cs ?u2 = Inr u3" and fl: "do_step env FlushNode u3 = Inr y"
    by (auto split: sum.splits)
  have w3: "rn_world u3 = rn_world v" using arrivals_inactive [OF u3] w1 v' by simp
  have fr: "rn_node u3 = r" "tr_closed (rn_transport u3)"
    using arrivals_frame [OF u1] arrivals_frame [OF u3] v' by (simp_all add: context_done_def close_transport_def)
  show ?thesis using fl w3 fr v' by (auto split: prod.splits)
qed

lemma teardown_effect:
  assumes "node_runs env r n0 [] x" "length as = 7" "teardown env lenv (zip as main_steps) x = Inr y"
  shows "(rn_flush_error y, tw_nodes (rn_world y) r) =
      FlushStorage env (snd (call_all (node_call env) (calls_for (NodeID n0) (concat (take 5 as))) n0))
    \<and> activeRaftNodes (rn_world y) = [] \<and> tr_closed (rn_transport y)"
proof -
  obtain a1 a2 a3 a4 a5 a6 a7 where as: "as = [a1, a2, a3, a4, a5, a6, a7]" using seven [OF assms(2)] by blast
  let ?ps = "[(a1, CancelWorkers), (a2, StopLedger), (a3, CloseHTTP), (a4, CancelRaft)]"
  let ?qs = "[(a5, StopTransport), (a6, WaitTransport), (a7, FlushNode)]"
  have "zip as main_steps = ?ps @ ?qs" by (simp add: as main_steps_def)
  with assms(3) obtain z where z: "teardown env lenv ?ps x = Inr z" "teardown env lenv ?qs z = Inr y"
    using teardown_appendD [of env lenv ?ps ?qs x y] by metis
  have "node_runs env r n0 (calls_for (NodeID n0) (a1 @ a2 @ a3 @ a4)) z"
    using teardown_run [OF z(1) _ assms(1)] by simp
  from stop_and_flush [OF z(2) this] show ?thesis by (simp add: as calls_for_append)
qed


subsection \<open>Property\<close>





subsection \<open>The next start\<close>

definition request_wf :: "rpc_request \<Rightarrow> bool" where
  "request_wf q = (case q of AppendRequest args \<Rightarrow> entries_wf args | _ \<Rightarrow> True)"

lemma node_call_wf: "log_wf n \<Longrightarrow> request_wf q \<Longrightarrow> log_wf (snd (node_call env q n))"
  using RequestVote_advances [of n] AppendEntries_advances [of n _ env] InstallSnapshot_advances [of n env]
  by (cases q) (auto simp: request_wf_def advances_def case_prod_unfold split: sum.split option.split prod.split)

lemma call_all_wf: "log_wf n \<Longrightarrow> \<forall>q \<in> set qs. request_wf q \<Longrightarrow> log_wf (snd (call_all (node_call env) qs n))"
  by (induction qs arbitrary: n) (simp_all add: node_call_wf case_prod_unfold)

text \<open>
  A server that was shut down without an error of the disk starts again with the log, the term
  and the vote the node had when its transport was stopped.
\<close>

lemma restart_after_teardown:
  fixes n0 :: "('s, disk) raft_node" and os :: os_faults and base :: "('s, disk) raft_env"
  defines "env \<equiv> disk_env os base"
  assumes "node_runs env r n0 [] x" "length as = 7" "teardown env lenv (zip as main_steps) x = Inr y" "rn_flush_error y = None"
    and n: "n = snd (call_all (node_call env) (calls_for (NodeID n0) (concat (take 5 as))) n0)"
    and "log_wf n0" "\<forall>q \<in> set (calls_for (NodeID n0) (concat (take 5 as))). request_wf q"
    and "storage n = Some d" "storage (tw_nodes (rn_world y) r) = Some d'" "node_fits n"
    and "disk_readable os d" "disk_readable os d'" "LoadSnapshot os d = Inr (snapshot_of n)"
    and "snapshotIndex n = 0 \<longrightarrow> snapshotTerm n = 0" "boot_fsm base n s0 = (Inr (), s1)"
  shows "\<exists>b. NewRaftNodeWithStorage env nid peers s0 (Some d') = Inr b
    \<and> drop 1 (raft_log b) = drop 1 (raft_log n) \<and> CurrentTerm b = CurrentTerm n \<and> VotedFor b = VotedFor n
    \<and> lastApplied b = lastLogIndex n \<and> log_wf b"
proof -
  have wf: "log_wf n" unfolding n by (rule call_all_wf [OF assms(7,8)])
  have "persistDurableState env n = (None, tw_nodes (rn_world y) r)"
    using teardown_effect [OF assms(2-4)] assms(5) n by (simp add: FlushStorage_def)
  from files_restart [OF wf assms(9,10,11) this [unfolded env_def] assms(12-16), of nid peers]
  show ?thesis unfolding env_def by blast
qed

end
