(* ===== verification/Init_Db.thy ===== *)
theory Init_Db
  imports Json
begin

section \<open>Database connection and schema upload\<close>

text \<open>
  Models \<open>pkg/database/dgraph.go\<close> and \<open>cmd/init_db/main.go\<close>. Dialling, the HTTP client and
  the file system are arguments, and so is \<open>json_of\<close>, the value \<open>encoding/json\<close> reads in a
  text (\<open>JBad\<close> for a text that is not JSON).
\<close>

subsection \<open>InitDgraphClient\<close>

definition dialTimeout :: int where "dialTimeout = 5000000000"

text \<open>
  \<open>dial\<close> gets the time it may block and the address; the client is made from the connection,
  which is returned, too, so that the caller can close it.
\<close>

definition InitDgraphClient :: "(int \<Rightarrow> string \<Rightarrow> 'c result) \<Rightarrow> ('c \<Rightarrow> 'g) \<Rightarrow> string \<Rightarrow> ('g \<times> 'c) result" where
  "InitDgraphClient dial new_client address =
     (case dial dialTimeout address of
        Inl e \<Rightarrow> Inl (Wrapf ''failed to connect to Dgraph via gRPC: '' e)
      | Inr conn \<Rightarrow> Inr (new_client conn, conn))"

lemma InitDgraphClient_ok_iff: "isOk (InitDgraphClient dial nc a) \<longleftrightarrow> isOk (dial dialTimeout a)"
  by (simp add: InitDgraphClient_def isOk_def split: sum.split)

subsection \<open>The answer of the alter endpoint\<close>

record alter_response =
  ar_Code :: string
  ar_Message :: string
  ar_Errors :: "string list"

definition zero_alter_response :: alter_response where
  "zero_alter_response = \<lparr>ar_Code = [], ar_Message = [], ar_Errors = []\<rparr>"

definition alter_data_field :: "string \<Rightarrow> json \<Rightarrow> alter_response \<Rightarrow> alter_response option" where
  "alter_data_field k j r =
     (if key_is ''code'' k then map_option (\<lambda>s. r\<lparr>ar_Code := s\<rparr>) (un_string j (ar_Code r))
      else if key_is ''message'' k then map_option (\<lambda>s. r\<lparr>ar_Message := s\<rparr>) (un_string j (ar_Message r))
      else Some r)"

definition alter_error_field :: "string \<Rightarrow> json \<Rightarrow> string \<Rightarrow> string option" where
  "alter_error_field k j m = (if key_is ''message'' k then un_string j m else Some m)"

definition alter_field :: "string \<Rightarrow> json \<Rightarrow> alter_response \<Rightarrow> alter_response option" where
  "alter_field k j r =
     (if key_is ''data'' k then un_struct alter_data_field j r
      else if key_is ''errors'' k
      then map_option (\<lambda>es. r\<lparr>ar_Errors := es\<rparr>) (un_list (un_struct alter_error_field) [] j (ar_Errors r))
      else Some r)"

definition un_alter_response :: "json \<Rightarrow> alter_response option" where
  "un_alter_response j = un_struct alter_field j zero_alter_response"

subsection \<open>applySchema\<close>

record http_answer =
  ha_StatusCode :: int
  ha_Status :: string
  ha_Body :: "string result"

record http_client =
  hc_NewRequest :: "string \<Rightarrow> go_error option"
  hc_Do :: "string \<Rightarrow> string \<Rightarrow> http_answer result"

text \<open>
  The error for a body that is not the JSON expected is followed by the body in the code;
  here only the wrapped error is kept.
\<close>

definition check_body :: "(string \<Rightarrow> json) \<Rightarrow> string \<Rightarrow> go_error option" where
  "check_body json_of body =
     (case un_alter_response (json_of body) of
        None \<Rightarrow> Some (Wrapf ''parse response JSON: '' ErrJson)
      | Some parsed \<Rightarrow>
          if ar_Errors parsed \<noteq> [] then Some (Errorf (''Dgraph returned errors: '' @ hd (ar_Errors parsed)))
          else if ar_Code parsed \<noteq> ''Success''
          then Some (Errorf (''unexpected response code '' @ quote (ar_Code parsed)
            @ '' (message: '' @ quote (ar_Message parsed) @ '')''))
          else None)"

definition applySchema :: "(string \<Rightarrow> json) \<Rightarrow> http_client \<Rightarrow> string \<Rightarrow> string \<Rightarrow> go_error option" where
  "applySchema json_of client alterURL schema =
     (case hc_NewRequest client alterURL of
        Some e \<Rightarrow> Some (Wrapf ''create request: '' e)
      | None \<Rightarrow>
      case hc_Do client alterURL schema of
        Inl e \<Rightarrow> Some (Wrapf ''request to Dgraph: '' e)
      | Inr resp \<Rightarrow>
      case ha_Body resp of
        Inl e \<Rightarrow> Some (Wrapf ''read response body: '' e)
      | Inr body \<Rightarrow>
          if ha_StatusCode resp < 200 \<or> 300 \<le> ha_StatusCode resp
          then Some (Errorf (''HTTP '' @ ha_Status resp @ '': '' @ body))
          else check_body json_of body)"

subsection \<open>The program\<close>

text \<open>
  \<open>main\<close> of \<open>init_db\<close>: \<open>Some\<close> is the message of the \<open>log.Fatal\<close> the process ends with.
\<close>

definition defaultAlterURL :: string where "defaultAlterURL = ''http://127.0.0.1:8280/alter''"
definition defaultSchemaFile :: string where "defaultSchemaFile = ''schema.dgraph''"

definition init_db_main ::
  "(string \<Rightarrow> json) \<Rightarrow> http_client \<Rightarrow> (string \<Rightarrow> string result) \<Rightarrow> string option \<Rightarrow> string option \<Rightarrow> go_error option" where
  "init_db_main json_of client read_schema url_flag schema_flag =
     (let alterURL = case_option defaultAlterURL id url_flag; schemaPath = case_option defaultSchemaFile id schema_flag in
      case read_schema schemaPath of
        Inl e \<Rightarrow> Some (Wrapf ''failed to read schema file: '' e)
      | Inr schema \<Rightarrow>
          if schema = [] then Some (Errorf ''schema file is empty'')
          else case applySchema json_of client alterURL schema of
            Some e \<Rightarrow> Some (Wrapf ''schema update failed: '' e)
          | None \<Rightarrow> None)"

text \<open>
  The program ends well exactly if a schema was there, Dgraph answered it with a status of the
  200s, no error, and the code \<open>Success\<close>.
\<close>

lemma schema_applied_iff:
  "applySchema json_of client url schema = None \<longleftrightarrow>
     hc_NewRequest client url = None \<and>
     (\<exists>resp body r. hc_Do client url schema = Inr resp \<and> ha_Body resp = Inr body
        \<and> 200 \<le> ha_StatusCode resp \<and> ha_StatusCode resp < 300
        \<and> un_alter_response (json_of body) = Some r \<and> ar_Errors r = [] \<and> ar_Code r = ''Success'')"
  by (auto simp: applySchema_def check_body_def split: option.splits sum.splits if_splits)

lemma init_db_ok_iff:
  "init_db_main json_of client rd u s = None \<longleftrightarrow>
     (\<exists>schema. rd (case_option defaultSchemaFile id s) = Inr schema \<and> schema \<noteq> []
        \<and> applySchema json_of client (case_option defaultAlterURL id u) schema = None)"
  by (auto simp: init_db_main_def Let_def split: option.splits sum.splits if_splits)

text \<open>What Dgraph answers to a schema it takes, and to one it does not.\<close>

lemma alter_answers:
  "un_alter_response (JObj [(''data'', JObj [(''code'', JStr ''Success''), (''message'', JStr ''Done'')])]) =
     Some \<lparr>ar_Code = ''Success'', ar_Message = ''Done'', ar_Errors = []\<rparr>"
  "un_alter_response (JObj [(''errors'', JArr [JObj [(''message'', JStr m)]])]) =
     Some \<lparr>ar_Code = [], ar_Message = [], ar_Errors = [m]\<rparr>"
  by (simp_all add: un_alter_response_def un_struct_def alter_field_def alter_data_field_def alter_error_field_def
      zero_alter_response_def key_is_def lower_char_def un_string_def un_list_def)

end
