(* ===== verification/Raft_Matching.thy ===== *)
theory Raft_Matching
  imports Raft_Props
begin

section \<open>Log matching\<close>

text \<open>
  A cluster of nodes that replicate: elections, proposals, the messages leaders build from
  their logs, lost, delayed or duplicated at will, and snapshots. Two entries of the same
  index and term hold the same command and follow entries of the same term, in whatever
  logs they are, as long as no term has two leaders and no snapshot is installed over a
  log that disagrees with it. The code does not rule out either case
  (\<open>two_leaders_in_one_term\<close>, \<open>snapshot_keeps_conflicting_tail\<close>), so both are guards of the
  steps here.
\<close>

subsection \<open>Links\<close>

text \<open>
  The adjacent entries of a log: where the later one stands, and its command with the term of
  the entry before it. The command of the first entry, the sentinel, does not count.
\<close>

type_synonym link = "(nat \<times> nat) \<times> (jtext \<times> nat)"

fun log_links :: "log_entry list \<Rightarrow> link list" where
  "log_links (p # e # es) = ((le_Index e, le_Term e), (le_Command e, le_Term p)) # log_links (e # es)"
| "log_links _ = []"

lemma links_Cons_term: "le_Term p = le_Term q \<Longrightarrow> log_links (p # es) = log_links (q # es)"
  by (cases es) simp_all

lemma links_drop: "set (log_links (drop k es)) \<subseteq> set (log_links es)"
proof (induction k arbitrary: es)
  case (Suc k)
  show ?case
  proof (cases es)
    case (Cons e es')
    have "set (log_links es') \<subseteq> set (log_links es)" using Cons by (cases es') auto
    with Suc.IH [of es'] Cons show ?thesis by auto
  qed simp
qed simp

lemma links_append: "log_links (xs @ p # ys) = log_links (xs @ [p]) @ log_links (p # ys)"
proof (induction xs)
  case (Cons x xs)
  then show ?case by (cases xs) simp_all
qed simp

lemma links_take: "set (log_links (take k es)) \<subseteq> set (log_links es)"
proof (cases "drop k es")
  case (Cons e es')
  have "es = take k es @ e # es'" by (metis Cons append_take_drop_id)
  moreover have "set (log_links (take k es)) \<subseteq> set (log_links (take k es @ [e]))"
  proof (cases "take k es" rule: rev_cases)
    case (snoc xs x)
    then show ?thesis using links_append [of xs x "[e]"] by auto
  qed auto
  ultimately show ?thesis by (metis (no_types, lifting) links_append order_trans set_append sup_ge1)
qed simp

lemma links_last:
  "es \<noteq> [] \<Longrightarrow> set (log_links (es @ [e])) = insert ((le_Index e, le_Term e), (le_Command e, le_Term (last es))) (set (log_links es))"
  by (cases es rule: rev_cases) (simp_all add: links_append [of _ _ "[e]"])

lemma links_nth:
  "k + 1 < length es \<Longrightarrow>
     ((le_Index (es ! (k + 1)), le_Term (es ! (k + 1))), (le_Command (es ! (k + 1)), le_Term (es ! k))) \<in> set (log_links es)"
proof (induction es arbitrary: k rule: log_links.induct)
  case (1 p e es)
  then show ?case by (cases k) auto
qed simp_all

abbreviation node_links :: "('s, 'd) raft_node \<Rightarrow> link set" where
  "node_links n \<equiv> set (log_links (raft_log n))"

text \<open>The links of a message: those of its entries behind the entry it asks for.\<close>

definition args_links :: "append_entries_args \<Rightarrow> link set" where
  "args_links args = set (log_links
     (\<lparr>le_Index = ae_PrevLogIndex args, le_Term = ae_PrevLogTerm args, le_Command = None\<rparr> # entriesFromArgs args))"

subsection \<open>What the operations do to links\<close>

lemma compacted_links:
  assumes "snapshotIndex n \<le> i" "\<And>e. entry_at n i = Some e \<Longrightarrow> le_Term e = t"
  shows "set (log_links (compacted_log i t n)) \<subseteq> node_links n"
proof (cases "i - snapshotIndex n < length (raft_log n)")
  case True
  let ?k = "i - snapshotIndex n"
  have "le_Term (raft_log n ! ?k) = t" using assms(2) [of "raft_log n ! ?k"] assms(1) True by (simp add: entry_at_nat)
  then have "log_links (compacted_log i t n) = log_links (drop ?k (raft_log n))"
    unfolding compacted_log_drop [OF assms(1), of t] Cons_nth_drop_Suc [OF True, symmetric]
    by (intro links_Cons_term) simp
  then show ?thesis using links_drop [of ?k "raft_log n"] by simp
next
  case False
  then show ?thesis by (simp add: compacted_log_drop [OF assms(1)])
qed

lemma maybeCompact_links: "node_links (snd (maybeCompact env n)) \<subseteq> node_links n"
proof (cases rule: maybeCompact_cases [of env n])
  case (compacted e data)
  then have "raft_log (snd (maybeCompact env n)) = compacted_log (lastApplied n) (le_Term e) n"
    by (simp add: raft_frame)
  with compacted(1,2) compacted_links [of n "lastApplied n" "le_Term e"] show ?thesis by simp
qed (simp_all add: raft_frame)

lemma applyCommitted_links: "node_links (snd (applyCommitted env n)) \<subseteq> node_links n"
  using maybeCompact_links [of env "apply_loop env True n"] by (simp add: applyCommitted_node raft_frame)

lemma append_log_links:
  assumes "entry_at n (ae_PrevLogIndex args) = Some prev" "le_Term prev = ae_PrevLogTerm args"
  shows "node_links (append_log args n) \<subseteq> node_links n \<union> args_links args"
proof (cases "ae_Entries args = []")
  case True
  then show ?thesis by (simp add: append_log_def Let_def)
next
  case False
  let ?k = "ae_PrevLogIndex args - snapshotIndex n" and ?es = "entriesFromArgs args"
  have k: "?k < length (raft_log n)" "raft_log n ! ?k = prev" "snapshotIndex n \<le> ae_PrevLogIndex args"
    using assms(1) by (auto simp: entry_at_nat split: if_splits)
  have off: "nat (logOffsetForIndex n (ae_PrevLogIndex args)) = ?k" using k by (simp add: logOffsetForIndex_def)
  have "raft_log (append_log args n) = take ?k (raft_log n) @ prev # ?es"
    using False k(1,2) by (simp add: append_log_def off take_Suc_conv_app_nth)
  then have "log_links (raft_log (append_log args n)) = log_links (take (Suc ?k) (raft_log n)) @ log_links (prev # ?es)"
    using k by (simp add: links_append [of _ prev ?es] take_Suc_conv_app_nth)
  moreover have "set (log_links (prev # ?es)) = args_links args"
    using links_Cons_term [of prev "\<lparr>le_Index = ae_PrevLogIndex args, le_Term = ae_PrevLogTerm args, le_Command = None\<rparr>" ?es] assms(2)
    by (simp add: args_links_def)
  ultimately show ?thesis using links_take [of "Suc ?k" "raft_log n"] by auto
qed

lemma AppendEntries_links: "node_links (snd (AppendEntries env args n)) \<subseteq> node_links n \<union> args_links args"
proof (cases rule: AppendEntries_cases [of args n env])
  case (accepted prev n1 n3 p n4)
  have "node_links (snd (AppendEntries env args n)) = node_links n4"
    using accepted(7) by (simp add: raft_frame split: option.split)
  also have "\<dots> \<subseteq> node_links n3" using applyCommitted_links [of env n3] accepted(6) by simp
  also have "\<dots> \<subseteq> node_links n1 \<union> args_links args"
    using append_log_links [OF accepted(3,4)] by (simp add: accepted(5) raft_frame)
  finally show ?thesis by (simp add: accepted(2) raft_frame)
qed (simp_all add: raft_frame)


text \<open>A snapshot agrees with a log that has no entry, or one of the same term, at its index.\<close>

definition snapshot_agrees :: "install_snapshot_args \<Rightarrow> ('s, 'd) raft_node \<Rightarrow> bool" where
  "snapshot_agrees args n =
     (case entry_at n (is_LastIncludedIndex args) of None \<Rightarrow> True | Some e \<Rightarrow> le_Term e = is_LastIncludedTerm args)"

lemma InstallSnapshot_links:
  assumes "snapshot_agrees args n"
  shows "node_links (snd (snd (InstallSnapshot env args n))) \<subseteq> node_links n"
proof -
  let ?n1 = "accept_leader (is_Term args) (is_LeaderID args) n"
  let ?i = "is_LastIncludedIndex args" and ?t = "is_LastIncludedTerm args"
  have "entry_at ?n1 ?i = entry_at n ?i" by (rule entry_at_cong) (simp_all add: raft_frame)
  with assms have "le_Term e = ?t" if "entry_at ?n1 ?i = Some e" for e
    using that by (simp add: snapshot_agrees_def split: option.splits)
  then have "set (log_links (compacted_log ?i ?t ?n1)) \<subseteq> node_links n" if "snapshotIndex ?n1 \<le> ?i"
    using compacted_links [OF that, of ?t] by (simp add: raft_frame)
  then show ?thesis
    by (auto simp: InstallSnapshot_def Let_def case_prod_unfold raft_frame split: sum.split option.split)
qed

lemma advance_loop_links: "node_links (snd (advance_loop env k n)) \<subseteq> node_links n"
proof (induction k)
  case (Suc k)
  with applyCommitted_links [of env "n\<lparr>commitIndex := Suc k\<rparr>"] show ?case by (simp split: option.split)
qed simp

lemma reply_links: "node_links (snd (handleAppendEntriesReply env t p args r n)) \<subseteq> node_links n"
proof -
  have adv: "node_links (snd (advanceCommitIndex env m)) \<subseteq> node_links n" if "raft_log m = raft_log n" for m
    using advance_loop_links [of env "lastLogIndex m" m] that by (simp add: advanceCommitIndex_def)
  have "node_links (snd (case advanceCommitIndex env m of (Some e, n1) \<Rightarrow> (Inl e, n1) | (None, n1) \<Rightarrow> (Inr False, n1)))
      \<subseteq> node_links n" if "raft_log m = raft_log n" for m and e' :: "bool result"
    using adv [OF that] by (auto split: prod.split option.split)
  then show ?thesis
    by (auto simp: handleAppendEntriesReply_def Let_def raft_frame split: option.split)
qed

text \<open>A leader whose counters move, or who compacts, stays where it is in the log.\<close>

lemma advance_loop_last:
  assumes "log_wf n"
  shows "lastLogIndex (snd (advance_loop env k n)) = lastLogIndex n \<and> State (snd (advance_loop env k n)) = State n
    \<and> CurrentTerm (snd (advance_loop env k n)) = CurrentTerm n"
proof (induction k)
  case (Suc k)
  have wf: "log_wf (n\<lparr>commitIndex := Suc k\<rparr>)" using assms by (simp add: log_wf_def)
  have l: "lastLogIndex (n\<lparr>commitIndex := Suc k\<rparr>) = lastLogIndex n" by (simp add: lastLogIndex_def)
  show ?case
    using Suc applyCommitted_fields(1,3,7) [OF wf, of env] l by (simp split: option.split)
qed simp

lemma reply_last:
  assumes "log_wf n"
  shows "let m = snd (handleAppendEntriesReply env t p args r n) in
    (State m = StateLeader \<longrightarrow> State n = StateLeader \<and> CurrentTerm m = CurrentTerm n \<and> lastLogIndex m = lastLogIndex n)
    \<and> (State m \<noteq> StateFollower \<longrightarrow> State m = State n \<and> CurrentTerm m = CurrentTerm n)"
proof -
  have same: "log_wf m \<Longrightarrow> lastLogIndex m = lastLogIndex n \<Longrightarrow> State m = State n \<Longrightarrow> CurrentTerm m = CurrentTerm n \<Longrightarrow>
      advanceCommitIndex env m = (eo, k) \<Longrightarrow> lastLogIndex k = lastLogIndex n \<and> State k = State n \<and> CurrentTerm k = CurrentTerm n"
    for m eo k using advance_loop_last [of m env "lastLogIndex m"] by (simp add: advanceCommitIndex_def)
  have upd: "log_wf (n\<lparr>matchIndex := a, nextIndex := b\<rparr>)" "lastLogIndex (n\<lparr>matchIndex := a, nextIndex := b\<rparr>) = lastLogIndex n"
    for a b using assms by (simp_all add: log_wf_def lastLogIndex_def)
  have adv: "lastLogIndex k = lastLogIndex n \<and> State k = State n \<and> CurrentTerm k = CurrentTerm n"
    if "advanceCommitIndex env (n\<lparr>matchIndex := a, nextIndex := b\<rparr>) = (eo, k)" for a b eo k
    using same [OF upd _ _ that] by simp
  have last: "lastLogIndex (n\<lparr>nextIndex := b\<rparr>) = lastLogIndex n" for b by (simp add: lastLogIndex_def)
  show ?thesis
    using adv by (auto simp: handleAppendEntriesReply_def Let_def raft_frame last
        split: option.split prod.split if_splits)
qed


subsection \<open>The cluster\<close>

text \<open>
  Beside the nodes, the cluster records the messages sent, the terms that have had a leader,
  and the links of every log a leader wrote.
\<close>

record ('s, 'd) repl_cluster =
  rc_nodes :: "string \<Rightarrow> ('s, 'd) raft_node"
  rc_sent :: "append_entries_args set"
  rc_snaps :: "install_snapshot_args set"
  rc_led :: "nat set"
  rc_links :: "link set"

definition put_node :: "string \<Rightarrow> ('s, 'd) raft_node \<Rightarrow> ('s, 'd) repl_cluster \<Rightarrow> ('s, 'd) repl_cluster" where
  "put_node i n c = c\<lparr>rc_nodes := (rc_nodes c)(i := n)\<rparr>"

text \<open>The message of a task of \<open>collectReplicationTasks\<close>, and the heartbeat of a read.\<close>

definition leader_sends :: "nat \<Rightarrow> append_entries_args \<Rightarrow> ('s, 'd) raft_node \<Rightarrow> bool" where
  "leader_sends trm args n =
     (case collectReplicationTasks trm n of
        Inr (Some (ts, lid)) \<Rightarrow> (\<exists>t \<in> set ts. \<not> rt_installSnap t \<and> args = append_args_of trm lid t)
      | _ \<Rightarrow> False)"

inductive repl_reach :: "('s, 'd) raft_env \<Rightarrow> peer_map \<Rightarrow> ('s, 'd) repl_cluster \<Rightarrow> bool" for env members where
  init: "(\<And>i. nodes i = (NewRaftNode i members (fsm i))\<lparr>storage := d i\<rparr>) \<Longrightarrow>
    repl_reach env members \<lparr>rc_nodes = nodes, rc_sent = {}, rc_snaps = {}, rc_led = {}, rc_links = {}\<rparr>"
| elect: "repl_reach env members c \<Longrightarrow> repl_reach env members (put_node i (snd (startElection (rc_nodes c i))) c)"
| vote: "repl_reach env members c \<Longrightarrow> repl_reach env members (put_node i (snd (RequestVote rv (rc_nodes c i))) c)"
| vote_reply: "repl_reach env members c \<Longrightarrow>
    repl_reach env members (put_node i (snd (handleVoteReply t r (rc_nodes c i))) c)"
| promote: "repl_reach env members c \<Longrightarrow> n = promoteToLeader t (rc_nodes c i) \<Longrightarrow>
    (State n = StateLeader \<longrightarrow> State (rc_nodes c i) \<noteq> StateLeader \<longrightarrow> CurrentTerm n \<notin> rc_led c) \<Longrightarrow>
    repl_reach env members ((put_node i n c)\<lparr>rc_led :=
      (if State n = StateLeader then insert (CurrentTerm n) (rc_led c) else rc_led c)\<rparr>)"
| propose: "repl_reach env members c \<Longrightarrow> n = snd (Propose env cmd (rc_nodes c i)) \<Longrightarrow>
    repl_reach env members ((put_node i n c)\<lparr>rc_links := rc_links c \<union> node_links n\<rparr>)"
| send: "repl_reach env members c \<Longrightarrow>
    leader_sends t args (rc_nodes c i) \<or> confirm_args t k (rc_nodes c i) = Some args \<Longrightarrow>
    repl_reach env members (c\<lparr>rc_sent := insert args (rc_sent c)\<rparr>)"
| append: "repl_reach env members c \<Longrightarrow> args \<in> rc_sent c \<Longrightarrow>
    repl_reach env members (put_node i (snd (AppendEntries env args (rc_nodes c i))) c)"
| append_reply: "repl_reach env members c \<Longrightarrow>
    repl_reach env members (put_node i (snd (handleAppendEntriesReply env t p args r (rc_nodes c i))) c)"
| confirm: "repl_reach env members c \<Longrightarrow>
    repl_reach env members (put_node i (snd (confirmLeadershipForRead t rs (rc_nodes c i))) c)"
| send_snapshot: "repl_reach env members c \<Longrightarrow> install_args_of t (rc_nodes c i) = Some ins \<Longrightarrow>
    repl_reach env members (c\<lparr>rc_snaps := insert ins (rc_snaps c)\<rparr>)"
| install: "repl_reach env members c \<Longrightarrow> ins \<in> rc_snaps c \<Longrightarrow> snapshot_agrees ins (rc_nodes c i) \<Longrightarrow>
    repl_reach env members (put_node i (snd (snd (InstallSnapshot env ins (rc_nodes c i)))) c)"
| wait: "repl_reach env members c \<Longrightarrow>
    repl_reach env members (put_node i (snd (waitForApply k w (rc_nodes c i))) c)"
| flush: "repl_reach env members c \<Longrightarrow>
    repl_reach env members (put_node i (snd (persistDurableState env (rc_nodes c i))) c)"

subsection \<open>The invariant\<close>

text \<open>
  Every link in a log or in a message was written, in a term that had a leader; a place and
  a term determine the rest of a link; and the leader of a term has seen its last link.
\<close>

definition links_ok :: "('s, 'd) repl_cluster \<Rightarrow> bool" where
  "links_ok c =
     ((\<forall>i. log_wf (rc_nodes c i) \<and> node_links (rc_nodes c i) \<subseteq> rc_links c
        \<and> (State (rc_nodes c i) \<noteq> StateFollower \<longrightarrow> 0 < CurrentTerm (rc_nodes c i)))
      \<and> single_valued (rc_links c)
      \<and> (\<forall>k t r. ((k, t), r) \<in> rc_links c \<longrightarrow> t \<in> rc_led c) \<and> 0 \<notin> rc_led c
      \<and> (\<forall>i. State (rc_nodes c i) = StateLeader \<longrightarrow> CurrentTerm (rc_nodes c i) \<in> rc_led c
          \<and> (\<forall>k r. ((k, CurrentTerm (rc_nodes c i)), r) \<in> rc_links c \<longrightarrow> k \<le> lastLogIndex (rc_nodes c i)))
      \<and> (\<forall>i j. State (rc_nodes c i) = StateLeader \<longrightarrow> State (rc_nodes c j) = StateLeader
          \<longrightarrow> CurrentTerm (rc_nodes c i) = CurrentTerm (rc_nodes c j) \<longrightarrow> i = j)
      \<and> (\<forall>args \<in> rc_sent c. entries_wf args \<and> args_links args \<subseteq> rc_links c))"

lemma links_okI:
  assumes "\<And>i. log_wf (rc_nodes c i)" "\<And>i. node_links (rc_nodes c i) \<subseteq> rc_links c"
    "\<And>i. State (rc_nodes c i) \<noteq> StateFollower \<Longrightarrow> 0 < CurrentTerm (rc_nodes c i)"
    "single_valued (rc_links c)" "\<And>k t r. ((k, t), r) \<in> rc_links c \<Longrightarrow> t \<in> rc_led c" "0 \<notin> rc_led c"
    "\<And>i. State (rc_nodes c i) = StateLeader \<Longrightarrow> CurrentTerm (rc_nodes c i) \<in> rc_led c"
    "\<And>i k r. State (rc_nodes c i) = StateLeader \<Longrightarrow> ((k, CurrentTerm (rc_nodes c i)), r) \<in> rc_links c \<Longrightarrow> k \<le> lastLogIndex (rc_nodes c i)"
    "\<And>i j. State (rc_nodes c i) = StateLeader \<Longrightarrow> State (rc_nodes c j) = StateLeader
       \<Longrightarrow> CurrentTerm (rc_nodes c i) = CurrentTerm (rc_nodes c j) \<Longrightarrow> i = j"
    "\<And>args. args \<in> rc_sent c \<Longrightarrow> entries_wf args \<and> args_links args \<subseteq> rc_links c"
  shows "links_ok c"
  using assms unfolding links_ok_def by meson

lemma links_okD:
  assumes "links_ok c"
  shows "log_wf (rc_nodes c i)" "node_links (rc_nodes c i) \<subseteq> rc_links c"
    "State (rc_nodes c i) \<noteq> StateFollower \<Longrightarrow> 0 < CurrentTerm (rc_nodes c i)"
    "single_valued (rc_links c)" "((k, t), r) \<in> rc_links c \<Longrightarrow> t \<in> rc_led c" "0 \<notin> rc_led c"
    "State (rc_nodes c i) = StateLeader \<Longrightarrow> CurrentTerm (rc_nodes c i) \<in> rc_led c"
    "State (rc_nodes c i) = StateLeader \<Longrightarrow> ((k, CurrentTerm (rc_nodes c i)), r) \<in> rc_links c \<Longrightarrow> k \<le> lastLogIndex (rc_nodes c i)"
    "State (rc_nodes c i) = StateLeader \<Longrightarrow> State (rc_nodes c j) = StateLeader
       \<Longrightarrow> CurrentTerm (rc_nodes c i) = CurrentTerm (rc_nodes c j) \<Longrightarrow> i = j"
    "args \<in> rc_sent c \<Longrightarrow> entries_wf args \<and> args_links args \<subseteq> rc_links c"
  using assms unfolding links_ok_def by meson+

text \<open>A step that writes no link, wins no leadership and keeps a leader's last entry.\<close>

lemma links_ok_node:
  assumes ok: "links_ok c" and n: "log_wf n" "node_links n \<subseteq> rc_links c"
    "State n \<noteq> StateFollower \<Longrightarrow> 0 < CurrentTerm n"
    "State n = StateLeader \<Longrightarrow> State (rc_nodes c i) = StateLeader \<and> CurrentTerm n = CurrentTerm (rc_nodes c i)
       \<and> lastLogIndex n = lastLogIndex (rc_nodes c i)"
  shows "links_ok (put_node i n c)"
proof -
  note D = links_okD [OF ok]
  have f: "rc_nodes (put_node i n c) = (rc_nodes c)(i := n)" "rc_sent (put_node i n c) = rc_sent c"
    "rc_led (put_node i n c) = rc_led c" "rc_links (put_node i n c) = rc_links c" by (simp_all add: put_node_def)
  have lead: "State (rc_nodes c j) = StateLeader \<and> CurrentTerm (((rc_nodes c)(i := n)) j) = CurrentTerm (rc_nodes c j)
      \<and> lastLogIndex (((rc_nodes c)(i := n)) j) = lastLogIndex (rc_nodes c j)"
    if "State (((rc_nodes c)(i := n)) j) = StateLeader" for j
    using that n(4) by (cases "j = i") simp_all
  show ?thesis
  proof (rule links_okI, unfold f)
    show "log_wf (((rc_nodes c)(i := n)) j)" for j using n(1) D(1) by simp
    show "node_links (((rc_nodes c)(i := n)) j) \<subseteq> rc_links c" for j using n(2) D(2) by simp
    show "0 < CurrentTerm (((rc_nodes c)(i := n)) j)" if "State (((rc_nodes c)(i := n)) j) \<noteq> StateFollower" for j
      using that n(3) D(3) [of j] by (cases "j = i") simp_all
    show "CurrentTerm (((rc_nodes c)(i := n)) j) \<in> rc_led c" if "State (((rc_nodes c)(i := n)) j) = StateLeader" for j
      using lead [OF that] D(7) [of j] by simp
    show "k \<le> lastLogIndex (((rc_nodes c)(i := n)) j)"
      if "State (((rc_nodes c)(i := n)) j) = StateLeader" "((k, CurrentTerm (((rc_nodes c)(i := n)) j)), r) \<in> rc_links c" for j k r
      using lead [OF that(1)] that(2) D(8) [of j k r] by simp
    show "j = k" if "State (((rc_nodes c)(i := n)) j) = StateLeader" "State (((rc_nodes c)(i := n)) k) = StateLeader"
      "CurrentTerm (((rc_nodes c)(i := n)) j) = CurrentTerm (((rc_nodes c)(i := n)) k)" for j k
      using lead [OF that(1)] lead [OF that(2)] that(3) D(9) [of j k] by simp
  qed (use D in auto)
qed


subsection \<open>Messages of leaders\<close>

lemma collect_tasks_in: "collect_tasks n ps = Inr ts \<Longrightarrow> t \<in> set ts \<Longrightarrow> \<exists>pa. replication_task_for n pa = Inr t"
  by (induction ps arbitrary: ts) (fastforce split: sum.splits)+

lemma leader_sends_task:
  assumes "leader_sends trm args n"
  obtains i prev where "snapshotIndex n < i" "entry_at n (i - 1) = Some prev"
    "ae_PrevLogIndex args = i - 1" "ae_PrevLogTerm args = le_Term prev" "ae_Entries args = drop (i - snapshotIndex n) (raft_log n)"
proof -
  from assms obtain ts lid t where c: "collectReplicationTasks trm n = Inr (Some (ts, lid))"
    and t: "t \<in> set ts" "\<not> rt_installSnap t" "args = append_args_of trm lid t"
    by (auto simp: leader_sends_def split: sum.splits option.splits)
  from c have "collect_tasks n (remotePeers n) = Inr ts"
    by (auto simp: collectReplicationTasks_def split: if_splits sum.splits)
  from collect_tasks_in [OF this t(1)] obtain pa where task: "replication_task_for n pa = Inr t" by blast
  let ?i = "idx_get (nextIndex n) (fst pa)"
  have i: "snapshotIndex n < ?i" using task t(2) by (auto simp: replication_task_for_def Let_def split: if_splits)
  with task t(2) obtain prev where prev: "entry_at n (?i - 1) = Some prev"
    by (auto simp: replication_task_for_def Let_def split: option.splits)
  have off: "nat (logOffsetForIndex n ?i) = ?i - snapshotIndex n" using i by (simp add: logOffsetForIndex_def)
  have "rt_prevLogIndex t = ?i - 1" "rt_prevLogTerm t = le_Term prev"
    "rt_entries t = drop (?i - snapshotIndex n) (raft_log n)"
    using task i prev off by (auto simp: replication_task_for_def Let_def)
  with that [of ?i prev] i prev t(3) show ?thesis by (simp add: append_args_of_def)
qed

lemma leader_message:
  assumes wf: "log_wf n" and pos: "\<And>k t r. ((k, t), r) \<in> node_links n \<Longrightarrow> t \<noteq> 0" and snd: "leader_sends trm args n"
  shows "entries_wf args \<and> args_links args \<subseteq> node_links n"
proof -
  from leader_sends_task [OF snd] obtain i prev where i: "snapshotIndex n < i" and prev: "entry_at n (i - 1) = Some prev"
    and a: "ae_PrevLogIndex args = i - 1" "ae_PrevLogTerm args = le_Term prev"
      "ae_Entries args = drop (i - snapshotIndex n) (raft_log n)" by blast
  let ?k = "i - 1 - snapshotIndex n"
  have k: "?k < length (raft_log n)" "raft_log n ! ?k = prev" "i - snapshotIndex n = Suc ?k"
    using prev i by (auto simp: entry_at_nat split: if_splits)
  have e: "le_Index (ae_Entries args ! j) = i + j \<and> le_Term (ae_Entries args ! j) \<noteq> 0" if "j < length (ae_Entries args)" for j
  proof -
    have j: "Suc ?k + j < length (raft_log n)" using that a(3) k(3) by simp
    have "ae_Entries args ! j = raft_log n ! (Suc ?k + j)" using a(3) k(3) j by simp
    moreover have "le_Index (raft_log n ! (Suc ?k + j)) = i + j" using log_wf_nth [OF wf j] i k(3) by simp
    moreover have "le_Term (raft_log n ! (Suc ?k + j)) \<noteq> 0" using links_nth [of "?k + j" "raft_log n"] j pos by simp
    ultimately show ?thesis by simp
  qed
  have wfa: "entries_wf args" using e a(1) i by (simp add: entries_wf_def)
  have "entriesFromArgs args = ae_Entries args"
  proof (rule nth_equalityI)
    show "length (entriesFromArgs args) = length (ae_Entries args)" by (simp add: entriesFromArgs_def)
    fix j assume "j < length (entriesFromArgs args)"
    then have "j < length (ae_Entries args)" by (simp add: entriesFromArgs_def)
    with e [OF this] i show "entriesFromArgs args ! j = ae_Entries args ! j" by (simp add: entriesFromArgs_def)
  qed
  then have "args_links args = set (log_links (drop ?k (raft_log n)))"
    unfolding args_links_def a(3) k(3) Cons_nth_drop_Suc [OF k(1), symmetric] k(2) a(2)
    using links_Cons_term [of "\<lparr>le_Index = ae_PrevLogIndex args, le_Term = le_Term prev, le_Command = None\<rparr>" prev] by simp
  with wfa links_drop [of ?k "raft_log n"] show ?thesis by simp
qed

lemma confirm_message:
  assumes "confirm_args trm k n = Some args"
  shows "entries_wf args \<and> args_links args = {}"
  using assms by (auto simp: confirm_args_def entries_wf_def args_links_def entriesFromArgs_def split: if_splits)

subsection \<open>Steps that write\<close>

lemma propose_as_leader:
  assumes "State n = StateLeader"
  shows "raft_log (snd (Propose env cmd n)) =
      raft_log n @ [\<lparr>le_Index = lastLogIndex n + 1, le_Term = CurrentTerm n, le_Command = cmd\<rparr>]"
    "State (snd (Propose env cmd n)) = StateLeader" "CurrentTerm (snd (Propose env cmd n)) = CurrentTerm n"
    "lastLogIndex (snd (Propose env cmd n)) = lastLogIndex n + 1"
  using assms by (simp_all add: Propose_def Let_def case_prod_unfold raft_frame lastLogIndex_def)

lemma links_ok_propose:
  assumes ok: "links_ok c" and n: "n = snd (Propose env cmd (rc_nodes c i))"
  shows "links_ok ((put_node i n c)\<lparr>rc_links := rc_links c \<union> node_links n\<rparr>)"
proof (cases "State (rc_nodes c i) = StateLeader")
  case False
  then have "n = rc_nodes c i" using n by (simp add: Propose_def split: option.split)
  with links_okD(2) [OF ok, of i] have "(put_node i n c)\<lparr>rc_links := rc_links c \<union> node_links n\<rparr> = c"
    by (simp add: put_node_def Un_absorb2)
  with ok show ?thesis by simp
next
  case True
  note D = links_okD [OF ok] and P = propose_as_leader [OF True, of env cmd, folded n]
  let ?m = "rc_nodes c i" and ?L = "rc_links c \<union> node_links n"
  let ?new = "((lastLogIndex ?m + 1, CurrentTerm ?m), (cmd, le_Term (last (raft_log ?m))))"
  have wf: "log_wf n" using Propose_advances [OF D(1) [of i], of env cmd] n by (simp add: advances_def)
  have "raft_log ?m \<noteq> []" using D(1) [of i] by (simp add: log_wf_def)
  then have "node_links n = insert ?new (node_links ?m)" unfolding P(1) by (simp add: links_last)
  then have L: "?L = insert ?new (rc_links c)" using D(2) [of i] by auto
  let ?c = "(put_node i n c)\<lparr>rc_links := ?L\<rparr>"
  have f: "rc_nodes ?c = (rc_nodes c)(i := n)" "rc_sent ?c = rc_sent c" "rc_led ?c = rc_led c" "rc_links ?c = ?L"
    by (simp_all add: put_node_def)
  have lead: "State (rc_nodes c j) = StateLeader \<and> CurrentTerm (((rc_nodes c)(i := n)) j) = CurrentTerm (rc_nodes c j)"
    if "State (((rc_nodes c)(i := n)) j) = StateLeader" for j
    using that P True by (cases "j = i") simp_all
  show ?thesis
  proof (rule links_okI, unfold f)
    show "log_wf (((rc_nodes c)(i := n)) j)" for j using wf D(1) by simp
    show "node_links (((rc_nodes c)(i := n)) j) \<subseteq> ?L" for j using D(2) [of j] by (cases "j = i") auto
    show "0 < CurrentTerm (((rc_nodes c)(i := n)) j)" if "State (((rc_nodes c)(i := n)) j) \<noteq> StateFollower" for j
      using that D(3) [of j] P True by (cases "j = i") simp_all
    show "single_valued ?L" unfolding L single_valued_def
      using D(4) [unfolded single_valued_def] D(8) [OF True] by fastforce
    show "t \<in> rc_led c" if "((k, t), r) \<in> ?L" for k t r using that D(5) [of k t r] D(7) [OF True] unfolding L by auto
    show "CurrentTerm (((rc_nodes c)(i := n)) j) \<in> rc_led c" if "State (((rc_nodes c)(i := n)) j) = StateLeader" for j
      using lead [OF that] D(7) [of j] by simp
    show "k \<le> lastLogIndex (((rc_nodes c)(i := n)) j)"
      if "State (((rc_nodes c)(i := n)) j) = StateLeader" "((k, CurrentTerm (((rc_nodes c)(i := n)) j)), r) \<in> ?L" for j k r
    proof (cases "j = i")
      case True
      with that P(3,4) D(8) [OF \<open>State (rc_nodes c i) = StateLeader\<close>, of k r] show ?thesis unfolding L by auto
    next
      case False
      with lead [OF that(1)] that(2) D(8) [of j k r] D(9) [of j i] True show ?thesis unfolding L by auto
    qed
    show "j = k" if "State (((rc_nodes c)(i := n)) j) = StateLeader" "State (((rc_nodes c)(i := n)) k) = StateLeader"
      "CurrentTerm (((rc_nodes c)(i := n)) j) = CurrentTerm (((rc_nodes c)(i := n)) k)" for j k
      using lead [OF that(1)] lead [OF that(2)] that(3) D(9) [of j k] by simp
    show "entries_wf args \<and> args_links args \<subseteq> ?L" if "args \<in> rc_sent c" for args using D(10) [OF that] by auto
  qed (use D in auto)
qed

lemma links_ok_promote:
  assumes ok: "links_ok c" and n: "n = promoteToLeader t (rc_nodes c i)"
    and new: "State n = StateLeader \<longrightarrow> State (rc_nodes c i) \<noteq> StateLeader \<longrightarrow> CurrentTerm n \<notin> rc_led c"
  shows "links_ok ((put_node i n c)\<lparr>rc_led := (if State n = StateLeader then insert (CurrentTerm n) (rc_led c) else rc_led c)\<rparr>)"
proof (cases "State (rc_nodes c i) = StateCandidate \<and> CurrentTerm (rc_nodes c i) = t")
  case False
  then have "n = rc_nodes c i" using n by (auto simp: promoteToLeader_def)
  moreover have "insert (CurrentTerm (rc_nodes c i)) (rc_led c) = rc_led c" if "State (rc_nodes c i) = StateLeader"
    using links_okD(7) [OF ok that] by (rule insert_absorb)
  ultimately have "(put_node i n c)\<lparr>rc_led := (if State n = StateLeader then insert (CurrentTerm n) (rc_led c) else rc_led c)\<rparr> = c"
    by (simp add: put_node_def)
  with ok show ?thesis by simp
next
  case True
  note D = links_okD [OF ok]
  let ?m = "rc_nodes c i" and ?L = "insert (CurrentTerm n) (rc_led c)"
  have P: "raft_log n = raft_log ?m" "State n = StateLeader" "CurrentTerm n = CurrentTerm ?m" "log_wf n"
    using n True promoteToLeader_advances [OF D(1) [of i], of t]
    by (simp_all add: promoteToLeader_def initLeaderReplication_def Let_def advances_def)
  have fresh: "CurrentTerm n \<notin> rc_led c" using new P True by simp
  let ?c = "(put_node i n c)\<lparr>rc_led := ?L\<rparr>"
  have f: "rc_nodes ?c = (rc_nodes c)(i := n)" "rc_sent ?c = rc_sent c" "rc_led ?c = ?L" "rc_links ?c = rc_links c"
    by (simp_all add: put_node_def)
  have other: "State (rc_nodes c j) = StateLeader \<Longrightarrow> CurrentTerm (rc_nodes c j) \<noteq> CurrentTerm n" for j
    using D(7) [of j] fresh by metis
  have "links_ok ?c"
  proof (rule links_okI, unfold f)
    show "log_wf (((rc_nodes c)(i := n)) j)" for j using P D(1) by simp
    show "node_links (((rc_nodes c)(i := n)) j) \<subseteq> rc_links c" for j using P D(2) by simp
    show "0 < CurrentTerm (((rc_nodes c)(i := n)) j)" if "State (((rc_nodes c)(i := n)) j) \<noteq> StateFollower" for j
      using that D(3) [of j] P True D(3) [of i] by (cases "j = i") simp_all
    show "0 \<notin> ?L" using D(3) [of i] D(6) P True by simp
    show "CurrentTerm (((rc_nodes c)(i := n)) j) \<in> ?L" if "State (((rc_nodes c)(i := n)) j) = StateLeader" for j
      using that D(7) [of j] by (cases "j = i") simp_all
    show "k \<le> lastLogIndex (((rc_nodes c)(i := n)) j)"
      if "State (((rc_nodes c)(i := n)) j) = StateLeader" "((k, CurrentTerm (((rc_nodes c)(i := n)) j)), r) \<in> rc_links c" for j k r
      using that D(5) [of k _ r] D(8) [of j k r] fresh by (cases "j = i") auto
    show "j = k" if "State (((rc_nodes c)(i := n)) j) = StateLeader" "State (((rc_nodes c)(i := n)) k) = StateLeader"
      "CurrentTerm (((rc_nodes c)(i := n)) j) = CurrentTerm (((rc_nodes c)(i := n)) k)" for j k
      using that D(9) [of j k] other [of j] other [of k] by (cases "j = i"; cases "k = i") simp_all
  qed (use D in auto)
  with P show ?thesis by simp
qed

lemma links_ok_send:
  assumes ok: "links_ok c" and "leader_sends t args (rc_nodes c i) \<or> confirm_args t k (rc_nodes c i) = Some args"
  shows "links_ok (c\<lparr>rc_sent := insert args (rc_sent c)\<rparr>)"
proof -
  note D = links_okD [OF ok]
  have pos: "t' \<noteq> 0" if "((k', t'), r) \<in> node_links (rc_nodes c i)" for k' t' r
    using that D(2) [of i] D(5) [of k' t' r] D(6) by (metis subsetD)
  have "entries_wf args \<and> args_links args \<subseteq> node_links (rc_nodes c i)" if "leader_sends t args (rc_nodes c i)"
    by (rule leader_message [OF D(1) _ that]) (rule pos)
  then have "entries_wf args \<and> args_links args \<subseteq> rc_links c"
    using assms(2) confirm_message [of t k "rc_nodes c i" args] D(2) [of i] by blast
  with ok show ?thesis unfolding links_ok_def by simp
qed


subsection \<open>Every reachable cluster\<close>

lemma append_steps_down:
  assumes "log_wf n" "entries_wf args"
  shows "snd (AppendEntries env args n) = n \<or> State (snd (AppendEntries env args n)) = StateFollower"
proof (cases rule: AppendEntries_cases [of args n env])
  case (accepted prev n1 n3 p n4)
  have "log_wf n1" using assms(1) accepted(2) by (simp add: log_wf_def raft_frame)
  then have "log_wf n3"
    using append_log_wf [OF _ assms(2) accepted(3)] accepted(5) by (simp add: log_wf_def raft_frame)
  from applyCommitted_fields(3) [OF this, of env] have "State n4 = StateFollower"
    using accepted(2,5,6) by (simp add: raft_frame)
  then show ?thesis by (simp add: accepted(7) raft_frame split: option.split)
qed (simp_all add: raft_frame)

lemma install_steps_down:
  "snd (snd (InstallSnapshot env args n)) = n \<or> State (snd (snd (InstallSnapshot env args n))) = StateFollower"
  by (simp add: InstallSnapshot_def Let_def case_prod_unfold raft_frame split: sum.split option.split)

lemma confirm_steps_down:
  "snd (confirmLeadershipForRead t rs n) = n \<or> State (snd (confirmLeadershipForRead t rs n)) = StateFollower"
  "raft_log (snd (confirmLeadershipForRead t rs n)) = raft_log n"
proof -
  have "snd (confirm_loop t rs k n) = n \<or> State (snd (confirm_loop t rs k n)) = StateFollower" for k
    by (induction t rs k n rule: confirm_loop.induct) (auto simp: raft_frame split: if_splits)
  from this [of 1] show "snd (confirmLeadershipForRead t rs n) = n \<or> State (snd (confirmLeadershipForRead t rs n)) = StateFollower"
    by (auto simp: confirmLeadershipForRead_def Let_def case_prod_unfold)
  have "raft_log (snd (confirm_loop t rs k n)) = raft_log n" for k
    by (induction t rs k n rule: confirm_loop.induct) (auto simp: raft_frame split: if_splits)
  then show "raft_log (snd (confirmLeadershipForRead t rs n)) = raft_log n"
    by (simp add: confirmLeadershipForRead_def Let_def case_prod_unfold)
qed

text \<open>The role does not grow: the node is unchanged or a follower.\<close>

lemma links_ok_quiet:
  assumes ok: "links_ok c" and "log_wf n" "node_links n \<subseteq> rc_links c" "n = rc_nodes c i \<or> State n = StateFollower"
  shows "links_ok (put_node i n c)"
  using links_okD(3) [OF ok, of i] assms(4) by (intro links_ok_node [OF assms(1-3)]) auto

lemma repl_links_ok:
  assumes "repl_reach env members c"
  shows "links_ok c"
  using assms
proof induction
  case (init nodes fsm d)
  then show ?case by (intro links_okI) (simp_all add: NewRaftNode_def log_wf_def)
next
  case (elect c i)
  note D = links_okD [OF elect.IH]
  show ?case
    using startElection_advances [OF D(1) [of i]] D(2,3) [of i]
    by (intro links_ok_node [OF elect.IH]) (auto simp: advances_def startElection_def Let_def split: if_splits)
next
  case (vote c i rv)
  note D = links_okD [OF vote.IH]
  show ?case
    using RequestVote_advances [OF D(1) [of i], of rv] D(2,3) [of i]
    by (intro links_ok_node [OF vote.IH])
      (auto simp: advances_def RequestVote_def Let_def raft_frame lastLogIndex_def split: if_splits)
next
  case (vote_reply c i t r)
  note D = links_okD [OF vote_reply.IH]
  show ?case
    using handleVoteReply_advances [OF D(1) [of i], of t r] D(2) [of i]
    by (intro links_ok_quiet [OF vote_reply.IH]) (auto simp: advances_def handleVoteReply_def raft_frame)
next
  case (promote c n t i)
  then show ?case by (intro links_ok_promote) simp_all
next
  case (propose c n cmd i)
  then show ?case by (intro links_ok_propose)
next
  case (send c t args i k)
  then show ?case by (intro links_ok_send)
next
  case (append c args i)
  note D = links_okD [OF append.IH]
  show ?case
    using D(10) [OF append.hyps(2)] D(2) [of i] AppendEntries_links [of env args "rc_nodes c i"]
      AppendEntries_advances [OF D(1) [of i], of args env] append_steps_down [OF D(1) [of i], of args env]
    by (intro links_ok_quiet [OF append.IH]) (auto simp: advances_def)
next
  case (append_reply c i t p args r)
  note D = links_okD [OF append_reply.IH]
  show ?case
    using reply_last [OF D(1) [of i], of env t p args r] D(2,3) [of i] reply_links [of env t p args r "rc_nodes c i"]
      handleAppendEntriesReply_advances [OF D(1) [of i], of env t p args r]
    by (intro links_ok_node [OF append_reply.IH]) (auto simp: advances_def Let_def)
next
  case (confirm c i t rs)
  note D = links_okD [OF confirm.IH]
  show ?case
    using confirm_steps_down [of t rs "rc_nodes c i"] D(2) [of i] confirm_advances [OF D(1) [of i], of t rs]
    by (intro links_ok_quiet [OF confirm.IH]) (auto simp: advances_def)
next
  case (send_snapshot c t i ins)
  then show ?case by (simp add: links_ok_def)
next
  case (install c ins i)
  note D = links_okD [OF install.IH]
  show ?case
    using InstallSnapshot_links [OF install.hyps(3), of env] install_steps_down [of env ins "rc_nodes c i"]
      InstallSnapshot_advances [OF D(1) [of i], of env ins] D(2) [of i]
    by (intro links_ok_quiet [OF install.IH]) (auto simp: advances_def)
next
  case (wait c i k w)
  note D = links_okD [OF wait.IH]
  show ?case
    using D(1,2,3) [of i]
    by (intro links_ok_node [OF wait.IH]) (auto simp: waitForApply_def log_wf_def lastLogIndex_def split: option.split)
next
  case (flush c i)
  note D = links_okD [OF flush.IH]
  show ?case
    using D(1,2,3) [of i]
    by (intro links_ok_node [OF flush.IH]) (auto simp: log_wf_def lastLogIndex_def raft_frame)
qed


subsection \<open>Property\<close>

lemma node_link:
  assumes "log_wf n" "entry_at n (Suc k) = Some e" "entry_at n k = Some p"
  shows "((Suc k, le_Term e), (le_Command e, le_Term p)) \<in> node_links n"
proof -
  let ?k = "k - snapshotIndex n"
  have k: "snapshotIndex n \<le> k" "raft_log n ! ?k = p" using assms(3) by (auto simp: entry_at_nat split: if_splits)
  then have e: "Suc ?k < length (raft_log n)" "raft_log n ! Suc ?k = e"
    using assms(2) by (auto simp: entry_at_nat Suc_diff_le split: if_splits)
  have "le_Index e = Suc k" by (rule entry_at_index [OF assms(1,2)])
  with links_nth [of ?k "raft_log n"] e k show ?thesis by simp
qed

lemma entry_below:
  "log_wf n \<Longrightarrow> entry_at n j = Some x \<Longrightarrow> entry_at n i = Some y \<Longrightarrow> j \<le> k \<Longrightarrow> k \<le> i \<Longrightarrow> \<exists>z. entry_at n k = Some z"
  by (auto simp: entry_at_iff split: if_splits)

text \<open>Two well-formed logs with links from one single-valued set agree downwards.\<close>

lemma links_match:
  assumes wf: "log_wf n" "log_wf m" and L: "node_links n \<subseteq> L" "node_links m \<subseteq> L" "single_valued L"
    and i: "entry_at n i = Some x" "entry_at m i = Some y" "le_Term x = le_Term y"
    and j: "entry_at n j = Some x'" "entry_at m j = Some y'" "j \<le> i"
  shows "le_Term x' = le_Term y'"
proof -
  have "\<forall>u v. entry_at n k = Some u \<longrightarrow> entry_at m k = Some v \<longrightarrow> le_Term u = le_Term v" if "j \<le> k" "k \<le> i" for k
    using that(2,1)
  proof (induction k rule: inc_induct)
    case base
    then show ?case using i by simp
  next
    case (step k)
    obtain e f where ef: "entry_at n (Suc k) = Some e" "entry_at m (Suc k) = Some f"
      using entry_below [OF wf(1) j(1) i(1), of "Suc k"] entry_below [OF wf(2) j(2) i(2), of "Suc k"] step by auto
    show ?case
    proof (intro allI impI)
      fix u v assume uv: "entry_at n k = Some u" "entry_at m k = Some v"
      have "((Suc k, le_Term e), (le_Command e, le_Term u)) \<in> L" "((Suc k, le_Term f), (le_Command f, le_Term v)) \<in> L"
        using node_link [OF wf(1) ef(1) uv(1)] node_link [OF wf(2) ef(2) uv(2)] L by auto
      moreover have "le_Term e = le_Term f" using step ef by simp
      ultimately show "le_Term u = le_Term v" using single_valuedD [OF L(3)] by fastforce
    qed
  qed
  from this [of j] j show ?thesis by blast
qed

text \<open>
  C6: Log matching: in every state a cluster reaches, if the logs of two nodes hold entries of
  the same index and term, then at every index below that both still hold they have the
  same term, and the same command except where a snapshot has replaced it.
\<close>

theorem logs_match:
  assumes "repl_reach env members c"
    and "entry_at (rc_nodes c a) i = Some x" "entry_at (rc_nodes c b) i = Some y" "le_Term x = le_Term y"
    and "entry_at (rc_nodes c a) j = Some x'" "entry_at (rc_nodes c b) j = Some y'" "j \<le> i"
  shows "le_Term x' = le_Term y'
    \<and> (snapshotIndex (rc_nodes c a) < j \<longrightarrow> snapshotIndex (rc_nodes c b) < j \<longrightarrow> x' = y')"
proof -
  let ?n = "rc_nodes c a" and ?m = "rc_nodes c b"
  note D = links_okD [OF repl_links_ok [OF assms(1)]]
  have t: "le_Term x' = le_Term y'"
    by (rule links_match [OF D(1) D(1) D(2) D(2) D(4) assms(2-7)])
  have "x' = y'" if s: "snapshotIndex ?n < j" "snapshotIndex ?m < j"
  proof -
    from s obtain k where k: "j = Suc k" by (cases j) simp_all
    obtain u v where uv: "entry_at ?n k = Some u" "entry_at ?m k = Some v"
      using assms(5,6) s k by (auto simp: entry_at_iff [OF D(1)] split: if_splits)
    have "((Suc k, le_Term x'), (le_Command x', le_Term u)) \<in> rc_links c" "((Suc k, le_Term y'), (le_Command y', le_Term v)) \<in> rc_links c"
      using node_link [OF D(1) assms(5) [unfolded k] uv(1)] node_link [OF D(1) assms(6) [unfolded k] uv(2)] D(2) by auto
    then have "le_Command x' = le_Command y'" using single_valuedD [OF D(4)] t by fastforce
    with t entry_at_index [OF D(1) assms(5)] entry_at_index [OF D(1) assms(6)] show ?thesis
      by (cases x', cases y') simp
  qed
  with t show ?thesis by simp
qed

text \<open>A leader of term 1 replicates a command to a follower.\<close>

definition pair_peers :: peer_map where
  "pair_peers = [(''A'', ''a''), (''B'', ''b'')]"

definition leader_A :: "(local_fsm, unit) raft_node" where
  "leader_A = snd (Propose demo_env noop (promoteToLeader 1 (snd (startElection (NewRaftNode ''A'' pair_peers Map.empty)))))"

definition append_B :: append_entries_args where
  "append_B = \<lparr>ae_Term = 1, ae_LeaderID = ''A'', ae_PrevLogIndex = 0, ae_PrevLogTerm = 0, ae_Entries = [demo_entry 1 1],
     ae_LeaderCommit = 0\<rparr>"

definition follower_B :: "(local_fsm, unit) raft_node" where
  "follower_B = snd (AppendEntries demo_env append_B (NewRaftNode ''B'' pair_peers Map.empty))"

lemma leader_A_sends: "leader_sends 1 append_B leader_A"
  by (simp add: leader_sends_def collectReplicationTasks_def leader_A_def Propose_def promoteToLeader_def startElection_def
      NewRaftNode_def initLeaderReplication_def Let_def remotePeers_def pair_peers_def persistDurableState_def
      replication_task_for_def idx_get_def lastLogIndex_def entry_at_def logOffsetForIndex_def append_args_of_def
      append_B_def demo_entry_def)

lemma follower_B_log:
  "raft_log follower_B = [\<lparr>le_Index = 0, le_Term = 0, le_Command = None\<rparr>, demo_entry 1 1]" "snapshotIndex follower_B = 0"
proof -
  let ?n1 = "accept_leader (Suc 0) ''A'' (NewRaftNode ''B'' pair_peers Map.empty :: (local_fsm, unit) raft_node)"
  let ?n2 = "append_log append_B ?n1"
  have log: "raft_log ?n2 = [\<lparr>le_Index = 0, le_Term = 0, le_Command = None\<rparr>, demo_entry 1 1]"
    by (simp add: append_log_def append_B_def logOffsetForIndex_def raft_frame entriesFromArgs_def demo_entry_def)
      (simp add: NewRaftNode_def)
  have f: "commitIndex ?n2 = 0" "lastApplied ?n2 = 0" "snapshotIndex ?n2 = 0" "compactThreshold ?n2 = 1000"
    by (simp_all add: raft_frame) (simp_all add: append_log_def accept_leader_def becomeFollower_def NewRaftNode_def
        defaultCompactThreshold_def Let_def)
  have "apply_loop demo_env True ?n2 = ?n2" by (rule apply_loop_stop) (simp add: f)
  moreover have "uncompactedLogEntries ?n2 = 1" by (simp add: uncompactedLogEntries_def lastLogIndex_def log f demo_entry_def)
  ultimately have "applyCommitted demo_env ?n2 = (None, ?n2)" by (simp add: applyCommitted_def maybeCompact_def f)
  moreover have "adopt_commit append_B ?n2 = ?n2" by (simp add: adopt_commit_def append_B_def f)
  moreover have "entry_at ?n1 0 = Some \<lparr>le_Index = 0, le_Term = 0, le_Command = None\<rparr>" "snapshotIndex ?n1 = 0"
    by (simp_all add: entry_at_nat raft_frame) (simp_all add: NewRaftNode_def)
  moreover have "ae_Term append_B = Suc 0" "ae_LeaderID append_B = ''A''" "ae_PrevLogIndex append_B = 0" "ae_PrevLogTerm append_B = 0"
    by (simp_all add: append_B_def)
  moreover have "CurrentTerm (NewRaftNode ''B'' pair_peers Map.empty :: (local_fsm, unit) raft_node) = 0"
    by (simp add: NewRaftNode_def)
  ultimately have B: "follower_B = notifyHeartbeat (snd (persistDurableState demo_env ?n2))"
    by (simp add: follower_B_def AppendEntries_def Let_def case_prod_unfold)
  show "raft_log follower_B = [\<lparr>le_Index = 0, le_Term = 0, le_Command = None\<rparr>, demo_entry 1 1]"
    unfolding B notify_frame persist_frame by (rule log)
  show "snapshotIndex follower_B = 0" unfolding B notify_frame persist_frame by (rule f)
qed

lemma logs_match_witness:
  "\<exists>c :: (local_fsm, unit) repl_cluster. repl_reach demo_env pair_peers c \<and> rc_nodes c ''A'' = leader_A \<and> rc_nodes c ''B'' = follower_B
     \<and> entry_at leader_A 1 = Some (demo_entry 1 1) \<and> entry_at leader_A 1 = entry_at follower_B 1"
proof -
  let ?new = "\<lambda>i. (NewRaftNode i pair_peers (Map.empty :: local_fsm))\<lparr>storage := None :: unit option\<rparr>"
  have new: "?new i = NewRaftNode i pair_peers Map.empty" for i by (simp add: NewRaftNode_def)
  let ?c0 = "\<lparr>rc_nodes = ?new, rc_sent = {}, rc_snaps = {}, rc_led = {}, rc_links = {}\<rparr> :: (local_fsm, unit) repl_cluster"
  have c0: "repl_reach demo_env pair_peers ?c0" by (rule repl_reach.init) simp
  let ?c1 = "put_node ''A'' (snd (startElection (rc_nodes ?c0 ''A''))) ?c0"
  have c1: "repl_reach demo_env pair_peers ?c1" by (rule repl_reach.elect [OF c0])
  let ?n = "promoteToLeader 1 (rc_nodes ?c1 ''A'')"
  let ?c2 = "(put_node ''A'' ?n ?c1)\<lparr>rc_led := (if State ?n = StateLeader then insert (CurrentTerm ?n) (rc_led ?c1) else rc_led ?c1)\<rparr>"
  have c2: "repl_reach demo_env pair_peers ?c2" by (rule repl_reach.promote [OF c1 refl]) (simp add: put_node_def)
  let ?m = "snd (Propose demo_env noop (rc_nodes ?c2 ''A''))"
  let ?c3 = "(put_node ''A'' ?m ?c2)\<lparr>rc_links := rc_links ?c2 \<union> node_links ?m\<rparr>"
  have c3: "repl_reach demo_env pair_peers ?c3" by (rule repl_reach.propose [OF c2 refl])
  have A: "rc_nodes ?c3 ''A'' = leader_A" by (simp add: put_node_def leader_A_def new)
  let ?c4 = "?c3\<lparr>rc_sent := insert append_B (rc_sent ?c3)\<rparr>"
  have c4: "repl_reach demo_env pair_peers ?c4"
    by (rule repl_reach.send [OF c3, of 1 _ "''A''"]) (use leader_A_sends A in simp)
  let ?c5 = "put_node ''B'' (snd (AppendEntries demo_env append_B (rc_nodes ?c4 ''B''))) ?c4"
  have c5: "repl_reach demo_env pair_peers ?c5" by (rule repl_reach.append [OF c4]) simp
  have nodes: "rc_nodes ?c5 ''A'' = leader_A" "rc_nodes ?c5 ''B'' = follower_B"
    using A by (simp_all add: put_node_def follower_B_def new)
  have a: "entry_at leader_A 1 = Some (demo_entry 1 1)" "snapshotIndex leader_A = 0"
    by (simp_all add: leader_A_def Propose_def promoteToLeader_def startElection_def NewRaftNode_def initLeaderReplication_def
        Let_def persistDurableState_def lastLogIndex_def entry_at_def logOffsetForIndex_def demo_entry_def)
  obtain y where b: "entry_at follower_B 1 = Some y" "le_Term y = 1" "snapshotIndex follower_B = 0"
    using follower_B_log by (simp add: entry_at_nat demo_entry_def)
  have t: "le_Term (demo_entry 1 1) = le_Term y" using b by (simp add: demo_entry_def)
  note th = logs_match [OF c5, of "''A''" 1 "demo_entry 1 1" "''B''" y 1 "demo_entry 1 1" y, unfolded nodes, OF a(1) b(1) t a(1) b(1)]
  from th have "demo_entry 1 1 = y" using a b by simp
  with a b c5 nodes show ?thesis by (intro exI [of _ ?c5] conjI) simp_all
qed

subsection \<open>Why the snapshots are guarded\<close>

text \<open>
  \<open>InstallSnapshot\<close> keeps what stands behind the snapshot without comparing the terms: a
  follower with two entries of term 1 that installs a snapshot of index 1 and term 2 keeps its
  second entry, which no leader ever wrote behind an entry of term 2.
\<close>

lemma snapshot_keeps_conflicting_tail:
  "let n = snd (snd (InstallSnapshot demo_env
      \<lparr>is_Term = 3, is_LeaderID = ''B'', is_LastIncludedIndex = 1, is_LastIncludedTerm = 2, is_Data = []\<rparr> (demo_node ''A''))) in
    entry_at n 1 = Some \<lparr>le_Index = 1, le_Term = 2, le_Command = None\<rparr> \<and> entry_at n 2 = Some (demo_entry 2 1)"
  by (simp add: InstallSnapshot_def demo_raft_defs accept_leader_def becomeFollower_def Let_def demo_env_def compacted_log_def
      logOffsetForIndex_def persistSnapshot_def persistDurableState_def notifyHeartbeat_def entry_at_def)

end
