(* ===== verification/Pumps.thy ===== *)
theory Pumps
  imports Ws_Laws
begin

section \<open>The pumps of a connection\<close>

text \<open>
  Models \<open>readPump\<close> and \<open>writePump\<close> of \<open>pkg/ws/client.go\<close> as two loops over one connection:
  the socket, its deadlines and the pings included. The hub's side is the send channel. What
  the peer does, what a write returns and which ready case a \<open>select\<close> takes is a sequence of
  events with their times, in nanoseconds. The library answers a read behind the deadline, or
  one of a message longer than the limit, with an error, and a write to a closed connection.
\<close>

subsection \<open>Constants\<close>

definition maxMessageSize :: nat where "maxMessageSize = 512 * 1024"
definition writeWait :: int where "writeWait = 10000000000"
definition pongWait :: int where "pongWait = 60000000000"
definition pingPeriod :: int where "pingPeriod = 9000000000"

lemma ping_before_pong_wait: "pingPeriod < pongWait"
  by (simp add: pingPeriod_def pongWait_def)

subsection \<open>State\<close>

datatype wire_frame = WireText frame | WirePing | WireClose

record pumps =
  pm_send :: "frame channel"
  pm_wire :: "wire_frame list"
  pm_write_deadline :: int
  pm_writing :: bool
  pm_reading :: bool
  pm_open :: bool
  pm_deadline :: int
  pm_unregister :: nat
  pm_inbound :: "json list"
  pm_crashed :: "go_error option"

text \<open>A connection that \<open>ServeConnect\<close> has just started.\<close>

definition start_pumps :: "int \<Rightarrow> socket \<Rightarrow> pumps" where
  "start_pumps now so =
     \<lparr>pm_send = so_send so, pm_wire = [], pm_write_deadline = now, pm_writing = True, pm_reading = True, pm_open = True,
      pm_deadline = now + pongWait, pm_unregister = 0, pm_inbound = [], pm_crashed = None\<rparr>"

subsection \<open>The write pump\<close>

text \<open>\<open>WriteMessage\<close>, with its result if the connection is open; the flag says whether it failed.\<close>

definition write_message :: "int \<Rightarrow> go_error option \<Rightarrow> wire_frame \<Rightarrow> pumps \<Rightarrow> bool \<times> pumps" where
  "write_message now err f p =
     (let p1 = p\<lparr>pm_write_deadline := now + writeWait\<rparr> in
      if \<not> pm_open p \<or> err \<noteq> None then (True, p1) else (False, p1\<lparr>pm_wire := pm_wire p1 @ [f]\<rparr>))"

definition leave_writer :: "pumps \<Rightarrow> pumps" where
  "leave_writer p = p\<lparr>pm_writing := False, pm_open := False\<rparr>"

text \<open>A turn that takes from the channel; \<open>None\<close> when there is nothing to take.\<close>

definition writer_takes :: "int \<Rightarrow> go_error option \<Rightarrow> pumps \<Rightarrow> pumps option" where
  "writer_takes now err p =
     (if \<not> pm_writing p then None
      else case ch_buf (pm_send p) of
        f # fs \<Rightarrow>
          (case write_message now err (WireText f) (p\<lparr>pm_send := (pm_send p)\<lparr>ch_buf := fs\<rparr>\<rparr>) of
             (failed, p1) \<Rightarrow> Some (if failed then leave_writer p1 else p1))
      | [] \<Rightarrow>
          if ch_closed (pm_send p) then Some (leave_writer (snd (write_message now err WireClose p))) else None)"

definition ticker_fires :: "int \<Rightarrow> go_error option \<Rightarrow> pumps \<Rightarrow> pumps option" where
  "ticker_fires now err p =
     (if \<not> pm_writing p then None
      else case write_message now err WirePing p of (failed, p1) \<Rightarrow> Some (if failed then leave_writer p1 else p1))"

subsection \<open>The read pump\<close>

definition isValidJSON :: "json \<Rightarrow> bool" where
  "isValidJSON payload = (payload \<noteq> JBad)"

text \<open>The deferred calls: the client is unregistered and the connection closed.\<close>

definition leave_reader :: "pumps \<Rightarrow> pumps" where
  "leave_reader p = p\<lparr>pm_reading := False, pm_unregister := pm_unregister p + 1, pm_open := False\<rparr>"

definition read_error_frame :: "int \<Rightarrow> pumps \<Rightarrow> pumps" where
  "read_error_frame now p =
     (case chan_send (newErrorEnvelope now ErrCodeInvalidJSON ''message is not valid JSON'') (pm_send p) of
        None \<Rightarrow> p
      | Some (Inl e) \<Rightarrow> p\<lparr>pm_crashed := Some e\<rparr>
      | Some (Inr c) \<Rightarrow> p\<lparr>pm_send := c\<rparr>)"

text \<open>A message of the peer; the hub takes what is forwarded.\<close>

definition reader_gets :: "int \<Rightarrow> nat \<Rightarrow> json \<Rightarrow> pumps \<Rightarrow> pumps option" where
  "reader_gets now len message p =
     (if \<not> pm_reading p then None
      else if \<not> pm_open p \<or> pm_deadline p \<le> now \<or> maxMessageSize < len then Some (leave_reader p)
      else if \<not> isValidJSON message then Some (read_error_frame now p)
      else Some (p\<lparr>pm_inbound := pm_inbound p @ [message]\<rparr>))"

text \<open>The pong handler runs inside \<open>ReadMessage\<close>.\<close>

definition reader_pong :: "int \<Rightarrow> pumps \<Rightarrow> pumps option" where
  "reader_pong now p =
     (if \<not> pm_reading p then None
      else if \<not> pm_open p \<or> pm_deadline p \<le> now then Some (leave_reader p)
      else Some (p\<lparr>pm_deadline := now + pongWait\<rparr>))"

text \<open>\<open>ReadMessage\<close> fails without a message: the peer is gone, or the deadline has passed.\<close>

definition reader_fails :: "pumps \<Rightarrow> pumps option" where
  "reader_fails p = (if pm_reading p then Some (leave_reader p) else None)"

subsection \<open>Runs\<close>

datatype pump_event =
    HubSends frame
  | HubCloses
  | WriterTakes "go_error option"
  | TickerFires "go_error option"
  | PeerSends nat json
  | PeerPongs
  | ReadFails

fun pump_step :: "int \<times> pump_event \<Rightarrow> pumps \<Rightarrow> pumps option" where
  "pump_step (now, HubSends f) p = (if ch_closed (pm_send p) then None else Some (p\<lparr>pm_send := try_send f (pm_send p)\<rparr>))"
| "pump_step (now, HubCloses) p =
     (case chan_close (pm_send p) of Inl e \<Rightarrow> None | Inr c \<Rightarrow> Some (p\<lparr>pm_send := c\<rparr>))"
| "pump_step (now, WriterTakes err) p = writer_takes now err p"
| "pump_step (now, TickerFires err) p = ticker_fires now err p"
| "pump_step (now, PeerSends len message) p = reader_gets now len message p"
| "pump_step (now, PeerPongs) p = reader_pong now p"
| "pump_step (now, ReadFails) p = reader_fails p"

text \<open>Events that cannot happen are skipped; a panic ends the run.\<close>

fun pump_run :: "(int \<times> pump_event) list \<Rightarrow> pumps \<Rightarrow> pumps" where
  "pump_run [] p = p"
| "pump_run (e # es) p =
     (if pm_crashed p \<noteq> None then p
      else case pump_step e p of None \<Rightarrow> pump_run es p | Some p1 \<Rightarrow> pump_run es p1)"

text \<open>What the hub and the read pump put into the channel, in order, along a run.\<close>

fun step_queues :: "int \<times> pump_event \<Rightarrow> pumps \<Rightarrow> frame list" where
  "step_queues (now, HubSends f) p =
     (if \<not> ch_closed (pm_send p) \<and> length (ch_buf (pm_send p)) < ch_cap (pm_send p) then [f] else [])"
| "step_queues (now, PeerSends len message) p =
     (if pm_reading p \<and> pm_open p \<and> now < pm_deadline p \<and> len \<le> maxMessageSize \<and> message = JBad
        \<and> \<not> ch_closed (pm_send p) \<and> length (ch_buf (pm_send p)) < ch_cap (pm_send p)
      then [newErrorEnvelope now ErrCodeInvalidJSON ''message is not valid JSON''] else [])"
| "step_queues e p = []"

fun queued :: "(int \<times> pump_event) list \<Rightarrow> pumps \<Rightarrow> frame list" where
  "queued [] p = []"
| "queued (e # es) p =
     (if pm_crashed p \<noteq> None then []
      else case pump_step e p of None \<Rightarrow> queued es p | Some p1 \<Rightarrow> step_queues e p @ queued es p1)"

definition wire_texts :: "wire_frame list \<Rightarrow> frame list" where
  "wire_texts ws = concat (map (\<lambda>w. case w of WireText f \<Rightarrow> [f] | _ \<Rightarrow> []) ws)"

lemma wire_texts_simps [simp]:
  "wire_texts [] = []" "wire_texts (ws @ [WireText f]) = wire_texts ws @ [f]"
  "wire_texts (ws @ [WirePing]) = wire_texts ws" "wire_texts (ws @ [WireClose]) = wire_texts ws"
  by (simp_all add: wire_texts_def)

text \<open>
  The invariant, for what was queued so far: the texts written are a prefix of it, what is
  left is in the buffer as long as the writer runs, a close frame comes last and only when
  everything was written, and the client is unregistered when the reader ends.
\<close>

definition pumps_ok :: "frame list \<Rightarrow> pumps \<Rightarrow> bool" where
  "pumps_ok qs p =
     ((\<exists>lost. qs = wire_texts (pm_wire p) @ lost @ ch_buf (pm_send p) \<and> (pm_writing p \<longrightarrow> lost = []))
      \<and> (WireClose \<in> set (pm_wire p) \<longrightarrow> \<not> pm_writing p \<and> ch_closed (pm_send p) \<and> wire_texts (pm_wire p) = qs
          \<and> last (pm_wire p) = WireClose)
      \<and> pm_unregister p = (if pm_reading p then 0 else 1)
      \<and> (pm_open p \<longrightarrow> pm_writing p \<and> pm_reading p))"

lemma pumps_ok_start: "so_send so = new_channel k \<Longrightarrow> pumps_ok [] (start_pumps now so)"
  by (simp add: pumps_ok_def start_pumps_def new_channel_def)

lemma pumps_okI:
  assumes "qs = wire_texts (pm_wire p) @ lost @ ch_buf (pm_send p)" "pm_writing p \<longrightarrow> lost = []"
    "WireClose \<in> set (pm_wire p) \<Longrightarrow> \<not> pm_writing p \<and> ch_closed (pm_send p) \<and> wire_texts (pm_wire p) = qs
       \<and> last (pm_wire p) = WireClose"
    "pm_unregister p = (if pm_reading p then 0 else 1)" "pm_open p \<longrightarrow> pm_writing p \<and> pm_reading p"
  shows "pumps_ok qs p"
  using assms unfolding pumps_ok_def by blast

lemma pumps_ok_writing:
  "pumps_ok qs p \<Longrightarrow> pm_writing p \<Longrightarrow> qs = wire_texts (pm_wire p) @ ch_buf (pm_send p) \<and> WireClose \<notin> set (pm_wire p)"
  by (auto simp: pumps_ok_def)

lemma pumps_ok_takes:
  assumes ok: "pumps_ok qs p" and st: "writer_takes now err p = Some p1"
  shows "pumps_ok qs p1"
proof -
  have w: "pm_writing p" using st by (simp add: writer_takes_def split: if_splits)
  note W = pumps_ok_writing [OF ok w]
  have u: "pm_unregister p = (if pm_reading p then 0 else 1)" "pm_open p \<longrightarrow> pm_reading p" using ok by (simp_all add: pumps_ok_def)
  show ?thesis
  proof (cases "ch_buf (pm_send p)")
    case (Cons f fs)
    show ?thesis
    proof (cases "\<not> pm_open p \<or> err \<noteq> None")
      case True
      then have "p1 = leave_writer (p\<lparr>pm_send := (pm_send p)\<lparr>ch_buf := fs\<rparr>, pm_write_deadline := now + writeWait\<rparr>)"
        using st w Cons by (auto simp: writer_takes_def write_message_def Let_def)
      with W u Cons show ?thesis by (intro pumps_okI [where lost = "[f]"]) (simp_all add: leave_writer_def)
    next
      case False
      then have "p1 = p\<lparr>pm_send := (pm_send p)\<lparr>ch_buf := fs\<rparr>, pm_write_deadline := now + writeWait, pm_wire := pm_wire p @ [WireText f]\<rparr>"
        using st w Cons by (auto simp: writer_takes_def write_message_def Let_def)
      with W u Cons w False show ?thesis by (intro pumps_okI [where lost = "[]"]) simp_all
    qed
  next
    case Nil
    then have c: "ch_closed (pm_send p)" using st w by (simp add: writer_takes_def split: if_splits)
    show ?thesis
    proof (cases "\<not> pm_open p \<or> err \<noteq> None")
      case True
      then have "p1 = leave_writer (p\<lparr>pm_write_deadline := now + writeWait\<rparr>)"
        using st w Nil c by (auto simp: writer_takes_def write_message_def Let_def)
      with W u Nil show ?thesis by (intro pumps_okI [where lost = "[]"]) (simp_all add: leave_writer_def)
    next
      case False
      then have "p1 = leave_writer (p\<lparr>pm_write_deadline := now + writeWait, pm_wire := pm_wire p @ [WireClose]\<rparr>)"
        using st w Nil c by (auto simp: writer_takes_def write_message_def Let_def)
      with W u Nil c show ?thesis by (intro pumps_okI [where lost = "[]"]) (simp_all add: leave_writer_def)
    qed
  qed
qed

lemma pumps_ok_ticker:
  assumes ok: "pumps_ok qs p" and st: "ticker_fires now err p = Some p1"
  shows "pumps_ok qs p1"
proof -
  have w: "pm_writing p" using st by (simp add: ticker_fires_def split: if_splits)
  note W = pumps_ok_writing [OF ok w]
  have u: "pm_unregister p = (if pm_reading p then 0 else 1)" "pm_open p \<longrightarrow> pm_reading p" using ok by (simp_all add: pumps_ok_def)
  have "p1 = (if \<not> pm_open p \<or> err \<noteq> None then leave_writer (p\<lparr>pm_write_deadline := now + writeWait\<rparr>)
      else p\<lparr>pm_write_deadline := now + writeWait, pm_wire := pm_wire p @ [WirePing]\<rparr>)"
    using st w by (cases "\<not> pm_open p \<or> err \<noteq> None") (auto simp: ticker_fires_def write_message_def Let_def)
  with W u w show ?thesis by (intro pumps_okI [where lost = "[]"]) (auto simp: leave_writer_def split: if_splits)
qed

lemma pumps_ok_leave: "pumps_ok qs p \<Longrightarrow> pm_reading p \<Longrightarrow> pumps_ok qs (leave_reader p)"
  by (simp add: pumps_ok_def leave_reader_def)

text \<open>A frame joins the buffer of an open channel.\<close>

lemma pumps_ok_send:
  "pumps_ok qs p \<Longrightarrow> \<not> ch_closed (pm_send p) \<Longrightarrow>
     pumps_ok (qs @ [f]) (p\<lparr>pm_send := (pm_send p)\<lparr>ch_buf := ch_buf (pm_send p) @ [f]\<rparr>\<rparr>)"
  unfolding pumps_ok_def by fastforce

lemma pumps_ok_step:
  assumes ok: "pumps_ok qs p" and st: "pump_step e p = Some p1"
  shows "pumps_ok (qs @ step_queues e p) p1"
proof -
  obtain now ev where e: "e = (now, ev)" by fastforce
  show ?thesis
  proof (cases ev)
    case (HubSends f)
    with st ok e pumps_ok_send [OF ok, of f] show ?thesis by (auto simp: try_send_def split: if_splits)
  next
    case HubCloses
    with st ok e show ?thesis by (auto simp: pumps_ok_def chan_close_def split: if_splits)
  next
    case (WriterTakes err)
    with st e pumps_ok_takes [OF ok, of now err p1] show ?thesis by simp
  next
    case (TickerFires err)
    with st e pumps_ok_ticker [OF ok, of now err p1] show ?thesis by simp
  next
    case (PeerSends len message)
    then have r: "pm_reading p" and s: "reader_gets now len message p = Some p1" using st e by (simp_all add: reader_gets_def split: if_splits)
    show ?thesis
    proof (cases "\<not> pm_open p \<or> pm_deadline p \<le> now \<or> maxMessageSize < len")
      case True
      then have "p1 = leave_reader p" "step_queues e p = []" using s r e PeerSends by (auto simp: reader_gets_def)
      with pumps_ok_leave [OF ok r] show ?thesis by simp
    next
      case False
      show ?thesis
      proof (cases "message = JBad")
        case True
        then have p1: "p1 = read_error_frame now p" using s r False by (simp add: reader_gets_def isValidJSON_def)
        have q: "step_queues e p = (if \<not> ch_closed (pm_send p) \<and> length (ch_buf (pm_send p)) < ch_cap (pm_send p)
            then [newErrorEnvelope now ErrCodeInvalidJSON ''message is not valid JSON''] else [])"
          using False True r e PeerSends by simp
        have "pumps_ok qs (p\<lparr>pm_crashed := Some x\<rparr>)" for x using ok by (simp add: pumps_ok_def)
        with ok pumps_ok_send [OF ok] show ?thesis unfolding p1 q by (simp add: read_error_frame_def chan_send_def)
      next
        case valid: False
        then have "p1 = p\<lparr>pm_inbound := pm_inbound p @ [message]\<rparr>" "step_queues e p = []"
          using s r e False PeerSends by (simp_all add: reader_gets_def isValidJSON_def)
        with ok show ?thesis by (simp add: pumps_ok_def)
      qed
    qed
  next
    case PeerPongs
    with st ok e pumps_ok_leave [OF ok] show ?thesis by (auto simp: reader_pong_def pumps_ok_def split: if_splits)
  next
    case ReadFails
    with st ok e pumps_ok_leave [OF ok] show ?thesis by (auto simp: reader_fails_def split: if_splits)
  qed
qed

lemma pumps_ok_run: "pumps_ok qs p \<Longrightarrow> pumps_ok (qs @ queued es p) (pump_run es p)"
proof (induction es arbitrary: qs p)
  case (Cons e es)
  show ?case
  proof (cases "pm_crashed p = None")
    case True
    show ?thesis
    proof (cases "pump_step e p")
      case None
      with Cons True show ?thesis by simp
    next
      case (Some p1)
      with Cons.IH [OF pumps_ok_step [OF Cons.prems Some]] True show ?thesis by simp
    qed
  next
    case False
    with Cons.prems show ?thesis by simp
  qed
qed simp


subsection \<open>Properties\<close>

text \<open>
  C20: The frames queued for a client reach the wire in order: in every interleaving of the
  hub, both pumps, the pings and the peer, the texts written are a prefix of the frames that
  were queued, and while the connection is open the rest is still in the buffer. A close
  frame is written last, and only after every frame; and the client is unregistered exactly
  once, when its read pump ends.
\<close>

theorem frames_reach_wire_in_order:
  "let p0 = start_pumps now (newClient sid pid); p = pump_run es p0; qs = queued es p0 in
     (\<exists>rest. qs = wire_texts (pm_wire p) @ rest)
     \<and> (pm_open p \<longrightarrow> qs = wire_texts (pm_wire p) @ ch_buf (pm_send p))
     \<and> (WireClose \<in> set (pm_wire p) \<longrightarrow> wire_texts (pm_wire p) = qs \<and> last (pm_wire p) = WireClose)
     \<and> pm_unregister p = (if pm_reading p then 0 else 1)"
proof -
  let ?p0 = "start_pumps now (newClient sid pid)"
  have "pumps_ok [] ?p0" by (rule pumps_ok_start) (simp add: newClient_def)
  from pumps_ok_run [OF this, of es] show ?thesis by (auto simp: pumps_ok_def Let_def)
qed

definition demo_pump_events :: "(int \<times> pump_event) list" where
  "demo_pump_events =
     [(1, HubSends (newErrorEnvelope 1 ErrCodeInvalidJSON ''x'')), (2, PeerSends 3 JBad), (3, WriterTakes None), (4, TickerFires None),
      (5, HubCloses), (6, WriterTakes None), (7, WriterTakes None), (8, ReadFails)]"

lemma demo_pumps:
  "pm_wire (pump_run demo_pump_events (start_pumps 0 (newClient ''s'' ''p''))) =
     [WireText (newErrorEnvelope 1 ErrCodeInvalidJSON ''x''), WirePing,
      WireText (newErrorEnvelope 2 ErrCodeInvalidJSON ''message is not valid JSON''), WireClose]"
  "\<not> pm_reading (pump_run demo_pump_events (start_pumps 0 (newClient ''s'' ''p'')))"
  by (simp_all add: demo_pump_events_def start_pumps_def newClient_def new_channel_def sendBufferSize_def try_send_def
      chan_close_def reader_gets_def read_error_frame_def chan_send_def isValidJSON_def pongWait_def maxMessageSize_def
      writer_takes_def write_message_def ticker_fires_def leave_writer_def reader_fails_def leave_reader_def Let_def)

lemma frames_reach_wire_in_order_witness:
  "queued demo_pump_events (start_pumps 0 (newClient ''s'' ''p'')) =
     [newErrorEnvelope 1 ErrCodeInvalidJSON ''x'', newErrorEnvelope 2 ErrCodeInvalidJSON ''message is not valid JSON'']
   \<and> pm_unregister (pump_run demo_pump_events (start_pumps 0 (newClient ''s'' ''p''))) = 1"
  using frames_reach_wire_in_order [of 0 "''s''" "''p''" demo_pump_events]
  by (simp add: Let_def demo_pumps wire_texts_def)

text \<open>
  Only a pong moves the read deadline: a peer that sends messages but does not answer the
  pings is dropped \<open>pongWait\<close> after its last pong, and so is a silent one.
\<close>

lemma messages_do_not_extend: "reader_gets now len message p = Some p1 \<Longrightarrow> pm_deadline p1 = pm_deadline p"
  by (auto simp: reader_gets_def leave_reader_def read_error_frame_def split: if_splits option.splits sum.splits)

lemma late_peer_is_dropped:
  "pm_reading p \<Longrightarrow> pm_deadline p \<le> now \<Longrightarrow> \<exists>p1. reader_gets now len message p = Some p1 \<and> \<not> pm_reading p1 \<and> pm_inbound p1 = pm_inbound p"
  "pm_reading p \<Longrightarrow> pm_deadline p \<le> now \<Longrightarrow> \<exists>p1. reader_pong now p = Some p1 \<and> \<not> pm_reading p1"
  by (simp_all add: reader_gets_def reader_pong_def leave_reader_def)

text \<open>Pongs less than \<open>pongWait\<close> apart keep the connection.\<close>

lemma pongs_keep_connection:
  assumes "pm_reading p" "pm_open p" "pm_crashed p = None"
    "\<forall>k < length ts. ts ! k < (if k = 0 then pm_deadline p else ts ! (k - 1) + pongWait)"
  shows "let q = pump_run (map (\<lambda>t. (t, PeerPongs)) ts) p in pm_reading q \<and> pm_open q"
  using assms
proof (induction ts arbitrary: p)
  case (Cons t ts)
  let ?p = "p\<lparr>pm_deadline := t + pongWait\<rparr>"
  have t: "t < pm_deadline p" using Cons.prems(4) by (metis length_Cons nth_Cons_0 zero_less_Suc)
  have "\<forall>k < length ts. ts ! k < (if k = 0 then pm_deadline ?p else ts ! (k - 1) + pongWait)"
  proof (intro allI impI)
    fix k assume k: "k < length ts"
    with Cons.prems(4) [rule_format, of "Suc k"] show "ts ! k < (if k = 0 then pm_deadline ?p else ts ! (k - 1) + pongWait)"
      by (cases k) simp_all
  qed
  with Cons.IH [of ?p] Cons.prems(1-3) t show ?case by (simp add: reader_pong_def)
qed simp

end
