(* ===== verification/Wiring.thy ===== *)
theory Wiring
  imports Breaker Gateway Hub Limiter
begin

section \<open>Constructors, options and small helpers\<close>

text \<open>
  Models what is left of the constructors: the option lists of the workers, the hub and the
  gateway, what \<open>main\<close> passes to them, the trace ID in a context, the waiting of the ledger
  worker, and \<open>itoa\<close> of \<open>pkg/gateway/session_cache.go\<close> over its buffer.
\<close>

subsection \<open>The decimal buffer of the cache keys\<close>

text \<open>The buffer is filled from the right; a write in front of it would panic.\<close>

function itoa_loop :: "64 word \<Rightarrow> nat \<Rightarrow> char list \<Rightarrow> (nat \<times> char list) result" where
  "itoa_loop v i buf =
     (if v = 0 then Inr (i, buf)
      else if i = 0 then Inl (GoPanic ''index out of range'')
      else itoa_loop (v div 10) (i - 1) (buf[i - 1 := char_of (unat (48 + v mod 10))]))"
  by pat_completeness auto

termination
  by (relation "measure (\<lambda>(v, i, buf). i)") auto

declare itoa_loop.simps [simp del]

definition itoa :: "64 word \<Rightarrow> string result" where
  "itoa v =
     (if v = 0 then Inr ''0''
      else case itoa_loop v 20 (replicate 20 (CHR 0x00)) of
        Inl e \<Rightarrow> Inl e
      | Inr (i, buf) \<Rightarrow> Inr (drop i buf))"

lemma digit_byte: "char_of (unat (48 + v mod 10 :: 64 word)) = digit (unat v mod 10)"
proof -
  have m: "unat (v mod 10) = unat v mod 10" by (simp add: unat_mod)
  then have "unat (v mod 10) < 10" by simp
  then have "unat (48 + v mod 10) = 48 + unat (v mod 10)" by (subst unat_add_lem [THEN iffD1]) simp_all
  with m show ?thesis by (simp add: digit_def)
qed

text \<open>As long as the number has at most \<open>i\<close> digits, the loop ends with them in front of what was there.\<close>

lemma itoa_loop_digits:
  assumes "0 < unat v" "unat v < 10 ^ i" "i \<le> length buf"
  shows "\<exists>j buf1. itoa_loop v i buf = Inr (j, buf1) \<and> drop j buf1 = nat_dec (unat v) @ drop i buf"
  using assms
proof (induction i arbitrary: v buf)
  case (Suc i)
  let ?d = "digit (unat v mod 10)" and ?b = "buf[i := digit (unat v mod 10)]"
  have v: "v \<noteq> 0" using Suc.prems(1) by auto
  have q: "unat (v div 10) = unat v div 10" by (simp add: unat_div)
  have step: "itoa_loop v (Suc i) buf = itoa_loop (v div 10) i ?b"
    using v by (subst itoa_loop.simps) (simp add: digit_byte)
  have b: "drop i ?b = ?d # drop (Suc i) buf"
    using Suc.prems(3) Cons_nth_drop_Suc [of i ?b] by simp
  show ?case
  proof (cases "unat v < 10")
    case True
    then have "unat (v div 10) = 0" using q by simp
    then have "v div 10 = 0" by (simp add: unat_eq_zero)
    then have "itoa_loop v (Suc i) buf = Inr (i, ?b)" unfolding step by (subst itoa_loop.simps) simp
    moreover have "nat_dec (unat v) = [?d]" using True by (simp add: nat_dec.simps)
    ultimately show ?thesis using b by simp
  next
    case False
    then have "0 < unat (v div 10)" "unat (v div 10) < 10 ^ i" using q Suc.prems(2) by simp_all
    moreover have "i \<le> length ?b" using Suc.prems(3) by simp
    ultimately obtain j buf1 where r: "itoa_loop (v div 10) i ?b = Inr (j, buf1)"
      and dr: "drop j buf1 = nat_dec (unat (v div 10)) @ drop i ?b"
      using Suc.IH [of "v div 10" ?b] by blast
    have "nat_dec (unat v) = nat_dec (unat v div 10) @ [?d]" using False by (subst nat_dec.simps) simp
    then have "drop j buf1 = nat_dec (unat v) @ drop (Suc i) buf" unfolding dr b q by simp
    with step r show ?thesis by simp
  qed
qed simp

text \<open>Twenty bytes are enough for every 64-bit number, and the bytes are its decimal form.\<close>

lemma itoa_is_decimal: "itoa v = Inr (nat_dec (unat v))"
proof (cases "v = 0")
  case True
  have "CHR ''0'' = digit 0" by code_simp
  with True show ?thesis by (simp add: itoa_def nat_dec.simps)
next
  case False
  then have "0 < unat v" by (simp add: unat_gt_0)
  moreover have "unat v < 10 ^ 20"
  proof -
    have "unat v < 2 ^ 64" using unsigned_less [of v, where ?'a = nat] by simp
    also have "(2 :: nat) ^ 64 \<le> 10 ^ 20" by simp
    finally show ?thesis .
  qed
  ultimately obtain j buf1 where "itoa_loop v 20 (replicate 20 (CHR 0x00)) = Inr (j, buf1)"
    "drop j buf1 = nat_dec (unat v) @ drop 20 (replicate 20 (CHR 0x00))"
    using itoa_loop_digits [of v 20 "replicate 20 (CHR 0x00)"] by auto
  with False show ?thesis by (simp add: itoa_def)
qed

lemma key_by_itoa: "itoa v = Inr s \<Longrightarrow> SessionCacheKey clientID (unat v) = clientID @ CHR '':'' # s"
  by (simp add: itoa_is_decimal SessionCacheKey_def)


subsection \<open>Options of the workers\<close>

text \<open>
  An option is a function on what is being built, and a constructor applies its list in order.
  What a worker is given from outside is in its environment.
\<close>

definition apply_options :: "('o \<Rightarrow> 'b \<Rightarrow> 'b) \<Rightarrow> 'o list \<Rightarrow> 'b \<Rightarrow> 'b" where
  "apply_options f opts b = fold f opts b"

datatype ('m, 'w) ledger_option =
    WithRatingProcessor "'m \<Rightarrow> ('w, go_error option) action"
  | WithLedgerBreaker "('w \<times> go_error option, go_error option) action \<Rightarrow> ('w \<times> go_error option, go_error option) action"
      "'w \<Rightarrow> bool"
  | WithLedgerRetry retry_config

fun set_ledger_option :: "('m, 'w) ledger_option \<Rightarrow> ('m, 'w) ledger_env \<Rightarrow> ('m, 'w) ledger_env" where
  "set_ledger_option (WithRatingProcessor f) env = env\<lparr>lw_Ratings := Some f\<rparr>"
| "set_ledger_option (WithLedgerBreaker execute is_open) env = env\<lparr>lw_Execute := Some execute, lw_Open := is_open\<rparr>"
| "set_ledger_option (WithLedgerRetry cfg) env = env\<lparr>lw_Config := cfg\<rparr>"

text \<open>The environment \<open>NewLedgerWorker\<close> gives its worker.\<close>

definition ledger_env_with ::
  "('m \<Rightarrow> ('w, go_error option) action) \<Rightarrow> 'w retry_env \<Rightarrow> ('m, 'w) ledger_option list \<Rightarrow> ('m, 'w) ledger_env" where
  "ledger_env_with save clock opts = apply_options set_ledger_option opts
     \<lparr>lw_Save = save, lw_Ratings = None, lw_Execute = None, lw_Open = (\<lambda>_. False), lw_Retry = clock, lw_Config = DefaultRetryConfig\<rparr>"

datatype 'w rating_option =
    WithStatsBroadcaster "string \<Rightarrow> stats_update list \<Rightarrow> 'w \<Rightarrow> 'w"
  | WithRatingBreaker "('w \<times> go_error option, go_error option) action \<Rightarrow> ('w \<times> go_error option, go_error option) action"
  | WithRatingRetry retry_config

fun set_rating_option :: "'w rating_option \<Rightarrow> 'w rating_env \<Rightarrow> 'w rating_env" where
  "set_rating_option (WithStatsBroadcaster b) env = env\<lparr>rw_Broadcast := Some b\<rparr>"
| "set_rating_option (WithRatingBreaker execute) env = env\<lparr>rw_Execute := Some execute\<rparr>"
| "set_rating_option (WithRatingRetry cfg) env = env\<lparr>rw_Config := cfg\<rparr>"

text \<open>\<open>NewRatingWorker\<close>: \<open>stats\<close> has the repository, the clock and the power of ten.\<close>

definition NewRatingWorker :: "'w rating_env \<Rightarrow> 'w rating_option list \<Rightarrow> 'w rating_env" where
  "NewRatingWorker stats opts = apply_options set_rating_option opts
     (stats\<lparr>rw_Broadcast := None, rw_Execute := None, rw_Config := DefaultRetryConfig\<rparr>)"

text \<open>What \<open>main\<close> builds: both workers retry as configured by default, behind a breaker each.\<close>

definition main_ledger_env ::
  "(match_record \<Rightarrow> ('w, go_error option) action) \<Rightarrow> 'w retry_env \<Rightarrow> 'w rating_env \<Rightarrow> (string \<Rightarrow> stats_update list \<Rightarrow> 'w \<Rightarrow> 'w)
    \<Rightarrow> (string \<Rightarrow> ('w \<times> go_error option, go_error option) action \<Rightarrow> ('w \<times> go_error option, go_error option) action)
    \<Rightarrow> (string \<Rightarrow> 'w \<Rightarrow> bool) \<Rightarrow> (match_record, 'w) ledger_env" where
  "main_ledger_env save clock stats broadcast breaker is_open =
     (let rating_worker = NewRatingWorker stats [WithStatsBroadcaster broadcast, WithRatingBreaker (breaker ''rating'')] in
      ledger_env_with save clock
        [WithRatingProcessor (ProcessMatch rating_worker), WithLedgerBreaker (breaker ''ledger'') (is_open ''ledger'')])"

lemma main_workers_are_protected:
  "lw_Execute (main_ledger_env save clock stats b br op) = Some (br ''ledger'')"
  "lw_Config (main_ledger_env save clock stats b br op) = DefaultRetryConfig"
  "lw_Save (main_ledger_env save clock stats b br op) = save"
  "Ledger.rate (main_ledger_env save clock stats b br op) r w =
     snd (ProcessMatch (stats\<lparr>rw_Config := DefaultRetryConfig, rw_Broadcast := Some b, rw_Execute := Some (br ''rating'')\<rparr>) r w)"
  by (simp_all add: main_ledger_env_def ledger_env_with_def NewRatingWorker_def apply_options_def Let_def Ledger.rate_def)

text \<open>
  \<open>WaitUntilIdle\<close>: \<open>polls\<close> are the times and the lengths of the queue it sees, \<open>last\<close> the length at
  the end. \<open>None\<close> when the list ends before the deadline.
\<close>

fun WaitUntilIdle :: "int \<Rightarrow> (int \<times> nat) list \<Rightarrow> nat \<Rightarrow> bool option" where
  "WaitUntilIdle deadline [] final = None"
| "WaitUntilIdle deadline ((now, jobs) # polls) final =
     (if \<not> now < deadline then Some (final = 0)
      else if jobs = 0 then Some True
      else WaitUntilIdle deadline polls final)"

text \<open>The polls are five milliseconds apart at least, so a wait ends.\<close>

lemma WaitUntilIdle_ends:
  assumes "\<forall>k < length polls. t0 + 5000000 * int k \<le> fst (polls ! k)" "deadline \<le> t0 + 5000000 * int (length polls - 1)" "polls \<noteq> []"
  shows "WaitUntilIdle deadline polls final \<noteq> None"
  using assms
proof (induction polls arbitrary: t0)
  case (Cons p polls)
  obtain now jobs where p: "p = (now, jobs)" by fastforce
  show ?case
  proof (cases "polls = []")
    case True
    then show ?thesis using Cons.prems p by auto
  next
    case False
    have "\<forall>k < length polls. (t0 + 5000000) + 5000000 * int k \<le> fst (polls ! k)"
    proof (intro allI impI)
      fix k assume "k < length polls"
      with Cons.prems(1) [rule_format, of "Suc k"] show "(t0 + 5000000) + 5000000 * int k \<le> fst (polls ! k)"
        by (simp add: algebra_simps)
    qed
    moreover have "deadline \<le> (t0 + 5000000) + 5000000 * int (length polls - 1)"
    proof -
      obtain q qs where "polls = q # qs" using False by (cases polls) auto
      then show ?thesis using Cons.prems(2) by (simp add: algebra_simps)
    qed
    ultimately show ?thesis using Cons.IH False p by auto
  qed
qed simp

subsection \<open>Options of the hub and the gateway\<close>

definition reconnectGracePeriod :: int where "reconnectGracePeriod = 45000000000"

text \<open>The grace period is beside the hub, whose timers are numbered, not timed.\<close>

datatype hub_option = WithReconnectGracePeriod int | WithMatchLedger bool

fun set_hub_option :: "hub_option \<Rightarrow> int \<times> hub \<Rightarrow> int \<times> hub" where
  "set_hub_option (WithReconnectGracePeriod d) (g, h) = (d, h)"
| "set_hub_option (WithMatchLedger b) (g, h) = (g, h\<lparr>hb_ledger := b\<rparr>)"

definition NewHub_with :: "bool \<Rightarrow> hub_option list \<Rightarrow> int \<times> hub" where
  "NewHub_with actions opts = apply_options set_hub_option opts (reconnectGracePeriod, NewHub actions False)"

definition SetMatchLedger :: "bool \<Rightarrow> hub \<Rightarrow> hub" where
  "SetMatchLedger ledger h = h\<lparr>hb_ledger := ledger\<rparr>"

lemma main_hub: "SetMatchLedger True (snd (NewHub_with True [])) = NewHub True True"
  by (simp add: SetMatchLedger_def NewHub_with_def apply_options_def NewHub_def)

definition defaultForwardTimeout :: int where "defaultForwardTimeout = 5000000000"

text \<open>A gateway with its forward timeout and the timeout of its HTTP client.\<close>

record timed_gateway =
  tg_gateway :: match_gateway
  forwardTimeout :: int
  tg_client :: int

definition WithForwardTimeout :: "int \<Rightarrow> timed_gateway \<Rightarrow> timed_gateway" where
  "WithForwardTimeout timeout g = (if timeout > 0 then g\<lparr>forwardTimeout := timeout\<rparr> else g)"

definition on_gateway :: "(match_gateway \<Rightarrow> match_gateway) \<Rightarrow> timed_gateway \<Rightarrow> timed_gateway" where
  "on_gateway f g = g\<lparr>tg_gateway := f (tg_gateway g)\<rparr>"

definition NewMatchGateway_with :: "bool \<Rightarrow> bool \<Rightarrow> (timed_gateway \<Rightarrow> timed_gateway) list \<Rightarrow> timed_gateway" where
  "NewMatchGateway_with raft manager opts =
     (let g = apply_options (\<lambda>f. f) opts
        \<lparr>tg_gateway = NewMatchGateway raft manager, forwardTimeout = defaultForwardTimeout, tg_client = defaultForwardTimeout\<rparr> in
      if tg_client g \<noteq> forwardTimeout g then g\<lparr>tg_client := forwardTimeout g\<rparr> else g)"

lemma gateway_timeouts_agree:
  "tg_client (NewMatchGateway_with raft manager opts) = forwardTimeout (NewMatchGateway_with raft manager opts)"
  by (simp add: NewMatchGateway_with_def Let_def)

text \<open>\<open>main\<close> passes the addresses of the peers, which include its own.\<close>

definition main_gateway :: "peer_map \<Rightarrow> timed_gateway" where
  "main_gateway addrs = NewMatchGateway_with True True
     (if addrs \<noteq> [] then [on_gateway (WithHTTPPeerAddresses (map_of addrs))] else [])"

lemma main_gateway_fields:
  "httpPeerAddresses (tg_gateway (main_gateway addrs)) = map_of addrs"
  "forwardTimeout (main_gateway addrs) = defaultForwardTimeout"
  by (cases addrs; simp add: main_gateway_def NewMatchGateway_with_def apply_options_def on_gateway_def
      WithHTTPPeerAddresses_def NewMatchGateway_def Let_def)+

subsection \<open>Trace IDs in a context\<close>

text \<open>The value of the context under the key of the trace ID, if it has one.\<close>

type_synonym trace_context = "string option"

definition WithTraceID :: "trace_context \<Rightarrow> string \<Rightarrow> trace_context" where
  "WithTraceID ctx traceID = Some traceID"

definition TraceIDFromContext :: "trace_context \<Rightarrow> string" where
  "TraceIDFromContext ctx = (case ctx of Some v \<Rightarrow> v | None \<Rightarrow> [])"

text \<open>A logger is the attributes it adds.\<close>

definition LoggerWithTrace :: "(string \<times> string) list \<Rightarrow> trace_context \<Rightarrow> (string \<times> string) list" where
  "LoggerWithTrace logger ctx =
     (let tid = TraceIDFromContext ctx in if tid \<noteq> [] then logger @ [(''trace_id'', tid)] else logger)"

definition DefaultLogger :: "(string \<times> string) list option \<Rightarrow> (string \<times> string) list \<Rightarrow> (string \<times> string) list" where
  "DefaultLogger installed fallback = (case installed of Some l \<Rightarrow> l | None \<Rightarrow> fallback)"

definition LoggerFromContext ::
  "(string \<times> string) list option \<Rightarrow> (string \<times> string) list \<Rightarrow> trace_context \<Rightarrow> (string \<times> string) list" where
  "LoggerFromContext installed fallback ctx = LoggerWithTrace (DefaultLogger installed fallback) ctx"

text \<open>The log lines of a request carry the ID that is sent back to the client.\<close>

lemma request_is_traced:
  assumes "TraceMiddleware (\<lambda>tid w. (LoggerWithTrace l (WithTraceID ctx tid), w)) (Some bs) header w = ((tid, attrs), w1)" "bs \<noteq> []"
  shows "tid \<noteq> [] \<and> attrs = l @ [(''trace_id'', tid)]"
proof -
  have "newTraceID (Some bs) \<noteq> []" using assms(2) by (cases bs) (simp_all add: newTraceID_def hex_byte_def)
  then show ?thesis
    using assms(1) by (auto simp: TraceMiddleware_def LoggerWithTrace_def WithTraceID_def TraceIDFromContext_def Let_def split: if_splits)
qed

end
