(* ===== verification/Spec2Isabelle.thy ===== *)
theory Spec2Isabelle
  imports Manager_Props Managed_FSM Raft_Election Raft_Answers Storage View Ledger Repository Engine_Events Ws_Props Ws_Gateway Rating_Props Stats_Api Match_End Server Teardown Init_Db Raft_Matching Pumps Wiring
begin

text \<open>
  A model of the domino game server, and the theorems that make it correct.

  The program. A server keeps domino matches for players that are connected by WebSocket
  or HTTP. Several servers form a Raft cluster: a move goes to the leader, becomes an entry
  of the replicated log, and every server applies the committed entries to its own
  registry of matches. Applying a turn checks and updates the session, publishes events on
  an in-memory broker, saves the session in a graph database, and fans the result out to
  the connected players, to each as much as that player may see. When a match ends, its
  outcome goes to a ledger and from there into the ratings of the players.

  How the theories follow the code (file and function names are those under \<open>src/pkg\<close>;
  a definition has the name of the function it models, a record the fields of the struct):

  \<^item> \<open>Prelude\<close>, \<open>Json\<close>, \<open>Channels\<close>: what the components share. Go errors as a datatype
    (\<open>go_error\<close>, with \<open>GoPanic\<close> for a run-time panic), results as sums, 64-bit wrap-around,
    lists updated by index; JSON values as trees with the struct decoder of
    encoding/json; buffered channels with the panics of a closed one, and Go maps with an
    order of iteration.
  \<^item> \<open>Tiles\<close>, \<open>Session\<close>, \<open>Evaluation\<close>, \<open>Turn\<close>, \<open>View\<close>: \<open>models/\<close>. A session is the struct
    \<open>GameSession\<close>; every method that mutates it is a function that returns it updated.
    \<open>Session_Laws\<close>, \<open>Deal\<close> and \<open>Session_Props\<close> hold the invariants (well-formed hands,
    tiles conserved, the board a chain), the deal and the theorems on turns.
  \<^item> \<open>Game_Engine\<close>: \<open>game/loop.go\<close>, the events of a turn, over any publisher. \<open>Broker\<close>:
    \<open>broker/\<close>, one definition per lock section or \<open>select\<close>; \<open>Broker_Laws\<close> runs them in
    every interleaving. \<open>Engine_Events\<close> puts the two together through the locale
    \<open>event_sink\<close>, interpreted on the broker.
  \<^item> \<open>Manager\<close>: \<open>engine/\<close>, the registry of matches; an operation is the sequence of its
    lock sections, repository and broker are functions of an environment that may fail.
    \<open>Manager_Laws\<close>, \<open>Manager_Props\<close>: soundness of every registered session after any run.
    \<open>Repository\<close>: the session repository, and the interface its clients use.
  \<^item> \<open>Commands\<close>, \<open>Local_FSM\<close>, \<open>Managed_FSM\<close>: \<open>consensus/commands.go\<close> and \<open>fsm.go\<close>: the
    replicated commands, their codec, the two state machines and their snapshots.
  \<^item> \<open>Raft_Node\<close>, \<open>Raft_Ops\<close>, \<open>Raft_Live\<close>: \<open>consensus/raft_node.go\<close>. The first two have a
    function per lock section; \<open>Raft_Live\<close> adds the goroutines and the callers that poll.
    \<open>Raft_Laws\<close> and \<open>Raft_Props\<close> keep the shape of the log and say what appending,
    committing, applying and compacting do; \<open>Raft_Election\<close> runs elections of a whole
    cluster over a network that loses, delays and duplicates, \<open>Raft_Matching\<close> the
    replication of its logs; \<open>Raft_Answers\<close> says what
    the answer of a proposal and of a read means. \<open>Storage\<close>: \<open>database/storage.go\<close> on a
    disk whose calls may fail, and the restart of a node from it.
  \<^item> \<open>Session_Cache\<close>, \<open>Gateway\<close>: \<open>gateway/\<close>, the HTTP handlers, the idempotency cache and
    the handler of the WebSocket router, over an environment with the Raft node, the
    manager and the HTTP client.
  \<^item> \<open>Ws_Events\<close>, \<open>Hub\<close>, \<open>Router\<close>: \<open>ws/\<close>, the connections, their channels and timers, and
    the routing of messages. \<open>Ws_Laws\<close>, \<open>Ws_Props\<close>: the hub is safe in every interleaving;
    \<open>Ws_Gateway\<close>: a move of a client becomes one proposal. \<open>Pumps\<close>: the read and the write
    pump of a client over its socket, with deadlines and pings.
  \<^item> \<open>Ledger\<close>: \<open>engine/ledger_worker.go\<close> with \<open>resilience/\<close>: retries with back-off and the
    dead-letter spool.

  \<^item> \<open>Career\<close>, \<open>Rating\<close>, \<open>Rating_Props\<close>: the persistent records of \<open>models/\<close>, the ELO formula
    of \<open>rating/elo.go\<close> over rationals, and \<open>engine/rating_worker.go\<close>.
  \<^item> \<open>Cursor\<close>, \<open>Stats\<close>, \<open>Stats_Props\<close>: \<open>pagination/\<close> and the statistics queries of
    \<open>repository/\<close> over a database that answers each query; the pages of a history.
  \<^item> \<open>Strings\<close>, \<open>Startup\<close>, \<open>Stats_Api\<close>: what the code uses of strings and strconv, the
    parsers of \<open>cmd/server/main.go\<close>, and the handlers of \<open>api/\<close>.

  \<^item> \<open>Workers\<close>: the consumer half of \<open>game/loop.go\<close>, a pool under every interleaving.
    \<open>Transport\<close>: \<open>consensus/transport.go\<close>. \<open>Limiter\<close>: the rate limiter and trace IDs of
    \<open>telemetry/\<close>. \<open>Breaker\<close>: \<open>resilience/circuitbreaker.go\<close>, its gauges, and the end of
    the ledger worker. \<open>Match_End\<close> follows the end of a match through all of them.
  \<^item> \<open>Timers\<close>: the election ticker and the heartbeat loops of \<open>raft_node.go\<close>, and its
    accessors. \<open>Server\<close>: the start-up of \<open>cmd/server/main.go\<close> and the routes.
    \<open>Teardown\<close>: its end, with what still arrives between the steps, over \<open>Breaker\<close>,
    \<open>Transport\<close> and \<open>Storage\<close>, up to the next start. \<open>Init_Db\<close>: \<open>pkg/database/dgraph.go\<close>
    and \<open>cmd/init_db/main.go\<close>. \<open>Wiring\<close>: the option lists of the constructors and what
    \<open>main\<close> passes to them.

  Interfaces. A locale states what a client relies on and is interpreted on the model of
  the provider: \<open>turn_operation\<close> (the four operations of a turn, \<open>Session_Laws\<close>),
  \<open>session_store\<close> (\<open>Repository\<close>), \<open>game_fsm\<close> (\<open>Local_FSM\<close>, \<open>Managed_FSM\<close>), \<open>raft_storage\<close>
  (\<open>Storage\<close>), \<open>response_cache\<close> (\<open>Session_Cache\<close>), \<open>event_sink\<close>
  (\<open>Engine_Events\<close>) and \<open>metered\<close> (\<open>Limiter\<close>).

  What the lemmas show. \<open>..._Laws\<close> theories keep invariants operation by operation;
  \<open>..._Props\<close> theories (and the ends of the others) have the properties, each after a
  text that names it (C1, C2, ...) and each with a witness when it has a hypothesis. Where
  the code departs from what it means to do, a lemma runs the case; \<open>stale_append_drops_committed\<close>,
  \<open>deposed_leader_answers_for_other\<close> and \<open>stale_timer_abandons\<close> are of this kind.

  Concurrency. A Go function that takes a lock is one step; a function that gives it up in
  between is split there, and theorems about runs quantify over lists of such steps. What
  the environment decides (the clock, the random source, the outcome of calls to the
  database, the disk and the network, the case a \<open>select\<close> takes when several are ready)
  is an argument.

  Bounds and fuel. No definition needs fuel: loops are recursive over the data or have a
  termination proof (\<open>apply_loop\<close>, by the distance to the commit index). A polling loop
  recurses over the list of its polls and its result is \<open>None\<close> when the list ends first;
  \<open>waiting_ends\<close> shows that 201 (for reads 401) polls are enough. Numbers are \<open>int\<close> or
  \<open>nat\<close> where Go counts single steps in 64 bits, wrapped where the code multiplies or
  truncates, and words in the byte codecs.

  Not modelled. net/http and sockets; the gRPC client of the database and
  the text of its queries; the output of logging and metrics; encoding/gob (an argument of
  \<open>Managed_FSM\<close>) and the concrete syntax of JSON; the circuit breaker, a package outside
  the repository; the goroutines \<open>main\<close> starts; the rounding of floats. These are arguments of the model where
  the code depends on them.

  What is not shown. That a committed entry survives every later leader: the code does not
  guarantee it (\<open>two_leaders_in_one_term\<close>, \<open>stale_append_drops_committed\<close>). The restarts
  of a node are not steps of the clusters of \<open>Raft_Election\<close> and \<open>Raft_Matching\<close>; one node
  and its disk are in \<open>Storage\<close> and \<open>Teardown\<close>.
\<close>

end
